(* ===== verification/Stano_Prelude.thy ===== *)
theory Stano_Prelude
  imports Main "HOL-Library.AList" "HOL-Library.Sublist" "HOL-Library.Word"
begin

text \<open>
  Vocabulary shared by every component of the development.

  \<^item> Rust's \<open>Result<T, E>\<close> is the sum \<open>'e + 'a\<close>: \<open>Inl\<close> is \<open>Err\<close>, \<open>Inr\<close> is \<open>Ok\<close>.
  \<^item> Rust strings are their UTF-8 bytes, a \<^typ>\<open>string\<close> (a list of 8-bit characters); the
    functions of \<open>str\<close> the sources use (\<open>split\<close>, \<open>split_once\<close>, \<open>strip_prefix\<close>, \<open>ends_with\<close>,
    \<open>trim\<close>, \<open>split_whitespace\<close>, \<open>eq_ignore_ascii_case\<close>, \<open>parse::<u64>\<close>) are defined on them.
  \<^item> \<open>std::collections::HashMap\<close> is an association list with \<open>insert\<close> and \<open>get\<close>; the order in
    which the code iterates over a map is unspecified, so every iteration takes its order as
    an argument.
\<close>

named_theorems di_wf \<open>well-formedness of the container and what keeps it\<close>
named_theorems di_get \<open>lookups in the maps of the container\<close>
named_theorems rust_str \<open>equations of the string functions\<close>

section \<open>Results and options\<close>

fun is_ok :: "'e + 'a \<Rightarrow> bool" where
  "is_ok (Inl _) = False"
| "is_ok (Inr _) = True"

fun ok :: "'e + 'a \<Rightarrow> 'a option" where
  "ok (Inl _) = None"
| "ok (Inr a) = Some a"

fun map_err :: "('e \<Rightarrow> 'f) \<Rightarrow> 'e + 'a \<Rightarrow> 'f + 'a" where
  "map_err f (Inl e) = Inl (f e)"
| "map_err f (Inr a) = Inr a"

fun map_ok :: "('a \<Rightarrow> 'b) \<Rightarrow> 'e + 'a \<Rightarrow> 'e + 'b" where
  "map_ok f (Inl e) = Inl e"
| "map_ok f (Inr a) = Inr (f a)"

fun and_then :: "'e + 'a \<Rightarrow> ('a \<Rightarrow> 'e + 'b) \<Rightarrow> 'e + 'b" where
  "and_then (Inl e) f = Inl e"
| "and_then (Inr a) f = f a"

fun ok_or :: "'e \<Rightarrow> 'a option \<Rightarrow> 'e + 'a" where
  "ok_or e None = Inl e"
| "ok_or e (Some a) = Inr a"

fun unwrap_or :: "'a \<Rightarrow> 'a option \<Rightarrow> 'a" where
  "unwrap_or d None = d"
| "unwrap_or d (Some a) = a"

lemma is_ok_iff: "is_ok r \<longleftrightarrow> (\<exists>a. r = Inr a)"
  by (cases r) auto

lemma ok_Some_iff [simp]: "ok r = Some a \<longleftrightarrow> r = Inr a"
  by (cases r) auto

lemma ok_None_iff [simp]: "ok r = None \<longleftrightarrow> (\<exists>e. r = Inl e)"
  by (cases r) auto

lemma map_err_Inr_iff [simp]: "map_err f r = Inr a \<longleftrightarrow> r = Inr a"
  by (cases r) auto

lemma map_ok_Inr_iff: "map_ok f r = Inr b \<longleftrightarrow> (\<exists>a. r = Inr a \<and> b = f a)"
  by (cases r) auto

lemma and_then_Inr_iff: "and_then r f = Inr b \<longleftrightarrow> (\<exists>a. r = Inr a \<and> f a = Inr b)"
  by (cases r) auto

lemma pair_fstI: "fst p = a \<Longrightarrow> p = (a, snd p)"
  by (cases p) simp

text \<open>Rust's \<open>find_map\<close>: the first \<open>Some\<close> the closure gives.\<close>

fun find_map :: "('a \<Rightarrow> 'b option) \<Rightarrow> 'a list \<Rightarrow> 'b option" where
  "find_map f [] = None"
| "find_map f (x # xs) = (case f x of Some b \<Rightarrow> Some b | None \<Rightarrow> find_map f xs)"

lemma find_map_None_iff: "find_map f xs = None \<longleftrightarrow> (\<forall>x\<in>set xs. f x = None)"
  by (induction xs) (auto split: option.splits)

lemma find_map_SomeE:
  assumes "find_map f xs = Some b"
  obtains ys x zs where "xs = ys @ x # zs" "f x = Some b" "\<forall>y\<in>set ys. f y = None"
proof -
  have "\<exists>ys x zs. xs = ys @ x # zs \<and> f x = Some b \<and> (\<forall>y\<in>set ys. f y = None)"
    using assms
  proof (induction xs)
    case (Cons a xs)
    show ?case
    proof (cases "f a")
      case None
      with Cons obtain ys x zs where "xs = ys @ x # zs" "f x = Some b" "\<forall>y\<in>set ys. f y = None"
        by auto
      with None have "a # xs = (a # ys) @ x # zs \<and> f x = Some b \<and> (\<forall>y\<in>set (a # ys). f y = None)"
        by simp
      then show ?thesis by blast
    next
      case (Some b')
      with Cons.prems have "f a = Some b" by simp
      then show ?thesis by (metis append_Nil empty_iff empty_set)
    qed
  qed simp
  with that show ?thesis by blast
qed

text \<open>The first element that satisfies a test, with what comes before it.\<close>

lemma find_SomeE:
  assumes "find P xs = Some x"
  obtains ys zs where "xs = ys @ x # zs" "P x" "\<forall>y\<in>set ys. \<not> P y"
proof -
  have "\<exists>ys zs. xs = ys @ x # zs \<and> P x \<and> (\<forall>y\<in>set ys. \<not> P y)"
    using assms
  proof (induction xs)
    case (Cons a xs)
    show ?case
    proof (cases "P a")
      case True
      with Cons.prems have "a # xs = [] @ x # xs \<and> P x \<and> (\<forall>y\<in>set []. \<not> P y)" by simp
      then show ?thesis by blast
    next
      case False
      with Cons obtain ys zs where "xs = ys @ x # zs" "P x" "\<forall>y\<in>set ys. \<not> P y" by auto
      with False have "a # xs = (a # ys) @ x # zs \<and> P x \<and> (\<forall>y\<in>set (a # ys). \<not> P y)" by simp
      then show ?thesis by blast
    qed
  qed simp
  with that show ?thesis by blast
qed

section \<open>Strings\<close>

definition ascii_lower :: "char \<Rightarrow> char" where
  "ascii_lower c =
     (if 65 \<le> (of_char c :: nat) \<and> (of_char c :: nat) \<le> 90 then char_of ((of_char c :: nat) + 32) else c)"

definition ascii_upper :: "char \<Rightarrow> char" where
  "ascii_upper c =
     (if 97 \<le> (of_char c :: nat) \<and> (of_char c :: nat) \<le> 122 then char_of ((of_char c :: nat) - 32) else c)"

definition to_ascii_lowercase :: "string \<Rightarrow> string" where
  "to_ascii_lowercase s = map ascii_lower s"

definition to_ascii_uppercase :: "string \<Rightarrow> string" where
  "to_ascii_uppercase s = map ascii_upper s"

definition eq_ignore_ascii_case :: "string \<Rightarrow> string \<Rightarrow> bool" where
  "eq_ignore_ascii_case s t = (to_ascii_lowercase s = to_ascii_lowercase t)"

definition is_ascii_alphabetic :: "char \<Rightarrow> bool" where
  "is_ascii_alphabetic c = (let n = (of_char c :: nat) in 65 \<le> n \<and> n \<le> 90 \<or> 97 \<le> n \<and> n \<le> 122)"

definition is_ascii_digit :: "char \<Rightarrow> bool" where
  "is_ascii_digit c = (48 \<le> (of_char c :: nat) \<and> (of_char c :: nat) \<le> 57)"

definition strip_prefix :: "string \<Rightarrow> string \<Rightarrow> string option" where
  "strip_prefix p s = (if take (length p) s = p then Some (drop (length p) s) else None)"

definition ends_with :: "string \<Rightarrow> string \<Rightarrow> bool" where
  "ends_with s t = (take (length t) (rev s) = rev t)"

lemma strip_prefix_Some_iff [rust_str]: "strip_prefix p s = Some r \<longleftrightarrow> s = p @ r"
  by (auto simp: strip_prefix_def) (metis append_take_drop_id)

lemma strip_prefix_append [simp, rust_str]: "strip_prefix p (p @ r) = Some r"
  by (simp add: strip_prefix_def)

lemma ends_with_iff [rust_str]: "ends_with s t \<longleftrightarrow> (\<exists>u. s = u @ t)"
proof
  assume "ends_with s t"
  then have "rev s = rev t @ drop (length t) (rev s)"
    by (metis append_take_drop_id ends_with_def)
  then have "s = rev (drop (length t) (rev s)) @ t"
    by (metis rev_append rev_rev_ident)
  then show "\<exists>u. s = u @ t" by blast
next
  assume "\<exists>u. s = u @ t"
  then show "ends_with s t" by (auto simp: ends_with_def)
qed

text \<open>\<open>s.split(c)\<close>: the pieces between the separators, at least one.\<close>

fun split_on :: "char \<Rightarrow> string \<Rightarrow> string list" where
  "split_on c [] = [[]]"
| "split_on c (x # xs) =
     (if x = c then [] # split_on c xs
      else (case split_on c xs of [] \<Rightarrow> [[x]] | p # ps \<Rightarrow> (x # p) # ps))"

text \<open>\<open>s.split_once(c)\<close>: what stands before and after the first separator.\<close>

fun split_once :: "char \<Rightarrow> string \<Rightarrow> (string \<times> string) option" where
  "split_once c [] = None"
| "split_once c (x # xs) =
     (if x = c then Some ([], xs)
      else map_option (\<lambda>(a, b). (x # a, b)) (split_once c xs))"

lemma split_on_not_Nil [simp]: "split_on c s \<noteq> []"
  by (cases s) (auto split: list.splits)

lemma split_on_no_sep [rust_str]: "c \<notin> set s \<Longrightarrow> split_on c s = [s]"
  by (induction s) auto

lemma split_on_append [rust_str]: "c \<notin> set a \<Longrightarrow> split_on c (a @ c # s) = a # split_on c s"
  by (induction a) auto

lemma split_on_pieces: "p \<in> set (split_on c s) \<Longrightarrow> c \<notin> set p"
proof (induction s arbitrary: p)
  case (Cons x xs)
  then show ?case by (auto split: list.splits if_splits)
qed simp

fun join_with :: "string \<Rightarrow> string list \<Rightarrow> string" where
  "join_with sep [] = []"
| "join_with sep [s] = s"
| "join_with sep (s # ss) = s @ sep @ join_with sep ss"

lemma join_with_Cons: "ss \<noteq> [] \<Longrightarrow> join_with sep (s # ss) = s @ sep @ join_with sep ss"
  by (cases ss) auto

lemma join_split_on: "join_with [c] (split_on c s) = s"
proof (induction s)
  case (Cons x xs)
  show ?case
  proof (cases "x = c")
    case True
    with Cons show ?thesis by (simp add: join_with_Cons)
  next
    case False
    obtain p ps where "split_on c xs = p # ps" by (cases "split_on c xs") auto
    with Cons False show ?thesis by (cases ps) auto
  qed
qed simp

lemma split_on_join: "ss \<noteq> [] \<Longrightarrow> \<forall>s\<in>set ss. c \<notin> set s \<Longrightarrow> split_on c (join_with [c] ss) = ss"
proof (induction ss)
  case (Cons s ss)
  then show ?case by (cases "ss = []") (simp_all add: split_on_no_sep split_on_append join_with_Cons)
qed simp

lemma split_once_Some_iff [rust_str]:
  "split_once c s = Some (a, b) \<longleftrightarrow> s = a @ c # b \<and> c \<notin> set a"
proof (induction s arbitrary: a)
  case (Cons x xs)
  then show ?case by (cases a) auto
qed simp

lemma split_once_None_iff [rust_str]: "split_once c s = None \<longleftrightarrow> c \<notin> set s"
  by (induction s) auto

subsection \<open>White space\<close>

text \<open>
  The UTF-8 encodings of the code points with the Unicode property White_Space, which
  \<open>str::trim\<close> and \<open>str::split_whitespace\<close> use. An encoding starts with an ASCII byte or a
  lead byte, so in a valid string it can only match at a character boundary.
\<close>

definition ws_encodings :: "string list" where
  "ws_encodings =
     [[CHR 0x09], [CHR 0x0A], [CHR 0x0B], [CHR 0x0C], [CHR 0x0D], [CHR 0x20],
      [CHR 0xC2, CHR 0x85], [CHR 0xC2, CHR 0xA0], [CHR 0xE1, CHR 0x9A, CHR 0x80],
      [CHR 0xE2, CHR 0x80, CHR 0x80], [CHR 0xE2, CHR 0x80, CHR 0x81], [CHR 0xE2, CHR 0x80, CHR 0x82],
      [CHR 0xE2, CHR 0x80, CHR 0x83], [CHR 0xE2, CHR 0x80, CHR 0x84], [CHR 0xE2, CHR 0x80, CHR 0x85],
      [CHR 0xE2, CHR 0x80, CHR 0x86], [CHR 0xE2, CHR 0x80, CHR 0x87], [CHR 0xE2, CHR 0x80, CHR 0x88],
      [CHR 0xE2, CHR 0x80, CHR 0x89], [CHR 0xE2, CHR 0x80, CHR 0x8A], [CHR 0xE2, CHR 0x80, CHR 0xA8],
      [CHR 0xE2, CHR 0x80, CHR 0xA9], [CHR 0xE2, CHR 0x80, CHR 0xAF], [CHR 0xE2, CHR 0x81, CHR 0x9F],
      [CHR 0xE3, CHR 0x80, CHR 0x80]]"

definition strip_one :: "string list \<Rightarrow> string \<Rightarrow> string option" where
  "strip_one ws s = find_map (\<lambda>w. if w = [] then None else strip_prefix w s) ws"

lemma strip_one_SomeD: "strip_one ws s = Some r \<Longrightarrow> \<exists>w. w \<noteq> [] \<and> w \<in> set ws \<and> s = w @ r"
  unfolding strip_one_def by (erule find_map_SomeE) (auto simp: rust_str split: if_splits)

lemma strip_one_shorter: "strip_one ws s = Some r \<Longrightarrow> length r < length s"
  by (auto dest: strip_one_SomeD)

lemma strip_one_None_prefix:
  assumes "strip_one ws (s @ t) = None" shows "strip_one ws s = None"
  using assms by (force simp: strip_one_def find_map_None_iff strip_prefix_def split: if_splits)

function trim_by :: "string list \<Rightarrow> string \<Rightarrow> string" where
  "trim_by ws s = (case strip_one ws s of None \<Rightarrow> s | Some r \<Rightarrow> trim_by ws r)"
  by pat_completeness auto
termination
  by (relation "measure (\<lambda>(ws, s). length s)") (auto dest: strip_one_shorter)

declare trim_by.simps [simp del]

lemma trim_by_None: "strip_one ws s = None \<Longrightarrow> trim_by ws s = s"
  by (subst trim_by.simps) simp

lemma trim_by_trimmed: "strip_one ws (trim_by ws s) = None"
proof (induction ws s rule: trim_by.induct)
  case (1 ws s)
  then show ?case by (cases "strip_one ws s") (simp_all add: trim_by.simps [of ws s])
qed

lemma trim_by_suffix: "\<exists>p. s = p @ trim_by ws s"
proof (induction ws s rule: trim_by.induct)
  case (1 ws s)
  show ?case
  proof (cases "strip_one ws s")
    case None
    then show ?thesis by (simp add: trim_by_None)
  next
    case (Some r)
    with "1.IH" obtain p where "r = p @ trim_by ws r" by blast
    moreover from Some obtain w where "s = w @ r" by (auto dest: strip_one_SomeD)
    moreover from Some have "trim_by ws s = trim_by ws r" by (subst trim_by.simps) simp
    ultimately have "s = (w @ p) @ trim_by ws s" by simp
    then show ?thesis by blast
  qed
qed

definition trim_start :: "string \<Rightarrow> string" where
  "trim_start s = trim_by ws_encodings s"

definition trim_end :: "string \<Rightarrow> string" where
  "trim_end s = rev (trim_by (map rev ws_encodings) (rev s))"

definition trim :: "string \<Rightarrow> string" where
  "trim s = trim_end (trim_start s)"

lemma trim_end_prefix: "\<exists>t. s = trim_end s @ t"
proof -
  obtain p where "rev s = p @ trim_by (map rev ws_encodings) (rev s)"
    using trim_by_suffix by blast
  then have "s = trim_end s @ rev p"
    by (metis rev_append rev_rev_ident trim_end_def)
  then show ?thesis by blast
qed

text \<open>A trimmed string neither begins nor ends with white space, and trims to itself.\<close>

lemma trim_no_leading_ws: "strip_one ws_encodings (trim s) = None"
proof -
  obtain t where t: "trim_start s = trim s @ t"
    using trim_end_prefix [of "trim_start s"] by (auto simp: trim_def)
  have "strip_one ws_encodings (trim_start s) = None"
    by (simp add: trim_start_def trim_by_trimmed)
  with t show ?thesis by (metis strip_one_None_prefix)
qed

lemma trim_no_trailing_ws: "strip_one (map rev ws_encodings) (rev (trim s)) = None"
  by (simp add: trim_def trim_end_def trim_by_trimmed)

lemma trim_idem: "trim (trim s) = trim s"
  using trim_no_leading_ws [of s] trim_no_trailing_ws [of s]
  by (simp add: trim_def [of "trim s"] trim_start_def trim_end_def trim_by_None)

lemma trim_pieces: "\<exists>a b. s = a @ trim s @ b"
proof -
  obtain a where "s = a @ trim_start s" using trim_by_suffix by (auto simp: trim_start_def)
  moreover obtain b where "trim_start s = trim s @ b"
    using trim_end_prefix by (auto simp: trim_def)
  ultimately show ?thesis by metis
qed

lemma set_trim: "set (trim s) \<subseteq> set s"
  using trim_pieces [of s] by (metis set_append Un_upper1 Un_upper2 subset_trans)

text \<open>The first item of \<open>s.split_whitespace()\<close>.\<close>

fun until_ws :: "string \<Rightarrow> string" where
  "until_ws [] = []"
| "until_ws (x # xs) = (if strip_one ws_encodings (x # xs) = None then x # until_ws xs else [])"

definition first_word :: "string \<Rightarrow> string option" where
  "first_word s = (let t = trim_start s in if t = [] then None else Some (until_ws t))"

subsection \<open>Parsing unsigned integers\<close>

text \<open>
  \<open>s.parse::<u64>()\<close>: an optional \<open>+\<close>, then one or more decimal digits, of a value that fits.
\<close>

definition digits_value :: "string \<Rightarrow> nat" where
  "digits_value ds = foldl (\<lambda>n c. 10 * n + ((of_char c :: nat) - 48)) 0 ds"

definition strip_plus :: "string \<Rightarrow> string" where
  "strip_plus s = (case strip_prefix ''+'' s of None \<Rightarrow> s | Some r \<Rightarrow> r)"

definition parse_u64 :: "string \<Rightarrow> 64 word option" where
  "parse_u64 s =
     (let ds = strip_plus s in
      if ds = [] \<or> \<not> list_all is_ascii_digit ds then None
      else if digits_value ds < 2 ^ 64 then Some (of_nat (digits_value ds)) else None)"

lemma parse_u64_value: "parse_u64 s = Some n \<Longrightarrow> unat n = digits_value (strip_plus s)"
  by (auto simp: parse_u64_def Let_def unat_of_nat take_bit_nat_eq_self split: if_splits)

lemma parse_u64_empty: "parse_u64 [] = None"
  by (simp add: parse_u64_def strip_plus_def strip_prefix_def)

section \<open>Hash maps\<close>

lemma img_fst: "(a, b) \<in> S \<Longrightarrow> a \<in> fst ` S"
  by force

type_synonym ('k, 'v) hashmap = "('k \<times> 'v) list"

abbreviation hm_get :: "('k, 'v) hashmap \<Rightarrow> 'k \<Rightarrow> 'v option" where
  "hm_get m k \<equiv> map_of m k"

abbreviation hm_insert :: "'k \<Rightarrow> 'v \<Rightarrow> ('k, 'v) hashmap \<Rightarrow> ('k, 'v) hashmap" where
  "hm_insert k v m \<equiv> AList.update k v m"

definition hm_keys :: "('k, 'v) hashmap \<Rightarrow> 'k list" where
  "hm_keys m = map fst m"

lemma hm_get_insert [simp, di_get]:
  "hm_get (hm_insert k v m) k' = (if k' = k then Some v else hm_get m k')"
  by (simp add: update_conv')

lemma set_hm_keys: "set (hm_keys m) = dom (map_of m)"
  by (simp add: hm_keys_def dom_map_of_conv_image_fst)

lemma hm_keys_insert [simp]: "set (hm_keys (hm_insert k v m)) = insert k (set (hm_keys m))"
  by (auto simp: set_hm_keys)

lemma distinct_hm_insert: "distinct (hm_keys m) \<Longrightarrow> distinct (hm_keys (hm_insert k v m))"
  by (simp add: hm_keys_def distinct_update)

lemma length_hm_insert:
  "distinct (hm_keys m) \<Longrightarrow>
   length (hm_insert k v m) = (if k \<in> set (hm_keys m) then length m else Suc (length m))"
  by (induction m) (auto simp: hm_keys_def)

end
