(* ===== verification/Common_Types.thy ===== *)
theory Common_Types
  imports Stano_Prelude
begin

text \<open>
  The crate \<open>stano-common\<close>: the domain and service errors with their \<open>Display\<close> texts
  (\<open>error.rs\<close>, \<open>service_error.rs\<close>) and the two kinds of typed identifiers that the macro
  \<open>id_type!\<close> generates (\<open>id_types.rs\<close>).

  The type variable \<open>'x\<close> is \<open>anyhow::Error\<close>, \<open>'u\<close> is \<open>uuid::Uuid\<close>. What the crate
  \<open>uuid\<close> does (drawing, parsing and printing an identifier) is an argument of the operations.
\<close>

section \<open>Errors\<close>

datatype domain_error =
    DE_InvalidInput string
  | DE_BusinessRuleViolation string

datatype 'x service_error =
    SE_NotFound
  | SE_InvalidInput string
  | SE_Conflict string
  | SE_Unauthorized
  | SE_Forbidden
  | SE_Internal 'x

fun domain_error_display :: "domain_error \<Rightarrow> string" where
  "domain_error_display (DE_InvalidInput msg) = ''Invalid input: '' @ msg"
| "domain_error_display (DE_BusinessRuleViolation msg) = ''Business rule violation: '' @ msg"

fun domain_err_to_service :: "domain_error \<Rightarrow> 'x service_error" where
  "domain_err_to_service (DE_InvalidInput msg) = SE_InvalidInput msg"
| "domain_err_to_service (DE_BusinessRuleViolation msg) = SE_Conflict msg"

fun service_error_display :: "'x service_error \<Rightarrow> string" where
  "service_error_display SE_NotFound = ''Resource not found''"
| "service_error_display (SE_InvalidInput msg) = ''Invalid request: '' @ msg"
| "service_error_display (SE_Conflict msg) = ''Conflict: '' @ msg"
| "service_error_display SE_Unauthorized = ''Unauthorized''"
| "service_error_display SE_Forbidden = ''Forbidden''"
| "service_error_display (SE_Internal _) = ''Internal error''"

definition service_error_from_anyhow :: "'x \<Rightarrow> 'x service_error" where
  "service_error_from_anyhow e = SE_Internal e"

lemma domain_err_to_service_inj:
  "(domain_err_to_service d :: 'x service_error) = domain_err_to_service d' \<longleftrightarrow> d = d'"
  by (cases d; cases d') auto

section \<open>Typed identifiers\<close>

datatype 'u id_v4 = IdV4 'u

datatype 'u id_v7 = IdV7 'u

text \<open>\<open>new()\<close> wraps the identifier the crate \<open>uuid\<close> has drawn, the argument of the model.\<close>

definition id_v4_new :: "'u \<Rightarrow> 'u id_v4" where
  "id_v4_new new_v4 = IdV4 new_v4"

definition id_v4_from :: "'u \<Rightarrow> 'u id_v4" where
  "id_v4_from uuid = IdV4 uuid"

fun id_v4_as_uuid :: "'u id_v4 \<Rightarrow> 'u" where
  "id_v4_as_uuid (IdV4 u) = u"

definition id_v4_from_str :: "(string \<Rightarrow> 'e + 'u) \<Rightarrow> string \<Rightarrow> 'e + 'u id_v4" where
  "id_v4_from_str parse_str s = map_ok IdV4 (parse_str s)"

fun id_v4_display :: "('u \<Rightarrow> string) \<Rightarrow> 'u id_v4 \<Rightarrow> string" where
  "id_v4_display fmt (IdV4 u) = fmt u"

definition id_v7_new :: "'u \<Rightarrow> 'u id_v7" where
  "id_v7_new now_v7 = IdV7 now_v7"

definition id_v7_from :: "'u \<Rightarrow> 'u id_v7" where
  "id_v7_from uuid = IdV7 uuid"

fun id_v7_as_uuid :: "'u id_v7 \<Rightarrow> 'u" where
  "id_v7_as_uuid (IdV7 u) = u"

definition id_v7_from_str :: "(string \<Rightarrow> 'e + 'u) \<Rightarrow> string \<Rightarrow> 'e + 'u id_v7" where
  "id_v7_from_str parse_str s = map_ok IdV7 (parse_str s)"

fun id_v7_display :: "('u \<Rightarrow> string) \<Rightarrow> 'u id_v7 \<Rightarrow> string" where
  "id_v7_display fmt (IdV7 u) = fmt u"

text \<open>The derived \<open>PartialOrd\<close>/\<open>Ord\<close> of a \<open>uuid_v7\<close> identifier compares the wrapped identifiers.\<close>

definition id_v7_le :: "'u::linorder id_v7 \<Rightarrow> 'u id_v7 \<Rightarrow> bool" where
  "id_v7_le a b = (id_v7_as_uuid a \<le> id_v7_as_uuid b)"

definition id_v7_lt :: "'u::linorder id_v7 \<Rightarrow> 'u id_v7 \<Rightarrow> bool" where
  "id_v7_lt a b = (id_v7_as_uuid a < id_v7_as_uuid b)"

instantiation id_v7 :: (linorder) linorder
begin

definition less_eq_id_v7 :: "'a id_v7 \<Rightarrow> 'a id_v7 \<Rightarrow> bool" where
  "less_eq_id_v7 a b = id_v7_le a b"

definition less_id_v7 :: "'a id_v7 \<Rightarrow> 'a id_v7 \<Rightarrow> bool" where
  "less_id_v7 a b = id_v7_lt a b"

lemmas id_v7_order = less_eq_id_v7_def less_id_v7_def id_v7_le_def id_v7_lt_def

instance
proof
  fix x y z :: "'a id_v7"
  show "x < y \<longleftrightarrow> x \<le> y \<and> \<not> y \<le> x" by (auto simp: id_v7_order)
  show "x \<le> x" by (simp add: id_v7_order)
  show "x \<le> y \<Longrightarrow> y \<le> z \<Longrightarrow> x \<le> z" by (simp add: id_v7_order)
  show "x \<le> y \<Longrightarrow> y \<le> x \<Longrightarrow> x = y" by (cases x; cases y) (simp add: id_v7_order)
  show "x \<le> y \<or> y \<le> x" by (simp add: id_v7_order linear)
qed

end

text \<open>
  What both kinds of identifier promise: wrapping and unwrapping cancel, and a printed
  identifier parses back when the crate \<open>uuid\<close> parses what it prints.
\<close>

locale typed_id =
  fixes of_uuid :: "'u \<Rightarrow> 'i"
    and as_uuid :: "'i \<Rightarrow> 'u"
    and from_str :: "(string \<Rightarrow> 'e + 'u) \<Rightarrow> string \<Rightarrow> 'e + 'i"
    and display :: "('u \<Rightarrow> string) \<Rightarrow> 'i \<Rightarrow> string"
  assumes as_of: "as_uuid (of_uuid u) = u"
    and of_as: "of_uuid (as_uuid i) = i"
    and from_str_eq: "from_str p s = map_ok of_uuid (p s)"
    and display_eq: "display f i = f (as_uuid i)"
begin

lemma id_round_trip: "p (f (as_uuid i)) = Inr (as_uuid i) \<Longrightarrow> from_str p (display f i) = Inr i"
  by (simp add: from_str_eq display_eq of_as)

lemma id_parse_error: "p s = Inl e \<Longrightarrow> from_str p s = Inl e"
  by (simp add: from_str_eq)

lemma as_uuid_inj: "as_uuid i = as_uuid j \<longleftrightarrow> i = j"
  by (metis of_as)

end

interpretation v4: typed_id id_v4_from id_v4_as_uuid id_v4_from_str id_v4_display
proof
  fix i :: "'u id_v4" and u :: 'u and p :: "string \<Rightarrow> 'e + 'u" and s f
  show "id_v4_as_uuid (id_v4_from u) = u" by (simp add: id_v4_from_def)
  show "id_v4_from (id_v4_as_uuid i) = i" by (cases i) (simp add: id_v4_from_def)
  show "id_v4_from_str p s = map_ok id_v4_from (p s)"
    by (cases "p s") (simp_all add: id_v4_from_str_def id_v4_from_def)
  show "id_v4_display f i = f (id_v4_as_uuid i)" by (cases i) simp
qed

interpretation v7: typed_id id_v7_from id_v7_as_uuid id_v7_from_str id_v7_display
proof
  fix i :: "'u id_v7" and u :: 'u and p :: "string \<Rightarrow> 'e + 'u" and s f
  show "id_v7_as_uuid (id_v7_from u) = u" by (simp add: id_v7_from_def)
  show "id_v7_from (id_v7_as_uuid i) = i" by (cases i) (simp add: id_v7_from_def)
  show "id_v7_from_str p s = map_ok id_v7_from (p s)"
    by (cases "p s") (simp_all add: id_v7_from_str_def id_v7_from_def)
  show "id_v7_display f i = f (id_v7_as_uuid i)" by (cases i) simp
qed

lemma id_v7_as_uuid_mono: "mono id_v7_as_uuid"
  by (auto simp: mono_def id_v7_order)

end
