(* ===== verification/Jwt_Security.thy ===== *)
theory Jwt_Security
  imports Stano_Prelude
begin

text \<open>
  The crate \<open>stano-security\<close>: the claims of a token, the security context that wraps them
  (\<open>security_context.rs\<close>) and the encoding and decoding of tokens with their error mapping
  (\<open>jwt.rs\<close>). The crate \<open>jsonwebtoken\<close> is a parameter: a record of the four functions the
  code calls. A \<open>jw_error\<close> is what the code reads of one of its errors: whether the kind is
  \<open>ExpiredSignature\<close>, and the text. The answers of the record are those at the time of the
  call (\<open>jsonwebtoken\<close> compares \<open>exp\<close> with the clock). \<open>usize\<close> and \<open>u64\<close> are 64-bit words.
\<close>

record 'e claims =
  sub :: string
  session_id :: string
  exp :: "64 word"
  ext :: 'e

record jwt_config =
  private_key_pem :: string
  public_key_pem :: string
  expiration_seconds :: "64 word"

datatype jwt_error =
    EncodingFailed string
  | DecodingFailed string
  | InvalidKey string
  | TokenExpired
  | InvalidToken string

fun jwt_error_display :: "jwt_error \<Rightarrow> string" where
  "jwt_error_display (EncodingFailed m) = ''Failed to encode JWT: '' @ m"
| "jwt_error_display (DecodingFailed m) = ''Failed to decode JWT: '' @ m"
| "jwt_error_display (InvalidKey m) = ''Invalid key format: '' @ m"
| "jwt_error_display TokenExpired = ''Token expired''"
| "jwt_error_display (InvalidToken m) = ''Invalid token: '' @ m"

record jw_error =
  expired_signature :: bool
  jw_text :: string

record ('ek, 'dk, 'e) jwt_crate =
  enc_from_ec_pem :: "string \<Rightarrow> jw_error + 'ek"
  dec_from_ec_pem :: "string \<Rightarrow> jw_error + 'dk"
  sign_es256 :: "'e claims \<Rightarrow> 'ek \<Rightarrow> jw_error + string"
  verify_es256 :: "string \<Rightarrow> 'dk \<Rightarrow> jw_error + 'e claims"

definition encode_jwt ::
  "('ek, 'dk, 'e) jwt_crate \<Rightarrow> 'e claims \<Rightarrow> jwt_config \<Rightarrow> jwt_error + string" where
  "encode_jwt jw c config =
     and_then (map_err (\<lambda>e. InvalidKey (jw_text e)) (enc_from_ec_pem jw (private_key_pem config)))
       (\<lambda>key. map_err (\<lambda>e. EncodingFailed (jw_text e)) (sign_es256 jw c key))"

definition decode_jwt ::
  "('ek, 'dk, 'e) jwt_crate \<Rightarrow> string \<Rightarrow> jwt_config \<Rightarrow> jwt_error + 'e claims" where
  "decode_jwt jw token config =
     and_then (map_err (\<lambda>e. InvalidKey (jw_text e)) (dec_from_ec_pem jw (public_key_pem config)))
       (\<lambda>key. map_err (\<lambda>e. if expired_signature e then TokenExpired else DecodingFailed (jw_text e))
                (verify_es256 jw token key))"

text \<open>The security context of a request, and its accessors.\<close>

datatype 'e security_context = SecurityContext "'e claims"

definition sc_new :: "'e claims \<Rightarrow> 'e security_context" where
  "sc_new c = SecurityContext c"

fun sc_claims :: "'e security_context \<Rightarrow> 'e claims" where
  "sc_claims (SecurityContext c) = c"

definition sc_sub :: "'e security_context \<Rightarrow> string" where
  "sc_sub sc = sub (sc_claims sc)"

definition sc_session_id :: "'e security_context \<Rightarrow> string" where
  "sc_session_id sc = session_id (sc_claims sc)"

definition sc_ext :: "'e security_context \<Rightarrow> 'e" where
  "sc_ext sc = ext (sc_claims sc)"

lemma sc_claims_new [simp]: "sc_claims (sc_new c) = c"
  by (simp add: sc_new_def)

lemma decode_jwt_Inr_iff:
  "decode_jwt jw token config = Inr c \<longleftrightarrow>
     (\<exists>key. dec_from_ec_pem jw (public_key_pem config) = Inr key \<and> verify_es256 jw token key = Inr c)"
  by (auto simp: decode_jwt_def and_then_Inr_iff)

lemma encode_jwt_Inr_iff:
  "encode_jwt jw c config = Inr token \<longleftrightarrow>
     (\<exists>key. enc_from_ec_pem jw (private_key_pem config) = Inr key \<and> sign_es256 jw c key = Inr token)"
  by (auto simp: encode_jwt_def and_then_Inr_iff)

text \<open>Which errors the two functions can return: \<open>InvalidToken\<close> is never one of them.\<close>

lemma encode_jwt_error:
  "encode_jwt jw c config = Inl e \<Longrightarrow>
     (\<exists>m. e = InvalidKey m \<and> \<not> is_ok (enc_from_ec_pem jw (private_key_pem config)))
   \<or> (\<exists>m. e = EncodingFailed m \<and> is_ok (enc_from_ec_pem jw (private_key_pem config)))"
  unfolding encode_jwt_def
  by (cases "enc_from_ec_pem jw (private_key_pem config)")
     (auto elim: map_err.elims)

lemma decode_jwt_error_cases:
  "decode_jwt jw token config = Inl e \<longleftrightarrow>
     (\<exists>x. dec_from_ec_pem jw (public_key_pem config) = Inl x \<and> e = InvalidKey (jw_text x))
   \<or> (\<exists>key x. dec_from_ec_pem jw (public_key_pem config) = Inr key \<and> verify_es256 jw token key = Inl x \<and>
        e = (if expired_signature x then TokenExpired else DecodingFailed (jw_text x)))"
proof (cases "dec_from_ec_pem jw (public_key_pem config)")
  case (Inl x)
  then show ?thesis by (auto simp: decode_jwt_def)
next
  case (Inr key)
  then show ?thesis by (cases "verify_es256 jw token key") (auto simp: decode_jwt_def)
qed

end
