(* ===== verification/Di_Environment.thy ===== *)
theory Di_Environment
  imports Stano_Prelude
begin

text \<open>
  The trait \<open>Environment\<close> of \<open>stano-di\<close> (\<open>environment.rs\<close>): a lookup of configuration keys.
  \<open>OsEnvironment\<close> reads the process's variables, after its constructor has loaded a
  \<open>.env\<close> file if there is one; \<open>MockEnvironment\<close> is a map. Consumers receive an environment as
  its lookup function.
\<close>

type_synonym environment = "string \<Rightarrow> string option"

text \<open>
  The process's variables are a map from names to values that need not be UTF-8:
  \<open>std::env::var\<close> gives \<open>Err\<close> for a variable that is unset or not Unicode. The crate
  \<open>dotenvy\<close> is the argument \<open>dotenv\<close>, which returns the process's variables with those of the
  file added, or an error, which the constructor ignores.
\<close>

datatype os_string = Unicode string | NotUnicode "8 word list"

type_synonym process_vars = "string \<Rightarrow> os_string option"

definition env_var :: "process_vars \<Rightarrow> string \<Rightarrow> string option" where
  "env_var vars key = (case vars key of Some (Unicode s) \<Rightarrow> Some s | _ \<Rightarrow> None)"

definition os_environment_new :: "(process_vars \<Rightarrow> 'e + process_vars) \<Rightarrow> process_vars \<Rightarrow> process_vars" where
  "os_environment_new dotenv vars = (case dotenv vars of Inl _ \<Rightarrow> vars | Inr vars' \<Rightarrow> vars')"

definition os_environment_get :: "process_vars \<Rightarrow> environment" where
  "os_environment_get vars key = env_var vars key"

record mock_environment =
  vars :: "(string, string) hashmap"

definition mock_environment_new :: mock_environment where
  "mock_environment_new = \<lparr>vars = []\<rparr>"

definition with_var :: "string \<Rightarrow> string \<Rightarrow> mock_environment \<Rightarrow> mock_environment" where
  "with_var key value env = env\<lparr>vars := hm_insert key value (vars env)\<rparr>"

definition remove_var :: "string \<Rightarrow> mock_environment \<Rightarrow> mock_environment" where
  "remove_var key env = env\<lparr>vars := AList.delete key (vars env)\<rparr>"

definition mock_environment_get :: "mock_environment \<Rightarrow> environment" where
  "mock_environment_get env key = hm_get (vars env) key"

definition mock_environment_default :: mock_environment where
  "mock_environment_default = mock_environment_new"

text \<open>
  The contract of an environment under construction: what a lookup returns after a variable
  has been set or unset.
\<close>

locale env_builder =
  fixes env_new :: 'm
    and set_var :: "string \<Rightarrow> string \<Rightarrow> 'm \<Rightarrow> 'm"
    and unset_var :: "string \<Rightarrow> 'm \<Rightarrow> 'm"
    and env_get :: "'m \<Rightarrow> environment"
  assumes get_new: "env_get env_new = Map.empty"
    and get_set: "env_get (set_var k v m) = (env_get m)(k \<mapsto> v)"
    and get_unset: "env_get (unset_var k m) = (env_get m)(k := None)"
begin

lemma get_unset_set: "env_get m k = None \<Longrightarrow> env_get (unset_var k (set_var k v m)) = env_get m"
  by (auto simp: get_set get_unset)

lemma get_set_twice: "env_get (set_var k v (set_var k w m)) = env_get (set_var k v m)"
  by (simp add: get_set)

text \<open>An environment built from a list of settings looks up as the last setting of each key.\<close>

lemma get_fold_set:
  "env_get (fold (\<lambda>(k, v). set_var k v) kvs m) = env_get m ++ map_of (rev kvs)"
  by (induction kvs arbitrary: m) (auto simp: get_set map_add_def fun_eq_iff split: option.splits)

end

interpretation mock: env_builder mock_environment_new with_var remove_var mock_environment_get
  by unfold_locales
     (auto simp: mock_environment_new_def with_var_def remove_var_def mock_environment_get_def
        fun_eq_iff delete_conv')

end
