(* ===== verification/Di_Container.thy ===== *)
theory Di_Container
  imports Stano_Prelude
begin

text \<open>
  The registry of \<open>stano-di\<close> (\<open>container.rs\<close>): its four maps, the registration functions, the
  existence checks and the dependency graph. How a component is resolved is in
  \<open>Di_Resolve\<close>, the search for cycles in \<open>Di_Cycles\<close>.
\<close>

section \<open>Types, identities and instances\<close>

text \<open>
  Rust types as the container sees them, by their names. \<open>TypeId::of\<close> is injective on types,
  so a type is its own identity; a trait object's key is that of the wrapper
  \<open>TraitObject<dyn Trait>\<close>.
\<close>

datatype rty = RConcrete string | RDyn string | RArc rty | RTraitObject rty

type_synonym type_id = rty

definition type_id_of :: "rty \<Rightarrow> type_id" where
  "type_id_of T = T"

definition trait_object_type_id :: "rty \<Rightarrow> type_id" where
  "trait_object_type_id T = type_id_of (RTraitObject T)"

fun type_name :: "rty \<Rightarrow> string" where
  "type_name (RConcrete n) = n"
| "type_name (RDyn n) = ''dyn '' @ n"
| "type_name (RArc T) = ''alloc::sync::Arc<'' @ type_name T @ ''>''"
| "type_name (RTraitObject T) = ''stano_di::container::TraitObject<'' @ type_name T @ ''>''"

datatype container_error =
    NotRegistered string
  | DowncastFailed string
  | FactoryPanic string
  | CyclicDependency "string list"

definition arrow_text :: string where
  "arrow_text = [CHR 0x20, CHR 0xE2, CHR 0x86, CHR 0x92, CHR 0x20]"

fun container_error_display :: "container_error \<Rightarrow> string" where
  "container_error_display (NotRegistered n) = ''Type '' @ [CHR 0x27] @ n @ [CHR 0x27] @ '' is not registered in the container''"
| "container_error_display (DowncastFailed n) = ''Failed to downcast type '' @ [CHR 0x27] @ n @ [CHR 0x27]"
| "container_error_display (FactoryPanic n) = ''Factory for '' @ [CHR 0x27] @ n @ [CHR 0x27] @ '' panicked during validation''"
| "container_error_display (CyclicDependency ns) = ''Cyclic dependency detected: '' @ join_with arrow_text ns"

text \<open>
  An \<open>Arc\<close> has an identity (\<open>Arc::ptr_eq\<close>) and a value. The erased \<open>Arc<dyn Any>\<close> a container
  stores also has the dynamic type of what it points to: \<open>T\<close> itself for a concrete
  component, \<open>Arc<dyn Trait>\<close> for a trait object.
\<close>

record 'v arc =
  arc_id :: nat
  arc_val :: 'v

record 'v any =
  any_type :: rty
  any_arc :: "'v arc"

text \<open>
  A factory is code that may look components up in the container it is given, go on
  with each answer, panic, allocate its instance, or return an \<open>Arc\<close> it already has.
\<close>

datatype access = Concrete rty | TraitAccess rty

datatype (dead 'v) prog =
    ReturnNew 'v
  | ReturnArc "'v arc"
  | Panic string
  | Lookup access "container_error + 'v arc \<Rightarrow> 'v prog"

fun access_key :: "access \<Rightarrow> type_id" where
  "access_key (Concrete T) = type_id_of T"
| "access_key (TraitAccess T) = trait_object_type_id T"

record 'v factory =
  f_prog :: "'v prog"
  f_any :: rty

section \<open>The container\<close>

record 'v container =
  factories :: "(type_id, 'v factory) hashmap"
  singletons :: "(type_id, 'v any option) hashmap"
  type_names :: "(type_id, string) hashmap"
  dependencies :: "(type_id, type_id list) hashmap"

definition container_new :: "'v container" where
  "container_new = \<lparr>factories = [], singletons = [], type_names = [], dependencies = []\<rparr>"

definition container_default :: "'v container" where
  "container_default = container_new"

definition register_with_deps ::
  "rty \<Rightarrow> 'v prog \<Rightarrow> string \<Rightarrow> type_id list \<Rightarrow> 'v container \<Rightarrow> 'v container" where
  "register_with_deps T fac tname deps c =
     (let tid = type_id_of T in
      c\<lparr>factories := hm_insert tid \<lparr>f_prog = fac, f_any = T\<rparr> (factories c),
        singletons := hm_insert tid None (singletons c),
        type_names := hm_insert tid tname (type_names c),
        dependencies := hm_insert tid deps (dependencies c)\<rparr>)"

definition register_trait_with_deps ::
  "rty \<Rightarrow> 'v prog \<Rightarrow> string \<Rightarrow> type_id list \<Rightarrow> 'v container \<Rightarrow> 'v container" where
  "register_trait_with_deps T fac tname deps c =
     (let tid = trait_object_type_id T in
      c\<lparr>factories := hm_insert tid \<lparr>f_prog = fac, f_any = RArc T\<rparr> (factories c),
        singletons := hm_insert tid None (singletons c),
        type_names := hm_insert tid tname (type_names c),
        dependencies := hm_insert tid deps (dependencies c)\<rparr>)"

definition register :: "rty \<Rightarrow> 'v prog \<Rightarrow> 'v container \<Rightarrow> 'v container" where
  "register T fac c = register_with_deps T fac (type_name T) [] c"

definition register_trait :: "rty \<Rightarrow> 'v prog \<Rightarrow> 'v container \<Rightarrow> 'v container" where
  "register_trait T fac c = register_trait_with_deps T fac (type_name T) [] c"

definition register_instance :: "rty \<Rightarrow> 'v arc \<Rightarrow> 'v container \<Rightarrow> 'v container" where
  "register_instance T instance_arc c =
     (let tid = type_id_of T in
      c\<lparr>factories := hm_insert tid \<lparr>f_prog = ReturnArc instance_arc, f_any = T\<rparr> (factories c),
        singletons := hm_insert tid (Some \<lparr>any_type = T, any_arc = instance_arc\<rparr>) (singletons c),
        type_names := hm_insert tid (type_name T) (type_names c),
        dependencies := hm_insert tid [] (dependencies c)\<rparr>)"

text \<open>A component brings its own \<open>register\<close> function; \<open>#[service]\<close> generates it.\<close>

definition register_component :: "('v container \<Rightarrow> 'v container) \<Rightarrow> 'v container \<Rightarrow> 'v container" where
  "register_component component_register c = component_register c"

text \<open>\<open>register_all\<close> of \<open>lib.rs\<close>: the registrations the crate \<open>inventory\<close> collected, in its order.\<close>

definition register_all :: "('v container \<Rightarrow> 'v container) list \<Rightarrow> 'v container \<Rightarrow> 'v container" where
  "register_all registrations c = fold (\<lambda>reg c. reg c) registrations c"

definition has :: "rty \<Rightarrow> 'v container \<Rightarrow> bool" where
  "has T c = (hm_get (factories c) (type_id_of T) \<noteq> None)"

definition has_trait :: "rty \<Rightarrow> 'v container \<Rightarrow> bool" where
  "has_trait T c = (hm_get (factories c) (trait_object_type_id T) \<noteq> None)"

definition container_len :: "'v container \<Rightarrow> nat" where
  "container_len c = length (factories c)"

definition container_is_empty :: "'v container \<Rightarrow> bool" where
  "container_is_empty c = (factories c = [])"

text \<open>The name of a type identity in messages, and its declared dependencies.\<close>

definition name_of :: "'v container \<Rightarrow> type_id \<Rightarrow> string" where
  "name_of c tid = unwrap_or ''unknown'' (hm_get (type_names c) tid)"

definition deps_of :: "'v container \<Rightarrow> type_id \<Rightarrow> type_id list" where
  "deps_of c tid = unwrap_or [] (hm_get (dependencies c) tid)"

section \<open>The dependency graph\<close>

record dependency_graph =
  nodes :: "(string \<times> string list) list"

text \<open>\<open>order\<close> is the order in which the map of type names is iterated over.\<close>

definition dependency_graph_of :: "type_id list \<Rightarrow> 'v container \<Rightarrow> dependency_graph" where
  "dependency_graph_of order c =
     \<lparr>nodes = map (\<lambda>tid. (name_of c tid,
        case hm_get (dependencies c) tid of
          None \<Rightarrow> []
        | Some dep_ids \<Rightarrow> map (name_of c) dep_ids)) order\<rparr>"

definition branch_text :: string where
  "branch_text = [CHR 0x20, CHR 0x20, CHR 0xE2, CHR 0x94, CHR 0x94, CHR 0xE2, CHR 0x94, CHR 0x80, CHR 0x20]"

definition newline :: string where
  "newline = [CHR 0x0A]"

definition dependency_graph_display :: "dependency_graph \<Rightarrow> string" where
  "dependency_graph_display g =
     concat (map (\<lambda>(n, deps). n @ newline @ concat (map (\<lambda>d. branch_text @ d @ newline) deps)) (nodes g))"

section \<open>Well-formed containers\<close>

text \<open>
  The four maps have the same keys, once each. Every registration keeps that, replaces
  whatever was registered under its key and leaves every other key alone.
\<close>

definition registered :: "'v container \<Rightarrow> type_id set" where
  "registered c = set (hm_keys (factories c))"

definition container_wf :: "'v container \<Rightarrow> bool" where
  "container_wf c =
     (distinct (hm_keys (factories c)) \<and> distinct (hm_keys (singletons c)) \<and>
      distinct (hm_keys (type_names c)) \<and> distinct (hm_keys (dependencies c)) \<and>
      set (hm_keys (singletons c)) = set (hm_keys (factories c)) \<and>
      set (hm_keys (type_names c)) = set (hm_keys (factories c)) \<and>
      set (hm_keys (dependencies c)) = set (hm_keys (factories c)))"

lemma container_wf_new [di_wf]: "container_wf container_new"
  by (simp add: container_wf_def container_new_def hm_keys_def)

lemma registered_new [simp]: "registered container_new = {}"
  by (simp add: registered_def container_new_def hm_keys_def)

lemma registered_iff: "t \<in> registered c \<longleftrightarrow> (\<exists>f. hm_get (factories c) t = Some f)"
  by (simp add: registered_def set_hm_keys dom_def)

lemma container_wf_dom:
  assumes "container_wf c"
  shows "t \<in> registered c \<longleftrightarrow> hm_get (singletons c) t \<noteq> None"
    and "t \<in> registered c \<longleftrightarrow> hm_get (dependencies c) t \<noteq> None"
    and "t \<in> registered c \<longleftrightarrow> hm_get (type_names c) t \<noteq> None"
proof -
  from assms have "dom (map_of (singletons c)) = registered c"
    "dom (map_of (dependencies c)) = registered c" "dom (map_of (type_names c)) = registered c"
    by (simp_all add: container_wf_def registered_def set_hm_keys)
  then show "t \<in> registered c \<longleftrightarrow> hm_get (singletons c) t \<noteq> None"
    "t \<in> registered c \<longleftrightarrow> hm_get (dependencies c) t \<noteq> None"
    "t \<in> registered c \<longleftrightarrow> hm_get (type_names c) t \<noteq> None"
    by blast+
qed

locale registration =
  fixes reg :: "'v container \<Rightarrow> 'v container"
    and key :: type_id
    and fac :: "'v factory"
    and cell :: "'v any option"
    and tname :: string
    and deps :: "type_id list"
  assumes reg_factories: "factories (reg c) = hm_insert key fac (factories c)"
    and reg_singletons: "singletons (reg c) = hm_insert key cell (singletons c)"
    and reg_type_names: "type_names (reg c) = hm_insert key tname (type_names c)"
    and reg_dependencies: "dependencies (reg c) = hm_insert key deps (dependencies c)"
begin

lemmas reg_simps = reg_factories reg_singletons reg_type_names reg_dependencies

lemma reg_wf: "container_wf c \<Longrightarrow> container_wf (reg c)"
  by (simp add: container_wf_def reg_simps distinct_hm_insert)

lemma reg_registered: "registered (reg c) = insert key (registered c)"
  by (simp add: registered_def reg_simps)

lemma reg_len:
  "container_wf c \<Longrightarrow>
   container_len (reg c) = (if key \<in> registered c then container_len c else Suc (container_len c))"
  by (simp add: container_len_def registered_def container_wf_def reg_simps length_hm_insert)

lemma reg_other:
  "k \<noteq> key \<Longrightarrow> hm_get (factories (reg c)) k = hm_get (factories c) k"
  "k \<noteq> key \<Longrightarrow> hm_get (singletons (reg c)) k = hm_get (singletons c) k"
  "k \<noteq> key \<Longrightarrow> name_of (reg c) k = name_of c k"
  "k \<noteq> key \<Longrightarrow> deps_of (reg c) k = deps_of c k"
  by (simp_all add: reg_simps name_of_def deps_of_def)

lemma reg_key:
  "hm_get (factories (reg c)) key = Some fac"
  "hm_get (singletons (reg c)) key = Some cell"
  "name_of (reg c) key = tname"
  "deps_of (reg c) key = deps"
  by (simp_all add: reg_simps name_of_def deps_of_def)

end

interpretation conc: registration
  "register_with_deps T fac tname deps" "type_id_of T" "\<lparr>f_prog = fac, f_any = T\<rparr>" None tname deps
  for T :: rty and fac :: "'v prog" and tname :: string and deps :: "type_id list"
  by unfold_locales (simp_all add: register_with_deps_def Let_def)

interpretation trt: registration
  "register_trait_with_deps T fac tname deps" "trait_object_type_id T"
  "\<lparr>f_prog = fac, f_any = RArc T\<rparr>" None tname deps
  for T :: rty and fac :: "'v prog" and tname :: string and deps :: "type_id list"
  by unfold_locales (simp_all add: register_trait_with_deps_def Let_def)

interpretation inst: registration
  "register_instance T a" "type_id_of T" "\<lparr>f_prog = ReturnArc a, f_any = T\<rparr>"
  "Some \<lparr>any_type = T, any_arc = a\<rparr>" "type_name T" "[]"
  for T :: rty and a :: "'v arc"
  by unfold_locales (simp_all add: register_instance_def Let_def)

lemmas register_wf [di_wf] = conc.reg_wf trt.reg_wf inst.reg_wf

lemma register_all_wf [di_wf]:
  "container_wf c \<Longrightarrow> (\<And>r c. r \<in> set regs \<Longrightarrow> container_wf c \<Longrightarrow> container_wf (r c)) \<Longrightarrow>
   container_wf (register_all regs c)"
  unfolding register_all_def by (induction regs arbitrary: c) auto

lemma container_is_empty_iff: "container_is_empty c \<longleftrightarrow> container_len c = 0"
  by (simp add: container_is_empty_def container_len_def)

lemma container_len_card: "container_wf c \<Longrightarrow> container_len c = card (registered c)"
  using distinct_card [of "hm_keys (factories c)"]
  by (simp add: container_len_def registered_def container_wf_def) (simp add: hm_keys_def)

end
