(* ===== verification/Di_Cycles.thy ===== *)
theory Di_Cycles
  imports Di_Container
begin

text \<open>
  \<open>Container::detect_cycles\<close> of \<open>container.rs\<close>: the iterative three-colour depth-first search
  over the declared dependencies. A state of the search is the record of the four local
  variables; \<open>search_step\<close> is one round of the inner \<open>while let\<close>, \<open>search_loop\<close> the loop,
  \<open>search_root\<close> one round of the outer \<open>for\<close>. The head of \<open>cd_stack\<close> is the top of the
  code's stack; \<open>cd_path\<close> has the order of the code's vector.
\<close>

section \<open>The search\<close>

datatype color = White | Gray | Black

record search =
  cd_colors :: "type_id \<rightharpoonup> color"
  cd_stack :: "(type_id \<times> nat) list"
  cd_path :: "type_id list"
  cd_errors :: "container_error list"

definition color_of :: "search \<Rightarrow> type_id \<Rightarrow> color" where
  "color_of st n = unwrap_or White (cd_colors st n)"

text \<open>\<open>path.iter().position(|&x| x == dep).unwrap_or(0)\<close>.\<close>

fun position :: "'a \<Rightarrow> 'a list \<Rightarrow> nat option" where
  "position x [] = None"
| "position x (y # ys) = (if y = x then Some 0 else map_option Suc (position x ys))"

definition search_step :: "'v container \<Rightarrow> search \<Rightarrow> search" where
  "search_step c st =
     (case cd_stack st of
        [] \<Rightarrow> st
      | (node, child_idx) # rest \<Rightarrow>
          let deps = deps_of c node in
          if child_idx \<ge> length deps
          then st\<lparr>cd_colors := (cd_colors st)(node \<mapsto> Black),
                  cd_stack := rest,
                  cd_path := butlast (cd_path st)\<rparr>
          else
            let dep = deps ! child_idx;
                stack' = (node, Suc child_idx) # rest
            in case color_of st dep of
                 Gray \<Rightarrow>
                   let start = unwrap_or 0 (position dep (cd_path st));
                       cycle = map (name_of c) (drop start (cd_path st))
                   in st\<lparr>cd_stack := stack', cd_errors := cd_errors st @ [CyclicDependency cycle]\<rparr>
               | White \<Rightarrow>
                   st\<lparr>cd_colors := (cd_colors st)(dep \<mapsto> Gray),
                      cd_path := cd_path st @ [dep],
                      cd_stack := (dep, 0) # stack'\<rparr>
               | Black \<Rightarrow> st\<lparr>cd_stack := stack'\<rparr>)"

text \<open>
  The loop ends: a round that pushes turns a white node of the finite graph gray, any other
  round leaves less work on the stack.
\<close>

definition universe :: "'v container \<Rightarrow> type_id set" where
  "universe c = set (concat (map snd (dependencies c)))"

definition whites :: "'v container \<Rightarrow> search \<Rightarrow> type_id set" where
  "whites c st = {n \<in> universe c. color_of st n = White}"

definition work :: "'v container \<Rightarrow> search \<Rightarrow> nat" where
  "work c st = sum_list (map (\<lambda>(n, i). Suc (Suc (length (deps_of c n)) - i)) (cd_stack st))"

lemma deps_of_universe: "set (deps_of c n) \<subseteq> universe c"
proof (cases "hm_get (dependencies c) n")
  case (Some ds)
  then have "(n, ds) \<in> set (dependencies c)" by (rule map_of_SomeD)
  then show ?thesis by (force simp: universe_def deps_of_def Some)
qed (simp add: deps_of_def)

lemma finite_whites: "finite (whites c st)"
  by (simp add: whites_def universe_def)

lemma search_step_decreases:
  assumes "cd_stack st \<noteq> []"
  shows "card (whites c (search_step c st)) < card (whites c st) \<or>
         card (whites c (search_step c st)) = card (whites c st) \<and> work c (search_step c st) < work c st"
proof -
  from assms obtain node idx rest where st: "cd_stack st = (node, idx) # rest"
    by (cases "cd_stack st") auto
  show ?thesis
  proof (cases "length (deps_of c node) \<le> idx")
    case True
    then have "whites c (search_step c st) \<subseteq> whites c st"
      by (auto simp: whites_def search_step_def st color_of_def split: if_splits)
    then have "card (whites c (search_step c st)) \<le> card (whites c st)"
      by (simp add: card_mono finite_whites)
    with True show ?thesis by (auto simp: work_def search_step_def st dest: le_neq_implies_less)
  next
    case False
    let ?dep = "deps_of c node ! idx"
    from False have dep: "?dep \<in> universe c" using deps_of_universe by (metis nth_mem not_le subsetD)
    show ?thesis
    proof (cases "color_of st ?dep")
      case White
      with False have "whites c (search_step c st) = whites c st - {?dep}"
        by (auto simp: whites_def search_step_def st color_of_def Let_def split: if_splits)
      moreover from White dep have "?dep \<in> whites c st" by (simp add: whites_def)
      ultimately show ?thesis by (metis card_Diff1_less finite_whites)
    next
      case Gray
      with False have "whites c (search_step c st) = whites c st"
        by (auto simp: whites_def search_step_def st color_of_def Let_def)
      with False Gray show ?thesis by (simp add: work_def search_step_def st Let_def)
    next
      case Black
      with False have "whites c (search_step c st) = whites c st"
        by (auto simp: whites_def search_step_def st color_of_def Let_def)
      with False Black show ?thesis by (simp add: work_def search_step_def st Let_def)
    qed
  qed
qed

function search_loop :: "'v container \<Rightarrow> search \<Rightarrow> search" where
  "search_loop c st = (if cd_stack st = [] then st else search_loop c (search_step c st))"
  by pat_completeness auto
termination
  by (relation "measures [\<lambda>(c, st). card (whites c st), \<lambda>(c, st). work c st]")
     (use search_step_decreases in auto)

declare search_loop.simps [simp del]

definition search_root :: "'v container \<Rightarrow> type_id \<Rightarrow> search \<Rightarrow> search" where
  "search_root c root st =
     (if cd_colors st root \<noteq> Some White then st
      else search_loop c (st\<lparr>cd_stack := [(root, 0)], cd_path := [root],
                             cd_colors := (cd_colors st)(root \<mapsto> Gray)\<rparr>))"

definition search_init :: "'v container \<Rightarrow> search" where
  "search_init c =
     \<lparr>cd_colors = map_of (map (\<lambda>n. (n, White)) (hm_keys (factories c))),
      cd_stack = [], cd_path = [], cd_errors = []\<rparr>"

text \<open>\<open>order\<close> is the order in which \<open>factories.keys()\<close> gives the registered types.\<close>

definition detect_cycles :: "type_id list \<Rightarrow> 'v container \<Rightarrow> container_error list" where
  "detect_cycles order c = cd_errors (fold (search_root c) order (search_init c))"

section \<open>What the search keeps\<close>

definition edges :: "'v container \<Rightarrow> (type_id \<times> type_id) set" where
  "edges c = {(a, b). b \<in> set (deps_of c a)}"

text \<open>
  A cycle as the code reports one: the names along a path of distinct types whose last type
  depends on the first.
\<close>

definition real_cycle :: "'v container \<Rightarrow> container_error \<Rightarrow> bool" where
  "real_cycle c e \<longleftrightarrow>
     (\<exists>p. p \<noteq> [] \<and> distinct p \<and> successively (\<lambda>a b. (a, b) \<in> edges c) p \<and>
          (last p, hd p) \<in> edges c \<and> e = CyclicDependency (map (name_of c) p))"

text \<open>
  The dependencies of a node on the stack that have been visited are finished, but for those
  that stand above it on the stack.
\<close>

fun visited_black :: "'v container \<Rightarrow> (type_id \<Rightarrow> color) \<Rightarrow> type_id set \<Rightarrow> (type_id \<times> nat) list \<Rightarrow> bool" where
  "visited_black c col abv [] = True"
| "visited_black c col abv ((n, i) # rest) =
     ((\<forall>j<i. j < length (deps_of c n) \<longrightarrow> col (deps_of c n ! j) = Black \<or> deps_of c n ! j \<in> abv) \<and>
      visited_black c col (insert n abv) rest)"

definition finished :: "'v container \<Rightarrow> (type_id \<Rightarrow> color) \<Rightarrow> bool" where
  "finished c col \<longleftrightarrow>
     (\<forall>n. col n = Black \<longrightarrow> (\<forall>d\<in>set (deps_of c n). col d = Black)) \<and>
     acyclic {(a, b) \<in> edges c. col a = Black}"

definition search_inv :: "'v container \<Rightarrow> search \<Rightarrow> bool" where
  "search_inv c st \<longleftrightarrow>
     cd_path st = rev (map fst (cd_stack st)) \<and> distinct (cd_path st) \<and>
     (\<forall>n. color_of st n = Gray \<longleftrightarrow> n \<in> set (cd_path st)) \<and>
     successively (\<lambda>a b. (a, b) \<in> edges c) (cd_path st) \<and>
     (\<forall>e\<in>set (cd_errors st). real_cycle c e) \<and>
     (cd_errors st = [] \<longrightarrow> visited_black c (color_of st) {} (cd_stack st) \<and> finished c (color_of st))"

lemma position_Some:
  "x \<in> set xs \<Longrightarrow> \<exists>i. position x xs = Some i \<and> i < length xs \<and> xs ! i = x"
  by (induction xs) auto

lemma visited_black_mono:
  "visited_black c col abv s \<Longrightarrow> (\<And>x. col x = Black \<or> x \<in> abv \<Longrightarrow> col' x = Black \<or> x \<in> abv') \<Longrightarrow>
   visited_black c col' abv' s"
proof (induction s arbitrary: abv abv')
  case (Cons p rest)
  obtain m i where p: "p = (m, i)" by (cases p) auto
  with Cons.prems have "visited_black c col (insert m abv) rest" by simp
  then have "visited_black c col' (insert m abv') rest"
    by (rule Cons.IH) (use Cons.prems(2) in auto)
  with Cons.prems p show ?case by auto
qed simp

lemma finished_push: "finished c col \<Longrightarrow> col n = White \<Longrightarrow> finished c (col(n := Gray))"
proof -
  assume fin: "finished c col" and n: "col n = White"
  have "{(a, b) \<in> edges c. (col(n := Gray)) a = Black} = {(a, b) \<in> edges c. col a = Black}"
    using n by (auto split: if_splits)
  with fin n show ?thesis by (auto simp: finished_def)
qed

text \<open>Finishing a node whose dependencies are finished adds no cycle: nothing finished leads to it.\<close>

lemma finished_pop:
  assumes fin: "finished c col" and n: "col n \<noteq> Black" and deps: "\<forall>d\<in>set (deps_of c n). col d = Black"
  shows "finished c (col(n := Black))"
proof -
  let ?B = "{(a, b) \<in> edges c. col a = Black}" and ?N = "{(a, b) \<in> edges c. a = n}"
  have stay: "col b = Black" if "(a, b) \<in> ?B\<^sup>+" for a b
    using that fin by (induction rule: trancl_induct) (auto simp: finished_def edges_def)
  have eq: "{(a, b) \<in> edges c. (col(n := Black)) a = Black} = ?B \<union> ?N" by auto
  have black: "col b = Black" if "(a, b) \<in> (?B \<union> ?N)\<^sup>+" for a b
    using that
  proof (induction rule: trancl_induct)
    case (base y) then show ?case using fin deps by (auto simp: finished_def edges_def)
  next
    case (step y z) then show ?case using fin n by (auto simp: finished_def edges_def)
  qed
  have sub: "(a, b) \<in> ?B\<^sup>+" if "(a, b) \<in> (?B \<union> ?N)\<^sup>+" "col a = Black" for a b
    using that
  proof (induction rule: trancl_induct)
    case (base y) then show ?case using n by auto
  next
    case (step y z)
    then have "(a, y) \<in> ?B\<^sup>+" by simp
    with stay have "col y = Black" by blast
    with step n have "(y, z) \<in> ?B" by auto
    with \<open>(a, y) \<in> ?B\<^sup>+\<close> show ?case by (rule trancl_into_trancl)
  qed
  have "acyclic (?B \<union> ?N)"
    unfolding acyclic_def
  proof (intro allI notI)
    fix a assume cyc: "(a, a) \<in> (?B \<union> ?N)\<^sup>+"
    with black have "col a = Black" by blast
    with cyc sub have "(a, a) \<in> ?B\<^sup>+" by blast
    with fin show False by (auto simp: finished_def acyclic_def)
  qed
  with eq fin deps show ?thesis by (auto simp: finished_def)
qed

text \<open>The four cases of a round, each by what it does to the four variables.\<close>

lemma search_step_pop:
  assumes "cd_stack st = (n, i) # rest" "length (deps_of c n) \<le> i"
  shows "color_of (search_step c st) = (color_of st)(n := Black)"
    and "cd_stack (search_step c st) = rest"
    and "cd_path (search_step c st) = butlast (cd_path st)"
    and "cd_errors (search_step c st) = cd_errors st"
  using assms by (auto simp: search_step_def color_of_def fun_eq_iff)

lemma search_step_push:
  assumes "cd_stack st = (n, i) # rest" "i < length (deps_of c n)" "color_of st (deps_of c n ! i) = White"
  shows "color_of (search_step c st) = (color_of st)(deps_of c n ! i := Gray)"
    and "cd_stack (search_step c st) = (deps_of c n ! i, 0) # (n, Suc i) # rest"
    and "cd_path (search_step c st) = cd_path st @ [deps_of c n ! i]"
    and "cd_errors (search_step c st) = cd_errors st"
  using assms by (auto simp: search_step_def color_of_def fun_eq_iff Let_def)

lemma search_step_gray:
  assumes "cd_stack st = (n, i) # rest" "i < length (deps_of c n)" "color_of st (deps_of c n ! i) = Gray"
    "position (deps_of c n ! i) (cd_path st) = Some k"
  shows "color_of (search_step c st) = color_of st"
    and "cd_stack (search_step c st) = (n, Suc i) # rest"
    and "cd_path (search_step c st) = cd_path st"
    and "cd_errors (search_step c st) = cd_errors st @ [CyclicDependency (map (name_of c) (drop k (cd_path st)))]"
  using assms by (auto simp: search_step_def color_of_def fun_eq_iff Let_def)

lemma search_step_black:
  assumes "cd_stack st = (n, i) # rest" "i < length (deps_of c n)" "color_of st (deps_of c n ! i) = Black"
  shows "color_of (search_step c st) = color_of st"
    and "cd_stack (search_step c st) = (n, Suc i) # rest"
    and "cd_path (search_step c st) = cd_path st"
    and "cd_errors (search_step c st) = cd_errors st"
  using assms by (auto simp: search_step_def color_of_def fun_eq_iff Let_def)

lemma search_inv_pop:
  assumes inv: "search_inv c st" and st: "cd_stack st = (n, i) # rest" and i: "length (deps_of c n) \<le> i"
  shows "search_inv c (search_step c st)"
proof -
  note eqs = search_step_pop [OF st i]
  have path: "cd_path st = rev (map fst rest) @ [n]" using inv st by (simp add: search_inv_def)
  have black: "visited_black c ((color_of st)(n := Black)) {} rest \<and> finished c ((color_of st)(n := Black))"
    if "cd_errors st = []"
  proof
    from that inv st have vis: "visited_black c (color_of st) {} ((n, i) # rest)" and fin: "finished c (color_of st)"
      by (auto simp: search_inv_def)
    then have "visited_black c (color_of st) {n} rest" by simp
    then show "visited_black c ((color_of st)(n := Black)) {} rest"
      by (rule visited_black_mono) auto
    have "color_of st n = Gray" using inv path by (simp add: search_inv_def)
    moreover have "\<forall>d\<in>set (deps_of c n). color_of st d = Black"
      using vis i by (fastforce simp: in_set_conv_nth)
    ultimately show "finished c ((color_of st)(n := Black))" using finished_pop [OF fin] by simp
  qed
  show ?thesis
    using inv st path black unfolding search_inv_def eqs
    by (simp add: butlast_append successively_append_iff del: successively_rev)
qed

lemma search_inv_push:
  assumes inv: "search_inv c st" and st: "cd_stack st = (n, i) # rest"
    and i: "i < length (deps_of c n)" and white: "color_of st (deps_of c n ! i) = White"
  shows "search_inv c (search_step c st)"
proof -
  let ?d = "deps_of c n ! i"
  note eqs = search_step_push [OF st i white]
  have path: "cd_path st = rev (map fst rest) @ [n]" using inv st by (simp add: search_inv_def)
  have new: "?d \<notin> set (cd_path st)" using inv white by (metis color.distinct(1) search_inv_def)
  have edge: "(n, ?d) \<in> edges c" using i by (simp add: edges_def)
  have black: "visited_black c ((color_of st)(?d := Gray)) {} ((?d, 0) # (n, Suc i) # rest) \<and>
               finished c ((color_of st)(?d := Gray))"
    if "cd_errors st = []"
  proof
    from that inv st have vis: "visited_black c (color_of st) {} ((n, i) # rest)" and fin: "finished c (color_of st)"
      by (auto simp: search_inv_def)
    from vis have "visited_black c (color_of st) {n} rest" by simp
    then have "visited_black c ((color_of st)(?d := Gray)) {n, ?d} rest"
      by (rule visited_black_mono) (use white in auto)
    with vis white show "visited_black c ((color_of st)(?d := Gray)) {} ((?d, 0) # (n, Suc i) # rest)"
      by (auto simp: less_Suc_eq)
    show "finished c ((color_of st)(?d := Gray))" using fin white by (rule finished_push)
  qed
  show ?thesis
    using inv st path new edge black unfolding search_inv_def eqs
    by (auto simp: successively_append_iff simp del: successively_rev)
qed

lemma search_inv_gray:
  assumes inv: "search_inv c st" and st: "cd_stack st = (n, i) # rest"
    and i: "i < length (deps_of c n)" and gray: "color_of st (deps_of c n ! i) = Gray"
  shows "search_inv c (search_step c st)"
proof -
  let ?d = "deps_of c n ! i" and ?p = "cd_path st"
  from inv gray have "?d \<in> set ?p" by (simp add: search_inv_def)
  then obtain k where k: "position ?d ?p = Some k" "k < length ?p" "?p ! k = ?d"
    using position_Some by fastforce
  let ?q = "drop k ?p"
  have last: "last ?p = n" using inv st by (simp add: search_inv_def)
  have "?q \<noteq> []" "distinct ?q" "(last ?q, hd ?q) \<in> edges c"
    using inv k i last by (auto simp: search_inv_def hd_drop_conv_nth edges_def)
  moreover have "successively (\<lambda>a b. (a, b) \<in> edges c) ?q"
    using inv by (metis append_take_drop_id search_inv_def successively_append_iff)
  ultimately have "real_cycle c (CyclicDependency (map (name_of c) ?q))"
    unfolding real_cycle_def by blast
  with inv st show ?thesis
    unfolding search_inv_def search_step_gray [OF st i gray k(1)] by (auto dest: img_fst)
qed

lemma search_inv_black:
  assumes inv: "search_inv c st" and st: "cd_stack st = (n, i) # rest"
    and i: "i < length (deps_of c n)" and black: "color_of st (deps_of c n ! i) = Black"
  shows "search_inv c (search_step c st)"
  using inv st black unfolding search_inv_def search_step_black [OF st i black]
  by (auto simp: less_Suc_eq dest: img_fst)

lemma search_inv_step:
  assumes "search_inv c st" "cd_stack st \<noteq> []"
  shows "search_inv c (search_step c st)"
proof -
  from assms obtain n i rest where st: "cd_stack st = (n, i) # rest" by (cases "cd_stack st") auto
  show ?thesis
  proof (cases "length (deps_of c n) \<le> i")
    case True
    with assms st show ?thesis by (blast intro: search_inv_pop)
  next
    case False
    then have i: "i < length (deps_of c n)" by simp
    show ?thesis
      by (cases "color_of st (deps_of c n ! i)")
         (simp_all add: search_inv_push [OF assms(1) st i] search_inv_gray [OF assms(1) st i]
            search_inv_black [OF assms(1) st i])
  qed
qed

lemma search_inv_loop: "search_inv c st \<Longrightarrow> search_inv c (search_loop c st) \<and> cd_stack (search_loop c st) = []"
proof (induction c st rule: search_loop.induct)
  case (1 c st)
  then show ?case
    by (cases "cd_stack st = []") (simp_all add: search_inv_step search_loop.simps [of c st])
qed

text \<open>A coloured node stays coloured, and no round makes a node white again.\<close>

lemma search_step_colors:
  "dom (cd_colors st) \<subseteq> dom (cd_colors (search_step c st))"
  "color_of st n \<noteq> White \<Longrightarrow> color_of (search_step c st) n \<noteq> White"
  by (auto simp: search_step_def color_of_def Let_def split: list.splits color.splits)

lemma search_loop_colors:
  "dom (cd_colors st) \<subseteq> dom (cd_colors (search_loop c st)) \<and>
   (color_of st n \<noteq> White \<longrightarrow> color_of (search_loop c st) n \<noteq> White)"
proof (induction c st rule: search_loop.induct)
  case (1 c st)
  then show ?case
    using search_step_colors [where st = st and c = c]
    by (cases "cd_stack st = []") (simp_all add: search_loop.simps [of c st], meson subset_trans)
qed

lemma color_of_start [simp]:
  "color_of (st\<lparr>cd_stack := s, cd_path := p, cd_colors := (cd_colors st)(root \<mapsto> x)\<rparr>) = (color_of st)(root := x)"
  by (auto simp: color_of_def fun_eq_iff)

lemma search_root_colors:
  "dom (cd_colors st) \<subseteq> dom (cd_colors (search_root c root st))"
  "color_of st n \<noteq> White \<Longrightarrow> color_of (search_root c root st) n \<noteq> White"
  "root \<in> dom (cd_colors st) \<Longrightarrow> color_of (search_root c root st) root \<noteq> White"
proof -
  let ?st = "st\<lparr>cd_stack := [(root, 0)], cd_path := [root], cd_colors := (cd_colors st)(root \<mapsto> Gray)\<rparr>"
  have loop: "dom (cd_colors ?st) \<subseteq> dom (cd_colors (search_loop c ?st))"
    "color_of ?st m \<noteq> White \<Longrightarrow> color_of (search_loop c ?st) m \<noteq> White" for m
    using search_loop_colors by metis+
  show "dom (cd_colors st) \<subseteq> dom (cd_colors (search_root c root st))"
    using loop(1) by (simp add: search_root_def)
  show "color_of (search_root c root st) n \<noteq> White" if "color_of st n \<noteq> White"
    using loop(2) [of n] that by (simp add: search_root_def split: if_splits)
  show "color_of (search_root c root st) root \<noteq> White" if "root \<in> dom (cd_colors st)"
    using loop(2) [of root] that by (auto simp: search_root_def color_of_def)
qed

lemma search_inv_start:
  assumes "search_inv c st" "cd_stack st = []" "cd_colors st root = Some White"
  shows "search_inv c (st\<lparr>cd_stack := [(root, 0)], cd_path := [root],
           cd_colors := (cd_colors st)(root \<mapsto> Gray)\<rparr>)"
proof -
  have white: "color_of st root = White" using assms by (simp add: color_of_def)
  have "finished c ((color_of st)(root := Gray))" if "cd_errors st = []"
    using that assms finished_push white by (auto simp: search_inv_def)
  with assms show ?thesis by (auto simp: search_inv_def)
qed

lemma search_root_inv:
  assumes "search_inv c st" "cd_stack st = []"
  shows "search_inv c (search_root c root st) \<and> cd_stack (search_root c root st) = []"
proof (cases "cd_colors st root = Some White")
  case True
  with assms show ?thesis
    using search_inv_loop [OF search_inv_start [OF assms True]] by (simp add: search_root_def)
qed (simp add: assms search_root_def)

lemma search_roots:
  assumes "search_inv c st" "cd_stack st = []" "set order \<subseteq> dom (cd_colors st)"
  shows "search_inv c (fold (search_root c) order st) \<and> cd_stack (fold (search_root c) order st) = [] \<and>
         (\<forall>n. n \<in> set order \<or> color_of st n \<noteq> White
               \<longrightarrow> color_of (fold (search_root c) order st) n \<noteq> White)"
  using assms
proof (induction order arbitrary: st)
  case (Cons root order)
  let ?st = "search_root c root st"
  have inv: "search_inv c ?st \<and> cd_stack ?st = []" using search_root_inv Cons.prems by blast
  have dom: "set order \<subseteq> dom (cd_colors ?st)" using Cons.prems search_root_colors(1) by fastforce
  have root: "color_of ?st root \<noteq> White" by (rule search_root_colors(3)) (use Cons.prems in auto)
  have keep: "color_of st n \<noteq> White \<Longrightarrow> color_of ?st n \<noteq> White" for n
    by (rule search_root_colors(2))
  show ?case
    using Cons.IH [OF inv [THEN conjunct1] inv [THEN conjunct2] dom] root keep
    unfolding fold_Cons o_apply set_simps by blast
qed simp

lemma search_init_inv: "search_inv c (search_init c)"
proof -
  have "color_of (search_init c) n = White" for n
    by (simp add: color_of_def search_init_def map_of_map_restrict restrict_map_def)
  then show ?thesis
    by (auto simp: search_inv_def search_init_def finished_def acyclic_def)
qed

lemma search_init_dom: "dom (cd_colors (search_init c)) = registered c"
  by (auto simp: search_init_def map_of_map_restrict restrict_map_def registered_def split: if_splits)

section \<open>What the search finds\<close>

lemma real_cycle_not_acyclic:
  assumes "real_cycle c e" shows "\<not> acyclic (edges c)"
proof -
  from assms obtain p where p: "p \<noteq> []" "successively (\<lambda>a b. (a, b) \<in> edges c) p" "(last p, hd p) \<in> edges c"
    by (auto simp: real_cycle_def)
  have "successively (\<lambda>a b. (a, b) \<in> edges c) q \<Longrightarrow> q \<noteq> [] \<Longrightarrow> (hd q, last q) \<in> (edges c)\<^sup>*" for q
  proof (induction q rule: rev_induct)
    case (snoc x xs)
    then show ?case
      by (cases "xs = []") (auto simp: successively_append_iff intro: rtrancl_into_rtrancl)
  qed simp
  with p have "(hd p, hd p) \<in> (edges c)\<^sup>+" by (meson rtrancl_into_trancl1)
  then show ?thesis by (auto simp: acyclic_def)
qed

lemma search_result:
  assumes "set order = registered c"
  defines "st \<equiv> fold (search_root c) order (search_init c)"
  shows "search_inv c st \<and> cd_stack st = [] \<and> (\<forall>n\<in>registered c. color_of st n = Black)"
proof -
  have st: "search_inv c st \<and> cd_stack st = [] \<and> (\<forall>n\<in>registered c. color_of st n \<noteq> White)"
    using search_roots [of c "search_init c" order] assms search_init_inv [of c]
    by (simp add: search_init_dom) (simp add: search_init_def)
  moreover have "color_of st n \<noteq> Gray" for n using st by (simp add: search_inv_def)
  ultimately show ?thesis by (metis color.exhaust)
qed

lemma edges_registered: "container_wf c \<Longrightarrow> (a, b) \<in> edges c \<Longrightarrow> a \<in> registered c"
  by (cases "hm_get (dependencies c) a") (auto simp: edges_def deps_of_def container_wf_dom(2))

lemma detect_cycles_sound:
  assumes "set order = registered c" "e \<in> set (detect_cycles order c)"
  shows "real_cycle c e"
  using search_result [OF assms(1)] assms(2) by (simp add: detect_cycles_def search_inv_def)

lemma detect_cycles_Nil_iff:
  assumes wf: "container_wf c" and order: "set order = registered c"
  shows "detect_cycles order c = [] \<longleftrightarrow> acyclic (edges c)"
proof
  let ?st = "fold (search_root c) order (search_init c)"
  assume none: "detect_cycles order c = []"
  then have fin: "finished c (color_of ?st)"
    using search_result [OF order] by (simp add: detect_cycles_def search_inv_def)
  have "{(a, b) \<in> edges c. color_of ?st a = Black} = edges c"
    using search_result [OF order] edges_registered [OF wf] by auto
  with fin show "acyclic (edges c)" by (simp add: finished_def)
next
  assume "acyclic (edges c)"
  then show "detect_cycles order c = []"
    using detect_cycles_sound [OF order] real_cycle_not_acyclic
    by (metis last_in_set)
qed

end
