(* ===== verification/Di_Resolve.thy ===== *)
theory Di_Resolve
  imports Di_Cycles
begin

text \<open>
  Resolution in \<open>container.rs\<close>: \<open>try_get\<close>, \<open>try_get_trait\<close>, \<open>get\<close>, \<open>get_trait\<close> and
  \<open>validate\<close>, on one thread. The container is borrowed immutably; what a resolution changes is
  the \<open>OnceLock\<close> cells of the singletons, the supply of fresh \<open>Arc\<close>s and the log, the record
  \<open>runtime\<close>. A computation returns, panics, or blocks for ever: \<open>OnceLock::get_or_init\<close>, called
  for a cell while the same thread is initialising that cell, does not return.
\<close>

section \<open>Running a factory\<close>

datatype 'a outcome = Val 'a | Panicked string | Deadlock

fun bind_outcome :: "'a outcome \<times> 's \<Rightarrow> ('a \<Rightarrow> 's \<Rightarrow> 'b outcome \<times> 's) \<Rightarrow> 'b outcome \<times> 's" where
  "bind_outcome (Val a, st) f = f a st"
| "bind_outcome (Panicked m, st) f = (Panicked m, st)"
| "bind_outcome (Deadlock, st) f = (Deadlock, st)"

lemma bind_outcome_Val_iff:
  "bind_outcome x f = (Val b, st') \<longleftrightarrow> (\<exists>a st. x = (Val a, st) \<and> f a st = (Val b, st'))"
  by (cases "(x, f)" rule: bind_outcome.cases) auto

lemma bind_outcome_assoc [simp]:
  "bind_outcome (bind_outcome x f) g = bind_outcome x (\<lambda>a st. bind_outcome (f a st) g)"
  by (cases "(x, f)" rule: bind_outcome.cases) auto

lemma bind_outcome_cong [fundef_cong]:
  "x = y \<Longrightarrow> (\<And>a st. y = (Val a, st) \<Longrightarrow> f a st = g a st) \<Longrightarrow> bind_outcome x f = bind_outcome y g"
  by (cases "(y, g)" rule: bind_outcome.cases) auto

record 'v runtime =
  cells :: "(type_id, 'v any option) hashmap"
  next_arc :: nat
  log_lines :: "string list"

definition runtime_of :: "'v container \<Rightarrow> nat \<Rightarrow> 'v runtime" where
  "runtime_of c n = \<lparr>cells = singletons c, next_arc = n, log_lines = []\<rparr>"

text \<open>A factory's program, given how a lookup is answered.\<close>

primrec run_prog ::
  "(access \<Rightarrow> 'v runtime \<Rightarrow> (container_error + 'v arc) outcome \<times> 'v runtime) \<Rightarrow>
   'v prog \<Rightarrow> 'v runtime \<Rightarrow> 'v arc outcome \<times> 'v runtime" where
  "run_prog look (ReturnNew v) st =
     (Val \<lparr>arc_id = next_arc st, arc_val = v\<rparr>, st\<lparr>next_arc := Suc (next_arc st)\<rparr>)"
| "run_prog look (ReturnArc a) st = (Val a, st)"
| "run_prog look (Panic m) st = (Panicked m, st)"
| "run_prog look (Lookup acc k) st = bind_outcome (look acc st) (\<lambda>r st'. run_prog look (k r) st')"

text \<open>\<open>OnceLock::get_or_init\<close>; \<open>ip\<close> are the cells this thread is initialising.\<close>

definition get_or_init ::
  "type_id \<Rightarrow> type_id list \<Rightarrow> ('v runtime \<Rightarrow> 'v any outcome \<times> 'v runtime) \<Rightarrow>
   'v runtime \<Rightarrow> 'v any outcome \<times> 'v runtime" where
  "get_or_init key ip init st =
     (case hm_get (cells st) key of
        Some (Some a) \<Rightarrow> (Val a, st)
      | _ \<Rightarrow>
          if key \<in> set ip then (Deadlock, st)
          else bind_outcome (init st)
                 (\<lambda>a st'. (Val a, st'\<lparr>cells := hm_insert key (Some a) (cells st')\<rparr>)))"

lemma get_or_init_cong [fundef_cong]:
  "key = key' \<Longrightarrow> ip = ip' \<Longrightarrow> st = st' \<Longrightarrow> (key' \<notin> set ip' \<Longrightarrow> init st' = init' st') \<Longrightarrow>
   get_or_init key ip init st = get_or_init key' ip' init' st'"
  by (simp add: get_or_init_def split: option.splits)

text \<open>The wrapped factory a registration stores: the program's result with its type erased.\<close>

definition call_factory ::
  "(access \<Rightarrow> 'v runtime \<Rightarrow> (container_error + 'v arc) outcome \<times> 'v runtime) \<Rightarrow>
   'v factory \<Rightarrow> 'v runtime \<Rightarrow> 'v any outcome \<times> 'v runtime" where
  "call_factory look f st =
     bind_outcome (run_prog look (f_prog f) st) (\<lambda>a st'. (Val \<lparr>any_type = f_any f, any_arc = a\<rparr>, st'))"

fun access_type :: "access \<Rightarrow> rty" where
  "access_type (Concrete T) = T"
| "access_type (TraitAccess T) = T"

text \<open>The type the stored \<open>Arc<dyn Any>\<close> is downcast to.\<close>

fun access_any :: "access \<Rightarrow> rty" where
  "access_any (Concrete T) = T"
| "access_any (TraitAccess T) = RArc T"

fun lazy_text :: "access \<Rightarrow> string" where
  "lazy_text (Concrete T) = ''Lazy initializing '' @ type_name T"
| "lazy_text (TraitAccess T) = ''Lazy initializing trait '' @ type_name T"

fun missing_text :: "access \<Rightarrow> string" where
  "missing_text (Concrete T) = ''Factory for '' @ type_name T @ '' not found''"
| "missing_text (TraitAccess T) = ''Factory for trait '' @ type_name T @ '' not found''"

definition downcast :: "access \<Rightarrow> 'v any \<Rightarrow> container_error + 'v arc" where
  "downcast acc a =
     (if any_type a = access_any acc then Inr (any_arc a)
      else Inl (DowncastFailed (type_name (access_type acc))))"

text \<open>
  The common body of \<open>try_get\<close> and \<open>try_get_trait\<close>. It ends: a factory runs with its own cell
  added to \<open>ip\<close>, and there are finitely many factories.
\<close>

lemma registered_less:
  assumes "hm_get (factories c) key = Some f" "key \<notin> set ip"
  shows "card (registered c - set (key # ip)) < card (registered c - set ip)"
proof (rule psubset_card_mono)
  have "key \<in> registered c" using assms(1) by (simp add: registered_iff)
  with assms(2) show "registered c - set (key # ip) \<subset> registered c - set ip" by auto
qed (simp add: registered_def)

function resolve_in ::
  "'v container \<Rightarrow> type_id list \<Rightarrow> access \<Rightarrow> 'v runtime \<Rightarrow>
   (container_error + 'v arc) outcome \<times> 'v runtime" where
  "resolve_in c ip acc st =
     (let key = access_key acc in
      case hm_get (cells st) key of
        None \<Rightarrow> (Val (Inl (NotRegistered (type_name (access_type acc)))), st)
      | Some _ \<Rightarrow>
          bind_outcome
            (get_or_init key ip
              (\<lambda>st. let st = st\<lparr>log_lines := log_lines st @ [lazy_text acc]\<rparr> in
                 case hm_get (factories c) key of
                   None \<Rightarrow> (Panicked (missing_text acc), st)
                 | Some f \<Rightarrow> call_factory (\<lambda>acc' st'. resolve_in c (key # ip) acc' st') f st)
              st)
            (\<lambda>a st'. (Val (downcast acc a), st')))"
  by pat_completeness auto
termination
  by (relation "measure (\<lambda>(c, ip, acc, st). card (registered c - set ip))")
     (simp only: wf_measure, simp only: in_measure case_prod_conv, rule registered_less)

declare resolve_in.simps [simp del]

definition try_get :: "'v container \<Rightarrow> rty \<Rightarrow> 'v runtime \<Rightarrow> (container_error + 'v arc) outcome \<times> 'v runtime" where
  "try_get c T st = resolve_in c [] (Concrete T) st"

definition try_get_trait ::
  "'v container \<Rightarrow> rty \<Rightarrow> 'v runtime \<Rightarrow> (container_error + 'v arc) outcome \<times> 'v runtime" where
  "try_get_trait c T st = resolve_in c [] (TraitAccess T) st"

fun unwrap_or_panic :: "container_error + 'a \<Rightarrow> 's \<Rightarrow> 'a outcome \<times> 's" where
  "unwrap_or_panic (Inl e) st = (Panicked (container_error_display e), st)"
| "unwrap_or_panic (Inr a) st = (Val a, st)"

definition get :: "'v container \<Rightarrow> rty \<Rightarrow> 'v runtime \<Rightarrow> 'v arc outcome \<times> 'v runtime" where
  "get c T st = bind_outcome (try_get c T st) unwrap_or_panic"

definition get_trait :: "'v container \<Rightarrow> rty \<Rightarrow> 'v runtime \<Rightarrow> 'v arc outcome \<times> 'v runtime" where
  "get_trait c T st = bind_outcome (try_get_trait c T st) unwrap_or_panic"

text \<open>The calls of \<open>get\<close> and \<open>get_trait\<close> inside a factory.\<close>

definition get_prog :: "access \<Rightarrow> ('v arc \<Rightarrow> 'v prog) \<Rightarrow> 'v prog" where
  "get_prog acc k =
     Lookup acc (\<lambda>r. case r of Inl e \<Rightarrow> Panic (container_error_display e) | Inr a \<Rightarrow> k a)"

section \<open>Validation at start-up\<close>

text \<open>One round of the loop over the singletons, with \<open>catch_unwind\<close> around the factory.\<close>

definition validate_cell ::
  "'v container \<Rightarrow> type_id \<Rightarrow> container_error list \<Rightarrow> 'v runtime \<Rightarrow> container_error list outcome \<times> 'v runtime" where
  "validate_cell c key errors st =
     (case hm_get (cells st) key of
        Some None \<Rightarrow>
          (case hm_get (factories c) key of
             Some f \<Rightarrow>
               (case get_or_init key [] (call_factory (resolve_in c [key]) f) st of
                  (Val _, st') \<Rightarrow> (Val errors, st')
                | (Panicked _, st') \<Rightarrow> (Val (errors @ [FactoryPanic (name_of c key)]), st')
                | (Deadlock, st') \<Rightarrow> (Deadlock, st'))
           | None \<Rightarrow> (Val errors, st))
      | _ \<Rightarrow> (Val errors, st))"

fun validate_cells ::
  "'v container \<Rightarrow> type_id list \<Rightarrow> container_error list \<Rightarrow> 'v runtime \<Rightarrow> container_error list outcome \<times> 'v runtime" where
  "validate_cells c [] errors st = (Val errors, st)"
| "validate_cells c (key # keys) errors st =
     bind_outcome (validate_cell c key errors st) (validate_cells c keys)"

text \<open>
  \<open>korder\<close> and \<open>sorder\<close> are the orders in which the maps of factories and of singletons are
  iterated over.
\<close>

definition validate ::
  "type_id list \<Rightarrow> type_id list \<Rightarrow> 'v container \<Rightarrow> 'v runtime \<Rightarrow>
   (container_error list + unit) outcome \<times> 'v runtime" where
  "validate korder sorder c st =
     (let errors = detect_cycles korder c in
      if errors \<noteq> [] then (Val (Inl errors), st)
      else bind_outcome (validate_cells c sorder errors st)
             (\<lambda>errors st'. (Val (if errors = [] then Inr () else Inl errors), st')))"

section \<open>What a resolution does to the cells\<close>

definition logged :: "access \<Rightarrow> 'v runtime \<Rightarrow> 'v runtime" where
  "logged acc st = st\<lparr>log_lines := log_lines st @ [lazy_text acc]\<rparr>"

lemma cells_logged [simp]: "cells (logged acc st) = cells st"
  by (simp add: logged_def)

lemma resolve_unregistered:
  "hm_get (cells st) (access_key acc) = None \<Longrightarrow>
   resolve_in c ip acc st = (Val (Inl (NotRegistered (type_name (access_type acc)))), st)"
  by (subst resolve_in.simps) simp

lemma resolve_full:
  "hm_get (cells st) (access_key acc) = Some (Some a) \<Longrightarrow> resolve_in c ip acc st = (Val (downcast acc a), st)"
  by (subst resolve_in.simps) (simp add: get_or_init_def)

lemma resolve_reentrant:
  "hm_get (cells st) (access_key acc) = Some None \<Longrightarrow> access_key acc \<in> set ip \<Longrightarrow>
   resolve_in c ip acc st = (Deadlock, st)"
  by (subst resolve_in.simps) (simp add: get_or_init_def)

lemma resolve_no_factory:
  "hm_get (cells st) (access_key acc) = Some None \<Longrightarrow> access_key acc \<notin> set ip \<Longrightarrow>
   hm_get (factories c) (access_key acc) = None \<Longrightarrow>
   resolve_in c ip acc st = (Panicked (missing_text acc), logged acc st)"
  by (subst resolve_in.simps) (simp add: get_or_init_def logged_def)

lemma resolve_init:
  "hm_get (cells st) (access_key acc) = Some None \<Longrightarrow> access_key acc \<notin> set ip \<Longrightarrow>
   hm_get (factories c) (access_key acc) = Some f \<Longrightarrow>
   resolve_in c ip acc st =
     bind_outcome (run_prog (resolve_in c (access_key acc # ip)) (f_prog f) (logged acc st))
       (\<lambda>a st'. (Val (downcast acc \<lparr>any_type = f_any f, any_arc = a\<rparr>),
          st'\<lparr>cells := hm_insert (access_key acc) (Some \<lparr>any_type = f_any f, any_arc = a\<rparr>) (cells st')\<rparr>))"
  by (subst resolve_in.simps)
     (simp add: get_or_init_def call_factory_def logged_def Let_def)

text \<open>Induction along the cells that are being initialised.\<close>

lemma resolve_induct:
  fixes c :: "'v container"
  assumes step: "\<And>ip acc st. (\<And>f acc' st'. hm_get (factories c) (access_key acc) = Some f \<Longrightarrow>
      access_key acc \<notin> set ip \<Longrightarrow> P (access_key acc # ip) acc' st') \<Longrightarrow> P ip acc st"
  shows "P ip acc st"
proof (induction "card (registered c - set ip)" arbitrary: ip acc st rule: less_induct)
  case less
  show ?case by (rule step) (rule less, rule registered_less)
qed

text \<open>The four ways a resolution starts.\<close>

lemma resolve_cases [case_names Unregistered Full Reentrant NoFactory Init]:
  fixes c :: "'v container" and st :: "'v runtime"
  assumes "hm_get (cells st) (access_key acc) = None \<Longrightarrow> P"
    and "\<And>a. hm_get (cells st) (access_key acc) = Some (Some a) \<Longrightarrow> P"
    and "hm_get (cells st) (access_key acc) = Some None \<Longrightarrow> access_key acc \<in> set ip \<Longrightarrow> P"
    and "hm_get (cells st) (access_key acc) = Some None \<Longrightarrow> access_key acc \<notin> set ip \<Longrightarrow>
           hm_get (factories c) (access_key acc) = None \<Longrightarrow> P"
    and "\<And>f. hm_get (cells st) (access_key acc) = Some None \<Longrightarrow> access_key acc \<notin> set ip \<Longrightarrow>
           hm_get (factories c) (access_key acc) = Some f \<Longrightarrow> P"
  shows P
  using assms by (metis option.exhaust)

lemmas resolve_eqs = resolve_unregistered resolve_full resolve_reentrant resolve_no_factory resolve_init

text \<open>
  A relation between the states before and after a computation, one for each list of cells
  that are being initialised. If it is kept by allocating, by composing computations and by
  filling a cell after its factory, it holds between the states around every resolution.
\<close>

locale resolution_rel =
  fixes c :: "'v container"
    and R :: "type_id list \<Rightarrow> 'v runtime \<Rightarrow> 'v runtime \<Rightarrow> bool"
  assumes R_refl: "R ip st st"
    and R_trans: "R ip st st' \<Longrightarrow> R ip st' st'' \<Longrightarrow> R ip st st''"
    and R_alloc: "R ip st (st\<lparr>next_arc := Suc (next_arc st)\<rparr>)"
    and R_logged: "R ip st (logged acc st)"
    and R_weaken: "R (key # ip) st st' \<Longrightarrow> R ip st st'"
    and R_fill: "R (key # ip) st st' \<Longrightarrow> hm_get (cells st) key = Some None \<Longrightarrow> key \<notin> set ip \<Longrightarrow>
       hm_get (factories c) key = Some f \<Longrightarrow>
       R ip st (st'\<lparr>cells := hm_insert key (Some \<lparr>any_type = f_any f, any_arc = a\<rparr>) (cells st')\<rparr>)"
begin

lemma run_prog_R:
  "(\<And>acc st. R ip st (snd (look acc st))) \<Longrightarrow> R ip st (snd (run_prog look p st))"
proof (induction p arbitrary: st)
  case (Lookup acc k)
  show ?case
  proof (cases "look acc st")
    case (Pair r st')
    then have st': "R ip st st'" using Lookup.prems [of st acc] by simp
    with Pair show ?thesis by (cases r) (simp_all add: R_trans [OF st' Lookup.IH] Lookup.prems)
  qed
qed (simp_all add: R_refl R_alloc)

lemma resolve_in_R: "R ip st (snd (resolve_in c ip acc st))"
proof (induction ip acc st rule: resolve_induct [of c])
  case (1 ip acc st)
  let ?key = "access_key acc"
  show ?case
  proof (cases rule: resolve_cases [where st = st and acc = acc and ip = ip and c = c])
    case (Init f)
    let ?look = "resolve_in c (?key # ip)"
    have run: "R (?key # ip) st (snd (run_prog ?look (f_prog f) (logged acc st)))"
      by (rule R_trans [OF R_logged], rule run_prog_R) (rule 1 [OF Init(3) Init(2)])
    show ?thesis
    proof (cases "run_prog ?look (f_prog f) (logged acc st)")
      case (Pair r st')
      with run Init show ?thesis
        by (cases r) (auto simp: resolve_init intro: R_weaken R_fill)
    qed
  qed (simp_all add: resolve_eqs R_refl R_logged)
qed

lemma validate_cell_R: "R [] st (snd (validate_cell c key errors st))"
proof -
  have init: "R [] st (snd (get_or_init key [] (call_factory (resolve_in c [key]) f) st))"
    if "hm_get (cells st) key = Some None" "hm_get (factories c) key = Some f" for f
  proof (cases "run_prog (resolve_in c [key]) (f_prog f) st")
    case (Pair r st')
    have "R [key] st st'" using run_prog_R [where look = "resolve_in c [key]" and p = "f_prog f" and st = st, OF resolve_in_R] Pair
      by simp
    with that Pair show ?thesis
      by (cases r) (auto simp: get_or_init_def call_factory_def intro: R_weaken R_fill)
  qed
  have catch: "snd (case p of (Val _, st') \<Rightarrow> (Val errors, st')
          | (Panicked _, st') \<Rightarrow> (Val (errors @ [FactoryPanic (name_of c key)]), st')
          | (Deadlock, st') \<Rightarrow> (Deadlock, st')) = snd p" for p :: "'v any outcome \<times> 'v runtime"
    by (cases p; cases "fst p") auto
  show ?thesis
    unfolding validate_cell_def
    by (auto simp: R_refl init catch split: option.splits)
qed

lemma validate_cells_R: "R [] st (snd (validate_cells c keys errors st))"
proof (induction keys arbitrary: errors st)
  case (Cons key keys)
  show ?case
  proof (cases "validate_cell c key errors st")
    case (Pair r st')
    have st': "R [] st st'" using validate_cell_R [of st key errors] Pair by simp
    with Pair show ?thesis by (cases r) (simp_all add: R_trans [OF st' Cons.IH])
  qed
qed (simp add: R_refl)

lemma validate_R: "R [] st (snd (validate korder sorder c st))"
proof (cases "validate_cells c sorder [] st")
  case (Pair r st')
  have "R [] st st'" using validate_cells_R [of st sorder "[]"] Pair by simp
  with Pair show ?thesis by (cases r) (auto simp: validate_def Let_def R_refl)
qed

end

text \<open>
  The cells: no cell appears or disappears, a filled cell keeps its \<open>Arc\<close>, and the cells that
  are being initialised stay as they are.
\<close>

definition cells_ext :: "type_id list \<Rightarrow> 'v runtime \<Rightarrow> 'v runtime \<Rightarrow> bool" where
  "cells_ext ip st st' \<longleftrightarrow>
     dom (map_of (cells st')) = dom (map_of (cells st)) \<and>
     (\<forall>k a. hm_get (cells st) k = Some (Some a) \<longrightarrow> hm_get (cells st') k = Some (Some a)) \<and>
     (\<forall>k\<in>set ip. hm_get (cells st') k = hm_get (cells st) k)"

interpretation grow: resolution_rel c cells_ext for c :: "'v container"
proof
  fix ip key st and st' :: "'v runtime" and f :: "'v factory" and a
  assume "cells_ext (key # ip) st st'" "hm_get (cells st) key = Some None" "key \<notin> set ip"
  then show "cells_ext ip st (st'\<lparr>cells := hm_insert key (Some \<lparr>any_type = f_any f, any_arc = a\<rparr>) (cells st')\<rparr>)"
    by (auto simp: cells_ext_def dom_def)
qed (auto simp: cells_ext_def logged_def)

text \<open>
  The types: a cell holds an instance of the type its key stands for, \<open>Arc<dyn Trait>\<close> for a
  trait object. It holds of a container unless \<open>TraitObject<dyn Trait>\<close> itself has been
  registered as a concrete component.
\<close>

fun any_type_of :: "type_id \<Rightarrow> rty" where
  "any_type_of (RTraitObject T) = RArc T"
| "any_type_of T = T"

definition typed_cells :: "'v runtime \<Rightarrow> bool" where
  "typed_cells st \<longleftrightarrow> (\<forall>k a. hm_get (cells st) k = Some (Some a) \<longrightarrow> any_type a = any_type_of k)"

lemma typed_cells_other [simp]:
  "typed_cells (st\<lparr>next_arc := n\<rparr>) = typed_cells st"
  "typed_cells (logged acc st) = typed_cells st"
  by (simp_all add: typed_cells_def)

definition typed_factories :: "'v container \<Rightarrow> bool" where
  "typed_factories c \<longleftrightarrow> (\<forall>k f. hm_get (factories c) k = Some f \<longrightarrow> f_any f = any_type_of k)"

interpretation typing: resolution_rel c "\<lambda>ip st st'. typed_factories c \<longrightarrow> typed_cells st \<longrightarrow> typed_cells st'"
  for c :: "'v container"
proof
  fix ip key st and st' :: "'v runtime" and f :: "'v factory" and a
  assume "typed_factories c \<longrightarrow> typed_cells st \<longrightarrow> typed_cells st'" "hm_get (factories c) key = Some f"
  then show "typed_factories c \<longrightarrow> typed_cells st \<longrightarrow>
      typed_cells (st'\<lparr>cells := hm_insert key (Some \<lparr>any_type = f_any f, any_arc = a\<rparr>) (cells st')\<rparr>)"
    by (simp add: typed_cells_def typed_factories_def)
qed simp_all

text \<open>Accesses the type checker admits: \<open>try_get\<close> needs \<open>Clone\<close>, which \<open>TraitObject\<close> is not.\<close>

fun clonable :: "access \<Rightarrow> bool" where
  "clonable (Concrete (RTraitObject T)) = False"
| "clonable acc = True"

lemma any_type_of_access: "clonable acc \<Longrightarrow> any_type_of (access_key acc) = access_any acc"
  by (cases acc rule: clonable.cases) (simp_all add: type_id_of_def trait_object_type_id_def)

lemma downcast_typed: "clonable acc \<Longrightarrow> any_type a = any_type_of (access_key acc) \<Longrightarrow> downcast acc a = Inr (any_arc a)"
  by (simp add: downcast_def any_type_of_access)

text \<open>The supply of \<open>Arc\<close>s and the log only grow.\<close>

interpretation history: resolution_rel c "\<lambda>ip st st'. next_arc st \<le> next_arc st' \<and> prefix (log_lines st) (log_lines st')"
  for c :: "'v container"
  by unfold_locales (auto simp: logged_def)

section \<open>What a resolution returns\<close>

lemma resolve_Val_cell:
  assumes "resolve_in c ip acc st = (Val r, st')" "r \<noteq> Inl (NotRegistered (type_name (access_type acc)))"
  obtains a where "hm_get (cells st') (access_key acc) = Some (Some a)" "r = downcast acc a"
  using assms
  by (cases rule: resolve_cases [where st = st and acc = acc and ip = ip and c = c])
     (auto simp: resolve_eqs bind_outcome_Val_iff)

lemma resolve_NotRegistered:
  "resolve_in c ip acc st = (Val (Inl (NotRegistered n)), st') \<longleftrightarrow>
     hm_get (cells st) (access_key acc) = None \<and> n = type_name (access_type acc) \<and> st' = st"
  by (cases rule: resolve_cases [where st = st and acc = acc and ip = ip and c = c])
     (auto simp: resolve_eqs bind_outcome_Val_iff downcast_def)

lemma resolve_singleton:
  assumes "resolve_in c ip acc st = (Val r, st')"
    and "\<forall>k a. hm_get (cells st') k = Some (Some a) \<longrightarrow> hm_get (cells st'') k = Some (Some a)"
    and "dom (map_of (cells st'')) = dom (map_of (cells st'))"
  shows "resolve_in c' ip' acc st'' = (Val r, st'')"
proof (cases "r = Inl (NotRegistered (type_name (access_type acc)))")
  case True
  with assms have "hm_get (cells st'') (access_key acc) = None"
    by (simp add: resolve_NotRegistered) (metis domIff)
  with True show ?thesis by (simp add: resolve_unregistered)
next
  case False
  with assms show ?thesis by (metis resolve_Val_cell resolve_full)
qed

lemma resolve_no_downcast_error:
  assumes "resolve_in c ip acc st = (Val (Inl e), st')" "typed_factories c" "typed_cells st" "clonable acc"
  shows "e = NotRegistered (type_name (access_type acc))"
proof (rule ccontr)
  assume ne: "e \<noteq> NotRegistered (type_name (access_type acc))"
  have "typed_cells st'" using typing.resolve_in_R [of c st ip acc] assms by simp
  with ne assms show False
    by (auto elim!: resolve_Val_cell simp: typed_cells_def downcast_typed)
qed

lemma get_of_resolve:
  "resolve_in c [] (Concrete T) st = (Val (Inr a), st') \<Longrightarrow> get c T st = (Val a, st')"
  "resolve_in c [] (TraitAccess T) st = (Val (Inr a), st') \<Longrightarrow> get_trait c T st = (Val a, st')"
  by (simp_all add: get_def get_trait_def try_get_def try_get_trait_def)

lemma access_registered:
  "has T c \<longleftrightarrow> access_key (Concrete T) \<in> registered c"
  "has_trait T c \<longleftrightarrow> access_key (TraitAccess T) \<in> registered c"
  by (simp_all add: has_def has_trait_def registered_iff)

section \<open>Deadlock and success\<close>

text \<open>A program that looks up only components of \<open>S\<close>, whatever the answers.\<close>

primrec only_accesses :: "type_id set \<Rightarrow> 'v prog \<Rightarrow> bool" where
  "only_accesses S (ReturnNew v) = True"
| "only_accesses S (ReturnArc a) = True"
| "only_accesses S (Panic m) = True"
| "only_accesses S (Lookup acc k) = (access_key acc \<in> S \<and> (\<forall>r. only_accesses S (k r)))"

text \<open>A program that, while every lookup succeeds, looks up only components of \<open>S\<close> and returns.\<close>

primrec works_on :: "type_id set \<Rightarrow> 'v prog \<Rightarrow> bool" where
  "works_on S (ReturnNew v) = True"
| "works_on S (ReturnArc a) = True"
| "works_on S (Panic m) = False"
| "works_on S (Lookup acc k) = (access_key acc \<in> S \<and> clonable acc \<and> (\<forall>a. works_on S (k (Inr a))))"

lemma works_on_get_prog [simp]:
  "works_on S (get_prog acc k) \<longleftrightarrow> access_key acc \<in> S \<and> clonable acc \<and> (\<forall>a. works_on S (k a))"
  by (simp add: get_prog_def)

definition honest_factories :: "'v container \<Rightarrow> bool" where
  "honest_factories c \<longleftrightarrow>
     (\<forall>k f. hm_get (factories c) k = Some f \<longrightarrow> only_accesses (set (deps_of c k)) (f_prog f))"

definition working_factories :: "'v container \<Rightarrow> bool" where
  "working_factories c \<longleftrightarrow>
     (\<forall>k f. hm_get (factories c) k = Some f \<longrightarrow> works_on (set (deps_of c k)) (f_prog f))"

definition closed_deps :: "'v container \<Rightarrow> bool" where
  "closed_deps c \<longleftrightarrow> (\<forall>k\<in>registered c. set (deps_of c k) \<subseteq> registered c)"

lemma run_prog_no_deadlock:
  "only_accesses S p \<Longrightarrow> (\<And>acc st. access_key acc \<in> S \<Longrightarrow> fst (look acc st) \<noteq> Deadlock) \<Longrightarrow>
   fst (run_prog look p st) \<noteq> Deadlock"
proof (induction p arbitrary: st)
  case (Lookup acc k)
  show ?case
  proof (cases "look acc st")
    case (Pair r st')
    then have "r \<noteq> Deadlock" using Lookup.prems(2) [of acc st] Lookup.prems(1) by simp
    with Pair show ?thesis using Lookup.IH Lookup.prems by (cases r) simp_all
  qed
qed simp_all

lemma dependency_path:
  assumes "\<forall>k\<in>set ip. (k, key) \<in> (edges c)\<^sup>+" "d \<in> set (deps_of c key)"
  shows "\<forall>k\<in>set (key # ip). (k, d) \<in> (edges c)\<^sup>+"
proof -
  have "(key, d) \<in> edges c" using assms(2) by (simp add: edges_def)
  with assms(1) show ?thesis by (auto intro: trancl_into_trancl)
qed

lemma resolve_no_deadlock:
  assumes acyc: "acyclic (edges c)" and honest: "honest_factories c"
  shows "\<forall>k\<in>set ip. (k, access_key acc) \<in> (edges c)\<^sup>+ \<Longrightarrow> fst (resolve_in c ip acc st) \<noteq> Deadlock"
proof (induction ip acc st rule: resolve_induct [of c])
  case (1 ip acc st)
  let ?key = "access_key acc"
  have "?key \<notin> set ip" using 1(2) acyc by (auto simp: acyclic_def)
  show ?case
  proof (cases rule: resolve_cases [where st = st and acc = acc and ip = ip and c = c])
    case (Init f)
    let ?run = "run_prog (resolve_in c (?key # ip)) (f_prog f) (logged acc st)"
    have "fst ?run \<noteq> Deadlock"
    proof (rule run_prog_no_deadlock)
      show "only_accesses (set (deps_of c ?key)) (f_prog f)"
        using honest Init(3) by (simp add: honest_factories_def)
      show "fst (resolve_in c (?key # ip) acc' st') \<noteq> Deadlock" if "access_key acc' \<in> set (deps_of c ?key)" for acc' st'
        by (rule 1(1) [OF Init(3) Init(2)]) (rule dependency_path [OF 1(2) that])
    qed
    with Init show ?thesis
      by (cases ?run; cases "fst ?run") (simp_all add: resolve_init)
  qed (use \<open>?key \<notin> set ip\<close> in \<open>simp_all add: resolve_eqs\<close>)
qed

definition ready :: "'v container \<Rightarrow> 'v runtime \<Rightarrow> bool" where
  "ready c st \<longleftrightarrow> dom (map_of (cells st)) = registered c \<and> typed_cells st"

lemma ready_resolve: "typed_factories c \<Longrightarrow> ready c st \<Longrightarrow> ready c (snd (resolve_in c ip acc st))"
  using grow.resolve_in_R [of ip st c acc] typing.resolve_in_R [of c st ip acc]
  by (simp add: ready_def cells_ext_def)

lemma run_prog_works:
  assumes "works_on S p" "ready c st"
    and "\<And>acc st. access_key acc \<in> S \<Longrightarrow> clonable acc \<Longrightarrow> ready c st \<Longrightarrow>
          (\<exists>a st'. look acc st = (Val (Inr a), st') \<and> ready c st')"
  shows "\<exists>a st'. run_prog look p st = (Val a, st') \<and> ready c st'"
  using assms
proof (induction p arbitrary: st)
  case (Lookup acc k)
  then have "access_key acc \<in> S" "clonable acc" by simp_all
  with Lookup.prems obtain a st' where look: "look acc st = (Val (Inr a), st')" and st': "ready c st'" by blast
  have "\<exists>b st''. run_prog look (k (Inr a)) st' = (Val b, st'') \<and> ready c st''"
    by (rule Lookup.IH [OF rangeI]) (use Lookup.prems st' in auto)
  with look show ?case by simp
qed (simp_all add: ready_def typed_cells_def)

lemma resolve_works:
  assumes acyc: "acyclic (edges c)" and typed: "typed_factories c" and work: "working_factories c"
    and closed: "closed_deps c"
  shows "\<forall>k\<in>set ip. (k, access_key acc) \<in> (edges c)\<^sup>+ \<Longrightarrow> access_key acc \<in> registered c \<Longrightarrow>
         clonable acc \<Longrightarrow> ready c st \<Longrightarrow>
         \<exists>a st'. resolve_in c ip acc st = (Val (Inr a), st') \<and> ready c st'"
proof (induction ip acc st rule: resolve_induct [of c])
  case (1 ip acc st)
  let ?key = "access_key acc" and ?r = "resolve_in c ip acc st"
  have new: "?key \<notin> set ip" using 1(2) acyc by (auto simp: acyclic_def)
  obtain f where f: "hm_get (factories c) ?key = Some f" using 1(3) by (auto simp: registered_iff)
  have "\<exists>a st'. ?r = (Val (downcast acc a), st') \<and> any_type a = any_type_of ?key"
  proof (cases rule: resolve_cases [where st = st and acc = acc and ip = ip and c = c])
    case (Full a)
    with 1(5) have "any_type a = any_type_of ?key" by (simp add: ready_def typed_cells_def)
    with Full show ?thesis by (auto simp: resolve_full)
  next
    case (Init f)
    have "\<exists>a st'. run_prog (resolve_in c (?key # ip)) (f_prog f) (logged acc st) = (Val a, st') \<and> ready c st'"
    proof (rule run_prog_works)
      show "works_on (set (deps_of c ?key)) (f_prog f)"
        using work Init(3) by (simp add: working_factories_def)
      show "ready c (logged acc st)" using 1(5) by (simp add: ready_def)
      fix acc' and st' :: "'a runtime"
      assume dep: "access_key acc' \<in> set (deps_of c ?key)" and "clonable acc'" "ready c st'"
      moreover have "access_key acc' \<in> registered c" using dep closed 1(3) by (auto simp: closed_deps_def)
      ultimately show "\<exists>a st''. resolve_in c (?key # ip) acc' st' = (Val (Inr a), st'') \<and> ready c st''"
        using 1(1) [OF Init(3) Init(2)] dependency_path [OF 1(2) dep] by blast
    qed
    then show ?thesis using Init typed by (auto simp: resolve_init typed_factories_def)
  qed (use 1(3,5) new f in \<open>auto simp: ready_def\<close>)
  then obtain a st' where "?r = (Val (downcast acc a), st')" and a: "any_type a = any_type_of ?key" by blast
  then have "?r = (Val (Inr (any_arc a)), st')" by (simp add: downcast_typed [OF 1(4) a])
  moreover have "ready c (snd ?r)" using typed 1(5) by (rule ready_resolve)
  ultimately show ?case by simp
qed

section \<open>What validation shows\<close>

lemma validate_cell_init:
  assumes "hm_get (cells st) key = Some None" "hm_get (factories c) key = Some f"
  shows "validate_cell c key errors st =
     (case run_prog (resolve_in c [key]) (f_prog f) st of
        (Val a, st') \<Rightarrow> (Val errors, st'\<lparr>cells := hm_insert key (Some \<lparr>any_type = f_any f, any_arc = a\<rparr>) (cells st')\<rparr>)
      | (Panicked _, st') \<Rightarrow> (Val (errors @ [FactoryPanic (name_of c key)]), st')
      | (Deadlock, st') \<Rightarrow> (Deadlock, st'))"
  using assms
  by (cases "run_prog (resolve_in c [key]) (f_prog f) st"; cases "fst (run_prog (resolve_in c [key]) (f_prog f) st)")
     (simp_all add: validate_cell_def get_or_init_def call_factory_def)

lemma validate_cell_Val:
  assumes "validate_cell c key errors st = (Val errors', st')"
  shows "prefix errors errors'"
    and "errors' = [] \<Longrightarrow> hm_get (cells st) key \<noteq> None \<Longrightarrow> key \<in> registered c \<Longrightarrow>
           \<exists>a. hm_get (cells st') key = Some (Some a)"
proof -
  have "errors' = errors \<and> (hm_get (cells st) key \<noteq> Some None \<or> key \<notin> registered c) \<and> st' = st \<or>
        errors' = errors \<and> (\<exists>a. hm_get (cells st') key = Some (Some a)) \<or>
        errors' = errors @ [FactoryPanic (name_of c key)]"
  proof (cases "hm_get (cells st) key = Some None \<and> key \<in> registered c")
    case True
    then obtain f where f: "hm_get (cells st) key = Some None" "hm_get (factories c) key = Some f"
      by (auto simp: registered_iff)
    show ?thesis
      using assms unfolding validate_cell_init [OF f]
      by (auto split: prod.splits outcome.splits)
  next
    case False
    with assms show ?thesis
      by (auto simp: validate_cell_def registered_iff split: option.splits)
  qed
  then show "prefix errors errors'" and "errors' = [] \<Longrightarrow> hm_get (cells st) key \<noteq> None \<Longrightarrow>
      key \<in> registered c \<Longrightarrow> \<exists>a. hm_get (cells st') key = Some (Some a)"
    by auto
qed

lemma validate_cells_Val:
  assumes "validate_cells c keys errors st = (Val [], st')"
  shows "errors = [] \<and> (\<forall>key\<in>set keys. hm_get (cells st) key \<noteq> None \<longrightarrow> key \<in> registered c \<longrightarrow>
           (\<exists>a. hm_get (cells st') key = Some (Some a)))"
  using assms
proof (induction keys arbitrary: errors st)
  case (Cons key keys)
  from Cons.prems obtain es st1 where cell: "validate_cell c key errors st = (Val es, st1)"
    and rest: "validate_cells c keys es st1 = (Val [], st')"
    by (auto simp: bind_outcome_Val_iff)
  note IH = Cons.IH [OF rest]
  have ext: "cells_ext [] st st1" "cells_ext [] st1 st'"
    using grow.validate_cell_R [of st c key errors] grow.validate_cells_R [of st1 c keys es] cell rest by simp_all
  have "errors = []" using validate_cell_Val(1) [OF cell] IH by simp
  moreover have "\<exists>a. hm_get (cells st') key = Some (Some a)"
    if "hm_get (cells st) key \<noteq> None" "key \<in> registered c"
    using validate_cell_Val(2) [OF cell _ that] IH ext(2) by (auto simp: cells_ext_def)
  moreover have "hm_get (cells st) k \<noteq> None \<Longrightarrow> hm_get (cells st1) k \<noteq> None" for k
    using ext(1) by (auto simp: cells_ext_def dom_def)
  ultimately show ?case using IH by auto
qed simp

lemma ready_validate_cell: "typed_factories c \<Longrightarrow> ready c st \<Longrightarrow> ready c (snd (validate_cell c k es st))"
  using grow.validate_cell_R [of st c k es] typing.validate_cell_R [of c st k es]
  by (simp add: ready_def cells_ext_def)

lemma validate_cell_works:
  assumes acyc: "acyclic (edges c)" and typed: "typed_factories c" and work: "working_factories c"
    and closed: "closed_deps c" and st: "ready c st"
  shows "\<exists>st'. validate_cell c k [] st = (Val [], st') \<and> ready c st'"
proof -
  have "fst (validate_cell c k [] st) = Val []"
  proof (cases "hm_get (cells st) k = Some None \<and> k \<in> registered c")
    case True
    then obtain f where f: "hm_get (cells st) k = Some None" "hm_get (factories c) k = Some f"
      by (auto simp: registered_iff)
    have "\<exists>a st'. run_prog (resolve_in c [k]) (f_prog f) st = (Val a, st') \<and> ready c st'"
    proof (rule run_prog_works [OF _ st])
      show "works_on (set (deps_of c k)) (f_prog f)" using work f(2) by (simp add: working_factories_def)
      fix acc and st' :: "'a runtime"
      assume dep: "access_key acc \<in> set (deps_of c k)" and "clonable acc" "ready c st'"
      moreover have "access_key acc \<in> registered c" using dep closed True by (auto simp: closed_deps_def)
      ultimately show "\<exists>a st''. resolve_in c [k] acc st' = (Val (Inr a), st'') \<and> ready c st''"
        by (intro resolve_works [OF acyc typed work closed]) (auto simp: edges_def)
    qed
    then show ?thesis using validate_cell_init [OF f] by auto
  qed (auto simp: validate_cell_def registered_iff split: option.splits)
  then show ?thesis using ready_validate_cell [OF typed st] by (metis prod.collapse)
qed

lemma validate_cells_work:
  assumes "acyclic (edges c)" "typed_factories c" "working_factories c" "closed_deps c"
  shows "ready c st \<Longrightarrow> \<exists>st'. validate_cells c keys [] st = (Val [], st')"
proof (induction keys arbitrary: st)
  case (Cons k keys)
  obtain st' where "validate_cell c k [] st = (Val [], st')" "ready c st'"
    using validate_cell_works [OF assms Cons.prems] by blast
  with Cons.IH show ?case by simp
qed simp

end
