(* ===== verification/Di_Validate.thy ===== *)
theory Di_Validate
  imports Di_Resolve
begin

text \<open>
  What the container of \<open>stano-di\<close> promises: the properties of cycle detection, resolution and
  start-up validation, with containers of the test module of \<open>container.rs\<close> as instances.
\<close>

section \<open>Containers of the test module\<close>

definition tyc :: "string \<Rightarrow> rty" where
  "tyc n = RConcrete n"

definition unit_after :: "string \<Rightarrow> rty list \<Rightarrow> string prog" where
  "unit_after v Ts = foldr (\<lambda>T p. get_prog (Concrete T) (\<lambda>_. p)) Ts (ReturnNew v)"

definition diamond_container :: "string container" where
  "diamond_container =
     register_with_deps (tyc ''DiamondA'') (unit_after ''a'' [tyc ''DiamondB'', tyc ''DiamondC''])
       ''DiamondA'' [tyc ''DiamondB'', tyc ''DiamondC'']
     (register_with_deps (tyc ''DiamondC'') (unit_after ''c'' [tyc ''DiamondD'']) ''DiamondC'' [tyc ''DiamondD'']
     (register_with_deps (tyc ''DiamondB'') (unit_after ''b'' [tyc ''DiamondD'']) ''DiamondB'' [tyc ''DiamondD'']
     (register_with_deps (tyc ''DiamondD'') (unit_after ''d'' []) ''DiamondD'' [] container_new)))"

definition cycle3_container :: "string container" where
  "cycle3_container =
     register_with_deps (tyc ''CycleC'') (unit_after ''c'' [tyc ''CycleA'']) ''CycleC'' [tyc ''CycleA'']
     (register_with_deps (tyc ''CycleB'') (unit_after ''b'' [tyc ''CycleC'']) ''CycleB'' [tyc ''CycleC'']
     (register_with_deps (tyc ''CycleA'') (unit_after ''a'' [tyc ''CycleB'']) ''CycleA'' [tyc ''CycleB''] container_new))"

definition panics_container :: "string container" where
  "panics_container =
     register (tyc ''Healthy'') (ReturnNew ''1'')
       (register (tyc ''OtherPanicking'') (Panic ''boom b'')
          (register (tyc ''Widget'') (Panic ''boom a'') container_new))"

text \<open>Registration keeps the containers typed, and a new run-time state is ready.\<close>

lemma typed_new [di_wf]: "typed_factories container_new"
  by (simp add: typed_factories_def container_new_def)

lemma typed_register [di_wf]:
  "any_type_of T = T \<Longrightarrow> typed_factories c \<Longrightarrow> typed_factories (register_with_deps T p n ds c)"
  "typed_factories c \<Longrightarrow> typed_factories (register_trait_with_deps T p n ds c)"
  "any_type_of T = T \<Longrightarrow> typed_factories c \<Longrightarrow> typed_factories (register_instance T a c)"
  by (simp_all add: typed_factories_def conc.reg_factories trt.reg_factories inst.reg_factories
        type_id_of_def trait_object_type_id_def)

lemma ready_runtime_of:
  "container_wf c \<Longrightarrow> (\<And>k a. hm_get (singletons c) k = Some (Some a) \<Longrightarrow> any_type a = any_type_of k) \<Longrightarrow>
   ready c (runtime_of c n)"
  by (auto simp: ready_def runtime_of_def typed_cells_def container_wf_dom(1))

lemma works_on_unit_after [simp]:
  "works_on S (unit_after v Ts) \<longleftrightarrow> (\<forall>T\<in>set Ts. T \<in> S \<and> clonable (Concrete T))"
  by (induction Ts) (auto simp: unit_after_def type_id_of_def)

lemma diamond_wf: "container_wf diamond_container"
  by (simp add: diamond_container_def di_wf)

lemma cycle3_wf: "container_wf cycle3_container"
  by (simp add: cycle3_container_def di_wf)

lemma diamond_registered:
  "registered diamond_container = set [tyc ''DiamondD'', tyc ''DiamondB'', tyc ''DiamondC'', tyc ''DiamondA'']"
  by (auto simp: diamond_container_def conc.reg_registered type_id_of_def)

lemma cycle3_registered:
  "registered cycle3_container = set [tyc ''CycleA'', tyc ''CycleB'', tyc ''CycleC'']"
  by (auto simp: cycle3_container_def conc.reg_registered type_id_of_def)

lemma diamond_no_cycles:
  "detect_cycles [tyc ''DiamondD'', tyc ''DiamondB'', tyc ''DiamondC'', tyc ''DiamondA''] diamond_container = []"
  by code_simp

lemma cycle3_cycles:
  "detect_cycles [tyc ''CycleB'', tyc ''CycleC'', tyc ''CycleA''] cycle3_container
     = [CyclicDependency [''CycleB'', ''CycleC'', ''CycleA'']]"
  by code_simp

lemma diamond_ready: "ready diamond_container (runtime_of diamond_container 0)"
  by (rule ready_runtime_of [OF diamond_wf])
     (simp add: diamond_container_def conc.reg_singletons container_new_def split: if_splits)

lemma diamond_typed: "typed_factories diamond_container"
  by (simp add: diamond_container_def di_wf tyc_def)

lemma diamond_acyclic: "acyclic (edges diamond_container)"
  using detect_cycles_Nil_iff [OF diamond_wf] diamond_no_cycles diamond_registered by metis

lemma only_accesses_unit_after: "only_accesses S (unit_after v Ts) \<longleftrightarrow> set Ts \<subseteq> S"
  by (induction Ts) (auto simp: unit_after_def get_prog_def type_id_of_def split: sum.splits)

lemma diamond_honest: "honest_factories diamond_container"
  by (auto simp: honest_factories_def diamond_container_def deps_of_def conc.reg_dependencies conc.reg_factories
        type_id_of_def container_new_def only_accesses_unit_after split: if_splits)

lemma diamond_closed: "closed_deps diamond_container"
  unfolding closed_deps_def diamond_registered
  by (simp add: diamond_container_def deps_of_def conc.reg_dependencies type_id_of_def tyc_def)

lemma diamond_working: "working_factories diamond_container"
  by (auto simp: working_factories_def diamond_container_def deps_of_def conc.reg_dependencies
        conc.reg_factories type_id_of_def tyc_def container_new_def split: if_splits)

definition diamond_order :: "type_id list" where
  "diamond_order = [tyc ''DiamondD'', tyc ''DiamondB'', tyc ''DiamondC'', tyc ''DiamondA'']"

lemma diamond_validates:
  "fst (validate diamond_order diamond_order diamond_container (runtime_of diamond_container 0)) = Val (Inr ())"
  by code_simp

text \<open>
  The search sees the declared dependencies only, and \<open>register\<close> declares none: two components that
  look each other up pass it, and \<open>validate\<close> then enters a cell it is initialising.
\<close>

definition undeclared_cycle :: "string container" where
  "undeclared_cycle =
     register (tyc ''Chicken'') (unit_after ''c'' [tyc ''Egg''])
       (register (tyc ''Egg'') (unit_after ''e'' [tyc ''Chicken'']) container_new)"

lemma undeclared_cycle_blocks:
  "detect_cycles [tyc ''Egg'', tyc ''Chicken''] undeclared_cycle = [] \<and>
   fst (validate [tyc ''Egg'', tyc ''Chicken''] [tyc ''Egg'', tyc ''Chicken''] undeclared_cycle (runtime_of undeclared_cycle 0)) = Deadlock"
  by code_simp

text \<open>What lookups return after a successful validation.\<close>

lemma validated_full:
  assumes "container_wf c" "typed_factories c" "typed_cells st" "dom (map_of (cells st)) = registered c" "set sorder = registered c"
    and ok: "validate korder sorder c st = (Val (Inr ()), st')" and k: "k \<in> registered c"
  shows "\<exists>a. hm_get (cells st') k = Some (Some a) \<and> any_type a = any_type_of k"
proof -
  from ok have "validate_cells c sorder [] st = (Val [], st')"
    by (auto simp: validate_def Let_def bind_outcome_Val_iff split: if_splits)
  from validate_cells_Val [OF this] have "\<exists>a. hm_get (cells st') k = Some (Some a)"
    using k assms(4,5) by (metis domIff)
  moreover have "typed_cells st'"
    using typing.validate_R [of c st korder sorder] assms(2,3) ok by simp
  ultimately show ?thesis by (auto simp: typed_cells_def)
qed

lemma validated_get:
  assumes wf: "container_wf c" and typed: "typed_factories c" "typed_cells st"
    and dom: "dom (map_of (cells st)) = registered c" and order: "set sorder = registered c"
    and ok: "validate korder sorder c st = (Val (Inr ()), st')"
  shows "(has T c \<and> clonable (Concrete T) \<longrightarrow> (\<exists>a. get c T st' = (Val a, st'))) \<and>
         (has_trait T c \<longrightarrow> (\<exists>a. get_trait c T st' = (Val a, st')))"
proof -
  have res: "\<exists>a. resolve_in c [] acc st' = (Val (Inr a), st')" if "access_key acc \<in> registered c" "clonable acc" for acc
    using validated_full [OF assms that(1)] that(2) by (auto simp: resolve_full downcast_typed)
  show ?thesis
    unfolding access_registered
    using res [of "Concrete T"] res [of "TraitAccess T"] get_of_resolve [of c T st']
    by (cases "clonable (Concrete T)") auto
qed

section \<open>Properties\<close>

text \<open>C2.
  On a well-formed container \<open>detect_cycles\<close> reports an error exactly when the declared
  dependencies have a cycle, in whatever order the map gives the roots.\<close>
theorem detect_cycles_complete:
  assumes "container_wf c" "set order = registered c"
  shows "detect_cycles order c = [] \<longleftrightarrow> acyclic (edges c)"
  using assms by (rule detect_cycles_Nil_iff)

theorem detect_cycles_complete_witness:
  "detect_cycles [tyc ''DiamondD'', tyc ''DiamondB'', tyc ''DiamondC'', tyc ''DiamondA''] diamond_container = []
     \<longleftrightarrow> acyclic (edges diamond_container)"
  by (rule detect_cycles_complete [OF diamond_wf diamond_registered [symmetric]])

text \<open>C22.
  Every \<open>CyclicDependency\<close> that is reported is a real cycle: the names, in order, of distinct
  types along a path of declared dependencies whose last type depends on the first.\<close>
theorem detect_cycles_reports_real_cycles:
  assumes "set order = registered c" "e \<in> set (detect_cycles order c)"
  shows "\<exists>p. e = CyclicDependency (map (name_of c) p) \<and> p \<noteq> [] \<and> distinct p \<and>
             successively (\<lambda>a b. b \<in> set (deps_of c a)) p \<and> hd p \<in> set (deps_of c (last p))"
  using detect_cycles_sound [OF assms] by (auto simp: real_cycle_def edges_def)

theorem detect_cycles_reports_real_cycles_witness:
  "\<exists>p. CyclicDependency [''CycleB'', ''CycleC'', ''CycleA''] = CyclicDependency (map (name_of cycle3_container) p) \<and>
       p \<noteq> [] \<and> distinct p \<and> successively (\<lambda>a b. b \<in> set (deps_of cycle3_container a)) p \<and>
       hd p \<in> set (deps_of cycle3_container (last p))"
  by (rule detect_cycles_reports_real_cycles [of "[tyc ''CycleB'', tyc ''CycleC'', tyc ''CycleA'']"])
     (auto simp: cycle3_registered cycle3_cycles)

text \<open>C1.
  The contract of \<open>validate\<close>: once it has returned \<open>Ok(())\<close>, \<open>get\<close> of every registered
  concrete type and \<open>get_trait\<close> of every registered trait return a component; neither panics,
  blocks or runs a factory any more (the state is unchanged).\<close>
theorem validate_Ok_then_get:
  assumes wf: "container_wf c" and typed: "typed_factories c" "typed_cells st"
    and dom: "dom (map_of (cells st)) = registered c" and order: "set sorder = registered c"
    and ok: "validate korder sorder c st = (Val (Inr ()), st')"
  shows "(has T c \<and> clonable (Concrete T) \<longrightarrow> (\<exists>a. get c T st' = (Val a, st'))) \<and>
         (has_trait T c \<longrightarrow> (\<exists>a. get_trait c T st' = (Val a, st')))"
  using assms by (rule validated_get)

theorem validate_Ok_then_get_witness:
  "\<exists>st a. validate diamond_order diamond_order diamond_container (runtime_of diamond_container 0) = (Val (Inr ()), st) \<and>
          get diamond_container (tyc ''DiamondA'') st = (Val a, st)"
proof -
  obtain st where st: "validate diamond_order diamond_order diamond_container (runtime_of diamond_container 0)
      = (Val (Inr ()), st)"
    by (rule that, rule pair_fstI, rule diamond_validates)
  have has: "has (tyc ''DiamondA'') diamond_container \<and> clonable (Concrete (tyc ''DiamondA''))"
    by (simp add: access_registered diamond_registered type_id_of_def) (simp add: tyc_def)
  have order: "set diamond_order = registered diamond_container"
    by (simp only: diamond_registered diamond_order_def)
  note ready = diamond_ready [unfolded ready_def]
  have "\<exists>a. get diamond_container (tyc ''DiamondA'') st = (Val a, st)"
    by (rule validate_Ok_then_get [OF diamond_wf diamond_typed ready [THEN conjunct2] ready [THEN conjunct1]
          order st, THEN conjunct1, THEN mp, OF has])
  with st show ?thesis by blast
qed

text \<open>C5.
  \<open>validate\<close> accepts a sound registry: if the declared dependencies are acyclic and all
  registered, and every factory, as long as its lookups succeed, looks up only what it declares
  and returns, then \<open>validate\<close> returns \<open>Ok(())\<close>: it does not block and no factory panics.\<close>
theorem validate_accepts_sound_registry:
  assumes wf: "container_wf c" and typed: "typed_factories c" and ready: "ready c st"
    and korder: "set korder = registered c" and acyc: "acyclic (edges c)"
    and closed: "closed_deps c" and work: "working_factories c"
  shows "fst (validate korder sorder c st) = Val (Inr ())"
  using validate_cells_work [OF acyc typed work closed ready, of sorder] acyc detect_cycles_Nil_iff [OF wf korder]
  by (auto simp: validate_def)

theorem validate_accepts_sound_registry_witness:
  "fst (validate diamond_order [tyc ''DiamondA'', tyc ''DiamondB''] diamond_container
          (runtime_of diamond_container 7)) = Val (Inr ())"
proof (rule validate_accepts_sound_registry [OF diamond_wf diamond_typed])
  show "ready diamond_container (runtime_of diamond_container 7)"
    using diamond_ready by (simp add: ready_def runtime_of_def typed_cells_def)
  show "set diamond_order = registered diamond_container"
    by (simp add: diamond_registered diamond_order_def)
qed (fact diamond_acyclic diamond_closed diamond_working)+

text \<open>C37.
  If the declared dependencies have a cycle, \<open>validate\<close> returns the cycles as errors before it
  runs any factory: no cell is filled, nothing is logged.\<close>
theorem validate_rejects_cycles:
  assumes wf: "container_wf c" and order: "set korder = registered c" and cyc: "\<not> acyclic (edges c)"
  shows "\<exists>errors. errors \<noteq> [] \<and> (\<forall>e\<in>set errors. real_cycle c e) \<and>
           validate korder sorder c st = (Val (Inl errors), st)"
proof -
  have "detect_cycles korder c \<noteq> []" using cyc detect_cycles_Nil_iff [OF wf order] by simp
  moreover have "\<forall>e\<in>set (detect_cycles korder c). real_cycle c e" using detect_cycles_sound [OF order] by blast
  ultimately show ?thesis by (simp add: validate_def)
qed

lemma cycle3_cyclic: "\<not> acyclic (edges cycle3_container)"
proof -
  have "detect_cycles [tyc ''CycleB'', tyc ''CycleC'', tyc ''CycleA''] cycle3_container \<noteq> []"
    by (simp add: cycle3_cycles)
  moreover have "set [tyc ''CycleB'', tyc ''CycleC'', tyc ''CycleA''] = registered cycle3_container"
    by (auto simp: cycle3_registered)
  ultimately show ?thesis using detect_cycles_Nil_iff [OF cycle3_wf] by blast
qed

theorem validate_rejects_cycles_witness:
  "\<exists>errors. errors \<noteq> [] \<and> (\<forall>e\<in>set errors. real_cycle cycle3_container e) \<and>
     validate [tyc ''CycleA'', tyc ''CycleB'', tyc ''CycleC''] [] cycle3_container (runtime_of cycle3_container 0)
       = (Val (Inl errors), runtime_of cycle3_container 0)"
  by (rule validate_rejects_cycles [OF cycle3_wf cycle3_registered [symmetric] cycle3_cyclic])

text \<open>C10.
  Components are singletons: once \<open>try_get\<close> has returned an \<open>Arc\<close>, \<open>try_get\<close> of that type
  returns the same \<open>Arc\<close>, without running a factory, after any later validation or resolution
  of any component.\<close>
theorem try_get_singleton:
  assumes "try_get c T st = (Val (Inr a), st1)"
    and "st2 = snd (resolve_in c [] acc st1) \<or> st2 = snd (validate korder sorder c st1)"
  shows "try_get c T st2 = (Val (Inr a), st2)"
proof -
  have "cells_ext [] st1 st2"
    using assms(2) grow.resolve_in_R [of "[]" st1 c acc] grow.validate_R [of st1 korder sorder c] by auto
  then show ?thesis
    using assms(1) unfolding try_get_def
    by (intro resolve_singleton [where st' = st1]) (auto simp: cells_ext_def)
qed

theorem try_get_singleton_witness:
  "\<exists>st. try_get diamond_container (tyc ''DiamondD'') st = (Val (Inr \<lparr>arc_id = 0, arc_val = ''d''\<rparr>), st) \<and>
        next_arc st = 4"
proof -
  let ?c = diamond_container
  let ?st1 = "snd (try_get ?c (tyc ''DiamondD'') (runtime_of ?c 0))"
  let ?st2 = "snd (resolve_in ?c [] (Concrete (tyc ''DiamondA'')) ?st1)"
  have "fst (try_get ?c (tyc ''DiamondD'') (runtime_of ?c 0)) = Val (Inr \<lparr>arc_id = 0, arc_val = ''d''\<rparr>)"
    by code_simp
  then have "try_get ?c (tyc ''DiamondD'') (runtime_of ?c 0) = (Val (Inr \<lparr>arc_id = 0, arc_val = ''d''\<rparr>), ?st1)"
    by (rule pair_fstI)
  then have "try_get ?c (tyc ''DiamondD'') ?st2 = (Val (Inr \<lparr>arc_id = 0, arc_val = ''d''\<rparr>), ?st2)"
    by (rule try_get_singleton) (rule disjI1, rule refl)
  moreover have "next_arc ?st2 = 4" by code_simp
  ultimately show ?thesis by blast
qed

text \<open>
  No resolution blocks on an acyclic registry whose factories look up only what they declare,
  whatever else they do: \<open>OnceLock\<close> is never entered a second time by the same thread.\<close>
lemma try_get_no_deadlock:
  assumes "acyclic (edges c)" "honest_factories c"
  shows "fst (try_get c T st) \<noteq> Deadlock \<and> fst (try_get_trait c T st) \<noteq> Deadlock"
  using resolve_no_deadlock [OF assms, of "[]"] by (simp add: try_get_def try_get_trait_def)

lemma panics_honest: "honest_factories panics_container"
  by (auto simp: honest_factories_def panics_container_def register_def conc.reg_factories container_new_def
      split: if_splits)

lemma panics_acyclic: "acyclic (edges panics_container)"
proof -
  have "edges panics_container = {}"
    by (auto simp: edges_def panics_container_def register_def deps_of_def conc.reg_dependencies
        container_new_def split: if_splits)
  then show ?thesis by (simp add: acyclic_def)
qed

lemma try_get_no_deadlock_witness:
  "fst (try_get panics_container (tyc ''Widget'') (runtime_of panics_container 0)) \<noteq> Deadlock"
  by (rule try_get_no_deadlock [OF panics_acyclic panics_honest, THEN conjunct1])

text \<open>C38.
  \<open>try_get\<close> fails exactly for types that are not registered, with \<open>NotRegistered\<close> and no
  effect: in a typed container the downcast never fails.\<close>
theorem try_get_error_iff:
  assumes "typed_factories c" "ready c st" "clonable (Concrete T)"
  shows "try_get c T st = (Val (Inl e), st') \<longleftrightarrow> \<not> has T c \<and> e = NotRegistered (type_name T) \<and> st' = st"
proof -
  have "e = NotRegistered (type_name T)" if "try_get c T st = (Val (Inl e), st')"
    using resolve_no_downcast_error [of c "[]" "Concrete T"] that assms by (simp add: try_get_def ready_def)
  moreover have "hm_get (cells st) (type_id_of T) = None \<longleftrightarrow> \<not> has T c"
    using assms(2) by (simp add: ready_def access_registered) (metis domIff)
  ultimately show ?thesis
    using resolve_NotRegistered [of c "[]" "Concrete T" st "type_name T" st'] by (auto simp: try_get_def)
qed

theorem try_get_error_iff_witness:
  "try_get diamond_container (tyc ''Widget'') (runtime_of diamond_container 0)
     = (Val (Inl (NotRegistered ''Widget'')), runtime_of diamond_container 0)"
proof -
  have "\<not> has (tyc ''Widget'') diamond_container"
    by (simp add: access_registered diamond_registered type_id_of_def tyc_def)
  moreover have "type_name (tyc ''Widget'') = ''Widget''" "clonable (Concrete (tyc ''Widget''))"
    by (simp_all add: tyc_def)
  ultimately show ?thesis using try_get_error_iff [OF diamond_typed diamond_ready] by metis
qed

text \<open>
  Registering a concrete component keeps the container well-formed, makes exactly its own key
  registered with the given name and dependencies and an empty cell, replaces an earlier
  registration of the type instead of adding one, and changes nothing under any other key.\<close>
lemma register_with_deps_contract:
  assumes "container_wf c"
  shows "let c' = register_with_deps T fac tname deps c in
         container_wf c' \<and> registered c' = insert (type_id_of T) (registered c) \<and>
         name_of c' (type_id_of T) = tname \<and> deps_of c' (type_id_of T) = deps \<and>
         hm_get (singletons c') (type_id_of T) = Some None \<and>
         container_len c' = (if has T c then container_len c else Suc (container_len c)) \<and>
         (\<forall>k. k \<noteq> type_id_of T \<longrightarrow>
            hm_get (factories c') k = hm_get (factories c) k \<and> hm_get (singletons c') k = hm_get (singletons c) k \<and>
            name_of c' k = name_of c k \<and> deps_of c' k = deps_of c k)"
  using assms unfolding access_registered Let_def
  by (simp add: conc.reg_wf conc.reg_registered conc.reg_key conc.reg_len conc.reg_other)

lemma register_with_deps_contract_witness:
  "container_len (register_with_deps (tyc ''DiamondD'') (ReturnNew ''e'') ''D2'' [] diamond_container) = 4"
proof -
  have "container_len diamond_container = 4" by code_simp
  moreover have "has (tyc ''DiamondD'') diamond_container"
    by (simp add: access_registered diamond_registered type_id_of_def)
  ultimately show ?thesis
    using register_with_deps_contract [OF diamond_wf, of "tyc ''DiamondD''" "ReturnNew ''e''" "''D2''" "[]"]
    by (simp add: Let_def)
qed

end
