(* ===== verification/Di_Context.thy ===== *)
theory Di_Context
  imports Di_Validate Di_Environment
begin

text \<open>
  \<open>ApplicationContext\<close> of \<open>stano-di\<close> (\<open>application_context.rs\<close>): a container together with
  the environment it was built with. Every operation is the container's.
\<close>

record 'v application_context =
  app_environment :: environment
  app_container :: "'v container"

definition ctx_new :: "environment \<Rightarrow> 'v application_context" where
  "ctx_new env = \<lparr>app_environment = env, app_container = container_new\<rparr>"

definition container_mut ::
  "('v container \<Rightarrow> 'v container) \<Rightarrow> 'v application_context \<Rightarrow> 'v application_context" where
  "container_mut f ctx = ctx\<lparr>app_container := f (app_container ctx)\<rparr>"

definition ctx_register :: "rty \<Rightarrow> 'v prog \<Rightarrow> 'v application_context \<Rightarrow> 'v application_context" where
  "ctx_register T fac ctx = ctx\<lparr>app_container := register T fac (app_container ctx)\<rparr>"

definition ctx_register_trait :: "rty \<Rightarrow> 'v prog \<Rightarrow> 'v application_context \<Rightarrow> 'v application_context" where
  "ctx_register_trait T fac ctx = ctx\<lparr>app_container := register_trait T fac (app_container ctx)\<rparr>"

definition ctx_register_instance :: "rty \<Rightarrow> 'v arc \<Rightarrow> 'v application_context \<Rightarrow> 'v application_context" where
  "ctx_register_instance T a ctx = ctx\<lparr>app_container := register_instance T a (app_container ctx)\<rparr>"

definition ctx_register_component ::
  "('v container \<Rightarrow> 'v container) \<Rightarrow> 'v application_context \<Rightarrow> 'v application_context" where
  "ctx_register_component component_register ctx =
     ctx\<lparr>app_container := register_component component_register (app_container ctx)\<rparr>"

definition ctx_register_all ::
  "('v container \<Rightarrow> 'v container) list \<Rightarrow> 'v application_context \<Rightarrow> 'v application_context" where
  "ctx_register_all registrations ctx = ctx\<lparr>app_container := register_all registrations (app_container ctx)\<rparr>"

definition ctx_get :: "'v application_context \<Rightarrow> rty \<Rightarrow> 'v runtime \<Rightarrow> 'v arc outcome \<times> 'v runtime" where
  "ctx_get ctx T st = get (app_container ctx) T st"

definition ctx_get_trait :: "'v application_context \<Rightarrow> rty \<Rightarrow> 'v runtime \<Rightarrow> 'v arc outcome \<times> 'v runtime" where
  "ctx_get_trait ctx T st = get_trait (app_container ctx) T st"

definition ctx_try_get ::
  "'v application_context \<Rightarrow> rty \<Rightarrow> 'v runtime \<Rightarrow> (container_error + 'v arc) outcome \<times> 'v runtime" where
  "ctx_try_get ctx T st = try_get (app_container ctx) T st"

definition ctx_try_get_trait ::
  "'v application_context \<Rightarrow> rty \<Rightarrow> 'v runtime \<Rightarrow> (container_error + 'v arc) outcome \<times> 'v runtime" where
  "ctx_try_get_trait ctx T st = try_get_trait (app_container ctx) T st"

definition ctx_environment :: "'v application_context \<Rightarrow> environment" where
  "ctx_environment ctx = app_environment ctx"

definition ctx_validate ::
  "type_id list \<Rightarrow> type_id list \<Rightarrow> 'v application_context \<Rightarrow> 'v runtime \<Rightarrow>
   (container_error list + unit) outcome \<times> 'v runtime" where
  "ctx_validate korder sorder ctx st = validate korder sorder (app_container ctx) st"

text \<open>
  What a builder of contexts promises: it keeps the environment, the container stays
  well-formed, and everything that was registered stays registered.
\<close>

locale context_builder =
  fixes build :: "'v application_context \<Rightarrow> 'v application_context"
  assumes env_kept: "app_environment (build ctx) = app_environment ctx"
    and wf_kept: "container_wf (app_container ctx) \<Longrightarrow> container_wf (app_container (build ctx))"
    and reg_kept: "registered (app_container ctx) \<subseteq> registered (app_container (build ctx))"
begin

lemma builds_keep:
  "container_wf (app_container ctx) \<Longrightarrow>
   app_environment ((build ^^ n) ctx) = app_environment ctx \<and> container_wf (app_container ((build ^^ n) ctx))"
  by (induction n) (simp_all add: env_kept wf_kept)

end

interpretation reg_build: context_builder "ctx_register T fac" for T :: rty and fac :: "'v prog"
  by unfold_locales (auto simp: ctx_register_def register_def di_wf conc.reg_registered)

interpretation trait_build: context_builder "ctx_register_trait T fac" for T :: rty and fac :: "'v prog"
  by unfold_locales (auto simp: ctx_register_trait_def register_trait_def di_wf trt.reg_registered)

interpretation inst_build: context_builder "ctx_register_instance T a" for T :: rty and a :: "'v arc"
  by unfold_locales (auto simp: ctx_register_instance_def di_wf inst.reg_registered)

lemma ctx_new_wf: "container_wf (app_container (ctx_new env)) \<and> ctx_environment (ctx_new env) = env"
  by (simp add: ctx_new_def ctx_environment_def di_wf)

end
