(* ===== verification/Di_Threads.thy ===== *)
theory Di_Threads
  imports Di_Resolve
begin

text \<open>
  Lookups by several threads at the same time. A container is shared between the threads of the
  server; what they change are the \<open>OnceLock\<close> cells, the supply of \<open>Arc\<close>s and the log. The steps
  of a thread are those of \<open>try_get\<close> and \<open>try_get_trait\<close> (\<open>container.rs\<close>) between which another
  thread may run: entering a cell, a lookup of the factory, the end of the factory, the release of
  a cell by a panic. \<open>OnceLock\<close> as its documentation has it: the thread that enters an empty cell
  owns it until its factory ends, others wait; a panic leaves the cell empty.
\<close>

section \<open>Threads\<close>

text \<open>
  A frame of a thread's stack: the factory it runs for a lookup, the dynamic type the factory
  returns, and how the factory goes on with the answer it waits for.
\<close>

type_synonym 'v frame = "access \<times> rty \<times> (container_error + 'v arc \<Rightarrow> 'v prog)"

datatype (dead 'v) thread =
    Looking access "'v frame list"
  | Building "'v prog" access rty "'v frame list"
  | Unwinding string "access list"
  | Finished "container_error + 'v arc"
  | Crashed string

fun deliver :: "'v frame list \<Rightarrow> container_error + 'v arc \<Rightarrow> 'v thread" where
  "deliver [] r = Finished r"
| "deliver ((acc, ty, k) # fs) r = Building (k r) acc ty fs"

type_synonym owners = "type_id \<Rightarrow> nat option"

type_synonym 'v local_state = "'v runtime \<times> owners \<times> 'v thread"

text \<open>The end of a factory: the cell is filled and released, and the lookup answers.\<close>

definition fill_cell :: "access \<Rightarrow> rty \<Rightarrow> 'v frame list \<Rightarrow> 'v arc \<Rightarrow> 'v runtime \<Rightarrow> owners \<Rightarrow> 'v local_state" where
  "fill_cell acc ty fs a st own =
     (let any = \<lparr>any_type = ty, any_arc = a\<rparr>
      in (st\<lparr>cells := hm_insert (access_key acc) (Some any) (cells st)\<rparr>, own(access_key acc := None),
          deliver fs (downcast acc any)))"

text \<open>\<open>None\<close>: the thread has ended, or waits for a cell that is owned.\<close>

fun thread_step :: "'v container \<Rightarrow> nat \<Rightarrow> 'v local_state \<Rightarrow> 'v local_state option" where
  "thread_step c t (st, own, Looking acc fs) =
     (let key = access_key acc in
      case hm_get (cells st) key of
        None \<Rightarrow> Some (st, own, deliver fs (Inl (NotRegistered (type_name (access_type acc)))))
      | Some (Some a) \<Rightarrow> Some (st, own, deliver fs (downcast acc a))
      | Some None \<Rightarrow>
          if own key \<noteq> None then None
          else Some (logged acc st, own(key \<mapsto> t),
                 case hm_get (factories c) key of
                   None \<Rightarrow> Unwinding (missing_text acc) (acc # map fst fs)
                 | Some f \<Rightarrow> Building (f_prog f) acc (f_any f) fs))"
| "thread_step c t (st, own, Building (ReturnNew v) acc ty fs) =
     Some (fill_cell acc ty fs \<lparr>arc_id = next_arc st, arc_val = v\<rparr> (st\<lparr>next_arc := Suc (next_arc st)\<rparr>) own)"
| "thread_step c t (st, own, Building (ReturnArc a) acc ty fs) = Some (fill_cell acc ty fs a st own)"
| "thread_step c t (st, own, Building (Panic m) acc ty fs) = Some (st, own, Unwinding m (acc # map fst fs))"
| "thread_step c t (st, own, Building (Lookup acc' k) acc ty fs) = Some (st, own, Looking acc' ((acc, ty, k) # fs))"
| "thread_step c t (st, own, Unwinding m (acc # accs)) = Some (st, own(access_key acc := None), Unwinding m accs)"
| "thread_step c t (st, own, Unwinding m []) = Some (st, own, Crashed m)"
| "thread_step c t (st, own, Finished r) = None"
| "thread_step c t (st, own, Crashed m) = None"

section \<open>The machine\<close>

record 'v machine =
  memory :: "'v runtime"
  owner :: owners
  threads :: "'v thread list"

inductive step :: "'v container \<Rightarrow> 'v machine \<Rightarrow> 'v machine \<Rightarrow> bool" for c where
  step_thread: "t < length (threads m) \<Longrightarrow> thread_step c t (memory m, owner m, threads m ! t) = Some (st, own, th) \<Longrightarrow>
    step c m \<lparr>memory = st, owner = own, threads = (threads m)[t := th]\<rparr>"

definition start :: "access list \<Rightarrow> 'v runtime \<Rightarrow> 'v machine" where
  "start accs st = \<lparr>memory = st, owner = (\<lambda>_. None), threads = map (\<lambda>acc. Looking acc []) accs\<rparr>"

definition reachable :: "'v container \<Rightarrow> access list \<Rightarrow> 'v runtime \<Rightarrow> 'v machine \<Rightarrow> bool" where
  "reachable c accs st m = (step c)\<^sup>*\<^sup>* (start accs st) m"

inductive_cases stepE: "step c m m'"

text \<open>What every step of a thread keeps, of the memory and of itself, the reachable machines have.\<close>

lemma reachable_threads:
  assumes "reachable c accs st m" "I st" "\<And>acc. acc \<in> set accs \<Longrightarrow> J (Looking acc [])"
    and keep: "\<And>t st own th st' own' th'. thread_step c t (st, own, th) = Some (st', own', th') \<Longrightarrow> I st \<Longrightarrow> J th \<Longrightarrow> I st' \<and> J th'"
  shows "I (memory m) \<and> (\<forall>th \<in> set (threads m). J th)"
  using assms(1) unfolding reachable_def
proof (induction rule: rtranclp_induct)
  case base
  show ?case using assms(2,3) by (auto simp: start_def)
next
  case (step m1 m2)
  from step(2) show ?case
  proof (cases rule: step.cases)
    case (step_thread t st own th)
    then have "I st \<and> J th" using keep [OF step_thread(3)] step(3) by simp
    then show ?thesis using step(3) set_update_subset_insert [of "threads m1" t th] by (auto simp: step_thread(1))
  qed
qed

fun ended :: "'v thread \<Rightarrow> bool" where
  "ended (Finished _) = True"
| "ended (Crashed _) = True"
| "ended _ = False"

section \<open>Ownership\<close>

text \<open>The cells a thread owns.\<close>

fun held :: "'v thread \<Rightarrow> type_id list" where
  "held (Looking acc fs) = map (access_key \<circ> fst) fs"
| "held (Building p acc ty fs) = access_key acc # map (access_key \<circ> fst) fs"
| "held (Unwinding m accs) = map access_key accs"
| "held _ = []"

lemma held_deliver [simp]: "held (deliver fs r) = map (access_key \<circ> fst) fs"
  by (cases "(fs, r)" rule: deliver.cases) simp_all

definition ownership :: "'v machine \<Rightarrow> bool" where
  "ownership m \<longleftrightarrow>
     (\<forall>k t. owner m k = Some t \<longleftrightarrow> t < length (threads m) \<and> k \<in> set (held (threads m ! t))) \<and>
     (\<forall>t < length (threads m). distinct (held (threads m ! t))) \<and>
     (\<forall>k. owner m k \<noteq> None \<longrightarrow> hm_get (cells (memory m)) k = Some None)"

text \<open>What a step of a thread does: it takes a cell, fills or gives back the last it took, or neither.\<close>

lemma thread_step_cases [consumes 1, case_names Stay Take Release]:
  assumes "thread_step c t (st, own, th) = Some (st', own', th')"
  obtains "cells st' = cells st" "own' = own" "held th' = held th"
  | key where "cells st' = cells st" "hm_get (cells st) key = Some None" "own key = None" "own' = own(key \<mapsto> t)"
      "held th' = key # held th"
  | key where "held th = key # held th'" "own' = own(key := None)"
      "cells st' = cells st \<or> (\<exists>a. cells st' = hm_insert key (Some a) (cells st))"
proof -
  have "(cells st' = cells st \<and> own' = own \<and> held th' = held th) \<or>
    (\<exists>key. cells st' = cells st \<and> hm_get (cells st) key = Some None \<and> own key = None \<and> own' = own(key \<mapsto> t) \<and>
           held th' = key # held th) \<or>
    (\<exists>key. held th = key # held th' \<and> own' = own(key := None) \<and>
           (cells st' = cells st \<or> (\<exists>a. cells st' = hm_insert key (Some a) (cells st))))"
    using assms
    by (cases "(c, t, (st, own, th))" rule: thread_step.cases)
       (auto simp: fill_cell_def Let_def o_def split: option.splits if_splits)
  then show thesis using that by blast
qed

text \<open>Ownership is an invariant: a cell has at most one owner, which is building it, and is empty.\<close>

lemma ownership_start: "ownership (start accs st)"
  by (simp add: ownership_def start_def)

lemma ownership_step:
  assumes "step c m m'" "ownership m"
  shows "ownership m'"
  using assms(1)
proof (cases rule: step.cases)
  case (step_thread t st own th)
  let ?th = "threads m ! t" and ?ths = "threads m"
  have own: "owner m k = Some u \<longleftrightarrow> u < length ?ths \<and> k \<in> set (held (?ths ! u))" for k u
    using assms(2) by (simp add: ownership_def)
  have dist: "u < length ?ths \<Longrightarrow> distinct (held (?ths ! u))" for u
    using assms(2) by (simp add: ownership_def)
  have empty: "owner m k \<noteq> None \<Longrightarrow> hm_get (cells (memory m)) k = Some None" for k
    using assms(2) by (simp add: ownership_def)
  show ?thesis
    using step_thread(3)
  proof (cases rule: thread_step_cases)
    case Stay
    then show ?thesis using step_thread(1,2) own dist empty by (auto simp: ownership_def nth_list_update)
  next
    case (Take key)
    have "key \<notin> set (held (?ths ! u))" if "u < length ?ths" for u using own [of key u] that Take(3) by simp
    then show ?thesis using Take step_thread(1,2) own dist empty by (auto simp: ownership_def nth_list_update)
  next
    case (Release key)
    have new: "key \<notin> set (held th)" "distinct (held th)" using dist [OF step_thread(2)] Release(1) by simp_all
    have other: "key \<notin> set (held (?ths ! u))" if "u < length ?ths" "u \<noteq> t" for u
      using own [of key u] own [of key t] that Release(1) step_thread(2) by auto
    have kept: "hm_get (cells st) k = Some None" if "k \<noteq> key" "owner m k \<noteq> None" for k
      using that Release(3) empty [OF that(2)] by auto
    show ?thesis
      unfolding ownership_def step_thread(1) Release(2)
    proof (intro conjI allI impI, goal_cases)
      case (1 k u)
      then show ?case using new(1) other own Release(1) step_thread(2) by (auto simp: nth_list_update)
    next
      case (2 u)
      then show ?case using new(2) dist by (cases "u = t") simp_all
    next
      case (3 k)
      then show ?case using kept [of k] by (simp split: if_splits)
    qed
  qed
qed

lemma held_empty:
  "ownership m \<Longrightarrow> t < length (threads m) \<Longrightarrow> k \<in> set (held (threads m ! t)) \<Longrightarrow>
   owner m k = Some t \<and> hm_get (cells (memory m)) k = Some None"
  unfolding ownership_def by blast

lemma ownership_reachable: "reachable c accs st m \<Longrightarrow> ownership m"
  unfolding reachable_def by (induction rule: rtranclp_induct) (auto intro: ownership_start ownership_step)

text \<open>A full cell keeps its instance, and no cell comes or goes.\<close>

lemma step_cells:
  assumes "step c m m'" "ownership m"
  shows "(hm_get (cells (memory m)) k = Some (Some a) \<longrightarrow> hm_get (cells (memory m')) k = Some (Some a)) \<and>
         (hm_get (cells (memory m)) k = None \<longleftrightarrow> hm_get (cells (memory m')) k = None)"
  using assms(1)
proof (cases rule: step.cases)
  case (step_thread t st own th)
  show ?thesis
    using step_thread(3)
  proof (cases rule: thread_step_cases)
    case (Release key)
    have "hm_get (cells (memory m)) key = Some None"
      using held_empty [OF assms(2) step_thread(2), of key] Release(1) by simp
    then show ?thesis using Release(3) by (auto simp: step_thread(1) split: if_splits)
  qed (simp_all add: step_thread(1))
qed

lemma steps_cells:
  assumes "(step c)\<^sup>*\<^sup>* m m'" "ownership m"
  shows "ownership m' \<and>
         (hm_get (cells (memory m)) k = Some (Some a) \<longrightarrow> hm_get (cells (memory m')) k = Some (Some a)) \<and>
         (hm_get (cells (memory m)) k = None \<longleftrightarrow> hm_get (cells (memory m')) k = None)"
  using assms(1)
proof (induction rule: rtranclp_induct)
  case base
  show ?case using assms(2) by simp
next
  case (step m1 m2)
  then have "ownership m1" by simp
  with step show ?case using step_cells [OF step.hyps(2), of k a] ownership_step [OF step.hyps(2)] by simp
qed

section \<open>What a thread returns\<close>

text \<open>The lookup a thread was started with, as long as it runs.\<close>

fun origin :: "'v thread \<Rightarrow> access option" where
  "origin (Looking acc fs) = Some (last (acc # map fst fs))"
| "origin (Building p acc ty fs) = Some (last (acc # map fst fs))"
| "origin _ = None"

text \<open>The answer to a lookup, by the cell it finds.\<close>

fun answer :: "access \<Rightarrow> 'v any option option \<Rightarrow> container_error + 'v arc \<Rightarrow> bool" where
  "answer acc None r \<longleftrightarrow> r = Inl (NotRegistered (type_name (access_type acc)))"
| "answer acc (Some None) r \<longleftrightarrow> False"
| "answer acc (Some (Some a)) r \<longleftrightarrow> r = downcast acc a"

definition answers_origin :: "access list \<Rightarrow> 'v machine \<Rightarrow> bool" where
  "answers_origin accs m \<longleftrightarrow> length (threads m) = length accs \<and>
     (\<forall>t < length accs.
        (\<forall>acc. origin (threads m ! t) = Some acc \<longrightarrow> acc = accs ! t) \<and>
        (\<forall>r. threads m ! t = Finished r \<longrightarrow> answer (accs ! t) (hm_get (cells (memory m)) (access_key (accs ! t))) r))"

lemma origin_deliver: "origin (deliver fs r) = (if fs = [] then None else Some (last (map fst fs)))"
  by (cases fs rule: list.exhaust) (auto split: prod.splits)

lemma deliver_Finished: "deliver fs r = Finished r' \<longleftrightarrow> fs = [] \<and> r = r'"
  by (cases fs rule: list.exhaust) (auto split: prod.splits)

lemmas deliver_simps = origin_deliver deliver_Finished

lemma thread_step_origin:
  assumes "thread_step c t (st, own, th) = Some (st', own', th')"
  shows "(origin th' = Some acc0 \<longrightarrow> origin th = Some acc0) \<and>
         (th' = Finished r \<longrightarrow> (\<exists>acc. origin th = Some acc \<and> answer acc (hm_get (cells st') (access_key acc)) r))"
proof (cases th)
  case (Looking acc fs)
  show ?thesis
  proof (cases "hm_get (cells st) (access_key acc)")
    case None
    then show ?thesis using assms Looking by (auto simp: deliver_simps)
  next
    case (Some cell)
    then show ?thesis using assms Looking
      by (cases cell; cases "hm_get (factories c) (access_key acc)") (auto simp: deliver_simps Let_def split: if_splits)
  qed
next
  case (Building p acc ty fs)
  then show ?thesis using assms by (cases p) (auto simp: fill_cell_def Let_def deliver_simps)
next
  case (Unwinding m accs)
  then show ?thesis using assms by (cases accs) auto
qed (use assms in simp_all)

lemma answer_mono:
  "answer acc cell r \<Longrightarrow> (\<And>a. cell = Some (Some a) \<Longrightarrow> cell' = Some (Some a)) \<Longrightarrow> (cell = None \<longleftrightarrow> cell' = None) \<Longrightarrow>
   answer acc cell' r"
  by (cases "(acc, cell, r)" rule: answer.cases) auto

lemma answers_origin_step:
  assumes "step c m m'" "ownership m" "answers_origin accs m"
  shows "answers_origin accs m'"
  using assms(1)
proof (cases rule: step.cases)
  case (step_thread t st own th)
  note cells = step_cells [OF assms(1,2)]
  have old: "u < length accs \<Longrightarrow> threads m ! u = Finished r \<Longrightarrow>
      answer (accs ! u) (hm_get (cells (memory m')) (access_key (accs ! u))) r" for u r
    by (rule answer_mono [where cell = "hm_get (cells (memory m)) (access_key (accs ! u))"])
       (use assms(3) cells in \<open>auto simp: answers_origin_def\<close>)
  have "origin th = Some acc \<Longrightarrow> acc = accs ! t" "th = Finished r \<Longrightarrow>
      answer (accs ! t) (hm_get (cells (memory m')) (access_key (accs ! t))) r" for acc r
    using thread_step_origin [OF step_thread(3)] assms(3) step_thread(1,2) by (auto simp: answers_origin_def)
  then show ?thesis using assms(3) old step_thread(1,2)
    by (auto simp: answers_origin_def nth_list_update)
qed

lemma answers_origin_reachable: "reachable c accs st m \<Longrightarrow> answers_origin accs m"
  unfolding reachable_def
proof (induction rule: rtranclp_induct)
  case base
  show ?case by (simp add: answers_origin_def start_def)
next
  case (step m1 m2)
  have "ownership m1" using step(1) by (intro ownership_reachable [of c accs st]) (simp add: reachable_def)
  then show ?case by (rule answers_origin_step [OF step(2) _ step(3)])
qed

section \<open>No deadlock\<close>

text \<open>Along the stack of a thread every key is a declared dependency of the one below.\<close>

fun follows :: "'v container \<Rightarrow> type_id \<Rightarrow> 'v frame list \<Rightarrow> bool" where
  "follows c key [] = True"
| "follows c key ((acc, ty, k) # fs) =
     ((access_key acc, key) \<in> edges c \<and> (\<forall>r. only_accesses (set (deps_of c (access_key acc))) (k r)) \<and>
      follows c (access_key acc) fs)"

fun honest_thread :: "'v container \<Rightarrow> 'v thread \<Rightarrow> bool" where
  "honest_thread c (Looking acc fs) = follows c (access_key acc) fs"
| "honest_thread c (Building p acc ty fs) =
     (only_accesses (set (deps_of c (access_key acc))) p \<and> follows c (access_key acc) fs)"
| "honest_thread c _ = True"

lemma honest_deliver: "follows c key fs \<Longrightarrow> honest_thread c (deliver fs r)"
  by (cases fs rule: list.exhaust) (auto split: prod.splits)

lemma thread_step_honest:
  assumes "thread_step c t (st, own, th) = Some (st', own', th')" "honest_thread c th" "honest_factories c"
  shows "honest_thread c th'"
proof (cases th)
  case (Looking acc fs)
  show ?thesis
  proof (cases "hm_get (cells st) (access_key acc)")
    case None
    then show ?thesis using assms Looking by (auto intro: honest_deliver)
  next
    case (Some cell)
    then show ?thesis using assms Looking
      by (cases cell; cases "hm_get (factories c) (access_key acc)")
         (auto simp: Let_def honest_factories_def intro: honest_deliver split: if_splits)
  qed
next
  case (Building p acc ty fs)
  then show ?thesis using assms by (cases p) (auto simp: fill_cell_def Let_def edges_def intro: honest_deliver)
next
  case (Unwinding m accs)
  then show ?thesis using assms by (cases accs) auto
qed (use assms in simp_all)

lemma honest_reachable:
  assumes "honest_factories c" "reachable c accs st m"
  shows "\<forall>th \<in> set (threads m). honest_thread c th"
  by (rule reachable_threads [OF assms(2), of "\<lambda>_. True" "honest_thread c", THEN conjunct2])
     (auto intro: thread_step_honest [OF _ _ assms(1)])

lemma follows_path: "follows c key fs \<Longrightarrow> k \<in> set (map (access_key \<circ> fst) fs) \<Longrightarrow> (k, key) \<in> (edges c)\<^sup>+"
proof (induction c key fs rule: follows.induct)
  case (2 c key acc ty kk fs)
  then show ?case by (auto intro: trancl_into_trancl)
qed simp

text \<open>A thread that cannot go on has ended or waits for a cell that is owned.\<close>

lemma blocked_thread:
  assumes "thread_step c t (st, own, th) = None" "\<not> ended th"
  shows "\<exists>acc fs u. th = Looking acc fs \<and> own (access_key acc) = Some u"
proof (cases th)
  case (Looking acc fs)
  then show ?thesis using assms by (auto simp: Let_def split: option.splits if_splits)
next
  case (Building p acc ty fs)
  then show ?thesis using assms by (cases p) simp_all
next
  case (Unwinding m accs)
  then show ?thesis using assms by (cases accs) simp_all
qed (use assms in simp_all)

fun waits_for :: "'v thread \<Rightarrow> type_id set" where
  "waits_for (Looking acc fs) = {access_key acc}"
| "waits_for _ = {}"

lemma minimal_key:
  assumes "acyclic r" "finite W" "W \<noteq> {}"
  shows "\<exists>w\<in>W. \<forall>w'\<in>W. (w, w') \<notin> r\<^sup>+"
proof -
  let ?R = "{(b, a). (a, b) \<in> r\<^sup>+ \<and> a \<in> W \<and> b \<in> W}"
  have "?R \<subseteq> W \<times> W" by auto
  then have "finite ?R" using assms(2) by (meson finite_SigmaI finite_subset)
  moreover have "acyclic ?R"
  proof -
    have "?R \<subseteq> (r\<^sup>+)\<inverse>" by auto
    moreover have "acyclic ((r\<^sup>+)\<inverse>)" using assms(1) by (simp add: acyclic_converse) (simp add: acyclic_def)
    ultimately show ?thesis by (rule acyclic_subset [rotated])
  qed
  ultimately have "wf ?R" by (rule finite_acyclic_wf)
  then obtain w where "w \<in> W" "\<And>w'. (w', w) \<in> ?R \<Longrightarrow> w' \<notin> W" using assms(3) by (meson wfE_min ex_in_conv)
  then show ?thesis by blast
qed

lemma some_thread_steps:
  assumes own: "ownership m" and honest: "\<forall>th \<in> set (threads m). honest_thread c th" and acyc: "acyclic (edges c)"
    and running: "t < length (threads m)" "\<not> ended (threads m ! t)"
  shows "\<exists>m'. step c m m'"
proof (rule ccontr)
  assume stuck: "\<nexists>m'. step c m m'"
  have waits: "\<exists>acc fs u. threads m ! v = Looking acc fs \<and> owner m (access_key acc) = Some u"
    if "v < length (threads m)" "\<not> ended (threads m ! v)" for v
  proof (rule blocked_thread [OF _ that(2)])
    show "thread_step c v (memory m, owner m, threads m ! v) = None"
      using stuck step_thread [OF that(1), of c] by (metis option.exhaust prod_cases3)
  qed
  let ?W = "\<Union>th \<in> set (threads m). waits_for th"
  have waiting: "threads m ! v = Looking acc fs \<Longrightarrow> v < length (threads m) \<Longrightarrow> access_key acc \<in> ?W" for v acc fs
    by (metis UN_I nth_mem singletonI waits_for.simps(1))
  have "finite (waits_for th)" for th :: "'a thread" by (cases th) simp_all
  then have "finite ?W" by simp
  moreover have "?W \<noteq> {}" using waits [OF running] waiting running(1) by blast
  ultimately obtain w where w: "w \<in> ?W" "\<And>w'. w' \<in> ?W \<Longrightarrow> (w, w') \<notin> (edges c)\<^sup>+"
    using minimal_key [OF acyc, of ?W] by blast
  then obtain v where v: "v < length (threads m)" "w \<in> waits_for (threads m ! v)" by (auto simp: in_set_conv_nth)
  then obtain acc fs where "threads m ! v = Looking acc fs" "w = access_key acc"
    by (cases "threads m ! v") simp_all
  then obtain u where "owner m w = Some u" using waits [OF v(1)] by auto
  then have u: "u < length (threads m)" "w \<in> set (held (threads m ! u))" using own by (simp_all add: ownership_def)
  then have "\<not> ended (threads m ! u)" by (cases "threads m ! u") auto
  then obtain acc' fs' where u': "threads m ! u = Looking acc' fs'" using waits [OF u(1)] by blast
  have "honest_thread c (threads m ! u)" using honest u(1) by simp
  then have "(w, access_key acc') \<in> (edges c)\<^sup>+" using follows_path [of c "access_key acc'" fs' w] u(2) u' by simp
  then show False using w(2) waiting [OF u' u(1)] by blast
qed

section \<open>Every execution ends\<close>

text \<open>
  What gets smaller. A program gets smaller when it goes on with an answer; a thread when the top
  of its stack does, or its stack shrinks; a lookup that takes a cell leaves fewer free ones; and a
  thread that unwinds, which frees cells again, does so once.
\<close>

definition marked :: "(container_error + 'v arc \<Rightarrow> 'v prog) \<Rightarrow> 'v prog" where
  "marked k = Lookup (Concrete (RConcrete [])) k"

fun canon :: "'v prog \<Rightarrow> 'v prog" where
  "canon (Lookup acc k) = marked k"
| "canon p = p"

definition prog_less :: "('v prog \<times> 'v prog) set" where
  "prog_less = {(q, p). \<exists>k r. p = marked k \<and> q = canon (k r)}"

fun stack_of :: "'v thread \<Rightarrow> 'v prog list" where
  "stack_of (Looking acc fs) = map (\<lambda>(acc, ty, k). marked k) fs"
| "stack_of (Building p acc ty fs) = canon p # map (\<lambda>(acc, ty, k). marked k) fs"
| "stack_of _ = []"

fun is_building :: "'v thread \<Rightarrow> nat" where
  "is_building (Building p acc ty fs) = 1"
| "is_building _ = 0"

definition thread_less :: "('v thread \<times> 'v thread) set" where
  "thread_less = inv_image (lenlex prog_less <*lex*> less_than) (\<lambda>th. (stack_of th, is_building th))"

fun active :: "'v thread \<Rightarrow> nat" where
  "active (Looking acc fs) = 1"
| "active (Building p acc ty fs) = 1"
| "active _ = 0"

fun to_unwind :: "'v thread \<Rightarrow> nat" where
  "to_unwind (Unwinding m accs) = Suc (length accs)"
| "to_unwind _ = 0"

definition free_cells :: "'v runtime \<Rightarrow> owners \<Rightarrow> type_id set" where
  "free_cells st own = {k. hm_get (cells st) k = Some None \<and> own k = None}"

lemma wf_prog_less: "wf prog_less"
proof (rule wfUNIVI)
  fix P :: "'v prog \<Rightarrow> bool" and x
  assume "\<forall>p. (\<forall>q. (q, p) \<in> prog_less \<longrightarrow> P q) \<longrightarrow> P p"
  then have ind: "(\<And>q. (q, p) \<in> prog_less \<Longrightarrow> P q) \<Longrightarrow> P p" for p by blast
  have canon: "P (canon p)" for p
  proof (induction p)
    case (Lookup acc k)
    have "P (marked k)"
    proof (rule ind)
      fix q assume "(q, marked k) \<in> prog_less"
      then obtain r where "q = canon (k r)" by (auto simp: prog_less_def marked_def)
      then show "P q" using Lookup [of "k r"] by simp
    qed
    then show ?case by simp
  qed (rule ind, simp add: prog_less_def marked_def)+
  show "P x" by (rule ind) (auto simp: prog_less_def intro: canon)
qed

lemma wf_thread_less: "wf thread_less"
  unfolding thread_less_def by (intro wf_inv_image wf_lex_prod wf_lenlex wf_prog_less wf_less_than)

lemma stack_of_deliver:
  "stack_of (deliver ((acc, ty, k) # fs) r) = canon (k r) # map (\<lambda>(acc, ty, k). marked k) fs"
  by simp

lemma deliver_less:
  assumes "fs \<noteq> []"
  shows "(deliver fs r, Looking acc fs) \<in> thread_less" "(deliver fs r, Building p acc ty fs) \<in> thread_less"
    "active (deliver fs r) = 1" "to_unwind (deliver fs r) = 0"
proof -
  obtain acc' ty' k fs' where fs: "fs = (acc', ty', k) # fs'" using assms by (cases fs) auto
  have "(canon (k r), marked k) \<in> prog_less" by (auto simp: prog_less_def)
  then show "(deliver fs r, Looking acc fs) \<in> thread_less" "(deliver fs r, Building p acc ty fs) \<in> thread_less"
    by (simp_all add: fs thread_less_def lenlex_def)
  show "active (deliver fs r) = 1" "to_unwind (deliver fs r) = 0" by (simp_all add: fs)
qed

lemma free_cells_take:
  "hm_get (cells st) k = Some None \<Longrightarrow> own k = None \<Longrightarrow> free_cells (logged acc st) (own(k \<mapsto> t)) \<subset> free_cells st own"
  by (auto simp: free_cells_def)

lemma free_cells_fill:
  "own (access_key acc) \<noteq> None \<Longrightarrow> fill_cell acc ty fs a st own = (st', own', th') \<Longrightarrow>
   free_cells st' own' = free_cells st own \<and> th' = deliver fs (downcast acc \<lparr>any_type = ty, any_arc = a\<rparr>)"
  by (auto simp: free_cells_def fill_cell_def Let_def split: if_splits)

lemma thread_step_less:
  assumes "thread_step c t (st, own, th) = Some (st', own', th')"
    and "\<And>k. k \<in> set (held th) \<Longrightarrow> own k \<noteq> None"
  shows "active th' < active th \<or> active th' = active th \<and> (to_unwind th' < to_unwind th \<or> to_unwind th' = to_unwind th \<and>
     (free_cells st' own' \<subset> free_cells st own \<or> free_cells st' own' = free_cells st own \<and> (th', th) \<in> thread_less))"
    (is "?less st' own' th'")
proof (cases th)
  case (Looking acc fs)
  have answered: ?thesis if "st' = st" "own' = own" "th' = deliver fs r" for r
    using that Looking by (cases "fs = []") (simp_all add: deliver_less)
  show ?thesis
  proof (cases "hm_get (cells st) (access_key acc)")
    case None
    show ?thesis
      by (rule answered [of "Inl (NotRegistered (type_name (access_type acc)))"]) (use assms(1) Looking None in simp_all)
  next
    case (Some cell)
    show ?thesis
    proof (cases cell)
      case None
      with Some have cell: "hm_get (cells st) (access_key acc) = Some None" by simp
      then have free: "own (access_key acc) = None" using assms(1) Looking by (auto simp: Let_def split: if_splits)
      show ?thesis using assms(1) Looking cell free free_cells_take [where own = own, OF cell free]
        by (cases "hm_get (factories c) (access_key acc)") (auto simp: Let_def)
    next
      case (Some a)
      show ?thesis
        by (rule answered [of "downcast acc a"])
           (use assms(1) Looking Some \<open>hm_get (cells st) (access_key acc) = Some cell\<close> in simp_all)
    qed
  qed
next
  case (Building p acc ty fs)
  have owned: "own (access_key acc) \<noteq> None" using assms(2) Building by simp
  have filled: ?thesis if "fill_cell acc ty fs a st1 own = (st', own', th')" "free_cells st1 own = free_cells st own" for a st1
    using free_cells_fill [OF owned that(1)] that(2) Building by (cases "fs = []") (simp_all add: deliver_less)
  show ?thesis
  proof (cases p)
    case (ReturnNew v)
    show ?thesis by (rule filled [of "\<lparr>arc_id = next_arc st, arc_val = v\<rparr>" "st\<lparr>next_arc := Suc (next_arc st)\<rparr>"])
      (use assms(1) Building ReturnNew in \<open>simp_all add: free_cells_def\<close>)
  next
    case (ReturnArc a)
    show ?thesis by (rule filled [of a st]) (use assms(1) Building ReturnArc in simp_all)
  next
    case (Lookup acc' k)
    then show ?thesis using assms(1) Building by (auto simp: thread_less_def)
  qed (use assms(1) Building in auto)
next
  case (Unwinding m accs)
  then show ?thesis using assms(1) by (cases accs) auto
qed (use assms in simp_all)

text \<open>The whole machine.\<close>

definition machine_less :: "('v machine \<times> 'v machine) set" where
  "machine_less =
     inv_image (less_than <*lex*> less_than <*lex*> less_than <*lex*> listrel1 thread_less)
       (\<lambda>m. (sum_list (map active (threads m)), sum_list (map to_unwind (threads m)),
             card (free_cells (memory m) (owner m)), threads m))"

lemma wf_machine_less: "wf machine_less"
  unfolding machine_less_def
  by (intro wf_inv_image wf_lex_prod wf_less_than) (simp add: wf_listrel1_iff wf_thread_less)

lemma sum_list_update_nat:
  fixes f :: "'a \<Rightarrow> nat"
  assumes "t < length xs"
  shows "sum_list (map f (xs[t := x])) + f (xs ! t) = sum_list (map f xs) + f x"
  using assms elem_le_sum_list [of t "map f xs"] by (simp add: map_update sum_list_update)

lemma finite_free_cells: "finite (free_cells st own)"
proof (rule finite_subset)
  show "free_cells st own \<subseteq> dom (map_of (cells st))" by (auto simp: free_cells_def)
qed (rule finite_dom_map_of)

lemma step_less:
  assumes "step c m m'" "ownership m"
  shows "(m', m) \<in> machine_less"
  using assms(1)
proof (cases rule: step.cases)
  case (step_thread t st own th)
  have "owner m k \<noteq> None" if "k \<in> set (held (threads m ! t))" for k
    using held_empty [OF assms(2) step_thread(2) that] by simp
  note less = thread_step_less [OF step_thread(3) this]
  note active = sum_list_update_nat [OF step_thread(2), of active th]
  note unwind = sum_list_update_nat [OF step_thread(2), of to_unwind th]
  have card: "free_cells st own \<subset> free_cells (memory m) (owner m) \<Longrightarrow>
      card (free_cells st own) < card (free_cells (memory m) (owner m))"
    by (rule psubset_card_mono [OF finite_free_cells])
  have list: "(th, threads m ! t) \<in> thread_less \<Longrightarrow> ((threads m)[t := th], threads m) \<in> listrel1 thread_less"
    by (rule listrel1I [OF _ upd_conv_take_nth_drop [OF step_thread(2)] id_take_nth_drop [OF step_thread(2)]])
  show ?thesis
    using less active unwind card list by (auto simp: machine_less_def step_thread(1))
qed

lemma execution_ends:
  "wfP (\<lambda>m' m. ownership m \<and> step c m m')"
  unfolding wfp_def by (rule wf_subset [OF wf_machine_less]) (auto intro: step_less)

section \<open>Schedules\<close>

text \<open>No thread can make a step.\<close>

definition halted :: "'v container \<Rightarrow> 'v machine \<Rightarrow> bool" where
  "halted c m = list_all (\<lambda>t. Option.is_none (thread_step c t (memory m, owner m, threads m ! t))) [0 ..< length (threads m)]"

lemma halted_iff: "halted c m \<longleftrightarrow> (\<nexists>m'. step c m m')"
proof
  assume "halted c m"
  then show "\<nexists>m'. step c m m'" by (force simp: halted_def list_all_iff elim!: stepE)
next
  assume none: "\<nexists>m'. step c m m'"
  have "Option.is_none (thread_step c t (memory m, owner m, threads m ! t))" if "t < length (threads m)" for t
  proof (cases "thread_step c t (memory m, owner m, threads m ! t)")
    case (Some x)
    obtain st own th where "x = (st, own, th)" by (rule prod_cases3)
    with none step_thread [OF that, of c] Some show ?thesis by blast
  qed simp
  then show "halted c m" by (simp add: halted_def list_all_iff)
qed

text \<open>The threads whose turn it is, one step each; a thread that cannot go on is passed over.\<close>

fun turn :: "'v container \<Rightarrow> nat \<Rightarrow> 'v machine \<Rightarrow> 'v machine" where
  "turn c t m =
     (if t < length (threads m)
      then (case thread_step c t (memory m, owner m, threads m ! t) of
              None \<Rightarrow> m
            | Some (st, own, th) \<Rightarrow> \<lparr>memory = st, owner = own, threads = (threads m)[t := th]\<rparr>)
      else m)"

definition schedule :: "'v container \<Rightarrow> nat list \<Rightarrow> 'v machine \<Rightarrow> 'v machine" where
  "schedule c ts m = fold (turn c) ts m"

lemma turn_steps: "(step c)\<^sup>*\<^sup>* m (turn c t m)"
  by (auto split: option.splits intro: step_thread)

lemma schedule_steps: "(step c)\<^sup>*\<^sup>* m (schedule c ts m)"
proof (induction ts arbitrary: m)
  case (Cons t ts)
  show ?case using rtranclp_trans [OF turn_steps Cons.IH [of "turn c t m"]] by (simp add: schedule_def del: turn.simps)
qed (simp add: schedule_def)

lemma schedule_reachable: "reachable c accs st (schedule c ts (start accs st))"
  unfolding reachable_def by (rule schedule_steps)

text \<open>Every machine that keeps the ownership runs until it halts.\<close>

lemma some_end:
  "ownership m \<Longrightarrow> \<exists>m'. (step c)\<^sup>*\<^sup>* m m' \<and> halted c m'"
proof (induction m rule: wfp_induct_rule [OF execution_ends [of c]])
  case (1 m)
  show ?case
  proof (cases "halted c m")
    case False
    then obtain m1 where m1: "step c m m1" by (auto simp: halted_iff)
    then obtain m' where "(step c)\<^sup>*\<^sup>* m1 m'" "halted c m'"
      using 1 ownership_step [OF m1] by blast
    then show ?thesis using m1 by (blast intro: converse_rtranclp_into_rtranclp)
  qed auto
qed

end
