(* ===== verification/Di_Concurrent.thy ===== *)
theory Di_Concurrent
  imports Di_Threads Di_Validate
begin

text \<open>
  What lookups by several threads promise: a thread that is alone does what \<open>resolve_in\<close> says, and
  any number of threads share the singletons, end, and get what they look up.
\<close>

section \<open>One thread alone\<close>

definition thread_run :: "'v container \<Rightarrow> nat \<Rightarrow> 'v local_state \<Rightarrow> 'v local_state \<Rightarrow> bool" where
  "thread_run c t = (\<lambda>x y. thread_step c t x = Some y)\<^sup>*\<^sup>*"

lemma thread_run_refl [simp]: "thread_run c t x x"
  by (simp add: thread_run_def)

lemma thread_run_step: "thread_step c t x = Some y \<Longrightarrow> thread_run c t y z \<Longrightarrow> thread_run c t x z"
  unfolding thread_run_def by (rule converse_rtranclp_into_rtranclp)

lemma thread_run_1: "thread_step c t x = Some y \<Longrightarrow> thread_run c t x y"
  by (rule thread_run_step [OF _ thread_run_refl])

lemma thread_run_trans: "thread_run c t x y \<Longrightarrow> thread_run c t y z \<Longrightarrow> thread_run c t x z"
  unfolding thread_run_def by (rule rtranclp_trans)

definition stuck_at :: "'v container \<Rightarrow> nat \<Rightarrow> 'v local_state \<Rightarrow> 'v runtime \<Rightarrow> bool" where
  "stuck_at c t x st' \<longleftrightarrow> (\<exists>own acc fs. thread_run c t x (st', own, Looking acc fs) \<and> thread_step c t (st', own, Looking acc fs) = None)"

lemma stuck_at_run: "thread_run c t x y \<Longrightarrow> stuck_at c t y st' \<Longrightarrow> stuck_at c t x st'"
  unfolding stuck_at_def by (blast intro: thread_run_trans)

text \<open>What a run of the sequential model is in steps.\<close>

definition runs_as ::
  "'v container \<Rightarrow> nat \<Rightarrow> 'v local_state \<Rightarrow> ('a outcome \<times> 'v runtime) \<Rightarrow> ('a \<Rightarrow> 'v runtime \<Rightarrow> 'v local_state) \<Rightarrow>
   (string \<Rightarrow> 'v runtime \<Rightarrow> 'v local_state) \<Rightarrow> bool" where
  "runs_as c t x res val pan \<longleftrightarrow>
     (case res of
        (Val r, st') \<Rightarrow> thread_run c t x (val r st')
      | (Panicked m, st') \<Rightarrow> thread_run c t x (pan m st')
      | (Deadlock, st') \<Rightarrow> stuck_at c t x st')"

lemma runs_as_simps [simp]:
  "runs_as c t x (Val r, st') val pan \<longleftrightarrow> thread_run c t x (val r st')"
  "runs_as c t x (Panicked m, st') val pan \<longleftrightarrow> thread_run c t x (pan m st')"
  "runs_as c t x (Deadlock, st') val pan \<longleftrightarrow> stuck_at c t x st'"
  by (simp_all add: runs_as_def)

lemma runs_as_after: "thread_run c t x y \<Longrightarrow> runs_as c t y res val pan \<Longrightarrow> runs_as c t x res val pan"
  by (cases res; cases "fst res") (auto intro: thread_run_trans stuck_at_run)

lemma run_prog_runs:
  assumes "\<And>acc' st k fs'. runs_as c t (st, own, Looking acc' ((acc, ty, k) # fs')) (look acc' st)
      (\<lambda>r st'. (st', own, Building (k r) acc ty fs')) (\<lambda>m st'. (st', own, Unwinding m (acc # map fst fs')))"
  shows "runs_as c t (st, own, Building p acc ty fs) (run_prog look p st)
    (\<lambda>a st'. fill_cell acc ty fs a st' own) (\<lambda>m st'. (st', own, Unwinding m (acc # map fst fs)))"
proof (induction p arbitrary: st)
  case (ReturnNew v)
  show ?case by (simp, rule thread_run_1, simp)
next
  case (ReturnArc a)
  show ?case by (simp, rule thread_run_1, simp)
next
  case (Panic m)
  show ?case by (simp, rule thread_run_1, simp)
next
  case (Lookup acc' k)
  have start: "thread_run c t (st, own, Building (Lookup acc' k) acc ty fs) (st, own, Looking acc' ((acc, ty, k) # fs))"
    by (rule thread_run_1) simp
  show ?case
  proof (rule runs_as_after [OF start], cases "look acc' st")
    case (Pair out st1)
    show "runs_as c t (st, own, Looking acc' ((acc, ty, k) # fs)) (run_prog look (Lookup acc' k) st)
        (\<lambda>a st'. fill_cell acc ty fs a st' own) (\<lambda>m st'. (st', own, Unwinding m (acc # map fst fs)))"
      using assms [of st acc' k fs] Pair runs_as_after [OF _ Lookup [OF rangeI]] by (cases out) auto
  qed
qed

lemma resolve_runs:
  "dom own = set ip \<Longrightarrow>
   runs_as c t (st, own, Looking acc fs) (resolve_in c ip acc st)
     (\<lambda>r st'. (st', own, deliver fs r)) (\<lambda>m st'. (st', own, Unwinding m (map fst fs)))"
proof (induction ip acc st arbitrary: own fs rule: resolve_induct [of c])
  case (1 ip acc st)
  let ?key = "access_key acc"
  show ?case
  proof (cases rule: resolve_cases [where st = st and acc = acc and ip = ip and c = c])
    case Unregistered
    then show ?thesis by (simp add: resolve_unregistered, intro thread_run_1) simp
  next
    case (Full a)
    then show ?thesis by (simp add: resolve_full, intro thread_run_1) simp
  next
    case Reentrant
    then have "own ?key \<noteq> None" using 1(2) by auto
    then have "thread_step c t (st, own, Looking acc fs) = None" using Reentrant(1) by simp
    then have "stuck_at c t (st, own, Looking acc fs) st" unfolding stuck_at_def
      by (intro exI [of _ own] exI [of _ acc] exI [of _ fs]) (simp only: thread_run_refl simp_thms)
    with Reentrant show ?thesis by (simp add: resolve_reentrant)
  next
    case NoFactory
    then have "own ?key = None" using 1(2) by auto
    then have "own(?key := None) = own" by auto
    have "thread_run c t (st, own, Looking acc fs) (logged acc st, own(?key \<mapsto> t), Unwinding (missing_text acc) (acc # map fst fs))"
      by (rule thread_run_1) (use NoFactory \<open>own ?key = None\<close> in simp)
    moreover have "thread_run c t (logged acc st, own(?key \<mapsto> t), Unwinding (missing_text acc) (acc # map fst fs))
        (logged acc st, own, Unwinding (missing_text acc) (map fst fs))"
      by (rule thread_run_1) (simp add: \<open>own(?key := None) = own\<close>)
    ultimately show ?thesis using NoFactory by (simp add: resolve_no_factory) (rule thread_run_trans)
  next
    case (Init f)
    then have free: "own ?key = None" using 1(2) by auto
    then have released: "own(?key := None) = own" by auto
    let ?own = "own(?key \<mapsto> t)"
    have dom: "dom ?own = set (?key # ip)" using 1(2) by auto
    have start: "thread_run c t (st, own, Looking acc fs) (logged acc st, ?own, Building (f_prog f) acc (f_any f) fs)"
      by (rule thread_run_1) (use Init free in simp)
    have "runs_as c t (logged acc st, ?own, Building (f_prog f) acc (f_any f) fs)
        (run_prog (resolve_in c (?key # ip)) (f_prog f) (logged acc st))
        (\<lambda>a st'. fill_cell acc (f_any f) fs a st' ?own) (\<lambda>m st'. (st', ?own, Unwinding m (acc # map fst fs)))"
    proof (rule run_prog_runs)
      fix acc' and st :: "'a runtime" and k fs'
      show "runs_as c t (st, ?own, Looking acc' ((acc, f_any f, k) # fs')) (resolve_in c (?key # ip) acc' st)
        (\<lambda>r st'. (st', ?own, Building (k r) acc (f_any f) fs')) (\<lambda>m st'. (st', ?own, Unwinding m (acc # map fst fs')))"
        using 1(1) [where own = ?own and acc' = acc' and st' = st and fs = "(acc, f_any f, k) # fs'", OF Init(3) Init(2) dom]
        by (simp del: fun_upd_apply)
    qed
    note run = runs_as_after [OF start this]
    show ?thesis
    proof (cases "run_prog (resolve_in c (?key # ip)) (f_prog f) (logged acc st)")
      case (Pair out st1)
      show ?thesis
      proof (cases out)
        case (Val a)
        with run Pair Init released show ?thesis by (simp add: resolve_init fill_cell_def Let_def)
      next
        case (Panicked m)
        have "thread_run c t (st1, ?own, Unwinding m (acc # map fst fs)) (st1, own, Unwinding m (map fst fs))"
          by (rule thread_run_1) (simp add: released)
        with run Pair Init Panicked show ?thesis by (simp add: resolve_init) (rule thread_run_trans)
      qed (use run Pair Init in \<open>simp add: resolve_init\<close>)
    qed
  qed
qed

text \<open>A machine of one thread makes the steps of that thread and no others.\<close>

definition one_thread :: "'v local_state \<Rightarrow> 'v machine" where
  "one_thread x = (case x of (st, own, th) \<Rightarrow> \<lparr>memory = st, owner = own, threads = [th]\<rparr>)"

lemma one_thread_start: "start [acc] st = one_thread (st, \<lambda>_. None, Looking acc [])"
  by (simp add: start_def one_thread_def)

lemma one_thread_step: "step c (one_thread x) m' \<longleftrightarrow> (\<exists>y. thread_step c 0 x = Some y \<and> m' = one_thread y)"
  by (cases x) (auto simp: one_thread_def step.simps)

lemma one_thread_halted: "halted c (one_thread x) \<longleftrightarrow> thread_step c 0 x = None"
  by (cases x) (simp add: halted_def one_thread_def Option.is_none_def)

lemma one_thread_run: "thread_run c 0 x y \<Longrightarrow> (step c)\<^sup>*\<^sup>* (one_thread x) (one_thread y)"
  unfolding thread_run_def
  by (induction rule: rtranclp_induct) (auto simp: one_thread_step intro: rtranclp.rtrancl_into_rtrancl)

lemma one_thread_unique:
  assumes "(step c)\<^sup>*\<^sup>* (one_thread x) m" "halted c m" "thread_run c 0 x y" "thread_step c 0 y = None"
  shows "m = one_thread y"
proof -
  have "(\<lambda>x y. thread_step c 0 x = Some y)\<^sup>*\<^sup>* x y" using assms(3) by (simp add: thread_run_def)
  then show ?thesis using assms(1,2)
  proof (induction arbitrary: m rule: converse_rtranclp_induct)
    case base
    then show ?case using assms(4) by (cases rule: converse_rtranclpE) (auto simp: one_thread_step)
  next
    case (step x x1)
    from step.prems show ?case
    proof (cases rule: converse_rtranclpE)
      case base
      then show ?thesis using step.prems(2) step.hyps(1) by (auto simp: one_thread_halted)
    next
      case (step m1)
      then show ?thesis using step.IH step.prems(2) step.hyps(1) by (auto simp: one_thread_step)
    qed
  qed
qed

lemma one_thread_final:
  assumes "thread_run c 0 (st, \<lambda>_. None, Looking acc []) y" "thread_step c 0 y = None"
  shows "\<forall>m. reachable c [acc] st m \<and> halted c m \<longleftrightarrow> m = one_thread y"
proof (intro allI iffI)
  fix m assume "reachable c [acc] st m \<and> halted c m"
  then have "(step c)\<^sup>*\<^sup>* (one_thread (st, \<lambda>_. None, Looking acc [])) m" "halted c m"
    by (simp_all only: reachable_def one_thread_start)
  then show "m = one_thread y" by (rule one_thread_unique [OF _ _ assms])
next
  fix m assume "m = one_thread y"
  then show "reachable c [acc] st m \<and> halted c m"
    using one_thread_run [OF assms(1)] assms(2) by (simp only: reachable_def one_thread_start one_thread_halted simp_thms)
qed

section \<open>Types and progress of every thread\<close>

text \<open>The factories on the stack return what their keys promise.\<close>

fun typed_thread :: "'v thread \<Rightarrow> bool" where
  "typed_thread (Looking acc fs) \<longleftrightarrow> (\<forall>(acc, ty, k) \<in> set fs. ty = any_type_of (access_key acc))"
| "typed_thread (Building p acc ty fs) \<longleftrightarrow>
     ty = any_type_of (access_key acc) \<and> (\<forall>(acc, ty, k) \<in> set fs. ty = any_type_of (access_key acc))"
| "typed_thread _ \<longleftrightarrow> True"

text \<open>Every factory on the stack can go on with what it looks up, and nothing panics or fails.\<close>

definition working_frame :: "'v container \<Rightarrow> 'v frame \<Rightarrow> bool" where
  "working_frame c = (\<lambda>(acc, ty, k). access_key acc \<in> registered c \<and> clonable acc \<and>
     (\<forall>a. works_on (set (deps_of c (access_key acc))) (k (Inr a))))"

fun working_thread :: "'v container \<Rightarrow> 'v thread \<Rightarrow> bool" where
  "working_thread c (Looking acc fs) \<longleftrightarrow> access_key acc \<in> registered c \<and> clonable acc \<and> list_all (working_frame c) fs"
| "working_thread c (Building p acc ty fs) \<longleftrightarrow> access_key acc \<in> registered c \<and> clonable acc \<and>
     works_on (set (deps_of c (access_key acc))) p \<and> list_all (working_frame c) fs"
| "working_thread c (Finished r) \<longleftrightarrow> (\<exists>a. r = Inr a)"
| "working_thread c (Unwinding m accs) \<longleftrightarrow> False"
| "working_thread c (Crashed m) \<longleftrightarrow> False"

lemma deliver_typed: "(\<forall>(acc, ty, k) \<in> set fs. ty = any_type_of (access_key acc)) \<Longrightarrow> typed_thread (deliver fs r)"
  by (cases "(fs, r)" rule: deliver.cases) auto

lemma deliver_working: "list_all (working_frame c) fs \<Longrightarrow> working_thread c (deliver fs (Inr a))"
  by (cases "(fs, Inr a :: container_error + 'a arc)" rule: deliver.cases) (auto simp: working_frame_def)

lemma typed_cells_fill:
  "typed_cells st \<Longrightarrow> ty = any_type_of (access_key acc) \<Longrightarrow> fill_cell acc ty fs a st own = (st', own', th') \<Longrightarrow> typed_cells st'"
  by (auto simp: fill_cell_def Let_def typed_cells_def split: if_splits)

lemma thread_step_typed:
  assumes "thread_step c t (st, own, th) = Some (st', own', th')" "typed_factories c"
    and "typed_cells st" "typed_thread th"
  shows "typed_cells st' \<and> typed_thread th'"
proof (cases th)
  case (Looking acc fs)
  show ?thesis
  proof (cases "hm_get (cells st) (access_key acc)")
    case None
    then show ?thesis using assms Looking by (auto intro: deliver_typed)
  next
    case (Some cell)
    then show ?thesis using assms Looking
      by (cases cell; cases "hm_get (factories c) (access_key acc)")
         (auto simp: Let_def typed_factories_def intro: deliver_typed split: if_splits)
  qed
next
  case (Building p acc ty fs)
  have filled: ?thesis if "fill_cell acc ty fs a st1 own = (st', own', th')" "typed_cells st1" for a st1
    using typed_cells_fill [OF that(2) _ that(1)] that(1) assms(4) Building
    by (auto simp: fill_cell_def Let_def intro: deliver_typed)
  show ?thesis
  proof (cases p)
    case (ReturnNew v)
    show ?thesis by (rule filled [of "\<lparr>arc_id = next_arc st, arc_val = v\<rparr>" "st\<lparr>next_arc := Suc (next_arc st)\<rparr>"])
      (use assms(1,3) Building ReturnNew in simp_all)
  next
    case (ReturnArc a)
    show ?thesis by (rule filled [of a st]) (use assms(1,3) Building ReturnArc in simp_all)
  qed (use assms Building in auto)
next
  case (Unwinding m accs)
  then show ?thesis using assms by (cases accs) auto
qed (use assms in simp_all)

lemma deliver_downcast:
  "list_all (working_frame c) fs \<Longrightarrow> clonable acc \<Longrightarrow> any_type a = any_type_of (access_key acc) \<Longrightarrow>
   working_thread c (deliver fs (downcast acc a))"
  by (simp add: downcast_typed deliver_working)

lemma thread_step_working:
  assumes "thread_step c t (st, own, th) = Some (st', own', th')" "typed_factories c" "working_factories c" "closed_deps c"
    and "ready c st" "typed_thread th" "working_thread c th"
  shows "ready c st' \<and> working_thread c th'"
proof -
  have typed: "typed_cells st" using assms(5) by (simp add: ready_def)
  have dom: "hm_get (cells st) k \<noteq> None \<longleftrightarrow> hm_get (factories c) k \<noteq> None" for k
    using assms(5) registered_iff [of k c] by (auto simp: ready_def)
  have "dom (map_of (cells st')) = dom (map_of (cells st)) \<and> working_thread c th'"
  proof (cases th)
    case (Looking acc fs)
    then obtain f where f: "hm_get (factories c) (access_key acc) = Some f" using assms(7) by (auto simp: registered_iff)
    then obtain cell where cell: "hm_get (cells st) (access_key acc) = Some cell" using dom [of "access_key acc"] by auto
    show ?thesis
    proof (cases cell)
      case None
      then show ?thesis using assms(1,3,7) Looking f cell
        by (auto simp: Let_def working_factories_def split: if_splits)
    next
      case (Some a)
      then have "any_type a = any_type_of (access_key acc)" using cell typed by (simp add: typed_cells_def)
      then show ?thesis using assms(1,7) Looking cell Some by (auto intro: deliver_downcast)
    qed
  next
    case (Building p acc ty fs)
    have key: "access_key acc \<in> dom (map_of (cells st))" using assms(5,7) Building by (simp add: ready_def)
    have dep: "k \<in> registered c" if "k \<in> set (deps_of c (access_key acc))" for k
      using that assms(4,7) Building by (auto simp: closed_deps_def)
    show ?thesis
    proof (cases p)
      case (Lookup acc' k)
      then show ?thesis using assms(1,7) Building dep by (auto simp: working_frame_def)
    qed (use assms(1,6,7) Building key in \<open>auto simp: fill_cell_def Let_def intro: deliver_downcast split: if_splits\<close>)
  qed (use assms in simp_all)
  then show ?thesis using thread_step_typed [OF assms(1,2) typed assms(6)] assms(5) by (simp add: ready_def)
qed

section \<open>After validation\<close>

text \<open>A thread that finds its cell full, before and after its one step.\<close>

definition found :: "'v runtime \<Rightarrow> access \<Rightarrow> 'v thread \<Rightarrow> bool" where
  "found st acc th \<longleftrightarrow> th = Looking acc [] \<or>
     (\<exists>a. hm_get (cells st) (access_key acc) = Some (Some a) \<and> th = Finished (Inr (any_arc a)))"

lemma found_step:
  assumes "found st acc th" "thread_step c t (st, own, th) = Some (st', own', th')" "clonable acc"
    and "hm_get (cells st) (access_key acc) = Some (Some a)" "any_type a = any_type_of (access_key acc)"
  shows "st' = st \<and> own' = own \<and> found st acc th'"
  using assms by (auto simp: found_def downcast_typed)

lemma full_reachable:
  assumes "\<And>acc. acc \<in> set accs \<Longrightarrow> clonable acc \<and>
      (\<exists>a. hm_get (cells st) (access_key acc) = Some (Some a) \<and> any_type a = any_type_of (access_key acc))"
    and "reachable c accs st m"
  shows "memory m = st \<and> owner m = (\<lambda>_. None) \<and> length (threads m) = length accs \<and>
    (\<forall>t < length accs. found st (accs ! t) (threads m ! t))"
  using assms(2) unfolding reachable_def
proof (induction rule: rtranclp_induct)
  case base
  show ?case by (simp add: start_def found_def)
next
  case (step m1 m2)
  from step(2) show ?case
  proof (cases rule: step.cases)
    case (step_thread t st' own th)
    then have t: "t < length accs" using step(3) by simp
    then obtain a where "clonable (accs ! t)" "hm_get (cells st) (access_key (accs ! t)) = Some (Some a)"
        "any_type a = any_type_of (access_key (accs ! t))" using assms(1) [of "accs ! t"] by auto
    then have "st' = st \<and> own = (\<lambda>_. None) \<and> found st (accs ! t) th"
      using found_step [of st "accs ! t" "threads m1 ! t" c t "\<lambda>_. None" st' own th a] step_thread(3) step(3) t by simp
    then show ?thesis using step(3) t by (auto simp: step_thread(1) nth_list_update)
  qed
qed

section \<open>Three threads on the diamond\<close>

definition three_lookups :: "access list" where
  "three_lookups = [Concrete (tyc ''DiamondB''), Concrete (tyc ''DiamondC''), Concrete (tyc ''DiamondB'')]"

definition diamond_machine :: "nat list \<Rightarrow> string machine" where
  "diamond_machine ts = schedule diamond_container ts (start three_lookups (runtime_of diamond_container 0))"

lemma diamond_reachable: "reachable diamond_container three_lookups (runtime_of diamond_container 0) (diamond_machine ts)"
  unfolding diamond_machine_def by (rule schedule_reachable)

fun result_is :: "'v thread \<Rightarrow> 'v arc \<Rightarrow> bool" where
  "result_is (Finished (Inr a)) b = (a = b)"
| "result_is _ b = False"

lemma result_is_iff: "result_is th b \<longleftrightarrow> th = Finished (Inr b)"
  by (cases "(th, b)" rule: result_is.cases) auto

definition turns :: "nat list" where
  "turns = concat (replicate 9 [0, 1, 2])"

lemma diamond_results:
  "result_is (threads (diamond_machine turns) ! 0) \<lparr>arc_id = 1, arc_val = ''b''\<rparr> \<and>
   result_is (threads (diamond_machine turns) ! 2) \<lparr>arc_id = 1, arc_val = ''b''\<rparr> \<and>
   result_is (threads (diamond_machine turns) ! 1) \<lparr>arc_id = 2, arc_val = ''c''\<rparr>"
  by code_simp

section \<open>Properties\<close>

lemma typed_reachable:
  assumes "reachable c accs st m" "typed_factories c" "typed_cells st"
  shows "typed_cells (memory m)"
  by (rule reachable_threads [OF assms(1), of typed_cells typed_thread, THEN conjunct1])
     (simp_all add: assms(3) thread_step_typed [OF _ assms(2)])

lemma working_reachable:
  assumes "reachable c accs st m" "typed_factories c" "working_factories c" "closed_deps c" "ready c st"
    and "\<forall>acc \<in> set accs. access_key acc \<in> registered c \<and> clonable acc"
  shows "\<forall>th \<in> set (threads m). working_thread c th"
proof -
  have "ready c (memory m) \<and> (\<forall>th \<in> set (threads m). typed_thread th \<and> working_thread c th)"
  proof (rule reachable_threads [OF assms(1)])
    show "ready c st" by (rule assms(5))
    show "typed_thread (Looking acc []) \<and> working_thread c (Looking acc [])" if "acc \<in> set accs" for acc
      using assms(6) that by simp
    fix t st own th st' own' and th' :: "'a thread"
    assume "thread_step c t (st, own, th) = Some (st', own', th')" "ready c st" "typed_thread th \<and> working_thread c th"
    then show "ready c st' \<and> typed_thread th' \<and> working_thread c th'"
      using thread_step_working [OF _ assms(2-4)] thread_step_typed [OF _ assms(2)] by (simp add: ready_def)
  qed
  then show ?thesis by blast
qed

lemma no_deadlock_reachable:
  assumes "reachable c accs st m" "acyclic (edges c)" "honest_factories c" "halted c m"
  shows "\<forall>t < length accs. ended (threads m ! t)"
  using some_thread_steps [OF ownership_reachable [OF assms(1)] honest_reachable [OF assms(3,1)] assms(2)]
    answers_origin_reachable [OF assms(1)] assms(4) by (auto simp: halted_iff answers_origin_def)

lemma halted_thread:
  "halted c m \<Longrightarrow> t < length (threads m) \<Longrightarrow> thread_step c t (memory m, owner m, threads m ! t) = None"
  by (simp add: halted_def list_all_iff Option.is_none_def)

text \<open>C8.
  However many threads look components up at the same time, they share the singletons. No two
  threads are ever initialising the same cell, a cell that is full keeps its instance, and threads
  that are answered with a component for the same key have the same \<open>Arc\<close>, the one in the cell.\<close>
theorem concurrent_lookups_share:
  assumes "reachable c accs st m" "(step c)\<^sup>*\<^sup>* m m'"
  shows "(\<forall>k t u. t < length accs \<and> u < length accs \<and> k \<in> set (held (threads m ! t)) \<and> k \<in> set (held (threads m ! u)) \<longrightarrow> t = u) \<and>
    (\<forall>k a. hm_get (cells (memory m)) k = Some (Some a) \<longrightarrow> hm_get (cells (memory m')) k = Some (Some a)) \<and>
    (\<forall>t u a b. t < length accs \<and> u < length accs \<and> access_key (accs ! t) = access_key (accs ! u) \<and>
       threads m' ! t = Finished (Inr a) \<and> threads m' ! u = Finished (Inr b) \<longrightarrow>
       a = b \<and> (\<exists>x. hm_get (cells (memory m')) (access_key (accs ! t)) = Some (Some x) \<and> any_arc x = a))"
proof -
  have m': "reachable c accs st m'" using assms by (auto simp: reachable_def)
  have own: "ownership m" by (rule ownership_reachable [OF assms(1)])
  have len: "length (threads m) = length accs" using answers_origin_reachable [OF assms(1)] by (simp add: answers_origin_def)
  have one: "t = u" if "t < length accs" "u < length accs" "k \<in> set (held (threads m ! t))" "k \<in> set (held (threads m ! u))" for k t u
    using held_empty [OF own, of t k] held_empty [OF own, of u k] that len by simp
  have cell: "\<exists>x. hm_get (cells (memory m')) (access_key (accs ! t)) = Some (Some x) \<and> any_arc x = a"
    if "t < length accs" "threads m' ! t = Finished (Inr a)" for t a
  proof -
    have "answer (accs ! t) (hm_get (cells (memory m')) (access_key (accs ! t))) (Inr a)"
      using answers_origin_reachable [OF m'] that by (simp add: answers_origin_def)
    then show ?thesis by (cases "(accs ! t, hm_get (cells (memory m')) (access_key (accs ! t)), Inr a :: container_error + 'a arc)" rule: answer.cases)
        (auto simp: downcast_def split: if_splits)
  qed
  show ?thesis
  proof (intro conjI allI impI, goal_cases)
    case (1 k t u) then show ?case using one by blast
  next
    case (2 k a) then show ?case using steps_cells [OF assms(2) own] by blast
  next
    case (3 t u a b) then show ?case using cell [of t a] cell [of u b] by auto
  next
    case (4 t u a b) then show ?case using cell [of t a] by blast
  qed
qed

theorem concurrent_lookups_share_witness:
  "\<exists>a. threads (diamond_machine turns) ! 0 = Finished (Inr a) \<and> threads (diamond_machine turns) ! 2 = Finished (Inr a) \<and>
     (\<exists>x. hm_get (cells (memory (diamond_machine turns))) (tyc ''DiamondB'') = Some (Some x) \<and> any_arc x = a)"
proof -
  let ?b = "\<lparr>arc_id = 1, arc_val = ''b''\<rparr>"
  have "threads (diamond_machine turns) ! 0 = Finished (Inr ?b)" "threads (diamond_machine turns) ! 2 = Finished (Inr ?b)"
    using diamond_results by (simp_all add: result_is_iff)
  moreover note concurrent_lookups_share [OF diamond_reachable rtranclp.rtrancl_refl, of turns, THEN conjunct2, THEN conjunct2,
    rule_format, of 0 2 ?b ?b]
  ultimately show ?thesis by (simp add: three_lookups_def type_id_of_def)
qed



text \<open>
  The machine agrees with the sequential model, from which it is a second translation of the same
  code. A single thread does what \<open>try_get\<close> and \<open>try_get_trait\<close> of the sequential model do: the machine of
  one thread halts in one way only, with the answer and the memory of \<open>resolve_in\<close>, with its panic,
  or, where \<open>resolve_in\<close> says \<open>Deadlock\<close>, waiting for a cell it is itself initialising.\<close>
lemma one_thread_resolves:
  "(case resolve_in c [] acc st of
      (Val r, st') \<Rightarrow> \<forall>m. reachable c [acc] st m \<and> halted c m \<longleftrightarrow>
        m = \<lparr>memory = st', owner = (\<lambda>_. None), threads = [Finished r]\<rparr>
    | (Panicked msg, st') \<Rightarrow> \<forall>m. reachable c [acc] st m \<and> halted c m \<longleftrightarrow>
        m = \<lparr>memory = st', owner = (\<lambda>_. None), threads = [Crashed msg]\<rparr>
    | (Deadlock, st') \<Rightarrow> \<exists>own acc' fs. access_key acc' \<in> set (held (Looking acc' fs)) \<and>
        (\<forall>m. reachable c [acc] st m \<and> halted c m \<longleftrightarrow> m = \<lparr>memory = st', owner = own, threads = [Looking acc' fs]\<rparr>))"
proof -
  let ?x = "(st, \<lambda>_. None, Looking acc [])"
  note final = one_thread_final [of c st acc]
  note run = resolve_runs [of "\<lambda>_. None" "[]" c 0 st acc "[]"]
  show ?thesis
  proof (cases "resolve_in c [] acc st")
    case (Pair out st')
    show ?thesis
    proof (cases out)
      case (Val r)
      then show ?thesis using run Pair final [of "(st', \<lambda>_. None, Finished r)"] by (simp add: one_thread_def)
    next
      case (Panicked msg)
      then have "thread_run c 0 ?x (st', \<lambda>_. None, Unwinding msg [])" using run Pair by simp
      then have "thread_run c 0 ?x (st', \<lambda>_. None, Crashed msg)"
        by (rule thread_run_trans) (rule thread_run_1, simp)
      then show ?thesis using Panicked Pair final [of "(st', \<lambda>_. None, Crashed msg)"] by (simp add: one_thread_def)
    next
      case Deadlock
      then obtain own acc' fs where stuck: "thread_run c 0 ?x (st', own, Looking acc' fs)"
          "thread_step c 0 (st', own, Looking acc' fs) = None" using run Pair by (auto simp: stuck_at_def)
      then have owned: "own (access_key acc') \<noteq> None" using blocked_thread [OF stuck(2)] by auto
      have "ownership (one_thread (st', own, Looking acc' fs))"
        by (rule ownership_reachable [of c "[acc]" st])
           (use one_thread_run [OF stuck(1)] in \<open>simp add: reachable_def one_thread_start\<close>)
      then have "access_key acc' \<in> set (held (Looking acc' fs))"
        using owned by (auto simp: ownership_def one_thread_def)
      then show ?thesis using Deadlock Pair final [OF stuck] by (auto simp: one_thread_def)
    qed
  qed
qed

text \<open>C17.
  Concurrent lookups are typed. Every cell of a reachable machine holds an instance of the type its
  key stands for, and the downcast of no lookup ever fails: a thread that has finished has the
  instance in the cell, or there is no cell and the answer is \<open>NotRegistered\<close>.\<close>
theorem concurrent_lookups_typed:
  assumes "reachable c accs st m" "typed_factories c" "typed_cells st"
  shows "typed_cells (memory m) \<and>
    (\<forall>t r. t < length accs \<and> clonable (accs ! t) \<and> threads m ! t = Finished r \<longrightarrow>
       (case hm_get (cells (memory m)) (access_key (accs ! t)) of
          Some (Some x) \<Rightarrow> r = Inr (any_arc x)
        | Some None \<Rightarrow> False
        | None \<Rightarrow> r = Inl (NotRegistered (type_name (access_type (accs ! t)))) \<and>
            hm_get (cells st) (access_key (accs ! t)) = None))"
proof (intro conjI allI impI)
  show typed: "typed_cells (memory m)" by (rule typed_reachable [OF assms])
  fix t r
  let ?cell = "hm_get (cells (memory m)) (access_key (accs ! t))"
  assume t: "t < length accs \<and> clonable (accs ! t) \<and> threads m ! t = Finished r"
  then have answer: "answer (accs ! t) ?cell r"
    using answers_origin_reachable [OF assms(1)] by (simp add: answers_origin_def)
  have none: "hm_get (cells st) k = None \<longleftrightarrow> hm_get (cells (memory m)) k = None" for k
    using steps_cells [of c "start accs st" m k] assms(1) ownership_start [of accs st] by (simp add: reachable_def start_def)
  show "case ?cell of Some (Some x) \<Rightarrow> r = Inr (any_arc x) | Some None \<Rightarrow> False
        | None \<Rightarrow> r = Inl (NotRegistered (type_name (access_type (accs ! t)))) \<and> hm_get (cells st) (access_key (accs ! t)) = None"
  proof (cases "(accs ! t, ?cell, r)" rule: answer.cases)
    case (3 acc x r')
    then have "any_type x = any_type_of (access_key (accs ! t))" using typed by (auto simp: typed_cells_def)
    then show ?thesis using 3 answer t by (auto simp: downcast_typed)
  qed (use answer none in auto)
qed

theorem concurrent_lookups_typed_witness:
  "typed_cells (memory (diamond_machine turns)) \<and>
   (\<exists>x. hm_get (cells (memory (diamond_machine turns))) (tyc ''DiamondC'') = Some (Some x) \<and> any_arc x = \<lparr>arc_id = 2, arc_val = ''c''\<rparr>)"
proof -
  have "typed_cells (runtime_of diamond_container 0)" using diamond_ready by (simp add: ready_def)
  note typed = concurrent_lookups_typed [OF diamond_reachable diamond_typed this, of turns]
  have "threads (diamond_machine turns) ! 1 = Finished (Inr \<lparr>arc_id = 2, arc_val = ''c''\<rparr>)"
    using diamond_results by (simp add: result_is_iff)
  then have "case hm_get (cells (memory (diamond_machine turns))) (tyc ''DiamondC'') of
      Some (Some x) \<Rightarrow> Inr \<lparr>arc_id = 2, arc_val = ''c''\<rparr> = (Inr (any_arc x) :: container_error + string arc)
    | Some None \<Rightarrow> False | None \<Rightarrow> False"
    using typed [THEN conjunct2, rule_format, of 1 "Inr \<lparr>arc_id = 2, arc_val = ''c''\<rparr>"]
    by (simp add: three_lookups_def tyc_def type_id_of_def split: option.splits)
  then show ?thesis using typed by (auto split: option.splits)
qed

text \<open>C7.
  Concurrent lookups succeed. On a sound registry, acyclic, closed, its factories honest and working,
  whatever the threads have done so far they can go on until each has been answered with a component,
  and however they go on, when none can make a step each has been.\<close>
theorem concurrent_lookups_succeed:
  assumes "acyclic (edges c)" "honest_factories c" "working_factories c" "closed_deps c" "typed_factories c" "ready c st"
    and "\<forall>acc \<in> set accs. access_key acc \<in> registered c \<and> clonable acc"
    and "reachable c accs st m"
  shows "(\<exists>m'. (step c)\<^sup>*\<^sup>* m m' \<and> halted c m') \<and>
    (\<forall>m'. (step c)\<^sup>*\<^sup>* m m' \<and> halted c m' \<longrightarrow> (\<forall>t < length accs. \<exists>a. threads m' ! t = Finished (Inr a)))"
proof (intro conjI allI impI)
  show "\<exists>m'. (step c)\<^sup>*\<^sup>* m m' \<and> halted c m'" by (rule some_end [OF ownership_reachable [OF assms(8)]])
  fix m' t
  assume steps: "(step c)\<^sup>*\<^sup>* m m' \<and> halted c m'" and t: "t < length accs"
  then have m': "reachable c accs st m'" using assms(8) by (auto simp: reachable_def)
  have "working_thread c (threads m' ! t)"
    using working_reachable [OF m' assms(5,3,4,6,7)] answers_origin_reachable [OF m'] t by (simp add: answers_origin_def)
  moreover have "ended (threads m' ! t)" using no_deadlock_reachable [OF m' assms(1,2)] steps t by blast
  ultimately show "\<exists>a. threads m' ! t = Finished (Inr a)" by (cases "threads m' ! t") simp_all
qed

theorem concurrent_lookups_succeed_witness:
  "\<exists>m. (step diamond_container)\<^sup>*\<^sup>* (diamond_machine [0, 1, 0, 2]) m \<and> (\<forall>t \<in> {0, 1, 2}. \<exists>a. threads m ! t = Finished (Inr a))"
proof -
  have "\<forall>acc \<in> set three_lookups. access_key acc \<in> registered diamond_container \<and> clonable acc"
    by (simp add: three_lookups_def diamond_registered tyc_def type_id_of_def)
  note succeed = concurrent_lookups_succeed [OF diamond_acyclic diamond_honest diamond_working diamond_closed
      diamond_typed diamond_ready this diamond_reachable, of "[0, 1, 0, 2]"]
  obtain m where "(step diamond_container)\<^sup>*\<^sup>* (diamond_machine [0, 1, 0, 2]) m" "halted diamond_container m" using succeed by blast
  then show ?thesis using succeed by (intro exI [of _ m]) (simp add: three_lookups_def)
qed

text \<open>C9.
  After a successful \<open>validate\<close> lookups by any number of threads do not interfere: none runs a
  factory, waits, or changes anything, and each is answered in its one step with the instance that
  validation has left in the cell.\<close>
theorem validated_lookups_do_not_interfere:
  assumes "container_wf c" "typed_factories c" "typed_cells st" "dom (map_of (cells st)) = registered c" "set sorder = registered c"
    and "validate korder sorder c st = (Val (Inr ()), st')"
    and "\<forall>acc \<in> set accs. access_key acc \<in> registered c \<and> clonable acc"
    and "reachable c accs st' m"
  shows "memory m = st' \<and> (\<forall>k. owner m k = None) \<and>
    (\<forall>t < length accs. \<exists>a. hm_get (cells st') (access_key (accs ! t)) = Some (Some a) \<and>
       (threads m ! t = Finished (Inr (any_arc a)) \<or>
        threads m ! t = Looking (accs ! t) [] \<and>
        thread_step c t (memory m, owner m, threads m ! t) = Some (memory m, owner m, Finished (Inr (any_arc a)))))"
proof -
  note full = validated_full [OF assms(1-6)]
  have accs: "clonable acc \<and> (\<exists>a. hm_get (cells st') (access_key acc) = Some (Some a) \<and> any_type a = any_type_of (access_key acc))"
    if "acc \<in> set accs" for acc using assms(7) full [of "access_key acc"] that by auto
  note m = full_reachable [OF accs assms(8)]
  have "\<exists>a. hm_get (cells st') (access_key (accs ! t)) = Some (Some a) \<and>
       (threads m ! t = Finished (Inr (any_arc a)) \<or>
        threads m ! t = Looking (accs ! t) [] \<and>
        thread_step c t (memory m, owner m, threads m ! t) = Some (memory m, owner m, Finished (Inr (any_arc a))))"
    if "t < length accs" for t
    using m that accs [of "accs ! t"] by (auto simp: found_def downcast_typed)
  with m show ?thesis by simp
qed

theorem validated_lookups_do_not_interfere_witness:
  "\<exists>st'. validate diamond_order diamond_order diamond_container (runtime_of diamond_container 0) = (Val (Inr ()), st') \<and>
     memory (schedule diamond_container [0, 2, 1] (start three_lookups st')) = st'"
proof -
  let ?st = "runtime_of diamond_container 0"
  obtain st' where ok: "validate diamond_order diamond_order diamond_container ?st = (Val (Inr ()), st')"
    using diamond_validates by (metis prod.collapse)
  have "typed_cells ?st" "dom (map_of (cells ?st)) = registered diamond_container" using diamond_ready by (simp_all add: ready_def)
  moreover have "set diamond_order = registered diamond_container" by (simp add: diamond_registered diamond_order_def)
  moreover have "\<forall>acc \<in> set three_lookups. access_key acc \<in> registered diamond_container \<and> clonable acc"
    by (simp add: three_lookups_def diamond_registered tyc_def type_id_of_def)
  ultimately have "memory (schedule diamond_container [0, 2, 1] (start three_lookups st')) = st'"
    using validated_lookups_do_not_interfere [OF diamond_wf diamond_typed _ _ _ ok _ schedule_reachable] by blast
  with ok show ?thesis by blast
qed

end
