(* ===== verification/Syn_Model.thy ===== *)
theory Syn_Model
  imports Stano_Prelude
begin

text \<open>
  What the procedural macros read of the crates \<open>syn\<close>, \<open>proc_macro2\<close> and
  \<open>proc_macro_crate\<close>: token trees, types, items, and the answer of \<open>crate_name\<close>. The parts of
  a syntax tree the macros only copy are kept as text.
\<close>

section \<open>Token trees\<close>

datatype delimiter = Parenthesis | Brace | Bracket | NoDelimiter

datatype token =
    TIdent string
  | TPunct char
  | TLiteral string
  | TGroup delimiter "token list"

section \<open>Types\<close>

text \<open>A path is its segments, each an identifier with its arguments.\<close>

datatype syn_type =
    TyPath "(string \<times> path_args) list"
  | TyTraitObject string
  | TyOther string
and path_args =
    NoArgs
  | AngleArgs "gen_arg list"
  | ParenArgs string
and gen_arg =
    GenType syn_type
  | GenOther string

section \<open>Items\<close>

datatype bound =
    BoundTrait bool "(string \<times> path_args) list"   \<comment> \<open>leading \<open>::\<close>, segments\<close>
  | BoundOther string

record trait_def =
  t_ident :: string
  t_supertraits :: "bound list"
  t_text :: string

datatype fields =
    FieldsNamed "(string \<times> syn_type) list"
  | FieldsUnit
  | FieldsUnnamed "syn_type list"

record struct_def =
  s_attrs :: "string list"
  s_vis :: string
  s_ident :: string
  s_generics :: string
  s_fields :: fields

datatype fn_arg = Receiver string | Typed syn_type

record fn_def =
  fn_ident :: string
  fn_inputs :: "fn_arg list"
  fn_output :: "syn_type option"
  fn_text :: string

datatype item =
    ItemTrait trait_def
  | ItemStruct struct_def
  | ItemFn fn_def
  | ItemOther string

text \<open>\<open>Path::is_ident\<close>.\<close>

definition is_ident :: "bool \<Rightarrow> (string \<times> path_args) list \<Rightarrow> string \<Rightarrow> bool" where
  "is_ident leading segments n = (\<not> leading \<and> segments = [(n, NoArgs)])"

section \<open>Paths to crates\<close>

datatype found_crate = Itself | Named string

text \<open>The tokens \<open>crate\<close> or \<open>::name\<close>, as path segments.\<close>

datatype crate_root = CrateItself | CrateNamed string

record crate_path =
  cp_root :: crate_root
  cp_segments :: "string list"

fun found_crate_path :: "found_crate \<Rightarrow> crate_root" where
  "found_crate_path Itself = CrateItself"
| "found_crate_path (Named name) = CrateNamed name"

end
