(* ===== verification/Di_Macros.thy ===== *)
theory Di_Macros
  imports Di_Context Syn_Model
begin

text \<open>
  The attribute macros of \<open>stano-di-macros\<close>: \<open>#[component]\<close> and \<open>#[service]\<close> as functions
  from items to what they expand to, and the meaning of the code \<open>#[service]\<close> generates as a
  registration in the container.
\<close>

section \<open>The path to \<open>stano-di\<close>\<close>

text \<open>\<open>crate_name\<close> of \<open>proc_macro_crate\<close> is the argument; \<open>None\<close> is its \<open>Err\<close>. A panic is \<open>Inl\<close>.\<close>

definition di_candidates :: "(string \<times> string list) list" where
  "di_candidates =
     [(''stano-starter'', []), (''stano-starter-domain'', [''stano_starter'']),
      (''stano-starter-rest'', []), (''stano-starter-service'', [''stano_starter''])]"

definition stano_di_path :: "(string \<Rightarrow> found_crate option) \<Rightarrow> string + crate_path" where
  "stano_di_path crate_name =
     (case crate_name ''stano-di'' of
        Some found \<Rightarrow> Inr \<lparr>cp_root = found_crate_path found, cp_segments = []\<rparr>
      | None \<Rightarrow>
          (case find_map (\<lambda>(pkg, extra). map_option (\<lambda>found. (found, extra)) (crate_name pkg)) di_candidates of
             Some (found, extra) \<Rightarrow>
               Inr \<lparr>cp_root = found_crate_path found, cp_segments = extra @ [''stano_di'']\<rparr>
           | None \<Rightarrow>
               Inl (''stano-di-macros: add `stano-di`, `stano-starter`, `stano-starter-domain`, '' @
                    ''`stano-starter-service`, or `stano-starter-rest` as a dependency'')))"

section \<open>\<open>#[component]\<close>\<close>

text \<open>
  The expansion: the trait itself, and the two impls for \<open>dyn Trait\<close>, of which
  \<open>Injectable::get_from\<close> calls \<open>get_trait\<close>. \<open>Inl\<close> stands for a compile error or a panic of
  the macro.
\<close>

record component_expansion =
  ce_trait :: trait_def
  ce_path :: crate_path
  ce_dyn_component_for :: string
  ce_injectable_for :: string

definition has_bound :: "string \<Rightarrow> trait_def \<Rightarrow> bool" where
  "has_bound n t = list_ex (\<lambda>b. case b of BoundTrait l segs \<Rightarrow> is_ident l segs n | BoundOther _ \<Rightarrow> False) (t_supertraits t)"

definition component_trait ::
  "(string \<Rightarrow> found_crate option) \<Rightarrow> trait_def \<Rightarrow> string + component_expansion" where
  "component_trait crate_name t =
     (if \<not> has_bound ''Send'' t \<or> \<not> has_bound ''Sync'' t
      then Inl ''#[component] trait must have Send + Sync supertraits''
      else map_ok (\<lambda>p. \<lparr>ce_trait = t, ce_path = p, ce_dyn_component_for = t_ident t, ce_injectable_for = t_ident t\<rparr>)
             (stano_di_path crate_name))"

fun component_impl :: "(string \<Rightarrow> found_crate option) \<Rightarrow> item \<Rightarrow> string + component_expansion" where
  "component_impl crate_name (ItemTrait t) = component_trait crate_name t"
| "component_impl crate_name other =
     Inl (''#[component] can only be used on traits. Structs do not need this annotation '' @
          [CHR 0xE2, CHR 0x80, CHR 0x94] @
          '' use register() or register_instance() in the container setup.'')"

definition get_from :: "component_expansion \<Rightarrow> 'v container \<Rightarrow> 'v runtime \<Rightarrow> 'v arc outcome \<times> 'v runtime" where
  "get_from e c st = get_trait c (RDyn (ce_injectable_for e)) st"

section \<open>\<open>#[service]\<close>\<close>

text \<open>\<open>extract_arc_inner\<close>: the type argument of a type whose last path segment is \<open>Arc\<close>.\<close>

fun extract_arc_inner :: "syn_type \<Rightarrow> syn_type option" where
  "extract_arc_inner (TyPath segs) =
     (case rev segs of
        (i, AngleArgs (GenType inner # _)) # _ \<Rightarrow> if i = ''Arc'' then Some inner else None
      | _ \<Rightarrow> None)"
| "extract_arc_inner _ = None"

fun is_trait_object :: "syn_type \<Rightarrow> bool" where
  "is_trait_object (TyTraitObject _) = True"
| "is_trait_object _ = False"

text \<open>The expressions generated for a field: its \<open>TypeId\<close> and the call that resolves it.\<close>

datatype dep_expr = TraitObjectTypeId syn_type | TypeIdOf syn_type

datatype get_call = GetTraitCall syn_type | GetCall syn_type

datatype constructor = CtorSelf | CtorFields "string list"

record service_expansion =
  se_struct :: struct_def
  se_path :: crate_path
  se_new_params :: "(string \<times> syn_type) list"
  se_constructor :: constructor
  se_dependency_ids :: "dep_expr list"
  se_get_calls :: "get_call list"
  se_trait :: "syn_type option"
  se_type_name :: string

text \<open>The loop over the named fields, which stops at the first that is not an \<open>Arc<T>\<close>.\<close>

fun service_fields :: "(string \<times> syn_type) list \<Rightarrow> string + (dep_expr \<times> get_call) list" where
  "service_fields [] = Inr []"
| "service_fields ((name, fty) # fs) =
     (case extract_arc_inner fty of
        None \<Rightarrow> Inl ''Fields in #[service] structs must be typed as Arc<T>''
      | Some inner \<Rightarrow>
          map_ok (Cons (if is_trait_object inner then (TraitObjectTypeId inner, GetTraitCall inner)
                        else (TypeIdOf inner, GetCall inner)))
            (service_fields fs))"

definition service_struct ::
  "(string \<Rightarrow> found_crate option) \<Rightarrow> struct_def \<Rightarrow> syn_type option \<Rightarrow> string + service_expansion" where
  "service_struct crate_name s trait_type =
     and_then (stano_di_path crate_name) (\<lambda>path.
     and_then
       (case s_fields s of
          FieldsNamed fs \<Rightarrow> map_ok (\<lambda>es. (fs, es)) (service_fields fs)
        | FieldsUnit \<Rightarrow> Inr ([], [])
        | FieldsUnnamed _ \<Rightarrow> Inl ''#[service] only supports structs with named fields or unit structs'')
       (\<lambda>(fs, es). Inr
          \<lparr>se_struct = s\<lparr>s_attrs := []\<rparr>,
           se_path = path,
           se_new_params = fs,
           se_constructor = (if fs = [] then CtorSelf else CtorFields (map fst fs)),
           se_dependency_ids = map fst es,
           se_get_calls = map snd es,
           se_trait = trait_type,
           se_type_name = s_ident s\<rparr>))"

text \<open>
  \<open>parse_ty\<close> is \<open>syn::parse2::<Type>\<close> on the argument of the attribute.
\<close>

definition service_impl ::
  "(string \<Rightarrow> found_crate option) \<Rightarrow> (token list \<Rightarrow> string + syn_type) \<Rightarrow> token list \<Rightarrow> item \<Rightarrow>
   string + service_expansion" where
  "service_impl crate_name parse_ty attr input =
     (case input of
        ItemStruct s \<Rightarrow>
          (if attr = [] then service_struct crate_name s None
           else case parse_ty attr of
                  Inr ty \<Rightarrow> service_struct crate_name s (Some ty)
                | Inl e \<Rightarrow> Inl (''Failed to parse service trait type: '' @ e))
      | _ \<Rightarrow> Inl ''#[service] can only be used on structs'')"

section \<open>The generated component\<close>

text \<open>
  The meaning of the generated \<open>Component\<close> impl. \<open>rty_of\<close> is how the compiler resolves the
  types the macro copies; \<open>mk\<close> is the struct's constructor on the resolved fields.
\<close>

fun dep_id :: "(syn_type \<Rightarrow> rty) \<Rightarrow> dep_expr \<Rightarrow> type_id" where
  "dep_id rty_of (TraitObjectTypeId t) = trait_object_type_id (rty_of t)"
| "dep_id rty_of (TypeIdOf t) = type_id_of (rty_of t)"

fun call_access :: "(syn_type \<Rightarrow> rty) \<Rightarrow> get_call \<Rightarrow> access" where
  "call_access rty_of (GetTraitCall t) = TraitAccess (rty_of t)"
| "call_access rty_of (GetCall t) = Concrete (rty_of t)"

text \<open>\<open>build\<close>: \<open>Arc::new(Self::new(get_call, ...))\<close>, the calls evaluated in order.\<close>

fun build_prog :: "access list \<Rightarrow> ('v arc list \<Rightarrow> 'v) \<Rightarrow> 'v prog" where
  "build_prog [] mk = ReturnNew (mk [])"
| "build_prog (acc # accs) mk = get_prog acc (\<lambda>a. build_prog accs (\<lambda>as. mk (a # as)))"

definition generated_factory :: "(syn_type \<Rightarrow> rty) \<Rightarrow> ('v arc list \<Rightarrow> 'v) \<Rightarrow> service_expansion \<Rightarrow> 'v prog" where
  "generated_factory rty_of mk e = build_prog (map (call_access rty_of) (se_get_calls e)) mk"

definition generated_deps :: "(syn_type \<Rightarrow> rty) \<Rightarrow> service_expansion \<Rightarrow> type_id list" where
  "generated_deps rty_of e = map (dep_id rty_of) (se_dependency_ids e)"

definition generated_key :: "(syn_type \<Rightarrow> rty) \<Rightarrow> service_expansion \<Rightarrow> type_id" where
  "generated_key rty_of e =
     (case se_trait e of
        Some t \<Rightarrow> trait_object_type_id (rty_of t)
      | None \<Rightarrow> type_id_of (rty_of (TyPath [(s_ident (se_struct e), NoArgs)])))"

definition generated_register ::
  "(syn_type \<Rightarrow> rty) \<Rightarrow> ('v arc list \<Rightarrow> 'v) \<Rightarrow> service_expansion \<Rightarrow> 'v container \<Rightarrow> 'v container" where
  "generated_register rty_of mk e c =
     (case se_trait e of
        Some t \<Rightarrow> register_trait_with_deps (rty_of t) (generated_factory rty_of mk e) (se_type_name e)
                    (generated_deps rty_of e) c
      | None \<Rightarrow> register_with_deps (rty_of (TyPath [(s_ident (se_struct e), NoArgs)]))
                    (generated_factory rty_of mk e) (se_type_name e) (generated_deps rty_of e) c)"

lemma service_fields_keys:
  "service_fields fs = Inr es \<Longrightarrow>
   map (\<lambda>e. dep_id r (fst e)) es = map (\<lambda>e. access_key (call_access r (snd e))) es"
  by (induction fs arbitrary: es) (fastforce simp: map_ok_Inr_iff split: option.splits if_splits)+

lemma works_on_build_prog:
  "works_on S (build_prog accs mk) \<longleftrightarrow> (\<forall>acc\<in>set accs. access_key acc \<in> S \<and> clonable acc)"
  by (induction accs arbitrary: mk) auto

lemma only_accesses_build_prog:
  "(\<forall>acc\<in>set accs. access_key acc \<in> S) \<Longrightarrow> only_accesses S (build_prog accs mk)"
  by (induction accs arbitrary: mk) (auto simp: get_prog_def split: sum.splits)

lemma service_struct_Inr:
  assumes "service_struct cn s t = Inr e"
  shows "\<exists>path fs es. stano_di_path cn = Inr path \<and> service_fields fs = Inr es \<and>
     (s_fields s = FieldsNamed fs \<or> s_fields s = FieldsUnit \<and> fs = []) \<and>
     se_struct e = s\<lparr>s_attrs := []\<rparr> \<and> se_new_params e = fs \<and> se_dependency_ids e = map fst es \<and>
     se_get_calls e = map snd es \<and> se_trait e = t \<and> se_type_name e = s_ident s"
  using assms
  by (auto simp: service_struct_def and_then_Inr_iff map_ok_Inr_iff split: fields.splits)

lemma generated_deps_accesses:
  "service_struct cn s t = Inr e \<Longrightarrow>
   generated_deps r e = map (\<lambda>g. access_key (call_access r g)) (se_get_calls e)"
  using service_struct_Inr [of cn s t e]
  by (auto simp: generated_deps_def o_def dest: service_fields_keys)

text \<open>The calls the type checker admits: a concrete field's type implements \<open>Clone\<close>.\<close>

definition calls_compile :: "(syn_type \<Rightarrow> rty) \<Rightarrow> service_expansion \<Rightarrow> bool" where
  "calls_compile rty_of e = list_all (\<lambda>g. clonable (call_access rty_of g)) (se_get_calls e)"

lemma generated_works:
  "service_struct cn s t = Inr e \<Longrightarrow> calls_compile r e \<Longrightarrow>
   works_on (set (generated_deps r e)) (generated_factory r mk e)"
  by (auto simp: generated_deps_accesses generated_factory_def works_on_build_prog calls_compile_def list_all_iff)

lemma generated_honest:
  "service_struct cn s t = Inr e \<Longrightarrow> only_accesses (set (generated_deps r e)) (generated_factory r mk e)"
  unfolding generated_factory_def
  by (rule only_accesses_build_prog) (auto simp: generated_deps_accesses)

text \<open>A generated registration obeys the contract of registrations.\<close>

interpretation gen: registration
  "generated_register r mk e" "generated_key r e"
  "\<lparr>f_prog = generated_factory r mk e, f_any = (case se_trait e of Some t \<Rightarrow> RArc (r t)
      | None \<Rightarrow> r (TyPath [(s_ident (se_struct e), NoArgs)]))\<rparr>"
  None "se_type_name e" "generated_deps r e"
  for r :: "syn_type \<Rightarrow> rty" and mk :: "'v arc list \<Rightarrow> 'v" and e :: service_expansion
  by unfold_locales
     (simp_all add: generated_register_def generated_key_def conc.reg_simps trt.reg_simps split: option.splits)

section \<open>A registry of services\<close>

definition service_registry ::
  "(syn_type \<Rightarrow> rty) \<Rightarrow> (service_expansion \<times> ('v arc list \<Rightarrow> 'v)) list \<Rightarrow> 'v container \<Rightarrow> 'v container" where
  "service_registry r svcs c = register_all (map (\<lambda>(e, mk). generated_register r mk e) svcs) c"

text \<open>An expansion that the macro produced and the compiler accepts.\<close>

definition accepted :: "(syn_type \<Rightarrow> rty) \<Rightarrow> service_expansion \<Rightarrow> bool" where
  "accepted r e \<longleftrightarrow>
     (\<exists>cn s t. service_struct cn s t = Inr e) \<and> calls_compile r e \<and>
     any_type_of (r (TyPath [(s_ident (se_struct e), NoArgs)])) = r (TyPath [(s_ident (se_struct e), NoArgs)])"

lemma working_generated_register:
  assumes "working_factories c" "accepted r e"
  shows "working_factories (generated_register r mk e c)"
proof -
  obtain cn s t where s: "service_struct cn s t = Inr e" and "calls_compile r e"
    using assms(2) by (auto simp: accepted_def)
  then have work: "works_on (set (generated_deps r e)) (generated_factory r mk e)"
    by (rule generated_works)
  show ?thesis
    unfolding working_factories_def
  proof (intro allI impI)
    fix k f assume f: "hm_get (factories (generated_register r mk e c)) k = Some f"
    show "works_on (set (deps_of (generated_register r mk e c) k)) (f_prog f)"
    proof (cases "k = generated_key r e")
      case True
      then have "f_prog f = generated_factory r mk e" "deps_of (generated_register r mk e c) k = generated_deps r e"
        using f gen.reg_key(1) [of r mk e c] gen.reg_key(4) [of r mk e c] by auto
      with work show ?thesis by simp
    next
      case False
      note other = gen.reg_other [OF False, where mk = mk and c = c]
      show ?thesis
        using assms(1) f unfolding other working_factories_def by blast
    qed
  qed
qed

lemma typed_generated_register:
  assumes "typed_factories c" "accepted r e" shows "typed_factories (generated_register r mk e c)"
  using assms unfolding generated_register_def accepted_def
  by (auto intro: typed_register split: option.splits)

text \<open>
  What a container needs so that services can be added to it: \<open>container_new\<close> has it, and
  registering an instance keeps it.
\<close>

definition sound_base :: "'v container \<Rightarrow> bool" where
  "sound_base c \<longleftrightarrow> container_wf c \<and> typed_factories c \<and> working_factories c \<and>
     (\<forall>k a. hm_get (singletons c) k = Some (Some a) \<longrightarrow> any_type a = any_type_of k)"

lemma sound_base_new [di_wf]: "sound_base container_new"
  by (simp add: sound_base_def di_wf working_factories_def) (simp add: container_new_def)

lemma sound_base_instance [di_wf]:
  assumes "sound_base c" "any_type_of T = T" shows "sound_base (register_instance T a c)"
proof -
  have "working_factories (register_instance T a c)"
    using assms(1) by (simp add: sound_base_def working_factories_def inst.reg_factories deps_of_def inst.reg_dependencies)
  with assms show ?thesis
    by (simp add: sound_base_def di_wf inst.reg_singletons type_id_of_def)
qed

lemma sound_base_service [di_wf]:
  assumes "sound_base c" "accepted r e" shows "sound_base (generated_register r mk e c)"
  using assms gen.reg_wf [of c r mk e] working_generated_register [of c r e mk] typed_generated_register [of c r e mk]
  by (simp add: sound_base_def gen.reg_singletons)

lemma service_registry_sound:
  assumes "\<And>e mk. (e, mk) \<in> set svcs \<Longrightarrow> accepted r e" "sound_base c"
  shows "sound_base (service_registry r svcs c)"
    and "registered (service_registry r svcs c) = registered c \<union> generated_key r ` fst ` set svcs"
proof -
  have "sound_base (service_registry r svcs c) \<and>
        registered (service_registry r svcs c) = registered c \<union> generated_key r ` fst ` set svcs"
    using assms
  proof (induction svcs arbitrary: c)
    case (Cons p svcs)
    obtain e mk where p: "p = (e, mk)" by (cases p)
    have acc: "accepted r e" by (rule Cons.prems(1) [of e mk]) (simp add: p)
    have acc': "\<And>e mk. (e, mk) \<in> set svcs \<Longrightarrow> accepted r e" using Cons.prems(1) by (meson list.set_intros(2))
    show ?case
      using Cons.IH [OF acc' sound_base_service [OF Cons.prems(2) acc, of mk]]
      by (simp add: p service_registry_def register_all_def gen.reg_registered)
  qed (simp add: service_registry_def register_all_def)
  then show "sound_base (service_registry r svcs c)"
    and "registered (service_registry r svcs c) = registered c \<union> generated_key r ` fst ` set svcs" by blast+
qed

lemma sound_base_validates:
  assumes "sound_base c" "acyclic (edges c)" "closed_deps c" "set korder = registered c"
  shows "fst (validate korder sorder c (runtime_of c n)) = Val (Inr ())"
proof -
  have "ready c (runtime_of c n)"
    using assms(1) by (intro ready_runtime_of) (auto simp: sound_base_def)
  then show ?thesis
    using assms validate_cells_work [of c "runtime_of c n" sorder] detect_cycles_Nil_iff [of c korder]
    by (auto simp: validate_def sound_base_def)
qed

section \<open>The services of the example application\<close>

text \<open>
  \<open>WidgetServiceImpl\<close> (\<open>services/src/lib.rs\<close>) and \<open>SeaOrmWidgetRepository\<close>
  (\<open>persistence/src/lib.rs\<close>), with the argument of their \<open>#[service(...)]\<close>.
\<close>

definition arc_of :: "syn_type \<Rightarrow> syn_type" where
  "arc_of t = TyPath [(''Arc'', AngleArgs [GenType t])]"

definition widget_service_impl :: struct_def where
  "widget_service_impl = \<lparr>s_attrs = [], s_vis = ''pub'', s_ident = ''WidgetServiceImpl'', s_generics = [],
     s_fields = FieldsNamed [(''repo'', arc_of (TyTraitObject ''WidgetRepository''))]\<rparr>"

definition seaorm_widget_repository :: struct_def where
  "seaorm_widget_repository = \<lparr>s_attrs = [], s_vis = ''pub'', s_ident = ''SeaOrmWidgetRepository'', s_generics = [],
     s_fields = FieldsNamed [(''db'', arc_of (TyPath [(''DbConfig'', NoArgs)]))]\<rparr>"

text \<open>How the compiler resolves the types of these structs; \<open>crate_name\<close> finds \<open>stano-di\<close>.\<close>

fun app_rty :: "syn_type \<Rightarrow> rty" where
  "app_rty (TyTraitObject n) = RDyn n"
| "app_rty (TyPath [(n, NoArgs)]) = RConcrete n"
| "app_rty _ = RConcrete []"

definition app_crate_name :: "string \<Rightarrow> found_crate option" where
  "app_crate_name pkg = (if pkg = ''stano-di'' then Some (Named ''stano_di'') else None)"

definition widget_service_expansion :: service_expansion where
  "widget_service_expansion =
     (case service_struct app_crate_name widget_service_impl (Some (TyTraitObject ''WidgetService'')) of Inr e \<Rightarrow> e)"

definition widget_repository_expansion :: service_expansion where
  "widget_repository_expansion =
     (case service_struct app_crate_name seaorm_widget_repository (Some (TyTraitObject ''WidgetRepository'')) of Inr e \<Rightarrow> e)"

lemma widget_service_struct:
  "service_struct app_crate_name widget_service_impl (Some (TyTraitObject ''WidgetService''))
     = Inr widget_service_expansion"
  by (simp add: widget_service_expansion_def service_struct_def stano_di_path_def app_crate_name_def
        widget_service_impl_def arc_of_def)

lemma widget_repository_struct:
  "service_struct app_crate_name seaorm_widget_repository (Some (TyTraitObject ''WidgetRepository''))
     = Inr widget_repository_expansion"
  by (simp add: widget_repository_expansion_def service_struct_def stano_di_path_def app_crate_name_def
        seaorm_widget_repository_def arc_of_def)

lemmas widget_expansion_defs =
  widget_service_expansion_def widget_repository_expansion_def service_struct_def stano_di_path_def
  app_crate_name_def widget_service_impl_def seaorm_widget_repository_def arc_of_def

lemma widget_calls_compile:
  "calls_compile app_rty widget_service_expansion" "calls_compile app_rty widget_repository_expansion"
  by (simp_all add: calls_compile_def widget_expansion_defs)

lemma acceptedI:
  "service_struct cn s t = Inr e \<Longrightarrow> calls_compile r e \<Longrightarrow>
   any_type_of (r (TyPath [(s_ident s, NoArgs)])) = r (TyPath [(s_ident s, NoArgs)]) \<Longrightarrow> accepted r e"
  using service_struct_Inr [of cn s t e] by (auto simp: accepted_def)

lemma widget_accepted:
  "accepted app_rty widget_service_expansion" "accepted app_rty widget_repository_expansion"
  by (rule acceptedI [OF widget_service_struct widget_calls_compile(1)] acceptedI [OF widget_repository_struct widget_calls_compile(2)],
      simp)+

lemma widget_keys:
  "generated_key app_rty widget_service_expansion = trait_object_type_id (RDyn ''WidgetService'')"
  "generated_key app_rty widget_repository_expansion = trait_object_type_id (RDyn ''WidgetRepository'')"
  "generated_deps app_rty widget_service_expansion = [trait_object_type_id (RDyn ''WidgetRepository'')]"
  "generated_deps app_rty widget_repository_expansion = [type_id_of (RConcrete ''DbConfig'')]"
  by (simp_all add: generated_key_def generated_deps_def widget_expansion_defs)

section \<open>Properties\<close>

text \<open>C20.
  The dependencies \<open>#[service]\<close> declares are exactly the lookups of the factory it generates, in
  field order, one for each field; so the factory never looks up anything undeclared, and it
  returns whenever the declared components resolve.\<close>
theorem service_declares_its_lookups:
  assumes "service_struct crate_name s t = Inr e" "calls_compile r e"
  shows "generated_deps r e = map (\<lambda>g. access_key (call_access r g)) (se_get_calls e) \<and>
         length (generated_deps r e) = length (se_new_params e) \<and>
         only_accesses (set (generated_deps r e)) (generated_factory r mk e) \<and>
         works_on (set (generated_deps r e)) (generated_factory r mk e)"
proof (intro conjI)
  have "length es = length fs" if "service_fields fs = Inr es" for fs es
    using that by (induction fs arbitrary: es) (auto simp: map_ok_Inr_iff split: option.splits)
  then show "length (generated_deps r e) = length (se_new_params e)"
    using service_struct_Inr [OF assms(1)] by (auto simp: generated_deps_def)
  show "generated_deps r e = map (\<lambda>g. access_key (call_access r g)) (se_get_calls e)"
    using assms(1) by (rule generated_deps_accesses)
  show "only_accesses (set (generated_deps r e)) (generated_factory r mk e)"
    using assms(1) by (rule generated_honest)
  show "works_on (set (generated_deps r e)) (generated_factory r mk e)"
    using assms by (rule generated_works)
qed

theorem service_declares_its_lookups_witness:
  "generated_deps app_rty widget_service_expansion = [trait_object_type_id (RDyn ''WidgetRepository'')] \<and>
   works_on {trait_object_type_id (RDyn ''WidgetRepository'')} (generated_factory app_rty (\<lambda>_. ''svc'') widget_service_expansion)"
  using service_declares_its_lookups [OF widget_service_struct widget_calls_compile(1), of "\<lambda>_. ''svc''"]
  by (simp add: widget_keys)

text \<open>
  What \<open>#[service]\<close> accepts: given a path to \<open>stano-di\<close>, exactly the unit structs and the structs
  all of whose named fields have a type whose last path segment is \<open>Arc<T>\<close>. The struct it
  emits has lost the attributes the input had.\<close>
lemma service_struct_accepts_iff:
  assumes "stano_di_path crate_name = Inr path"
  shows "(is_ok (service_struct crate_name s t) \<longleftrightarrow>
           (case s_fields s of FieldsUnit \<Rightarrow> True | FieldsUnnamed _ \<Rightarrow> False
            | FieldsNamed fs \<Rightarrow> list_all (\<lambda>f. extract_arc_inner (snd f) \<noteq> None) fs)) \<and>
         (service_struct crate_name s t = Inr e \<longrightarrow> se_struct e = s\<lparr>s_attrs := []\<rparr>)"
proof
  have "is_ok (service_fields fs) \<longleftrightarrow> list_all (\<lambda>f. extract_arc_inner (snd f) \<noteq> None) fs" for fs
    by (induction fs) (auto simp: is_ok_iff map_ok_Inr_iff split: option.splits)
  then show "is_ok (service_struct crate_name s t) \<longleftrightarrow>
           (case s_fields s of FieldsUnit \<Rightarrow> True | FieldsUnnamed _ \<Rightarrow> False
            | FieldsNamed fs \<Rightarrow> list_all (\<lambda>f. extract_arc_inner (snd f) \<noteq> None) fs)"
    using assms by (fastforce simp: service_struct_def is_ok_iff and_then_Inr_iff map_ok_Inr_iff split: fields.splits)
qed (use service_struct_Inr in blast)

lemma service_struct_accepts_iff_witness:
  "\<not> is_ok (service_struct app_crate_name
     (widget_service_impl\<lparr>s_fields := FieldsNamed [(''repo'', TyTraitObject ''WidgetRepository'')]\<rparr>) None)"
proof -
  have "stano_di_path app_crate_name = Inr \<lparr>cp_root = CrateNamed ''stano_di'', cp_segments = []\<rparr>"
    by (simp add: stano_di_path_def app_crate_name_def)
  from service_struct_accepts_iff [OF this] show ?thesis by simp
qed

end
