(* ===== verification/Di_Meaning.thy ===== *)
theory Di_Meaning
  imports Di_Macros
begin

text \<open>
  What resolved components are. \<open>M k v\<close> says that the value \<open>v\<close> is right for the key \<open>k\<close>; if every
  factory builds a right component from right components, then everything that a container hands
  out is right. The assignment \<open>M\<close> is the abstract specification, the container implements it.
\<close>

section \<open>Factories that meet a specification\<close>

primrec prog_ok :: "(type_id \<Rightarrow> 'v \<Rightarrow> bool) \<Rightarrow> ('v \<Rightarrow> bool) \<Rightarrow> 'v prog \<Rightarrow> bool" where
  "prog_ok M Q (ReturnNew v) = Q v"
| "prog_ok M Q (ReturnArc a) = Q (arc_val a)"
| "prog_ok M Q (Panic m) = True"
| "prog_ok M Q (Lookup acc k) =
     ((\<forall>e. prog_ok M Q (k (Inl e))) \<and> (\<forall>a. M (access_key acc) (arc_val a) \<longrightarrow> prog_ok M Q (k (Inr a))))"

definition right_factories :: "(type_id \<Rightarrow> 'v \<Rightarrow> bool) \<Rightarrow> 'v container \<Rightarrow> bool" where
  "right_factories M c \<longleftrightarrow> (\<forall>k f. hm_get (factories c) k = Some f \<longrightarrow> prog_ok M (M k) (f_prog f))"

definition right_cells :: "(type_id \<Rightarrow> 'v \<Rightarrow> bool) \<Rightarrow> 'v runtime \<Rightarrow> bool" where
  "right_cells M st \<longleftrightarrow> (\<forall>k a. hm_get (cells st) k = Some (Some a) \<longrightarrow> M k (arc_val (any_arc a)))"

lemma right_cells_other [simp]:
  "right_cells M (st\<lparr>next_arc := n\<rparr>) = right_cells M st" "right_cells M (logged acc st) = right_cells M st"
  by (simp_all add: right_cells_def)

lemma prog_ok_get_prog [simp]:
  "prog_ok M Q (get_prog acc k) \<longleftrightarrow> (\<forall>a. M (access_key acc) (arc_val a) \<longrightarrow> prog_ok M Q (k a))"
  by (simp add: get_prog_def)

section \<open>What a container hands out\<close>

lemma downcast_Inr: "downcast acc a = Inr b \<Longrightarrow> b = any_arc a"
  by (simp add: downcast_def split: if_splits)

lemma run_prog_right:
  assumes "prog_ok M Q p" "right_cells M st"
    and "\<And>acc st r st'. right_cells M st \<Longrightarrow> look acc st = (r, st') \<Longrightarrow>
          right_cells M st' \<and> (\<forall>a. r = Val (Inr a) \<longrightarrow> M (access_key acc) (arc_val a))"
    and "run_prog look p st = (r, st')"
  shows "right_cells M st' \<and> (\<forall>a. r = Val a \<longrightarrow> Q (arc_val a))"
  using assms(1,2,4)
proof (induction p arbitrary: st)
  case (Lookup acc k)
  obtain x st1 where l: "look acc st = (x, st1)" by (metis prod.exhaust)
  have right: "right_cells M st1" "\<And>a. x = Val (Inr a) \<Longrightarrow> M (access_key acc) (arc_val a)"
    using assms(3) [OF Lookup.prems(2) l] by auto
  show ?case
  proof (cases x)
    case (Val y)
    have "prog_ok M Q (k y)" using Lookup.prems(1) right(2) Val by (cases y) simp_all
    then show ?thesis by (rule Lookup.IH [OF rangeI]) (use right(1) Lookup.prems(3) l Val in simp_all)
  qed (use right(1) Lookup.prems(3) l in auto)
qed auto

lemma resolve_right:
  assumes "right_factories M c"
  shows "right_cells M st \<Longrightarrow> resolve_in c ip acc st = (r, st') \<Longrightarrow>
    right_cells M st' \<and> (\<forall>a. r = Val (Inr a) \<longrightarrow> M (access_key acc) (arc_val a))"
proof (induction ip acc st arbitrary: r st' rule: resolve_induct [of c])
  case (1 ip acc st)
  let ?key = "access_key acc"
  show ?case
  proof (cases rule: resolve_cases [where st = st and acc = acc and ip = ip and c = c])
    case (Full a)
    then show ?thesis using 1(2,3) by (auto simp: resolve_full right_cells_def dest: downcast_Inr)
  next
    case (Init f)
    obtain x st1 where run: "run_prog (resolve_in c (?key # ip)) (f_prog f) (logged acc st) = (x, st1)"
      by (metis prod.exhaust)
    have "right_cells M st1 \<and> (\<forall>a. x = Val a \<longrightarrow> M ?key (arc_val a))"
    proof (rule run_prog_right [OF _ _ _ run])
      show "prog_ok M (M ?key) (f_prog f)" using assms Init(3) by (simp add: right_factories_def)
      show "right_cells M (logged acc st)" using 1(2) by simp
    qed (rule 1(1) [OF Init(3) Init(2)])
    then show ?thesis
      using 1(3) run Init by (cases x) (auto simp: resolve_init right_cells_def dest: downcast_Inr split: if_splits)
  qed (use 1(2,3) in \<open>auto simp: resolve_eqs\<close>)
qed

lemma validate_cell_right:
  assumes "right_factories M c" "right_cells M st" "validate_cell c key errors st = (r, st')"
  shows "right_cells M st'"
proof (cases "hm_get (cells st) key = Some None \<and> hm_get (factories c) key \<noteq> None")
  case True
  then obtain f where f: "hm_get (cells st) key = Some None" "hm_get (factories c) key = Some f" by auto
  obtain x st1 where run: "run_prog (resolve_in c [key]) (f_prog f) st = (x, st1)" by (metis prod.exhaust)
  have "right_cells M st1 \<and> (\<forall>a. x = Val a \<longrightarrow> M key (arc_val a))"
  proof (rule run_prog_right [OF _ assms(2) _ run])
    show "prog_ok M (M key) (f_prog f)" using assms(1) f(2) by (simp add: right_factories_def)
  qed (rule resolve_right [OF assms(1)])
  then show ?thesis
    using assms(3) f run
    by (cases x) (auto simp: validate_cell_def get_or_init_def call_factory_def right_cells_def split: if_splits)
next
  case False
  then show ?thesis using assms(2,3) by (auto simp: validate_cell_def split: option.splits)
qed

lemma validate_cells_right:
  "right_factories M c \<Longrightarrow> right_cells M st \<Longrightarrow> validate_cells c keys errors st = (r, st') \<Longrightarrow> right_cells M st'"
proof (induction keys arbitrary: errors st)
  case (Cons key keys)
  obtain x st1 where v: "validate_cell c key errors st = (x, st1)" by (metis prod.exhaust)
  have "right_cells M st1" by (rule validate_cell_right [OF Cons.prems(1,2) v])
  then show ?case using Cons.IH [OF Cons.prems(1)] Cons.prems(3) v by (cases x) auto
qed auto

lemma validate_right:
  assumes "right_factories M c" "right_cells M st" "validate korder sorder c st = (r, st')"
  shows "right_cells M st'"
proof -
  obtain x st1 where v: "validate_cells c sorder [] st = (x, st1)" by (metis prod.exhaust)
  have "right_cells M st1" by (rule validate_cells_right [OF assms(1,2) v])
  then show ?thesis using assms(2,3) v by (cases x) (auto simp: validate_def Let_def split: if_splits)
qed

section \<open>Generated registrations\<close>

lemma prog_ok_build_prog:
  "(\<forall>as. list_all2 (\<lambda>acc a. M (access_key acc) (arc_val a)) accs as \<longrightarrow> Q (mk as)) \<Longrightarrow> prog_ok M Q (build_prog accs mk)"
proof (induction accs arbitrary: mk)
  case (Cons acc accs)
  have "prog_ok M Q (build_prog accs (\<lambda>as. mk (a # as)))" if "M (access_key acc) (arc_val a)" for a
    by (rule Cons.IH) (use Cons.prems that in auto)
  then show ?case by simp
qed simp

text \<open>A generated service is right if its constructor is right on right dependencies.\<close>

lemma right_generated_register:
  assumes "right_factories M c" "right_cells M (runtime_of c n)"
    and "\<And>as. list_all2 (\<lambda>g a. M (access_key (call_access r g)) (arc_val a)) (se_get_calls e) as \<Longrightarrow>
          M (generated_key r e) (mk as)"
  shows "right_factories M (generated_register r mk e c)" "right_cells M (runtime_of (generated_register r mk e c) n)"
proof -
  have "prog_ok M (M (generated_key r e)) (generated_factory r mk e)"
    unfolding generated_factory_def by (rule prog_ok_build_prog) (use assms(3) in \<open>auto simp: list_all2_map1\<close>)
  then show "right_factories M (generated_register r mk e c)"
    using assms(1) unfolding right_factories_def gen.reg_factories by auto
  show "right_cells M (runtime_of (generated_register r mk e c) n)"
    using assms(2) by (auto simp: right_cells_def runtime_of_def gen.reg_singletons split: if_splits)
qed

lemma right_register_instance:
  assumes "right_factories M c" "right_cells M (runtime_of c n)" "M (type_id_of T) (arc_val a)"
  shows "right_factories M (register_instance T a c)" "right_cells M (runtime_of (register_instance T a c) n)"
  using assms
  by (auto simp: right_factories_def right_cells_def runtime_of_def inst.reg_factories inst.reg_singletons split: if_splits)

lemma right_container_new: "right_factories M container_new" "right_cells M (runtime_of container_new n)"
  by (simp_all add: right_factories_def right_cells_def runtime_of_def container_new_def)

lemma right_service_registry:
  assumes "right_factories M c" "right_cells M (runtime_of c n)"
    and "\<And>e mk as. (e, mk) \<in> set svcs \<Longrightarrow>
          list_all2 (\<lambda>g a. M (access_key (call_access r g)) (arc_val a)) (se_get_calls e) as \<Longrightarrow> M (generated_key r e) (mk as)"
  shows "right_factories M (service_registry r svcs c) \<and> right_cells M (runtime_of (service_registry r svcs c) n)"
  using assms
proof (induction svcs arbitrary: c)
  case (Cons p svcs)
  obtain e mk where p: "p = (e, mk)" by (cases p)
  have one: "list_all2 (\<lambda>g a. M (access_key (call_access r g)) (arc_val a)) (se_get_calls e) as \<Longrightarrow> M (generated_key r e) (mk as)"
    for as by (rule Cons.prems(3) [of e mk]) (simp_all add: p)
  have rest: "\<And>e mk as. (e, mk) \<in> set svcs \<Longrightarrow>
      list_all2 (\<lambda>g a. M (access_key (call_access r g)) (arc_val a)) (se_get_calls e) as \<Longrightarrow> M (generated_key r e) (mk as)"
    using Cons.prems(3) by (meson list.set_intros(2))
  have "right_factories M (generated_register r mk e c)" "right_cells M (runtime_of (generated_register r mk e c) n)"
    by (rule right_generated_register [OF Cons.prems(1,2)], erule one)+
  then show ?case using Cons.IH [of "generated_register r mk e c"] rest
    by (simp add: p service_registry_def register_all_def)
qed (simp add: service_registry_def register_all_def)

text \<open>What a lookup returns is right.\<close>

lemma got_right:
  assumes "right_factories M c" "right_cells M st"
    and "bind_outcome (resolve_in c [] acc st) unwrap_or_panic = (Val a, st')"
  shows "M (access_key acc) (arc_val a) \<and> right_cells M st'"
proof -
  obtain r st1 where r: "resolve_in c [] acc st = (Val r, st1)" "unwrap_or_panic r st1 = (Val a, st')"
    using assms(3) by (auto simp: bind_outcome_Val_iff)
  then have "r = Inr a" "st' = st1" by (cases r; simp)+
  with resolve_right [OF assms(1,2) r(1)] show ?thesis by simp
qed

lemma get_trait_right:
  "right_factories M c \<Longrightarrow> right_cells M st \<Longrightarrow> get_trait c T st = (Val a, st') \<Longrightarrow> M (trait_object_type_id T) (arc_val a)"
  using got_right [of M c st "TraitAccess T"] by (simp add: get_trait_def try_get_trait_def)

section \<open>Property\<close>

text \<open>C6.
  A container implements its specification: if every factory builds a right component from right
  components, and the components that are there from the start are right, then everything that
  \<open>get\<close> and \<open>get_trait\<close> return is right for the type it was asked for, after any validation and
  any resolution, and resolving keeps it so.\<close>
theorem container_implements_specification:
  assumes "right_factories M c" "right_cells M (runtime_of c n)"
    and "st1 = snd (validate korder sorder c (runtime_of c n))" "st2 = snd (resolve_in c [] acc st1)"
  shows "(get c T st2 = (Val a, st3) \<longrightarrow> M (type_id_of T) (arc_val a) \<and> right_cells M st3) \<and>
         (get_trait c T st2 = (Val a, st3) \<longrightarrow> M (trait_object_type_id T) (arc_val a) \<and> right_cells M st3)"
proof -
  have "right_cells M st1" using validate_right [OF assms(1,2)] assms(3) by (metis prod.collapse)
  then have st2: "right_cells M st2" using resolve_right [OF assms(1)] assms(4) by (metis prod.collapse)
  show ?thesis
    using got_right [OF assms(1) st2, of "Concrete T"] got_right [OF assms(1) st2, of "TraitAccess T"]
    by (simp add: get_def get_trait_def try_get_def try_get_trait_def)
qed

lemma get_Val_state:
  "get c T st = (Val a, st') \<Longrightarrow> snd (resolve_in c [] (Concrete T) st) = st'"
  by (cases "resolve_in c [] (Concrete T) st"; cases "fst (resolve_in c [] (Concrete T) st)")
     (auto simp: get_def try_get_def elim!: unwrap_or_panic.elims)

lemma prog_ok_unit_after: "Q v \<Longrightarrow> prog_ok M Q (unit_after v Ts)"
  by (induction Ts) (simp_all add: unit_after_def)

theorem container_implements_specification_witness:
  "\<exists>st a st'. st = snd (validate diamond_order diamond_order diamond_container (runtime_of diamond_container 0)) \<and>
     get diamond_container (tyc ''DiamondA'') st = (Val a, st') \<and> arc_val a = ''a''"
proof -
  let ?M = "\<lambda>k v. k = tyc ''DiamondA'' \<longrightarrow> v = ''a''"
  have right: "right_factories ?M diamond_container"
    by (auto simp: right_factories_def diamond_container_def conc.reg_factories type_id_of_def tyc_def container_new_def
        intro!: prog_ok_unit_after split: if_splits)
  have cells: "right_cells ?M (runtime_of diamond_container 0)"
    by (simp add: right_cells_def runtime_of_def diamond_container_def conc.reg_singletons container_new_def)
  let ?st1 = "snd (validate diamond_order diamond_order diamond_container (runtime_of diamond_container 0))"
  let ?st2 = "snd (resolve_in diamond_container [] (Concrete (tyc ''DiamondA'')) ?st1)"
  have val: "validate diamond_order diamond_order diamond_container (runtime_of diamond_container 0) = (Val (Inr ()), ?st1)"
    by (rule pair_fstI, rule diamond_validates)
  have has: "has (tyc ''DiamondA'') diamond_container \<and> clonable (Concrete (tyc ''DiamondA''))"
    by (simp add: access_registered diamond_registered type_id_of_def) (simp add: tyc_def)
  have order: "set diamond_order = registered diamond_container"
    by (simp only: diamond_registered diamond_order_def)
  note ready = diamond_ready [unfolded ready_def]
  have "\<exists>a. get diamond_container (tyc ''DiamondA'') ?st1 = (Val a, ?st1)"
    by (rule validated_get [OF diamond_wf diamond_typed ready [THEN conjunct2] ready [THEN conjunct1]
          order val, THEN conjunct1, THEN mp, OF has])
  then obtain a where a: "get diamond_container (tyc ''DiamondA'') ?st1 = (Val a, ?st1)" by blast
  then have st2: "?st2 = ?st1" by (rule get_Val_state)
  have "arc_val a = ''a''"
    using container_implements_specification [OF right cells refl refl, where korder = diamond_order and sorder = diamond_order
        and acc = "Concrete (tyc ''DiamondA'')" and T = "tyc ''DiamondA''" and a = a and ?st3.0 = ?st1] a
    unfolding st2 by (simp add: type_id_of_def)
  then show ?thesis using a by blast
qed

end
