(* ===== verification/Test_Support.thy ===== *)
theory Test_Support
  imports Stano_Prelude "HOL-Library.Code_Target_Nat"
begin

text \<open>
  What the tests of the crates share. A test is a definition with the calls of its body whose value
  says whether its assertions hold; lemmas evaluate them.
\<close>

section \<open>Assertions\<close>

fun unwrap_err :: "'e + 'a \<Rightarrow> ('e \<Rightarrow> bool) \<Rightarrow> bool" where
  "unwrap_err (Inl e) f = f e"
| "unwrap_err (Inr _) f = False"

fun unwrap_ok :: "'e + 'a \<Rightarrow> ('a \<Rightarrow> bool) \<Rightarrow> bool" where
  "unwrap_ok (Inl e) f = False"
| "unwrap_ok (Inr a) f = f a"

fun is_err :: "'e + 'a \<Rightarrow> bool" where
  "is_err (Inl e) = True"
| "is_err (Inr a) = False"

text \<open>\<open>text.contains(part)\<close>.\<close>

definition contains_text :: "string \<Rightarrow> string \<Rightarrow> bool" where
  "contains_text s t = sublist t s"

section \<open>The orders of a hash map\<close>

text \<open>
  A hash map is iterated over in an order the code does not choose: the tests that depend on one take
  it as an argument and are run on all.
\<close>

fun insertions :: "'a \<Rightarrow> 'a list \<Rightarrow> 'a list list" where
  "insertions x [] = [[x]]"
| "insertions x (y # ys) = (x # y # ys) # map ((#) y) (insertions x ys)"

fun orders :: "'a list \<Rightarrow> 'a list list" where
  "orders [] = [[]]"
| "orders (x # xs) = concat (map (insertions x) (orders xs))"

lemma insertions_complete: "us @ x # vs \<in> set (insertions x (us @ vs))"
proof (induction us)
  case Nil
  show ?case by (cases vs) simp_all
qed simp

lemma orders_complete: "distinct xs \<Longrightarrow> distinct ys \<Longrightarrow> set ys = set xs \<Longrightarrow> ys \<in> set (orders xs)"
proof (induction xs arbitrary: ys)
  case (Cons x xs)
  then have "x \<in> set ys" by auto
  then obtain us vs where ys: "ys = us @ x # vs" by (auto dest: split_list)
  have "x \<notin> set us \<union> set vs" "x \<notin> set xs" "insert x (set us \<union> set vs) = insert x (set xs)"
    using Cons.prems ys by auto
  then have "set us \<union> set vs = set xs" by (rule insert_ident [THEN iffD1])
  then have "us @ vs \<in> set (orders xs)" using Cons.prems ys by (intro Cons.IH) auto
  with ys show ?case using insertions_complete [of us x vs] by auto
qed simp

end
