(* ===== verification/Di_Tests.thy ===== *)
theory Di_Tests
  imports Di_Concurrent Di_Context Test_Support
begin

text \<open>
  The test modules of \<open>stano-di\<close> (\<open>container.rs\<close>, \<open>application_context.rs\<close>, \<open>environment.rs\<close>) run on
  the model: each test is a definition with the calls of its body, its assertions are what it
  evaluates to, and a lemma evaluates it. The test with threads holds for every interleaving.
\<close>

section \<open>Assertions\<close>

text \<open>A call whose value the test uses, one it expects to panic, one it unwraps the error of.\<close>

fun with_val :: "'a outcome \<times> 's \<Rightarrow> ('a \<Rightarrow> 's \<Rightarrow> bool) \<Rightarrow> bool" where
  "with_val (Val a, st) f = f a st"
| "with_val (Panicked m, st) f = False"
| "with_val (Deadlock, st) f = False"

fun panics :: "'a outcome \<times> 's \<Rightarrow> bool" where
  "panics (Panicked m, st) = True"
| "panics _ = False"

fun is_not_registered :: "container_error + 'a \<Rightarrow> bool" where
  "is_not_registered (Inl (NotRegistered _)) = True"
| "is_not_registered _ = False"

fun is_factory_panic :: "container_error \<Rightarrow> bool" where
  "is_factory_panic (FactoryPanic _) = True"
| "is_factory_panic _ = False"

fun is_cyclic_dependency :: "container_error \<Rightarrow> bool" where
  "is_cyclic_dependency (CyclicDependency _) = True"
| "is_cyclic_dependency _ = False"

text \<open>\<open>korder\<close> is the order of the map of names, \<open>sorder\<close> that of the cells.\<close>

section \<open>\<open>container.rs\<close>\<close>

definition widget_factory :: "string prog" where
  "widget_factory = ReturnNew ''Widget''"

definition greeter_factory :: "string prog" where
  "greeter_factory = ReturnNew ''hello''"

definition greeter :: rty where
  "greeter = RDyn ''Greeter''"

text \<open>What \<open>Injectable::get_from\<close> of a trait is generated to do.\<close>

definition injectable_get_from :: "rty \<Rightarrow> string container \<Rightarrow> string runtime \<Rightarrow> string arc outcome \<times> string runtime" where
  "injectable_get_from T container st = get_trait container T st"

definition start_of :: "'v container \<Rightarrow> 'v runtime" where
  "start_of c = runtime_of c 100"

definition test_container_default_equals_new :: bool where
  "test_container_default_equals_new =
     (let container = container_default :: string container in container_is_empty container \<and> container_len container = 0)"

definition test_get_unregistered_type_returns_not_registered :: bool where
  "test_get_unregistered_type_returns_not_registered =
     (let container = container_new :: string container
      in with_val (try_get container (tyc ''Widget'') (start_of container)) (\<lambda>r st. is_not_registered r))"

definition test_get_panics_on_missing_registration :: bool where
  "test_get_panics_on_missing_registration =
     (let container = container_new :: string container in panics (get container (tyc ''Widget'') (start_of container)))"

definition test_try_get_returns_result :: bool where
  "test_try_get_returns_result =
     (let container = container_new :: string container
      in with_val (try_get container (tyc ''Widget'') (start_of container)) (\<lambda>r st. unwrap_err r (\<lambda>_. True)))"

definition test_singleton_reuses_same_arc_instance :: bool where
  "test_singleton_reuses_same_arc_instance =
     (let container = register (tyc ''Widget'') widget_factory container_new
      in with_val (get container (tyc ''Widget'') (start_of container)) (\<lambda>a st.
         with_val (get container (tyc ''Widget'') st) (\<lambda>b st. arc_id a = arc_id b)))"

text \<open>The factory allocates, so the supply of \<open>Arc\<close>s counts its calls.\<close>

definition test_factory_invoked_only_once :: bool where
  "test_factory_invoked_only_once =
     (let container = register (tyc ''Counted'') (ReturnNew ''Counted'') container_new
      in with_val (get container (tyc ''Counted'') (start_of container)) (\<lambda>a st.
         with_val (get container (tyc ''Counted'') st) (\<lambda>b st. next_arc st = next_arc (start_of container) + 1)))"

definition test_register_instance_returns_exact_arc_without_factory :: bool where
  "test_register_instance_returns_exact_arc_without_factory =
     (let inst = \<lparr>arc_id = 7, arc_val = ''Widget''\<rparr>;
          container = register_instance (tyc ''Widget'') inst container_new
      in with_val (get container (tyc ''Widget'') (start_of container)) (\<lambda>resolved st. arc_id inst = arc_id resolved))"

definition test_get_trait_panics_on_missing_registration :: bool where
  "test_get_trait_panics_on_missing_registration =
     (let container = container_new :: string container in panics (get_trait container greeter (start_of container)))"

definition test_try_get_trait_returns_ok_when_registered :: bool where
  "test_try_get_trait_returns_ok_when_registered =
     (let container = register_trait greeter greeter_factory container_new
      in with_val (try_get_trait container greeter (start_of container)) (\<lambda>r st. unwrap_ok r (\<lambda>g. arc_val g = ''hello'')))"

definition test_get_trait_returns_registered_instance :: bool where
  "test_get_trait_returns_registered_instance =
     (let container = register_trait greeter greeter_factory container_new
      in with_val (get_trait container greeter (start_of container)) (\<lambda>g st. arc_val g = ''hello''))"

definition test_injectable_get_from_delegates_to_container_get_trait :: bool where
  "test_injectable_get_from_delegates_to_container_get_trait =
     (let container = register_trait greeter greeter_factory container_new
      in with_val (injectable_get_from greeter container (start_of container)) (\<lambda>g st. arc_val g = ''hello''))"

definition test_injectable_get_from_panics_when_unregistered :: bool where
  "test_injectable_get_from_panics_when_unregistered =
     (let container = container_new in panics (injectable_get_from greeter container (start_of container)))"

definition test_validate_eager_resolves_and_aggregates_multiple_errors :: "type_id list \<Rightarrow> type_id list \<Rightarrow> bool" where
  "test_validate_eager_resolves_and_aggregates_multiple_errors korder sorder =
     (let container = register (tyc ''OtherPanicking'') (Panic ''boom b'') (register (tyc ''Widget'') (Panic ''boom a'') container_new)
            :: string container
      in with_val (validate korder sorder container (start_of container)) (\<lambda>r st.
           unwrap_err r (\<lambda>errors. length errors = 2 \<and> list_all is_factory_panic errors)))"

definition test_factory_panic_caught_by_validate_without_poisoning_other_entries :: "type_id list \<Rightarrow> type_id list \<Rightarrow> bool" where
  "test_factory_panic_caught_by_validate_without_poisoning_other_entries korder sorder =
     (let container = register (tyc ''Healthy'') (ReturnNew ''1'') (register (tyc ''Widget'') (Panic ''boom a'') container_new)
      in with_val (validate korder sorder container (start_of container)) (\<lambda>r st.
           unwrap_err r (\<lambda>_. with_val (get container (tyc ''Healthy'') st) (\<lambda>healthy st. arc_val healthy = ''1''))))"

definition test_validate_succeeds_when_all_factories_are_healthy :: bool where
  "test_validate_succeeds_when_all_factories_are_healthy =
     (let container = register (tyc ''Healthy'') (ReturnNew ''1'') container_new
      in with_val (validate [tyc ''Healthy''] [tyc ''Healthy''] container (start_of container)) (\<lambda>r st. unwrap_ok r (\<lambda>_. True)))"

definition validate_finds_cycle :: "type_id list \<Rightarrow> type_id list \<Rightarrow> string container \<Rightarrow> bool" where
  "validate_finds_cycle korder sorder container =
     with_val (validate korder sorder container (start_of container)) (\<lambda>r st.
       unwrap_err r (\<lambda>errors. list_ex is_cyclic_dependency errors))"

definition test_cycle_detection_two_node :: "type_id list \<Rightarrow> type_id list \<Rightarrow> bool" where
  "test_cycle_detection_two_node korder sorder =
     validate_finds_cycle korder sorder
       (register_with_deps (tyc ''CycleB'') (unit_after ''b'' [tyc ''CycleA'']) ''CycleB'' [tyc ''CycleA'']
         (register_with_deps (tyc ''CycleA'') (unit_after ''a'' [tyc ''CycleB'']) ''CycleA'' [tyc ''CycleB''] container_new))"

definition test_cycle_detection_three_node :: "type_id list \<Rightarrow> type_id list \<Rightarrow> bool" where
  "test_cycle_detection_three_node korder sorder =
     validate_finds_cycle korder sorder cycle3_container"

definition test_cycle_detection_self_cycle :: "type_id list \<Rightarrow> type_id list \<Rightarrow> bool" where
  "test_cycle_detection_self_cycle korder sorder =
     validate_finds_cycle korder sorder
       (register_with_deps (tyc ''SelfCycle'') (unit_after ''s'' [tyc ''SelfCycle'']) ''SelfCycle'' [tyc ''SelfCycle''] container_new)"

definition test_dependency_graph_display_formatting :: "type_id list \<Rightarrow> type_id list \<Rightarrow> bool" where
  "test_dependency_graph_display_formatting korder sorder =
     (let container = register_with_deps (tyc ''Root'') (unit_after ''r'' [tyc ''Leaf'']) ''Root'' [tyc ''Leaf'']
            (register_with_deps (tyc ''Leaf'') (unit_after ''l'' []) ''Leaf'' [] container_new);
          shown = dependency_graph_display (dependency_graph_of korder container)
      in contains_text shown ''Root'' \<and> contains_text shown ''Leaf'' \<and>
         contains_text shown [CHR 0xE2, CHR 0x94, CHR 0x94, CHR 0xE2, CHR 0x94, CHR 0x80] \<and>
         with_val (validate korder sorder container (start_of container)) (\<lambda>r st. unwrap_ok r (\<lambda>_. True)))"

definition test_validate_succeeds_for_diamond_shaped_dependency_graph :: "type_id list \<Rightarrow> type_id list \<Rightarrow> bool" where
  "test_validate_succeeds_for_diamond_shaped_dependency_graph korder sorder =
     with_val (validate korder sorder diamond_container (start_of diamond_container)) (\<lambda>r st. unwrap_ok r (\<lambda>_. True))"

definition test_dependency_graph_unknown_type_id_fallback :: bool where
  "test_dependency_graph_unknown_type_id_fallback =
     (let container = register_with_deps (tyc ''Leaf'') (unit_after ''l'' []) ''Leaf'' [tyc ''UnregisteredMarker''] container_new
      in contains_text (dependency_graph_display (dependency_graph_of [tyc ''Leaf''] container)) ''unknown'')"

definition test_len_is_empty_has_has_trait_bookkeeping :: bool where
  "test_len_is_empty_has_has_trait_bookkeeping =
     (let c0 = container_new :: string container;
          c1 = register (tyc ''Widget'') widget_factory c0;
          c2 = register_trait greeter greeter_factory c1
      in container_is_empty c0 \<and> container_len c0 = 0 \<and> \<not> has (tyc ''Widget'') c0 \<and>
         \<not> container_is_empty c1 \<and> container_len c1 = 1 \<and> has (tyc ''Widget'') c1 \<and>
         \<not> has_trait greeter c1 \<and> has_trait greeter c2 \<and> container_len c2 = 2)"

lemma container_tests:
  "test_container_default_equals_new"
  "test_get_unregistered_type_returns_not_registered"
  "test_get_panics_on_missing_registration"
  "test_try_get_returns_result"
  "test_singleton_reuses_same_arc_instance"
  "test_factory_invoked_only_once"
  "test_register_instance_returns_exact_arc_without_factory"
  "test_get_trait_panics_on_missing_registration"
  "test_try_get_trait_returns_ok_when_registered"
  "test_get_trait_returns_registered_instance"
  "test_injectable_get_from_delegates_to_container_get_trait"
  "test_injectable_get_from_panics_when_unregistered"
  "test_validate_succeeds_when_all_factories_are_healthy"
  by code_simp+

lemma container_validate_tests:
  "list_all (\<lambda>(korder, sorder). test_validate_eager_resolves_and_aggregates_multiple_errors korder sorder)
     (List.product (orders [tyc ''Widget'', tyc ''OtherPanicking'']) (orders [tyc ''Widget'', tyc ''OtherPanicking'']))"
  "list_all (\<lambda>(korder, sorder). test_factory_panic_caught_by_validate_without_poisoning_other_entries korder sorder)
     (List.product (orders [tyc ''Widget'', tyc ''Healthy'']) (orders [tyc ''Widget'', tyc ''Healthy'']))"
  by code_simp+

lemma container_graph_tests:
  "list_all (\<lambda>(korder, sorder). test_cycle_detection_two_node korder sorder)
     (List.product (orders [tyc ''CycleA'', tyc ''CycleB'']) (orders [tyc ''CycleA'', tyc ''CycleB'']))"
  "list_all (\<lambda>(korder, sorder). test_cycle_detection_three_node korder sorder)
     (List.product (orders [tyc ''CycleA'', tyc ''CycleB'', tyc ''CycleC'']) (orders [tyc ''CycleA'', tyc ''CycleB'', tyc ''CycleC'']))"
  "test_cycle_detection_self_cycle [tyc ''SelfCycle''] [tyc ''SelfCycle'']"
  "list_all (\<lambda>(korder, sorder). test_dependency_graph_display_formatting korder sorder)
     (List.product (orders [tyc ''Leaf'', tyc ''Root'']) (orders [tyc ''Leaf'', tyc ''Root'']))"
  "test_dependency_graph_unknown_type_id_fallback"
  "test_len_is_empty_has_has_trait_bookkeeping"
  by code_simp+

lemma container_diamond_tests:
  "list_all (\<lambda>korder. test_validate_succeeds_for_diamond_shaped_dependency_graph korder diamond_order) (orders diamond_order)"
  "list_all (\<lambda>sorder. test_validate_succeeds_for_diamond_shaped_dependency_graph diamond_order sorder) (orders diamond_order)"
  by code_simp+

subsection \<open>The test with threads\<close>

text \<open>Eight threads look the same component up. A call of the factory takes one \<open>Arc\<close> of the supply.\<close>

definition shared_factory :: "string prog" where
  "shared_factory = ReturnNew ''Shared''"

definition shared_container :: "string container" where
  "shared_container = register (tyc ''Shared'') shared_factory container_new"

definition shared_handles :: "access list" where
  "shared_handles = replicate 8 (Concrete (tyc ''Shared''))"

definition shared_calls :: "string machine \<Rightarrow> nat" where
  "shared_calls m = next_arc (memory m) - next_arc (start_of shared_container)"

fun joins :: "'v thread \<Rightarrow> bool" where
  "joins (Finished r) = True"
| "joins _ = False"

text \<open>The test on one schedule that lets the threads go on until none can.\<close>

definition test_concurrent_get_calls_factory_once :: "nat list \<Rightarrow> bool" where
  "test_concurrent_get_calls_factory_once sched =
     (let m = schedule shared_container sched (start shared_handles (start_of shared_container))
      in halted shared_container m \<longrightarrow> list_all joins (threads m) \<and> shared_calls m = 1)"

fun sharing :: "string thread \<Rightarrow> bool" where
  "sharing (Looking acc fs) \<longleftrightarrow> acc = Concrete (tyc ''Shared'') \<and> fs = []"
| "sharing (Building p acc ty fs) \<longleftrightarrow>
     p = shared_factory \<and> acc = Concrete (tyc ''Shared'') \<and> ty = tyc ''Shared'' \<and> fs = []"
| "sharing (Finished r) \<longleftrightarrow> (case r of Inr _ \<Rightarrow> True | Inl _ \<Rightarrow> False)"
| "sharing _ \<longleftrightarrow> False"

text \<open>The calls so far are told by the cell.\<close>

definition shared_once :: "string machine \<Rightarrow> bool" where
  "shared_once m \<longleftrightarrow>
     (\<forall>th \<in> set (threads m). sharing th) \<and>
     (case hm_get (cells (memory m)) (tyc ''Shared'') of
        None \<Rightarrow> False
      | Some None \<Rightarrow> next_arc (memory m) = next_arc (start_of shared_container) \<and> (\<forall>r. Finished r \<notin> set (threads m))
      | Some (Some a) \<Rightarrow> any_type a = tyc ''Shared'' \<and> next_arc (memory m) = Suc (next_arc (start_of shared_container)))"

lemma shared_simps:
  "hm_get (factories shared_container) (tyc ''Shared'') = Some \<lparr>f_prog = shared_factory, f_any = tyc ''Shared''\<rparr>"
  "hm_get (cells (start_of shared_container)) (tyc ''Shared'') = Some None"
  by (simp_all add: shared_container_def start_of_def runtime_of_def register_def register_with_deps_def Let_def type_id_of_def)

lemma shared_once_start: "shared_once (start shared_handles (start_of shared_container))"
  by (auto simp: shared_once_def start_def shared_handles_def shared_simps)

lemma shared_once_step:
  assumes "step shared_container m m'" "ownership m" "shared_once m"
  shows "shared_once m'"
  using assms(1)
proof (cases rule: step.cases)
  case (step_thread t st own th)
  let ?k = "tyc ''Shared''" and ?next = "next_arc (start_of shared_container)"
  have sharing: "\<forall>th \<in> set (threads m). sharing th" using assms(3) by (simp add: shared_once_def)
  have once: "case hm_get (cells (memory m)) ?k of
        None \<Rightarrow> False
      | Some None \<Rightarrow> next_arc (memory m) = ?next \<and> (\<forall>r. Finished r \<notin> set (threads m))
      | Some (Some a) \<Rightarrow> any_type a = ?k \<and> next_arc (memory m) = Suc ?next"
    using assms(3) by (simp add: shared_once_def)
  have mine: "sharing (threads m ! t)" using sharing step_thread(2) by simp
  have memory: "memory m' = st" by (simp add: step_thread(1))
  have new: "th' = th \<or> th' \<in> set (threads m)" if "th' \<in> set (threads m')" for th'
    using that set_update_subset_insert [of "threads m" t th] by (auto simp: step_thread(1))
  have shares: "\<forall>th' \<in> set (threads m'). sharing th'" if "sharing th" using that sharing new by blast
  have unfinished: "Finished r \<notin> set (threads m')" if "Finished r \<noteq> th" "Finished r \<notin> set (threads m)" for r
    using that new by blast
  show ?thesis
  proof (cases "threads m ! t")
    case (Looking acc fs)
    then have look: "acc = Concrete ?k" "fs = []" using mine by simp_all
    show ?thesis
    proof (cases "hm_get (cells (memory m)) ?k")
      case (Some cell)
      show ?thesis
      proof (cases cell)
        case None
        then have "th = Building shared_factory (Concrete ?k) ?k []" "cells st = cells (memory m)" "next_arc st = next_arc (memory m)"
          using step_thread(3) Looking look Some by (auto simp: shared_simps type_id_of_def Let_def logged_def split: if_splits)
        then show ?thesis using shares unfinished once Some None by (simp add: shared_once_def memory)
      next
        case (Some a)
        then have "st = memory m" "th = Finished (Inr (any_arc a))"
          using step_thread(3) Looking look \<open>hm_get _ _ = _\<close> once by (auto simp: type_id_of_def downcast_def)
        then show ?thesis using shares once Some \<open>hm_get _ _ = _\<close> by (simp add: shared_once_def memory)
      qed
    qed (use once in simp)
  next
    case (Building p acc ty fs)
    then have build: "p = shared_factory" "acc = Concrete ?k" "ty = ?k" "fs = []" using mine by simp_all
    then have "hm_get (cells (memory m)) ?k = Some None"
      using held_empty [OF assms(2) step_thread(2), of ?k] Building by (simp add: type_id_of_def)
    moreover obtain a where "th = Finished (Inr a)"
        "cells st = hm_insert ?k (Some \<lparr>any_type = ?k, any_arc = a\<rparr>) (cells (memory m))" "next_arc st = Suc (next_arc (memory m))"
      using step_thread(3) Building build by (auto simp: shared_factory_def fill_cell_def Let_def type_id_of_def downcast_def)
    ultimately show ?thesis using shares once by (simp add: shared_once_def memory)
  qed (use mine step_thread(3) in simp_all)
qed

lemma shared_once_reachable:
  "reachable shared_container shared_handles (start_of shared_container) m \<Longrightarrow> ownership m \<and> shared_once m"
  unfolding reachable_def
  by (induction rule: rtranclp_induct)
    (auto intro: ownership_start shared_once_start ownership_step shared_once_step)

lemma shared_edges: "edges shared_container = {}"
  by (auto simp: edges_def deps_of_def shared_container_def register_def conc.reg_dependencies container_new_def)

lemma shared_honest: "honest_factories shared_container"
  by (auto simp: honest_factories_def shared_container_def shared_factory_def register_def conc.reg_factories
      container_new_def split: if_splits)

text \<open>On every schedule the factory is called once.\<close>

lemma concurrent_get_calls_factory_once: "test_concurrent_get_calls_factory_once sched"
proof -
  let ?m = "schedule shared_container sched (start shared_handles (start_of shared_container))"
  have "list_all joins (threads ?m) \<and> shared_calls ?m = 1" if "halted shared_container ?m"
  proof -
    have reach: "reachable shared_container shared_handles (start_of shared_container) ?m" by (rule schedule_reachable)
    note once = shared_once_reachable [OF reach, THEN conjunct2]
    have len: "length (threads ?m) = 8"
      using answers_origin_reachable [OF reach] by (simp add: answers_origin_def shared_handles_def)
    have ended: "\<forall>t < 8. ended (threads ?m ! t)"
      using no_deadlock_reachable [OF reach _ shared_honest that] by (simp add: shared_edges shared_handles_def acyclic_def)
    have joined: "joins th" if "th \<in> set (threads ?m)" for th
    proof -
      have "ended th" "sharing th" using that ended len once by (auto simp: in_set_conv_nth shared_once_def)
      then show ?thesis by (cases th) simp_all
    qed
    have "threads ?m ! 0 \<in> set (threads ?m)" using len by simp
    moreover obtain r where "threads ?m ! 0 = Finished r"
      using joined [OF calculation] by (cases "threads ?m ! 0") simp_all
    ultimately have "shared_calls ?m = 1"
      using once by (auto simp: shared_once_def shared_calls_def split: option.splits)
    with joined show ?thesis by (simp add: list_all_iff)
  qed
  then show ?thesis by (simp add: test_concurrent_get_calls_factory_once_def Let_def)
qed

section \<open>\<open>application_context.rs\<close>\<close>

text \<open>The supply of \<open>Arc\<close>s starts after those the test allocates itself.\<close>

definition ctx_start :: "string application_context \<Rightarrow> string runtime" where
  "ctx_start ctx = start_of (app_container ctx)"

definition ctx_widget_factory :: "string prog" where
  "ctx_widget_factory = ReturnNew ''7''"

definition gadget_register :: "string container \<Rightarrow> string container" where
  "gadget_register container = register_with_deps (tyc ''Gadget'') (ReturnNew ''Gadget'') ''Gadget'' [] container"

definition ctx_greeter_factory :: "string prog" where
  "ctx_greeter_factory = ReturnNew ''hi''"

definition test_context :: "string application_context" where
  "test_context = ctx_new (mock_environment_get (with_var ''KEY'' ''value'' mock_environment_new))"

definition test_register_and_get_delegate_to_container :: bool where
  "test_register_and_get_delegate_to_container =
     (let ctx = ctx_register (tyc ''Widget'') ctx_widget_factory test_context
      in with_val (ctx_get ctx (tyc ''Widget'') (ctx_start ctx)) (\<lambda>widget st. arc_val widget = ''7''))"

definition test_register_trait_delegates :: bool where
  "test_register_trait_delegates =
     (let ctx = ctx_register_trait greeter ctx_greeter_factory test_context
      in with_val (ctx_get_trait ctx greeter (ctx_start ctx)) (\<lambda>g st. arc_val g = ''hi''))"

definition test_register_instance_delegates :: bool where
  "test_register_instance_delegates =
     (let inst = \<lparr>arc_id = 7, arc_val = ''9''\<rparr>;
          ctx = ctx_register_instance (tyc ''Widget'') inst test_context
      in with_val (ctx_get ctx (tyc ''Widget'') (ctx_start ctx)) (\<lambda>resolved st. arc_id inst = arc_id resolved))"

definition test_register_component_delegates :: bool where
  "test_register_component_delegates =
     (let ctx = ctx_register_component gadget_register test_context
      in with_val (ctx_get ctx (tyc ''Gadget'') (ctx_start ctx)) (\<lambda>gadget st. True))"

definition test_try_get_try_get_trait_delegate :: bool where
  "test_try_get_try_get_trait_delegate =
     (let ctx = test_context
      in with_val (ctx_try_get ctx (tyc ''Widget'') (ctx_start ctx)) (\<lambda>r st. is_not_registered r \<and>
         with_val (ctx_try_get_trait ctx greeter st) (\<lambda>r st. is_not_registered r)))"

definition test_validate_delegates :: bool where
  "test_validate_delegates =
     (let ctx = ctx_register (tyc ''Widget'') ctx_widget_factory test_context
      in with_val (ctx_validate [tyc ''Widget''] [tyc ''Widget''] ctx (ctx_start ctx)) (\<lambda>r st. unwrap_ok r (\<lambda>_. True)))"

definition app_context_test_registration :: "string container \<Rightarrow> string container" where
  "app_context_test_registration container = register (tyc ''Widget'') ctx_widget_factory container"

text \<open>The registrations of the crate's tests are all collected, in an order that is not known.\<close>

definition test_register_all_picks_up_inventory_submitted_registration ::
  "(string container \<Rightarrow> string container) list \<Rightarrow> bool" where
  "test_register_all_picks_up_inventory_submitted_registration submitted =
     (let ctx = ctx_register_all submitted test_context
      in with_val (ctx_try_get ctx (tyc ''Widget'') (ctx_start ctx)) (\<lambda>r st. unwrap_ok r (\<lambda>_. True)))"

definition test_container_mut_allows_post_construction_mutation :: bool where
  "test_container_mut_allows_post_construction_mutation =
     (let ctx = container_mut (register (tyc ''Widget'') ctx_widget_factory) test_context
      in with_val (ctx_get ctx (tyc ''Widget'') (ctx_start ctx)) (\<lambda>widget st. arc_val widget = ''7''))"

lemma application_context_tests:
  "test_register_and_get_delegate_to_container"
  "test_register_trait_delegates"
  "test_register_instance_delegates"
  "test_register_component_delegates"
  "test_try_get_try_get_trait_delegate"
  "test_validate_delegates"
  "test_container_mut_allows_post_construction_mutation"
  by code_simp+

section \<open>\<open>lib.rs\<close>\<close>

definition lib_test_registration :: "string container \<Rightarrow> string container" where
  "lib_test_registration container = register (tyc ''LibTestWidget'') (ReturnNew ''LibTestWidget'') container"

text \<open>That the registration was called shows in what it registered; the test's flag says no more.\<close>

definition test_register_all_invokes_manually_submitted_registration ::
  "(string container \<Rightarrow> string container) list \<Rightarrow> bool" where
  "test_register_all_invokes_manually_submitted_registration submitted =
     (let container = register_all submitted container_new
      in has (tyc ''LibTestWidget'') container \<and>
         with_val (get container (tyc ''LibTestWidget'') (start_of container)) (\<lambda>widget st. True))"

lemma inventory_tests:
  "list_all test_register_all_picks_up_inventory_submitted_registration
     (orders [lib_test_registration, app_context_test_registration])"
  "list_all test_register_all_invokes_manually_submitted_registration
     (orders [lib_test_registration, app_context_test_registration])"
  by code_simp+

section \<open>\<open>environment.rs\<close>\<close>

definition test_mock_environment_new_default_empty :: bool where
  "test_mock_environment_new_default_empty =
     (mock_environment_get mock_environment_new ''ANY_KEY'' = None \<and> mock_environment_get mock_environment_default ''ANY_KEY'' = None)"

definition test_mock_environment_with_var_returns_value :: bool where
  "test_mock_environment_with_var_returns_value =
     (mock_environment_get (with_var ''FOO'' ''bar'' mock_environment_new) ''FOO'' = Some ''bar'')"

definition test_mock_environment_remove_var :: bool where
  "test_mock_environment_remove_var =
     (mock_environment_get (remove_var ''FOO'' (with_var ''FOO'' ''bar'' mock_environment_new)) ''FOO'' = None)"

definition set_process_var :: "string \<Rightarrow> string \<Rightarrow> process_vars \<Rightarrow> process_vars" where
  "set_process_var key val process = process(key \<mapsto> Unicode val)"

text \<open>The tests on the process's variables, which they find as \<open>process\<close>.\<close>

definition test_os_environment_get_returns_value :: "process_vars \<Rightarrow> bool" where
  "test_os_environment_get_returns_value process =
     (let process = set_process_var ''MRP_DI_TEST_ENV_VAR_UNIQUE_1'' ''value1'' process
      in os_environment_get process ''MRP_DI_TEST_ENV_VAR_UNIQUE_1'' = Some ''value1'')"

definition test_os_environment_get_missing_returns_none :: "process_vars \<Rightarrow> bool" where
  "test_os_environment_get_missing_returns_none process =
     (os_environment_get process ''MRP_DI_TEST_ENV_VAR_DOES_NOT_EXIST_XYZ'' = None)"

definition test_os_environment_new_reads_process_env ::
  "(process_vars \<Rightarrow> 'e + process_vars) \<Rightarrow> process_vars \<Rightarrow> bool" where
  "test_os_environment_new_reads_process_env dotenv process =
     (let process = os_environment_new dotenv (set_process_var ''MRP_DI_TEST_ENV_VAR_NEW_CTOR'' ''value2'' process)
      in os_environment_get process ''MRP_DI_TEST_ENV_VAR_NEW_CTOR'' = Some ''value2'')"

lemma mock_environment_tests:
  "test_mock_environment_new_default_empty"
  "test_mock_environment_with_var_returns_value"
  "test_mock_environment_remove_var"
  by code_simp+

text \<open>
  \<open>dotenvy\<close> leaves alone the variables that are set; then the constructor's test passes whatever
  the file holds. The second test needs the variable to be unset.
\<close>

lemmas os_environment_test_defs = test_os_environment_get_returns_value_def test_os_environment_get_missing_returns_none_def
  test_os_environment_new_reads_process_env_def os_environment_get_def os_environment_new_def env_var_def set_process_var_def

lemma os_environment_tests:
  "test_os_environment_get_returns_value process"
  "process ''MRP_DI_TEST_ENV_VAR_DOES_NOT_EXIST_XYZ'' = None \<Longrightarrow> test_os_environment_get_missing_returns_none process"
  by (simp_all add: os_environment_test_defs)

lemma os_environment_new_test:
  assumes "\<And>process process' key val. dotenv process = Inr process' \<Longrightarrow> process key = Some val \<Longrightarrow> process' key = Some val"
  shows "test_os_environment_new_reads_process_env dotenv process"
proof -
  let ?process = "set_process_var ''MRP_DI_TEST_ENV_VAR_NEW_CTOR'' ''value2'' process"
  show ?thesis using assms [of ?process _ "''MRP_DI_TEST_ENV_VAR_NEW_CTOR''" "Unicode ''value2''"]
    by (cases "dotenv ?process") (simp_all add: os_environment_test_defs)
qed

end
