(* ===== verification/Route_Macros.thy ===== *)
theory Route_Macros
  imports Syn_Model
begin

text \<open>
  The attribute macros of \<open>stano-route-macros\<close>: \<open>#[get]\<close>, \<open>#[post]\<close>, \<open>#[put]\<close>, \<open>#[delete]\<close>
  and \<open>#[patch]\<close> as functions from the tokens of the attribute and an item to a compile error or
  to the arguments of the \<open>#[utoipa::path(...)]\<close> they generate. Arguments are the functions of
  \<open>proc_macro2\<close>, \<open>syn\<close> and \<open>proc_macro_crate\<close> that the code calls.
\<close>

record macro_crates =
  mc_to_string :: "token list \<Rightarrow> string"            \<comment> \<open>\<open>TokenStream::to_string\<close>\<close>
  mc_type_tokens :: "syn_type \<Rightarrow> token list"        \<comment> \<open>\<open>quote!(#ty)\<close>\<close>
  mc_parse_lit_str :: "string \<Rightarrow> string option"     \<comment> \<open>the value of a string literal\<close>
  mc_string_literal :: "string \<Rightarrow> string"           \<comment> \<open>\<open>Literal::string\<close>\<close>
  mc_crate_name :: "string \<Rightarrow> found_crate option"   \<comment> \<open>\<open>None\<close> is its \<open>Err\<close>\<close>

section \<open>The path to the routes\<close>

definition stano_routes_path :: "(string \<Rightarrow> found_crate option) \<Rightarrow> string + crate_path" where
  "stano_routes_path crate_name =
     (case crate_name ''stano-axum'' of
        Some found \<Rightarrow> Inr \<lparr>cp_root = found_crate_path found, cp_segments = []\<rparr>
      | None \<Rightarrow>
          (case crate_name ''stano-launcher'' of
             Some found \<Rightarrow> Inr \<lparr>cp_root = found_crate_path found, cp_segments = [''stano_axum'']\<rparr>
           | None \<Rightarrow>
               (case crate_name ''stano-starter-rest'' of
                  Some found \<Rightarrow> Inr \<lparr>cp_root = found_crate_path found, cp_segments = [''stano_axum'']\<rparr>
                | None \<Rightarrow> Inl (''stano-route-macros: add `stano-axum`, `stano-launcher`, or '' @
                               ''`stano-starter-rest` as a dependency''))))"

section \<open>The keys of an attribute\<close>

record attr_key =
  ak_name :: string
  ak_tokens :: "token list"

definition build_attr_key :: "token list \<Rightarrow> attr_key" where
  "build_attr_key tokens =
     \<lparr>ak_name = (case tokens of TIdent i # _ \<Rightarrow> i | _ \<Rightarrow> []), ak_tokens = tokens\<rparr>"

text \<open>
  The loop of \<open>split_top_level_keys\<close>: the keys so far, the tokens of the current one, and the
  depth of angle brackets (an \<open>i32\<close>, which no attribute's length exceeds).
\<close>

fun split_keys_loop :: "attr_key list \<Rightarrow> token list \<Rightarrow> int \<Rightarrow> token list \<Rightarrow> attr_key list" where
  "split_keys_loop keys current angle_depth [] =
     (if current \<noteq> [] then keys @ [build_attr_key current] else keys)"
| "split_keys_loop keys current angle_depth (TPunct c # ts) =
     (if c = CHR ''<'' then split_keys_loop keys (current @ [TPunct c]) (angle_depth + 1) ts
      else if c = CHR ''>'' \<and> 0 < angle_depth then split_keys_loop keys (current @ [TPunct c]) (angle_depth - 1) ts
      else if c = CHR '','' \<and> angle_depth = 0
      then split_keys_loop (if current \<noteq> [] then keys @ [build_attr_key current] else keys) [] angle_depth ts
      else split_keys_loop keys (current @ [TPunct c]) angle_depth ts)"
| "split_keys_loop keys current angle_depth (tt # ts) = split_keys_loop keys (current @ [tt]) angle_depth ts"

definition split_top_level_keys :: "token list \<Rightarrow> attr_key list" where
  "split_top_level_keys attr = split_keys_loop [] [] 0 attr"

fun group_inner_tokens :: "token list \<Rightarrow> token list option" where
  "group_inner_tokens [_, TGroup _ stream] = Some stream"
| "group_inner_tokens _ = None"

definition is_literal_200 :: "token \<Rightarrow> bool" where
  "is_literal_200 tt =
     (case tt of
        TLiteral lit \<Rightarrow>
          (case strip_prefix ''200'' lit of
             Some rest \<Rightarrow> rest = [] \<or> list_all is_ascii_alphabetic rest
           | None \<Rightarrow> False)
      | _ \<Rightarrow> False)"

definition entry_has_status_200 :: "token \<Rightarrow> bool" where
  "entry_has_status_200 entry =
     (case entry of
        TGroup Parenthesis stream \<Rightarrow>
          list_ex (\<lambda>key. ak_name key = ''status'' \<and> list_ex is_literal_200 (ak_tokens key)) (split_top_level_keys stream)
      | _ \<Rightarrow> False)"

section \<open>The signature\<close>

text \<open>The type argument of \<open>wrapper<T>\<close>, by the last segment of the path.\<close>

definition extract_type_arg :: "syn_type \<Rightarrow> string \<Rightarrow> syn_type option" where
  "extract_type_arg ty wrapper =
     (case ty of
        TyPath segments \<Rightarrow>
          (case rev segments of
             (i, AngleArgs [GenType t]) # _ \<Rightarrow> if i = wrapper then Some t else None
           | _ \<Rightarrow> None)
      | _ \<Rightarrow> None)"

definition extract_result_ok_arg :: "syn_type \<Rightarrow> syn_type option" where
  "extract_result_ok_arg ty =
     (case ty of
        TyPath segments \<Rightarrow>
          (case rev segments of
             (i, AngleArgs (GenType t # _)) # _ \<Rightarrow> if i = ''Result'' then Some t else None
           | _ \<Rightarrow> None)
      | _ \<Rightarrow> None)"

definition primitive_path_param_types :: "string list" where
  "primitive_path_param_types =
     [''String'', ''bool'', ''char'', ''i8'', ''i16'', ''i32'', ''i64'', ''i128'', ''isize'', ''u8'', ''u16'', ''u32'',
      ''u64'', ''u128'', ''usize'', ''f32'', ''f64'']"

definition is_primitive_path_param_type :: "syn_type \<Rightarrow> bool" where
  "is_primitive_path_param_type ty =
     (case ty of
        TyPath [(name, args)] \<Rightarrow>
          (args = NoArgs \<or> args = AngleArgs []) \<and>
          (name \<in> set primitive_path_param_types \<or> ends_with name ''Id'')
      | _ \<Rightarrow> False)"

text \<open>\<open>find('}')\<close> in a slice, and the loop over the bytes of the path.\<close>

fun find_char :: "char \<Rightarrow> string \<Rightarrow> nat option" where
  "find_char c [] = None"
| "find_char c (x # xs) = (if x = c then Some 0 else map_option Suc (find_char c xs))"

definition trim_stars :: "string \<Rightarrow> string" where
  "trim_stars s = dropWhile (\<lambda>c. c = CHR ''*'') s"

function placeholders_loop :: "string \<Rightarrow> nat \<Rightarrow> string list \<Rightarrow> string list" where
  "placeholders_loop path_lit i names =
     (if i < length path_lit then
        (case if path_lit ! i = CHR ''{'' then find_char (CHR ''}'') (drop (i + 1) path_lit) else None of
           Some len \<Rightarrow>
             placeholders_loop path_lit (i + (len + 2)) (names @ [trim_stars (take len (drop (i + 1) path_lit))])
         | None \<Rightarrow> placeholders_loop path_lit (i + 1) names)
      else names)"
  by pat_completeness auto
termination
  by (relation "measure (\<lambda>(path_lit, i, names). length path_lit - i)") auto

declare placeholders_loop.simps [simp del]

definition path_placeholders :: "string \<Rightarrow> string list" where
  "path_placeholders path_lit = placeholders_loop path_lit 0 []"

fun first_literal :: "token list \<Rightarrow> string option" where
  "first_literal [] = None"
| "first_literal (TLiteral lit # _) = Some lit"
| "first_literal (_ # ts) = first_literal ts"

definition find_key :: "string \<Rightarrow> attr_key list \<Rightarrow> attr_key option" where
  "find_key name keys = find (\<lambda>k. ak_name k = name) keys"

definition find_path_literal :: "macro_crates \<Rightarrow> attr_key list \<Rightarrow> string option" where
  "find_path_literal mc keys =
     Option.bind (find_key ''path'' keys) (\<lambda>k. Option.bind (first_literal (ak_tokens k)) (mc_parse_lit_str mc))"

record signature_inference =
  si_app_json_types :: "syn_type list"
  si_app_path_type :: "syn_type option"
  si_app_path_count :: nat
  si_app_query_type :: "syn_type option"
  si_app_query_count :: nat

text \<open>\<open>Option::get_or_insert\<close>.\<close>

definition or_insert :: "'a option \<Rightarrow> 'a \<Rightarrow> 'a option" where
  "or_insert slot x = (case slot of Some y \<Rightarrow> Some y | None \<Rightarrow> Some x)"

definition inspect_input :: "fn_arg \<Rightarrow> signature_inference \<Rightarrow> signature_inference" where
  "inspect_input input s =
     (case input of
        Receiver _ \<Rightarrow> s
      | Typed ty \<Rightarrow>
          let s = (case extract_type_arg ty ''AppJson'' of
                     Some inner \<Rightarrow> s\<lparr>si_app_json_types := si_app_json_types s @ [inner]\<rparr> | None \<Rightarrow> s);
              s = (case extract_type_arg ty ''AppPath'' of
                     Some inner \<Rightarrow> s\<lparr>si_app_path_count := si_app_path_count s + 1,
                                     si_app_path_type := or_insert (si_app_path_type s) inner\<rparr> | None \<Rightarrow> s)
          in (case extract_type_arg ty ''AppQuery'' of
                Some inner \<Rightarrow> s\<lparr>si_app_query_count := si_app_query_count s + 1,
                                si_app_query_type := or_insert (si_app_query_type s) inner\<rparr> | None \<Rightarrow> s))"

definition inspect_signature :: "fn_def \<Rightarrow> signature_inference" where
  "inspect_signature func =
     fold inspect_input (fn_inputs func)
       \<lparr>si_app_json_types = [], si_app_path_type = None, si_app_path_count = 0,
        si_app_query_type = None, si_app_query_count = 0\<rparr>"

definition inferred_response_body :: "syn_type option \<Rightarrow> syn_type option" where
  "inferred_response_body ret =
     Option.bind ret (\<lambda>ty.
       case extract_type_arg ty ''AppJson'' of
         Some inner \<Rightarrow> Some inner
       | None \<Rightarrow> Option.bind (extract_result_ok_arg ty) (\<lambda>ok_ty. extract_type_arg ok_ty ''AppJson''))"

section \<open>The expansion\<close>

definition normalize :: "macro_crates \<Rightarrow> token list \<Rightarrow> string" where
  "normalize mc tokens = filter (\<lambda>c. c \<noteq> CHR '' '') (mc_to_string mc tokens)"

text \<open>
  What a macro generates: the arguments of the \<open>utoipa::path\<close> attribute, the function as it is, and
  the path and the name in the registration. A macro ends with that, with a compile error, or with
  a panic.
\<close>

record route_expansion =
  re_path_args :: "token list list"
  re_func :: fn_def
  re_routes_path :: crate_path
  re_registered :: string

datatype macro_result = CompileError string | MacroPanics string | Expands route_expansion

definition request_body_arg :: "macro_crates \<Rightarrow> syn_type \<Rightarrow> token list" where
  "request_body_arg mc inferred = [TIdent ''request_body'', TPunct (CHR ''='')] @ mc_type_tokens mc inferred"

definition response_200 :: "macro_crates \<Rightarrow> syn_type \<Rightarrow> token" where
  "response_200 mc body =
     TGroup Parenthesis
       ([TIdent ''status'', TPunct (CHR ''=''), TLiteral ''200'', TPunct (CHR '',''), TIdent ''body'', TPunct (CHR ''='')]
        @ mc_type_tokens mc body)"

definition call_of :: "string \<Rightarrow> token list \<Rightarrow> token list" where
  "call_of name inner = [TIdent name, TGroup Parenthesis inner]"

text \<open>\<open>#(#xs),*\<close>.\<close>

fun comma_separated :: "token list list \<Rightarrow> token list" where
  "comma_separated [] = []"
| "comma_separated [x] = x"
| "comma_separated (x # xs) = x @ TPunct (CHR '','') # comma_separated xs"

definition request_body_tokens ::
  "macro_crates \<Rightarrow> string \<Rightarrow> attr_key option \<Rightarrow> syn_type option \<Rightarrow> string + token list option" where
  "request_body_tokens mc meth explicit_key inferred_type =
     (case (explicit_key, inferred_type) of
        (Some explicit, Some inferred) \<Rightarrow>
          (let explicit_norm = normalize mc (drop 2 (ak_tokens explicit));
               inferred_norm = normalize mc (mc_type_tokens mc inferred)
           in if explicit_norm \<noteq> inferred_norm
              then Inl (''#['' @ meth @ '']: request_body = '' @ explicit_norm @ '' conflicts with inferred AppJson<'' @
                        inferred_norm @ ''> parameter type; remove one'')
              else Inr (Some (request_body_arg mc inferred)))
      | (Some explicit, None) \<Rightarrow> Inr (Some (ak_tokens explicit))
      | (None, Some inferred) \<Rightarrow> Inr (Some (request_body_arg mc inferred))
      | (None, None) \<Rightarrow> Inr None)"

definition responses_tokens :: "macro_crates \<Rightarrow> syn_type option \<Rightarrow> token list option \<Rightarrow> token list option" where
  "responses_tokens mc inferred_body explicit_inner =
     (case (inferred_body, explicit_inner) of
        (Some body, Some rest) \<Rightarrow> Some (call_of ''responses'' (response_200 mc body # TPunct (CHR '','') # rest))
      | (Some body, None) \<Rightarrow> Some (call_of ''responses'' [response_200 mc body])
      | (None, Some rest) \<Rightarrow> Some (call_of ''responses'' rest)
      | (None, None) \<Rightarrow> None)"

definition inferred_params :: "macro_crates \<Rightarrow> string option \<Rightarrow> signature_inference \<Rightarrow> token list list" where
  "inferred_params mc path_lit sig =
     (case si_app_path_type sig of
        Some path_ty \<Rightarrow>
          (let placeholders = unwrap_or [] (map_option path_placeholders path_lit)
           in if length placeholders = 1 \<and> is_primitive_path_param_type path_ty
              then [[TGroup Parenthesis
                      ([TLiteral (mc_string_literal mc (hd placeholders)), TPunct (CHR ''='')] @ mc_type_tokens mc path_ty @
                       [TPunct (CHR '',''), TIdent ''Path''])]]
              else [mc_type_tokens mc path_ty])
      | None \<Rightarrow> []) @
     (case si_app_query_type sig of Some query_ty \<Rightarrow> [mc_type_tokens mc query_ty] | None \<Rightarrow> [])"

definition params_tokens :: "token list list \<Rightarrow> token list option \<Rightarrow> token list option" where
  "params_tokens inferred explicit_inner =
     (case (inferred = [], explicit_inner) of
        (True, None) \<Rightarrow> None
      | (True, Some rest) \<Rightarrow> Some (call_of ''params'' rest)
      | (False, None) \<Rightarrow> Some (call_of ''params'' (comma_separated inferred))
      | (False, Some rest) \<Rightarrow> Some (call_of ''params'' (comma_separated inferred @ TPunct (CHR '','') # rest)))"

definition option_list :: "'a option \<Rightarrow> 'a list" where
  "option_list x = (case x of None \<Rightarrow> [] | Some a \<Rightarrow> [a])"

definition route_method_fn :: "macro_crates \<Rightarrow> string \<Rightarrow> token list \<Rightarrow> fn_def \<Rightarrow> macro_result" where
  "route_method_fn mc meth attr func =
     (let fn_name = fn_ident func;
          keys = split_top_level_keys attr;
          sig = inspect_signature func
      in if 1 < length (si_app_json_types sig)
         then CompileError (''#['' @ meth @ '']: found more than one AppJson<_> parameter; a handler can only '' @
                            ''take one request body'')
         else if 1 < si_app_path_count sig
         then CompileError (''#['' @ meth @ '']: found more than one AppPath<_> parameter; combine multiple path '' @
                            ''segments into one #[derive(utoipa::IntoParams)] struct'')
         else if 1 < si_app_query_count sig
         then CompileError (''#['' @ meth @ '']: found more than one AppQuery<_> parameter; combine multiple '' @
                            ''query fields into one #[derive(utoipa::IntoParams)] struct'')
         else
     (case request_body_tokens mc meth (find_key ''request_body'' keys)
             (case si_app_json_types sig of [] \<Rightarrow> None | t # _ \<Rightarrow> Some t) of
        Inl e \<Rightarrow> CompileError e
      | Inr request_body \<Rightarrow>
     (let explicit_responses_inner =
            Option.bind (find_key ''responses'' keys) (\<lambda>k. group_inner_tokens (ak_tokens k));
          inferred_body = inferred_response_body (fn_output func)
      in if inferred_body \<noteq> None \<and>
            (case explicit_responses_inner of
               Some inner \<Rightarrow> list_ex entry_has_status_200 (concat (map ak_tokens (split_top_level_keys inner)))
             | None \<Rightarrow> False)
         then CompileError (''#['' @ meth @ ''] fn '' @ fn_name @ '': inferred 200 response from the return type '' @
                            ''conflicts with an explicit `(status = 200, ...)` entry in `responses(...)`; '' @
                            ''the 200 case is always inferred from the return type '' @
                            [CHR 0xE2, CHR 0x80, CHR 0x94] @ '' remove it from '' @
                            ''`responses(...)` and keep only error-case entries there.'')
         else if inferred_body = None \<and> explicit_responses_inner = None
         then CompileError (''#['' @ meth @ ''] fn '' @ fn_name @ '': cannot infer a 200 response (return type is not '' @
                            ''AppJson<_> or Result<AppJson<_>, _>) and no explicit responses(...) was '' @
                            ''provided; add responses((status = 200, body = ...)) or change the return type '' @
                            ''to AppJson<_>.'')
         else
     (let responses = responses_tokens mc inferred_body explicit_responses_inner;
          explicit_params_inner = Option.bind (find_key ''params'' keys) (\<lambda>k. group_inner_tokens (ak_tokens k));
          params = params_tokens (inferred_params mc (find_path_literal mc keys) sig) explicit_params_inner;
          pass_through = map ak_tokens
            (filter (\<lambda>k. ak_name k \<notin> {''request_body'', ''responses'', ''params''}) keys)
      in case stano_routes_path (mc_crate_name mc) of
           Inl msg \<Rightarrow> MacroPanics msg
         | Inr stano_routes \<Rightarrow>
             Expands
               \<lparr>re_path_args =
                  [[TIdent meth],
                   [TIdent ''operation_id'', TPunct (CHR ''=''), TLiteral (mc_string_literal mc fn_name)]] @
                  pass_through @ option_list request_body @ option_list responses @ option_list params,
                re_func = func, re_routes_path = stano_routes, re_registered = fn_name\<rparr>))))"

definition route_method_impl :: "macro_crates \<Rightarrow> string \<Rightarrow> token list \<Rightarrow> item \<Rightarrow> macro_result" where
  "route_method_impl mc meth attr input =
     (case input of
        ItemFn func \<Rightarrow> route_method_fn mc meth attr func
      | _ \<Rightarrow> CompileError (''#['' @ meth @ ''] can only be used on functions''))"

text \<open>The five macros.\<close>

definition route_macros :: "(string \<times> (macro_crates \<Rightarrow> token list \<Rightarrow> item \<Rightarrow> macro_result)) list" where
  "route_macros = map (\<lambda>m. (m, \<lambda>mc attr input. route_method_impl mc m attr input))
     [''get'', ''post'', ''put'', ''delete'', ''patch'']"

section \<open>Lemmas on the keys\<close>

text \<open>
  What a chunk of tokens does to the loop: \<open>None\<close> if it has a top-level comma, otherwise the depth
  it ends at.
\<close>

fun chunk :: "int \<Rightarrow> token list \<Rightarrow> int option" where
  "chunk d [] = Some d"
| "chunk d (TPunct c # ts) =
     (if c = CHR ''<'' then chunk (d + 1) ts
      else if c = CHR ''>'' \<and> 0 < d then chunk (d - 1) ts
      else if c = CHR '','' \<and> d = 0 then None
      else chunk d ts)"
| "chunk d (_ # ts) = chunk d ts"

definition plain_chunk :: "token list \<Rightarrow> bool" where
  "plain_chunk ts = (ts \<noteq> [] \<and> chunk 0 ts = Some 0)"

lemma split_keys_loop_acc: "split_keys_loop keys cur d ts = keys @ split_keys_loop [] cur d ts"
proof (induction ts arbitrary: keys cur d)
  case (Cons t ts)
  note acc = Cons.IH [of "keys @ [build_attr_key cur]"] Cons.IH [of "[build_attr_key cur]"] Cons.IH [of keys]
  show ?case by (cases t) (auto simp: acc simp del: split_keys_loop.simps simp: split_keys_loop.simps(2-5))
qed auto

lemma split_keys_loop_chunk:
  "chunk d ts = Some 0 \<Longrightarrow>
   split_keys_loop [] cur d (ts @ TPunct (CHR '','') # rest) =
     (if cur @ ts \<noteq> [] then [build_attr_key (cur @ ts)] else []) @ split_top_level_keys rest"
proof (induction d ts arbitrary: cur rule: chunk.induct)
  case (1 d)
  then show ?case using split_keys_loop_acc [of "[build_attr_key cur]"] by (simp add: split_top_level_keys_def)
qed (auto split: if_splits)

lemma split_keys_loop_last:
  "chunk d ts \<noteq> None \<Longrightarrow> split_keys_loop [] cur d ts = (if cur @ ts \<noteq> [] then [build_attr_key (cur @ ts)] else [])"
  by (induction d ts arbitrary: cur rule: chunk.induct) (auto split: if_splits)

lemma split_top_level_keys_chunk:
  "plain_chunk ts \<Longrightarrow> split_top_level_keys (ts @ TPunct (CHR '','') # rest) = build_attr_key ts # split_top_level_keys rest"
  using split_keys_loop_chunk [of 0 ts "[]" rest] by (simp add: split_top_level_keys_def plain_chunk_def)

lemma comma_separated_Cons: "xs \<noteq> [] \<Longrightarrow> comma_separated (x # xs) = x @ TPunct (CHR '','') # comma_separated xs"
  by (cases xs) auto

lemma split_comma_separated:
  "list_all plain_chunk tss \<Longrightarrow> last_ts \<noteq> [] \<Longrightarrow> chunk 0 last_ts \<noteq> None \<Longrightarrow>
   split_top_level_keys (comma_separated (tss @ [last_ts])) = map build_attr_key (tss @ [last_ts])"
proof (induction tss)
  case Nil
  then show ?case using split_keys_loop_last [of 0 last_ts "[]"] by (simp add: split_top_level_keys_def)
next
  case (Cons ts tss)
  then show ?case by (simp add: comma_separated_Cons split_top_level_keys_chunk)
qed

text \<open>The tokens of the keys that the loop yields.\<close>

lemma chunk_append: "chunk d (ts @ us) = (case chunk d ts of None \<Rightarrow> None | Some d' \<Rightarrow> chunk d' us)"
  by (induction d ts rule: chunk.induct) auto

lemma split_keys_loop_keys:
  assumes "chunk 0 cur = Some d"
  shows "\<exists>ks. split_keys_loop [] cur d ts = map build_attr_key ks \<and>
           list_all (\<lambda>k. k \<noteq> [] \<and> chunk 0 k \<noteq> None) ks \<and> list_all plain_chunk (butlast ks)"
  using assms
proof (induction ts arbitrary: cur d)
  case Nil
  show ?case
  proof (cases "cur = []")
    case True
    then show ?thesis by (intro exI [of _ "[]"]) simp
  next
    case False
    then show ?thesis using Nil by (intro exI [of _ "[cur]"]) simp
  qed
next
  case (Cons t ts)
  show ?case
  proof (cases "t = TPunct (CHR '','') \<and> d = 0")
    case True
    obtain ks where ks: "split_keys_loop [] [] 0 ts = map build_attr_key ks"
      "list_all (\<lambda>k. k \<noteq> [] \<and> chunk 0 k \<noteq> None) ks" "list_all plain_chunk (butlast ks)"
      using Cons.IH [of "[]" 0] by auto
    show ?thesis
    proof (cases "cur = []")
      case False
      have "split_keys_loop [] cur d (t # ts) = map build_attr_key (cur # ks)"
        using True False ks split_keys_loop_acc [of "[build_attr_key cur]" "[]" 0 ts] by simp
      moreover have "plain_chunk cur" "cur \<noteq> [] \<and> chunk 0 cur \<noteq> None"
        using False True Cons.prems by (simp_all add: plain_chunk_def)
      ultimately show ?thesis using ks by (intro exI [of _ "cur # ks"]) simp
    qed (use True ks in auto)
  next
    case False
    have "\<exists>d'. chunk d [t] = Some d' \<and> split_keys_loop [] cur d (t # ts) = split_keys_loop [] (cur @ [t]) d' ts"
      using False by (cases t) auto
    then obtain d' where d': "chunk d [t] = Some d'" "split_keys_loop [] cur d (t # ts) = split_keys_loop [] (cur @ [t]) d' ts"
      by blast
    then show ?thesis using Cons.IH [of "cur @ [t]" d'] Cons.prems by (simp add: chunk_append)
  qed
qed

lemma split_top_level_keys_keys:
  "\<exists>ks. split_top_level_keys attr = map build_attr_key ks \<and>
        list_all (\<lambda>k. k \<noteq> [] \<and> chunk 0 k \<noteq> None) ks \<and> list_all plain_chunk (butlast ks)"
  unfolding split_top_level_keys_def by (rule split_keys_loop_keys) simp

lemma split_top_level_keys_built:
  "k \<in> set (split_top_level_keys attr) \<Longrightarrow> k = build_attr_key (ak_tokens k)"
  using split_top_level_keys_keys [of attr] by (auto simp: build_attr_key_def)

lemma find_key_SomeD:
  "find_key n keys = Some k \<Longrightarrow> k \<in> set keys \<and> ak_name k = n"
  by (induction keys) (auto simp: find_key_def split: if_splits)

text \<open>The generated entry for 200 is recognised as one.\<close>

lemma entry_has_status_200_response: "entry_has_status_200 (response_200 mc body)"
proof -
  let ?status = "[TIdent ''status'', TPunct (CHR ''=''), TLiteral ''200'']"
  let ?body = "[TIdent ''body'', TPunct (CHR ''='')] @ mc_type_tokens mc body"
  have "plain_chunk ?status" by (simp add: plain_chunk_def)
  from split_top_level_keys_chunk [OF this, of ?body]
  have "split_top_level_keys (?status @ TPunct (CHR '','') # ?body) = build_attr_key ?status # split_top_level_keys ?body" .
  then show ?thesis
    by (simp add: entry_has_status_200_def response_200_def build_attr_key_def is_literal_200_def strip_prefix_def)
qed

lemma plain_chunk_group [simp]: "plain_chunk [TGroup d ts]"
  by (simp add: plain_chunk_def)

lemma response_200_group: "\<exists>ts. response_200 mc body = TGroup Parenthesis ts"
  by (simp add: response_200_def)

section \<open>Lemmas on the placeholders\<close>

text \<open>A path, as the segments it is made of; a parameter with a star matches the rest.\<close>

datatype path_part = Literally string | Param string | Wildcard string

fun part_text :: "path_part \<Rightarrow> string" where
  "part_text (Literally s) = s"
| "part_text (Param n) = ''{'' @ n @ ''}''"
| "part_text (Wildcard n) = ''{*'' @ n @ ''}''"

fun part_names :: "path_part \<Rightarrow> string list" where
  "part_names (Literally s) = []"
| "part_names (Param n) = [n]"
| "part_names (Wildcard n) = [n]"

fun part_ok :: "path_part \<Rightarrow> bool" where
  "part_ok (Literally s) = (CHR ''{'' \<notin> set s)"
| "part_ok (Param n) = (CHR ''}'' \<notin> set n \<and> trim_stars n = n)"
| "part_ok (Wildcard n) = (CHR ''}'' \<notin> set n \<and> trim_stars n = n)"

lemma find_char_append: "c \<notin> set n \<Longrightarrow> find_char c (n @ c # s) = Some (length n)"
  by (induction n) auto

lemma placeholders_loop_literally:
  "CHR ''{'' \<notin> set s \<Longrightarrow> placeholders_loop (pre @ s @ rest) (length pre) names = placeholders_loop (pre @ s @ rest) (length pre + length s) names"
proof (induction s arbitrary: pre)
  case (Cons c s)
  have "placeholders_loop (pre @ (c # s) @ rest) (length pre) names
      = placeholders_loop (pre @ (c # s) @ rest) (length pre + 1) names"
    using Cons.prems by (subst placeholders_loop.simps) (auto simp: nth_append)
  then show ?case using Cons.IH [of "pre @ [c]"] Cons.prems by simp
qed simp

lemma placeholders_loop_param:
  assumes "CHR ''}'' \<notin> set n"
  shows "placeholders_loop (pre @ (''{'' @ n @ ''}'') @ rest) (length pre) names
       = placeholders_loop (pre @ (''{'' @ n @ ''}'') @ rest) (length pre + (length n + 2)) (names @ [trim_stars n])"
  by (subst placeholders_loop.simps) (simp add: nth_append find_char_append [OF assms])

lemma placeholders_loop_parts:
  "list_all part_ok parts \<Longrightarrow>
   placeholders_loop (pre @ concat (map part_text parts)) (length pre) names = names @ concat (map part_names parts)"
proof (induction parts arbitrary: pre names)
  case Nil
  show ?case by (subst placeholders_loop.simps) simp
next
  case (Cons p parts)
  let ?rest = "concat (map part_text parts)"
  have IH: "placeholders_loop ((pre @ part_text p) @ ?rest) (length (pre @ part_text p)) names'
      = names' @ concat (map part_names parts)" for names'
    using Cons.IH [of "pre @ part_text p" names'] Cons.prems by simp
  show ?case
  proof (cases p)
    case (Literally s)
    then show ?thesis using placeholders_loop_literally [of s pre ?rest names] IH [of names] Cons.prems by simp
  next
    case (Param n)
    then show ?thesis using placeholders_loop_param [of n pre ?rest names] IH [of "names @ [n]"] Cons.prems by simp
  next
    case (Wildcard n)
    have "trim_stars (CHR ''*'' # n) = n" using Wildcard Cons.prems by (simp add: trim_stars_def)
    then show ?thesis
      using Wildcard placeholders_loop_param [of "CHR ''*'' # n" pre ?rest names] IH [of "names @ [n]"] Cons.prems by simp
  qed
qed

lemma path_placeholders_parts:
  "list_all part_ok parts \<Longrightarrow> path_placeholders (concat (map part_text parts)) = concat (map part_names parts)"
  using placeholders_loop_parts [of parts "[]" "[]"] by (simp add: path_placeholders_def)

section \<open>Lemmas on the expansion\<close>

lemma route_method_fn_Expands:
  assumes "route_method_fn mc meth attr func = Expands e"
  defines "keys \<equiv> split_top_level_keys attr"
  shows "\<exists>request_body.
    si_app_path_count (inspect_signature func) \<le> 1 \<and>
    request_body_tokens mc meth (find_key ''request_body'' keys)
      (case si_app_json_types (inspect_signature func) of [] \<Rightarrow> None | t # _ \<Rightarrow> Some t) = Inr request_body \<and>
    (inferred_response_body (fn_output func) \<noteq> None \<longrightarrow>
      (\<forall>inner. Option.bind (find_key ''responses'' keys) (\<lambda>k. group_inner_tokens (ak_tokens k)) = Some inner \<longrightarrow>
        \<not> list_ex entry_has_status_200 (concat (map ak_tokens (split_top_level_keys inner))))) \<and>
    re_registered e = fn_ident func \<and> re_func e = func \<and>
    re_path_args e =
      [[TIdent meth], [TIdent ''operation_id'', TPunct (CHR ''=''), TLiteral (mc_string_literal mc (fn_ident func))]] @
      map ak_tokens (filter (\<lambda>k. ak_name k \<notin> {''request_body'', ''responses'', ''params''}) keys) @
      option_list request_body @
      option_list (responses_tokens mc (inferred_response_body (fn_output func))
        (Option.bind (find_key ''responses'' keys) (\<lambda>k. group_inner_tokens (ak_tokens k)))) @
      option_list (params_tokens (inferred_params mc (find_path_literal mc keys) (inspect_signature func))
        (Option.bind (find_key ''params'' keys) (\<lambda>k. group_inner_tokens (ak_tokens k))))"
  using assms(1) unfolding route_method_fn_def keys_def [symmetric] Let_def
  by (auto split: if_splits sum.splits option.splits)

text \<open>The name of the key that an argument is.\<close>

definition arg_name :: "token list \<Rightarrow> string" where
  "arg_name ts = ak_name (build_attr_key ts)"

lemma arg_name_simps [simp]:
  "arg_name (TIdent i # ts) = i" "arg_name (call_of n inner) = n" "arg_name (request_body_arg mc t) = ''request_body''"
  by (simp_all add: arg_name_def build_attr_key_def call_of_def request_body_arg_def)

lemma arg_name_key: "k \<in> set (split_top_level_keys attr) \<Longrightarrow> arg_name (ak_tokens k) = ak_name k"
  using split_top_level_keys_built [of k attr] by (metis arg_name_def)

lemma request_body_tokens_name:
  assumes "request_body_tokens mc meth (find_key ''request_body'' (split_top_level_keys attr)) inferred = Inr (Some ts)"
  shows "arg_name ts = ''request_body''"
  using assms find_key_SomeD [of "''request_body''" "split_top_level_keys attr"] arg_name_key [of _ attr]
  by (auto simp: request_body_tokens_def Let_def split: option.splits if_splits)

lemma params_tokens_name: "params_tokens inferred explicit_inner = Some ts \<Longrightarrow> arg_name ts = ''params''"
  by (auto simp: params_tokens_def split: if_splits option.splits bool.splits)

text \<open>The arguments of a given name, of a name that the user does not choose.\<close>

lemma filter_pass_through:
  assumes "n \<in> {''request_body'', ''responses'', ''params''}"
  shows "filter (\<lambda>a. arg_name a = n)
    (map ak_tokens (filter (\<lambda>k. ak_name k \<notin> {''request_body'', ''responses'', ''params''}) (split_top_level_keys attr))) = []"
  using assms arg_name_key [of _ attr] by (auto simp: filter_empty_conv)

lemma method_not_generated:
  "meth \<in> fst ` set route_macros \<Longrightarrow> meth \<notin> {''request_body'', ''responses'', ''params''}"
  by (auto simp: route_macros_def)

lemma filter_option_list: "filter P (option_list x) = (case x of Some a \<Rightarrow> if P a then [a] else [] | None \<Rightarrow> [])"
  by (cases x) (simp_all add: option_list_def)

section \<open>A handler\<close>

text \<open>
  A handler in the style of the example application; types are printed by their last segment,
  string literals between quotes.
\<close>

fun plain_type_tokens :: "syn_type \<Rightarrow> token list" where
  "plain_type_tokens (TyPath segs) = [TIdent (fst (last segs))]"
| "plain_type_tokens _ = []"

definition plain_macro_crates :: macro_crates where
  "plain_macro_crates =
     \<lparr>mc_to_string = (\<lambda>ts. concat (map (\<lambda>t. case t of TIdent i \<Rightarrow> i @ '' '' | _ \<Rightarrow> ''? '') ts)),
      mc_type_tokens = plain_type_tokens,
      mc_parse_lit_str = (\<lambda>s. if s \<noteq> [] \<and> hd s = CHR 34 \<and> last s = CHR 34 then Some (butlast (tl s)) else None),
      mc_string_literal = (\<lambda>s. CHR 34 # s @ [CHR 34]),
      mc_crate_name = (\<lambda>n. if n = ''stano-starter-rest'' then Some (Named ''stano_starter_rest'') else None)\<rparr>"

definition widget_attr :: "token list" where
  "widget_attr =
     [TIdent ''path'', TPunct (CHR ''=''), TLiteral (CHR 34 # ''/widgets/{id}'' @ [CHR 34]), TPunct (CHR '',''),
      TIdent ''responses'', TGroup Parenthesis
        [TGroup Parenthesis [TIdent ''status'', TPunct (CHR ''=''), TLiteral ''404'']]]"

definition get_widget :: fn_def where
  "get_widget =
     \<lparr>fn_ident = ''get_widget'',
      fn_inputs = [Typed (TyPath [(''State'', AngleArgs [GenType (TyPath [(''Ctx'', NoArgs)])])]),
                   Typed (TyPath [(''AppPath'', AngleArgs [GenType (TyPath [(''WidgetId'', NoArgs)])])])],
      fn_output = Some (TyPath [(''Result'', AngleArgs
        [GenType (TyPath [(''AppJson'', AngleArgs [GenType (TyPath [(''WidgetResponse'', NoArgs)])])]),
         GenType (TyPath [(''ApiError'', NoArgs)])])]),
      fn_text = []\<rparr>"

lemma widget_expands: "\<exists>e. route_method_fn plain_macro_crates ''get'' widget_attr get_widget = Expands e"
proof -
  have "case route_method_fn plain_macro_crates ''get'' widget_attr get_widget of Expands _ \<Rightarrow> True | _ \<Rightarrow> False"
    by code_simp
  then show ?thesis by (cases "route_method_fn plain_macro_crates ''get'' widget_attr get_widget") auto
qed

text \<open>The entries of \<open>responses\<close>: the inferred one first, and no other 200 among the explicit ones.\<close>

lemma inferred_entries:
  fixes mc :: macro_crates and body :: syn_type
  assumes "\<And>rest. explicit_inner = Some rest \<Longrightarrow>
        \<not> list_ex entry_has_status_200 (concat (map ak_tokens (split_top_level_keys rest)))"
  defines "entries \<equiv> (case explicit_inner of
      Some rest \<Rightarrow> response_200 mc body # TPunct (CHR '','') # rest | None \<Rightarrow> [response_200 mc body])"
  shows "filter entry_has_status_200 (concat (map ak_tokens (split_top_level_keys entries))) = [response_200 mc body]"
    and "hd (split_top_level_keys entries) = build_attr_key [response_200 mc body]"
proof -
  have group: "plain_chunk [response_200 mc body]" using response_200_group [of mc body] by auto
  have keys: "split_top_level_keys entries = build_attr_key [response_200 mc body] #
      (case explicit_inner of Some rest \<Rightarrow> split_top_level_keys rest | None \<Rightarrow> [])"
    using split_top_level_keys_chunk [OF group] split_comma_separated [of "[]" "[response_200 mc body]"] group
    by (auto simp: entries_def plain_chunk_def split: option.splits)
  then show "hd (split_top_level_keys entries) = build_attr_key [response_200 mc body]" by simp
  have "filter entry_has_status_200 (concat (map ak_tokens (split_top_level_keys rest))) = []"
    if "explicit_inner = Some rest" for rest
    using assms(1) [OF that] by (simp add: filter_empty_conv list_ex_iff)
  then show "filter entry_has_status_200 (concat (map ak_tokens (split_top_level_keys entries))) = [response_200 mc body]"
    by (simp add: keys build_attr_key_def entry_has_status_200_response split: option.splits)
qed

text \<open>
  What an entry of \<open>responses\<close> documents, apart from how the macro looks for it: the status that a key
  \<open>status = n\<close> gives, for \<open>n\<close> a number of three decimal digits.
\<close>

definition status_number :: "token list \<Rightarrow> nat option" where
  "status_number ts =
     (case ts of
        [TIdent name, TPunct eq, TLiteral lit] \<Rightarrow>
          if name = ''status'' \<and> eq = CHR ''='' \<and> length lit = 3 \<and> list_all is_ascii_digit lit then Some (digits_value lit) else None
      | _ \<Rightarrow> None)"

definition documents_status :: "nat \<Rightarrow> token \<Rightarrow> bool" where
  "documents_status n entry =
     (case entry of
        TGroup Parenthesis stream \<Rightarrow> list_ex (\<lambda>key. status_number (ak_tokens key) = Some n) (split_top_level_keys stream)
      | _ \<Rightarrow> False)"

lemma ascii_digit_eq:
  "is_ascii_digit c \<Longrightarrow> (of_char c :: nat) = of_char d \<Longrightarrow> c = d"
  by (metis char_of_char)

lemma three_digits_200:
  fixes a b c :: nat
  assumes "48 \<le> a" "a \<le> 57" "48 \<le> b" "b \<le> 57" "48 \<le> c" "c \<le> 57" "10 * (10 * (a - 48) + (b - 48)) + (c - 48) = 200"
  shows "a = 50" "b = 48" "c = 48"
proof -
  obtain x where x: "a = 48 + x" using le_Suc_ex [OF assms(1)] by blast
  obtain y where y: "b = 48 + y" using le_Suc_ex [OF assms(3)] by blast
  obtain z where z: "c = 48 + z" using le_Suc_ex [OF assms(5)] by blast
  note xyz = x y z
  with assms have "x \<le> 9" "y \<le> 9" "z \<le> 9" "100 * x + 10 * y + z = 200" by auto
  note small = this
  then have "x = 2" by linarith
  with small have "y = 0" "z = 0" by simp_all
  with \<open>x = 2\<close> show "a = 50" "b = 48" "c = 48" using xyz by simp_all
qed

lemma digits_200:
  assumes "length lit = 3" "list_all is_ascii_digit lit" "digits_value lit = 200"
  shows "lit = ''200''"
proof -
  obtain a b c where lit: "lit = [a, b, c]" using assms(1) by (auto simp: numeral_3_eq_3 length_Suc_conv)
  have "48 \<le> (of_char a :: nat)" "(of_char a :: nat) \<le> 57" "48 \<le> (of_char b :: nat)" "(of_char b :: nat) \<le> 57"
    "48 \<le> (of_char c :: nat)" "(of_char c :: nat) \<le> 57"
    using assms(2) by (simp_all add: lit is_ascii_digit_def)
  moreover have "10 * (10 * ((of_char a :: nat) - 48) + ((of_char b :: nat) - 48)) + ((of_char c :: nat) - 48) = 200"
    using assms(3) unfolding lit digits_value_def foldl.simps by simp
  ultimately have "(of_char a :: nat) = 50" "(of_char b :: nat) = 48" "(of_char c :: nat) = 48"
    using three_digits_200 by blast+
  then have "(of_char a :: nat) = of_char (CHR ''2'')" "(of_char b :: nat) = of_char (CHR ''0'')" "(of_char c :: nat) = of_char (CHR ''0'')"
    by simp_all
  then show ?thesis unfolding lit of_char_eq_iff by simp
qed

text \<open>The macro finds every entry for 200 that is written as a number.\<close>

lemma documents_200_found:
  assumes "documents_status 200 entry"
  shows "entry_has_status_200 entry"
proof -
  obtain stream key where entry: "entry = TGroup Parenthesis stream" and key: "key \<in> set (split_top_level_keys stream)"
      "status_number (ak_tokens key) = Some 200"
    using assms by (auto simp: documents_status_def list_ex_iff split: token.splits delimiter.splits)
  obtain name eq lit where ts: "ak_tokens key = [TIdent name, TPunct eq, TLiteral lit]"
    using key(2) by (auto simp: status_number_def split: list.splits token.splits)
  then have "name = ''status''" "lit = ''200''"
    using key(2) digits_200 by (auto simp: status_number_def split: if_splits)
  moreover have "ak_name key = name"
    using split_top_level_keys_built [OF key(1)] ts by (simp add: build_attr_key_def)
  ultimately show ?thesis
    using key(1) ts
    by (auto simp: entry entry_has_status_200_def list_ex_iff is_literal_200_def strip_prefix_def intro!: bexI [of _ key])
qed

lemma documents_200_response: "documents_status 200 (response_200 mc body)"
proof -
  let ?status = "[TIdent ''status'', TPunct (CHR ''=''), TLiteral ''200'']"
  let ?body = "[TIdent ''body'', TPunct (CHR ''='')] @ mc_type_tokens mc body"
  have "plain_chunk ?status" by (simp add: plain_chunk_def)
  from split_top_level_keys_chunk [OF this, of ?body]
  have "split_top_level_keys (?status @ TPunct (CHR '','') # ?body) = build_attr_key ?status # split_top_level_keys ?body" .
  moreover have "status_number ?status = Some 200"
    by (simp add: status_number_def is_ascii_digit_def digits_value_def)
  ultimately show ?thesis
    by (simp add: documents_status_def response_200_def build_attr_key_def)
qed

text \<open>
  A 200 that is not written as a plain number is not found, and the expansion then documents the
  status twice.
\<close>

definition other_200_attr :: "token list \<Rightarrow> token list" where
  "other_200_attr status =
     [TIdent ''path'', TPunct (CHR ''=''), TLiteral (CHR 34 # ''/widgets/{id}'' @ [CHR 34]), TPunct (CHR '',''),
      TIdent ''responses'', TGroup Parenthesis [TGroup Parenthesis ([TIdent ''status'', TPunct (CHR ''='')] @ status)]]"

lemma other_200_missed:
  "list_all (\<lambda>status. case route_method_fn plain_macro_crates ''get'' (other_200_attr status) get_widget of
      Expands e \<Rightarrow> map (\<lambda>a. case a of [_, TGroup _ es] \<Rightarrow> length (split_top_level_keys es) | _ \<Rightarrow> 0)
          (filter (\<lambda>a. arg_name a = ''responses'') (re_path_args e)) = [2]
    | _ \<Rightarrow> False) [[TIdent ''OK''], [TLiteral ''200u16'']]"
  by code_simp

section \<open>Properties\<close>

text \<open>C29.
  Splitting an attribute into its keys is inverse to joining keys with commas: keys without a
  top-level comma and with balanced angle brackets are read back as they are, commas within
  groups and generic arguments included; and what the splitting yields for any attribute is read
  back from its own keys.\<close>
theorem split_top_level_keys_round_trip:
  assumes "list_all plain_chunk tss"
  shows "split_top_level_keys (comma_separated tss) = map build_attr_key tss \<and>
         split_top_level_keys (comma_separated (map ak_tokens (split_top_level_keys attr))) = split_top_level_keys attr"
proof
  show "split_top_level_keys (comma_separated tss) = map build_attr_key tss"
  proof (cases tss rule: rev_cases)
    case (snoc front ts)
    then show ?thesis using assms split_comma_separated [of front ts] by (simp add: plain_chunk_def)
  qed (simp add: split_top_level_keys_def)
  obtain ks where ks: "split_top_level_keys attr = map build_attr_key ks"
    "list_all (\<lambda>k. k \<noteq> [] \<and> chunk 0 k \<noteq> None) ks" "list_all plain_chunk (butlast ks)"
    using split_top_level_keys_keys by blast
  have "map ak_tokens (map build_attr_key ks) = ks" by (simp add: build_attr_key_def comp_def)
  moreover have "split_top_level_keys (comma_separated ks) = map build_attr_key ks"
  proof (cases ks rule: rev_cases)
    case (snoc front k)
    then show ?thesis using ks(2, 3) split_comma_separated [of front k] by simp
  qed (simp add: split_top_level_keys_def)
  ultimately show "split_top_level_keys (comma_separated (map ak_tokens (split_top_level_keys attr))) = split_top_level_keys attr"
    by (simp add: ks(1))
qed

theorem split_top_level_keys_round_trip_witness:
  "map ak_name (split_top_level_keys (comma_separated
     [[TIdent ''path'', TPunct (CHR ''=''), TLiteral ''x''],
      [TIdent ''request_body'', TPunct (CHR ''=''), TIdent ''Map'', TPunct (CHR ''<''), TIdent ''K'', TPunct (CHR '',''),
       TIdent ''V'', TPunct (CHR ''>'')]])) = [''path'', ''request_body'']"
proof -
  let ?tss = "[[TIdent ''path'', TPunct (CHR ''=''), TLiteral ''x''],
      [TIdent ''request_body'', TPunct (CHR ''=''), TIdent ''Map'', TPunct (CHR ''<''), TIdent ''K'', TPunct (CHR '',''),
       TIdent ''V'', TPunct (CHR ''>'')]]"
  have "list_all plain_chunk ?tss" by (simp add: plain_chunk_def)
  from split_top_level_keys_round_trip [OF this] show ?thesis by (simp add: build_attr_key_def)
qed

text \<open>C18.
  A handler whose return type gives the 200 response gets exactly one \<open>responses(...)\<close> argument. Of
  its entries exactly one documents the status 200 as a number, the inferred one, in front of the
  entries the user wrote; and the same one is the only one that the macro itself recognises. (An
  entry that writes the status in another way, \<open>OK\<close> or \<open>200u16\<close>, is not counted here and not
  recognised by the macro: \<open>other_200_missed\<close>.)\<close>
theorem exactly_one_200:
  assumes "route_method_fn mc meth attr func = Expands e" "meth \<in> fst ` set route_macros"
    and "inferred_response_body (fn_output func) = Some body"
  shows "\<exists>entries. filter (\<lambda>a. arg_name a = ''responses'') (re_path_args e) = [call_of ''responses'' entries] \<and>
    filter (documents_status 200) (concat (map ak_tokens (split_top_level_keys entries))) = [response_200 mc body] \<and>
    filter entry_has_status_200 (concat (map ak_tokens (split_top_level_keys entries))) = [response_200 mc body] \<and>
    hd (split_top_level_keys entries) = build_attr_key [response_200 mc body]"
proof -
  let ?keys = "split_top_level_keys attr"
  let ?explicit_inner = "Option.bind (find_key ''responses'' ?keys) (\<lambda>k. group_inner_tokens (ak_tokens k))"
  obtain request_body where
    rb: "request_body_tokens mc meth (find_key ''request_body'' ?keys)
      (case si_app_json_types (inspect_signature func) of [] \<Rightarrow> None | t # _ \<Rightarrow> Some t) = Inr request_body" and
    no200: "\<And>inner. ?explicit_inner = Some inner \<Longrightarrow>
        \<not> list_ex entry_has_status_200 (concat (map ak_tokens (split_top_level_keys inner)))" and
    args: "re_path_args e =
      [[TIdent meth], [TIdent ''operation_id'', TPunct (CHR ''=''), TLiteral (mc_string_literal mc (fn_ident func))]] @
      map ak_tokens (filter (\<lambda>k. ak_name k \<notin> {''request_body'', ''responses'', ''params''}) ?keys) @
      option_list request_body @ option_list (responses_tokens mc (Some body) ?explicit_inner) @
      option_list (params_tokens (inferred_params mc (find_path_literal mc ?keys) (inspect_signature func))
        (Option.bind (find_key ''params'' ?keys) (\<lambda>k. group_inner_tokens (ak_tokens k))))"
    using route_method_fn_Expands [OF assms(1)] assms(3) by auto
  define entries where "entries = (case ?explicit_inner of
      Some rest \<Rightarrow> response_200 mc body # TPunct (CHR '','') # rest | None \<Rightarrow> [response_200 mc body])"
  have resp: "responses_tokens mc (Some body) ?explicit_inner = Some (call_of ''responses'' entries)"
    by (simp add: responses_tokens_def entries_def split: option.splits)
  have "filter (\<lambda>a. arg_name a = ''responses'') (option_list request_body) = []"
    using request_body_tokens_name [of mc meth attr] rb by (auto simp: filter_option_list split: option.splits)
  moreover have "filter (\<lambda>a. arg_name a = ''responses'') (option_list (params_tokens x y)) = []" for x y
    using params_tokens_name [of x y] by (auto simp: filter_option_list split: option.splits)
  ultimately have one: "filter (\<lambda>a. arg_name a = ''responses'') (re_path_args e) = [call_of ''responses'' entries]"
    using method_not_generated [OF assms(2)] filter_pass_through [of "''responses''" attr]
    by (simp add: args resp option_list_def)
  have recognised: "filter entry_has_status_200 (concat (map ak_tokens (split_top_level_keys entries))) = [response_200 mc body]"
    "hd (split_top_level_keys entries) = build_attr_key [response_200 mc body]"
    using inferred_entries [OF no200, where mc = mc and body = body] by (simp_all add: entries_def)
  have "filter (documents_status 200) (concat (map ak_tokens (split_top_level_keys entries))) =
      filter (documents_status 200) (filter entry_has_status_200 (concat (map ak_tokens (split_top_level_keys entries))))"
    by (auto intro!: filter_cong dest: documents_200_found simp: filter_filter)
  then show ?thesis using one recognised documents_200_response by (intro exI [of _ entries]) simp
qed

theorem exactly_one_200_witness:
  "\<exists>e entries. route_method_fn plain_macro_crates ''get'' widget_attr get_widget = Expands e \<and>
     filter (\<lambda>a. arg_name a = ''responses'') (re_path_args e) = [call_of ''responses'' entries] \<and>
     length (split_top_level_keys entries) = 2"
proof -
  obtain e where e: "route_method_fn plain_macro_crates ''get'' widget_attr get_widget = Expands e"
    using widget_expands by blast
  have m: "''get'' \<in> fst ` set route_macros" by (simp add: route_macros_def)
  have b: "inferred_response_body (fn_output get_widget) = Some (TyPath [(''WidgetResponse'', NoArgs)])" by code_simp
  from exactly_one_200 [OF e m b] obtain entries where
    en: "filter (\<lambda>a. arg_name a = ''responses'') (re_path_args e) = [call_of ''responses'' entries]" by blast
  have "(case route_method_fn plain_macro_crates ''get'' widget_attr get_widget of Expands e \<Rightarrow>
      map length (map (\<lambda>a. case a of [_, TGroup _ es] \<Rightarrow> split_top_level_keys es | _ \<Rightarrow> [])
        (filter (\<lambda>a. arg_name a = ''responses'') (re_path_args e))) = [2] | _ \<Rightarrow> False)"
    by code_simp
  then have "length (split_top_level_keys entries) = 2" by (simp add: e en call_of_def)
  with e en show ?thesis by blast
qed

text \<open>C30.
  The placeholders of a path: for a path made of literal text, parameters \<open>{name}\<close> and wildcards
  \<open>{*name}\<close>, exactly the names, in order, however many. A handler with an \<open>AppPath\<close> documents, unless
  the user wrote \<open>params(...)\<close>: the one parameter by its name, when the path has one and the type is
  primitive or an identifier; the type, with all its parameters, otherwise; and after it the type of
  its query, if it has one.\<close>
theorem path_parameters_documented:
  assumes "list_all part_ok parts"
    and "route_method_fn mc meth attr func = Expands e"
    and "find_path_literal mc (split_top_level_keys attr) = Some (concat (map part_text parts))"
    and "si_app_path_type (inspect_signature func) = Some ty"
    and "find_key ''params'' (split_top_level_keys attr) = None"
  shows "path_placeholders (concat (map part_text parts)) = concat (map part_names parts) \<and>
    last (re_path_args e) = call_of ''params'' (comma_separated
      ((case concat (map part_names parts) of
          [name] \<Rightarrow>
            if is_primitive_path_param_type ty
            then [[TGroup Parenthesis ([TLiteral (mc_string_literal mc name), TPunct (CHR ''='')] @ mc_type_tokens mc ty @
                   [TPunct (CHR '',''), TIdent ''Path''])]]
            else [mc_type_tokens mc ty]
        | _ \<Rightarrow> [mc_type_tokens mc ty]) @
       (case si_app_query_type (inspect_signature func) of Some query_ty \<Rightarrow> [mc_type_tokens mc query_ty] | None \<Rightarrow> [])))"
proof
  show names: "path_placeholders (concat (map part_text parts)) = concat (map part_names parts)"
    by (rule path_placeholders_parts [OF assms(1)])
  let ?inferred = "inferred_params mc (find_path_literal mc (split_top_level_keys attr)) (inspect_signature func)"
  have "?inferred \<noteq> []" by (simp add: inferred_params_def assms(4) Let_def)
  then have "last (re_path_args e) = call_of ''params'' (comma_separated ?inferred)"
    using route_method_fn_Expands [OF assms(2)] assms(5) by (auto simp: params_tokens_def option_list_def)
  moreover have "?inferred =
      (case concat (map part_names parts) of
          [name] \<Rightarrow>
            if is_primitive_path_param_type ty
            then [[TGroup Parenthesis ([TLiteral (mc_string_literal mc name), TPunct (CHR ''='')] @ mc_type_tokens mc ty @
                   [TPunct (CHR '',''), TIdent ''Path''])]]
            else [mc_type_tokens mc ty]
        | _ \<Rightarrow> [mc_type_tokens mc ty]) @
       (case si_app_query_type (inspect_signature func) of Some query_ty \<Rightarrow> [mc_type_tokens mc query_ty] | None \<Rightarrow> [])"
  proof -
    obtain ns where ns: "concat (map part_names parts) = ns" by simp
    show ?thesis by (auto simp: inferred_params_def assms(3,4) Let_def names [unfolded ns] ns split: list.split)
  qed
  ultimately show "last (re_path_args e) = call_of ''params'' (comma_separated
      ((case concat (map part_names parts) of
          [name] \<Rightarrow>
            if is_primitive_path_param_type ty
            then [[TGroup Parenthesis ([TLiteral (mc_string_literal mc name), TPunct (CHR ''='')] @ mc_type_tokens mc ty @
                   [TPunct (CHR '',''), TIdent ''Path''])]]
            else [mc_type_tokens mc ty]
        | _ \<Rightarrow> [mc_type_tokens mc ty]) @
       (case si_app_query_type (inspect_signature func) of Some query_ty \<Rightarrow> [mc_type_tokens mc query_ty] | None \<Rightarrow> [])))"
    by simp
qed

definition asset_attr :: "token list" where
  "asset_attr = [TIdent ''path'', TPunct (CHR ''=''), TLiteral (CHR 34 # ''/widgets/{id}/assets/{*rest}'' @ [CHR 34])]"

theorem path_parameters_documented_witness:
  "\<exists>e e'. route_method_fn plain_macro_crates ''get'' widget_attr get_widget = Expands e \<and>
     last (re_path_args e) = call_of ''params''
       [TGroup Parenthesis [TLiteral (CHR 34 # ''id'' @ [CHR 34]), TPunct (CHR ''=''), TIdent ''WidgetId'',
          TPunct (CHR '',''), TIdent ''Path'']] \<and>
     route_method_fn plain_macro_crates ''get'' asset_attr get_widget = Expands e' \<and>
     path_placeholders ''/widgets/{id}/assets/{*rest}'' = [''id'', ''rest''] \<and>
     last (re_path_args e') = call_of ''params'' [TIdent ''WidgetId'']"
proof -
  let ?one = "[Literally ''/widgets/'', Param ''id'']"
  let ?two = "[Literally ''/widgets/'', Param ''id'', Literally ''/assets/'', Wildcard ''rest'']"
  have one: "list_all part_ok ?one" "concat (map part_names ?one) = [''id'']" by code_simp+
  have two: "list_all part_ok ?two" "concat (map part_names ?two) = [''id'', ''rest'']"
    "concat (map part_text ?two) = ''/widgets/{id}/assets/{*rest}''" by code_simp+
  obtain e where e: "route_method_fn plain_macro_crates ''get'' widget_attr get_widget = Expands e"
    using widget_expands by blast
  have "case route_method_fn plain_macro_crates ''get'' asset_attr get_widget of Expands _ \<Rightarrow> True | _ \<Rightarrow> False" by code_simp
  then obtain e' where e': "route_method_fn plain_macro_crates ''get'' asset_attr get_widget = Expands e'"
    by (cases "route_method_fn plain_macro_crates ''get'' asset_attr get_widget") auto
  have lit: "find_path_literal plain_macro_crates (split_top_level_keys widget_attr) = Some (concat (map part_text ?one))"
    "find_path_literal plain_macro_crates (split_top_level_keys asset_attr) = Some (concat (map part_text ?two))"
    by code_simp+
  have sig: "si_app_path_type (inspect_signature get_widget) = Some (TyPath [(''WidgetId'', NoArgs)])"
    "is_primitive_path_param_type (TyPath [(''WidgetId'', NoArgs)])"
    "si_app_query_type (inspect_signature get_widget) = None" by code_simp+
  have params: "find_key ''params'' (split_top_level_keys widget_attr) = None"
    "find_key ''params'' (split_top_level_keys asset_attr) = None" by code_simp+
  have "last (re_path_args e) = call_of ''params''
       [TGroup Parenthesis [TLiteral (CHR 34 # ''id'' @ [CHR 34]), TPunct (CHR ''=''), TIdent ''WidgetId'',
          TPunct (CHR '',''), TIdent ''Path'']]"
    using path_parameters_documented [OF one(1) e lit(1) sig(1) params(1), THEN conjunct2, unfolded one(2)] sig
    by (simp add: plain_macro_crates_def)
  moreover have "path_placeholders ''/widgets/{id}/assets/{*rest}'' = [''id'', ''rest'']"
    "last (re_path_args e') = call_of ''params'' [TIdent ''WidgetId'']"
    using path_parameters_documented [OF two(1) e' lit(2) sig(1) params(2), unfolded two(2,3)] sig
    by (simp_all add: plain_macro_crates_def)
  ultimately show ?thesis using e e' by blast
qed

end
