(* ===== verification/Http_Model.thy ===== *)
theory Http_Model
  imports Common_Types Jwt_Security
begin

text \<open>
  What the web crates read and write of a request and a response, the log, and the state a
  request is served in. The crates \<open>http\<close>, \<open>axum\<close> and \<open>tower\<close> are third-party: a header value
  is its text, or bytes \<open>to_str\<close> rejects; the typed extension maps are one optional field for
  each type the code stores there.
\<close>

datatype header_value = HeaderText string | HeaderOpaque "8 word list"

type_synonym header_map = "(string \<times> header_value) list"

fun to_str :: "header_value \<Rightarrow> string option" where
  "to_str (HeaderText s) = Some s"
| "to_str (HeaderOpaque _) = None"

definition header_get :: "header_map \<Rightarrow> string \<Rightarrow> header_value option" where
  "header_get h name = map_of h name"

text \<open>\<open>HeaderMap::insert\<close> drops the other values of the name.\<close>

definition header_insert :: "string \<Rightarrow> header_value \<Rightarrow> header_map \<Rightarrow> header_map" where
  "header_insert name v h = (name, v) # filter (\<lambda>(n, _). n \<noteq> name) h"

lemma header_get_insert [simp]:
  "header_get (header_insert name v h) n = (if n = name then Some v else header_get h n)"
  by (induction h) (auto simp: header_get_def header_insert_def)

section \<open>Errors and responses\<close>

text \<open>\<open>ApiError\<close> of \<open>stano-axum\<close> (\<open>error/api_error.rs\<close>); a status is its number.\<close>

datatype 'x api_error =
    JsonExtraction nat string string    \<comment> \<open>status, body text, rejection type\<close>
  | PathExtraction nat string string
  | QueryExtraction nat string string
  | ServiceErr "'x service_error"
  | InternalErr string

record error_response =
  er_status :: nat
  er_code :: string
  er_message :: string
  er_details :: "string option"
  er_request_id :: "string option"

text \<open>A body is a serialised \<open>ErrorResponse\<close>, or what a handler or another layer produced.\<close>

datatype body = ErrorBody error_response | Body string

record 'x response =
  rs_status :: nat
  rs_headers :: header_map
  rs_body :: body
  rs_error :: "'x api_error option"       \<comment> \<open>the extension of type \<open>Arc<ApiError>\<close>\<close>

definition is_client_error :: "nat \<Rightarrow> bool" where
  "is_client_error s = (400 \<le> s \<and> s < 500)"

definition is_server_error :: "nat \<Rightarrow> bool" where
  "is_server_error s = (500 \<le> s \<and> s < 600)"

record 'e request =
  rq_method :: string
  rq_path :: string
  rq_query :: "string option"
  rq_headers :: header_map
  rq_body :: string
  rq_security :: "'e security_context option"   \<comment> \<open>the extension \<open>SecurityContext<E>\<close>\<close>
  rq_request_id :: "string option"              \<comment> \<open>the extension \<open>RequestId\<close>\<close>
  rq_matched_path :: "string option"            \<comment> \<open>the extension \<open>MatchedPath\<close>\<close>

section \<open>Logs and services\<close>

datatype level = ERROR | WARN | INFO | DEBUG | TRACE

text \<open>
  A field of an event as its call writes it: text, a number, a \<open>StatusCode\<close> by its \<open>Display\<close>
  (\<open>%status\<close>, the number with its reason phrase), or a value by its \<open>Debug\<close> (\<open>?value\<close>). What
  \<open>Debug\<close> prints is a function of the value, so the field holds the value; the opaque cause
  inside \<open>ServiceError::Internal\<close> is left out of it.
\<close>

datatype field_value =
    Text string
  | Number nat
  | StatusText nat
  | DebugOption "string option"
  | DebugError "unit api_error"

definition debug_error :: "'x api_error \<Rightarrow> field_value" where
  "debug_error e = DebugError (map_api_error (\<lambda>_. ()) e)"

record log_event =
  le_level :: level
  le_message :: string
  le_fields :: "(string \<times> field_value) list"

text \<open>
  What becomes of the future of a service: it completes with a response or with an error of
  the service, it unwinds with a panic, or it is dropped before it completes (a timeout, a
  client that disconnects). A service also changes the state of the server \<open>'w\<close>, which the
  layers extend by what they need.
\<close>

datatype panic_payload = PanicString string | PanicStr string | PanicOther

datatype ('x, 'err) reply = Reply "'x response" | Fails 'err | Panics panic_payload | Dropped

type_synonym ('e, 'x, 'err, 'w) service = "'e request \<Rightarrow> 'w \<Rightarrow> ('x, 'err) reply \<times> 'w"

text \<open>Decimal digits of a number, as \<open>Display\<close> prints it.\<close>

fun show_nat :: "nat \<Rightarrow> string" where
  "show_nat n = (if n < 10 then [char_of (48 + n)] else show_nat (n div 10) @ [char_of (48 + n mod 10)])"

declare show_nat.simps [simp del]

end
