(* ===== verification/Api_Error.thy ===== *)
theory Api_Error
  imports Http_Model
begin

text \<open>
  \<open>stano-axum\<close>'s error handling (\<open>error/api_error.rs\<close>, \<open>error/error_response.rs\<close>): the
  response an \<open>ApiError\<close> becomes, with what it logs, and the conversions into \<open>ApiError\<close>.
\<close>

section \<open>The response body\<close>

definition error_response_new :: "nat \<Rightarrow> string \<Rightarrow> string \<Rightarrow> error_response" where
  "error_response_new status code message =
     \<lparr>er_status = status, er_code = code, er_message = message, er_details = None, er_request_id = None\<rparr>"

definition with_details :: "string \<Rightarrow> error_response \<Rightarrow> error_response" where
  "with_details details r = r\<lparr>er_details := Some details\<rparr>"

definition with_request_id :: "string \<Rightarrow> error_response \<Rightarrow> error_response" where
  "with_request_id request_id r = r\<lparr>er_request_id := Some request_id\<rparr>"

text \<open>The members of the serialised object; \<open>None\<close> is skipped.\<close>

datatype json = JNumber nat | JString string

definition error_response_members :: "error_response \<Rightarrow> (string \<times> json) list" where
  "error_response_members r =
     [(''status'', JNumber (er_status r)), (''code'', JString (er_code r)), (''message'', JString (er_message r))] @
     (case er_details r of None \<Rightarrow> [] | Some d \<Rightarrow> [(''details'', JString d)]) @
     (case er_request_id r of None \<Rightarrow> [] | Some i \<Rightarrow> [(''request_id'', JString i)])"

section \<open>\<open>into_response\<close>\<close>

text \<open>The table: status, code, message, details, and whether to log.\<close>

fun error_row :: "'x api_error \<Rightarrow> nat \<times> string \<times> string \<times> string option \<times> bool" where
  "error_row (JsonExtraction status body_text _) =
     (status, ''INVALID_JSON'', ''Failed to parse JSON request body'', Some body_text, True)"
| "error_row (PathExtraction status body_text _) =
     (status, ''INVALID_PATH'', ''Invalid path parameter'', Some body_text, True)"
| "error_row (QueryExtraction status body_text _) =
     (status, ''INVALID_QUERY'', ''Invalid query parameter'', Some body_text, True)"
| "error_row (ServiceErr SE_NotFound) = (404, ''NOT_FOUND'', ''Resource not found'', None, False)"
| "error_row (ServiceErr (SE_InvalidInput msg)) = (400, ''INVALID_INPUT'', ''Invalid request'', Some msg, True)"
| "error_row (ServiceErr (SE_Conflict msg)) = (409, ''CONFLICT'', ''Resource conflict'', Some msg, True)"
| "error_row (ServiceErr SE_Unauthorized) = (401, ''UNAUTHORIZED'', ''Authentication required'', None, False)"
| "error_row (ServiceErr SE_Forbidden) = (403, ''FORBIDDEN'', ''Insufficient permissions'', None, False)"
| "error_row (ServiceErr (SE_Internal _)) =
     (500, ''INTERNAL_ERROR'', ''An internal error occurred'', None, True)"
| "error_row (InternalErr _) = (500, ''INTERNAL_ERROR'', ''An internal error occurred'', None, True)"

definition into_response :: "'x api_error \<Rightarrow> log_event list \<times> 'x response" where
  "into_response err =
     (case error_row err of (status, code, message, details, should_log) \<Rightarrow>
        let logs = (if should_log
                    then [\<lparr>le_level = ERROR, le_message = ''API error occurred'',
                           le_fields = [(''error_type'', debug_error err), (''status'', StatusText status),
                                        (''code'', Text code)]\<rparr>]
                    else []);
            body = error_response_new status code message;
            body = (case details of
                      Some d \<Rightarrow> if is_client_error status then with_details d body else body
                    | None \<Rightarrow> body)
        in (logs, \<lparr>rs_status = status,
                   rs_headers = [(''content-type'', HeaderText ''application/json'')],
                   rs_body = ErrorBody body,
                   rs_error = Some err\<rparr>))"

section \<open>Conversions\<close>

text \<open>What the code reads of an axum rejection: its status, its text, the name of its type.\<close>

record rejection =
  rj_status :: nat
  rj_body_text :: string
  rj_type_name :: string

definition rejection_warning :: "string \<Rightarrow> rejection \<Rightarrow> log_event" where
  "rejection_warning what r =
     \<lparr>le_level = WARN, le_message = what @ '' extraction failed'',
      le_fields = [(''rejection_status'', StatusText (rj_status r)), (''rejection_body'', Text (rj_body_text r))]\<rparr>"

definition from_json_rejection :: "rejection \<Rightarrow> log_event list \<times> 'x api_error" where
  "from_json_rejection r =
     ([rejection_warning ''JSON'' r], JsonExtraction (rj_status r) (rj_body_text r) (rj_type_name r))"

definition from_path_rejection :: "rejection \<Rightarrow> log_event list \<times> 'x api_error" where
  "from_path_rejection r =
     ([rejection_warning ''Path'' r], PathExtraction (rj_status r) (rj_body_text r) (rj_type_name r))"

definition from_query_rejection :: "rejection \<Rightarrow> log_event list \<times> 'x api_error" where
  "from_query_rejection r =
     ([rejection_warning ''Query'' r], QueryExtraction (rj_status r) (rj_body_text r) (rj_type_name r))"

definition from_service_error :: "'x service_error \<Rightarrow> 'x api_error" where
  "from_service_error e = ServiceErr e"

section \<open>Lemmas\<close>

lemma into_response_status: "rs_status (snd (into_response e)) = fst (error_row e)"
  by (simp add: into_response_def Let_def split: prod.splits)

lemma into_response_error [simp]: "rs_error (snd (into_response e)) = Some e"
  by (simp add: into_response_def Let_def split: prod.splits)

lemma into_response_body:
  "\<exists>b. rs_body (snd (into_response e)) = ErrorBody b \<and> er_status b = rs_status (snd (into_response e)) \<and>
       er_code b = fst (snd (error_row e)) \<and> er_request_id b = None \<and>
       er_details b = (if is_client_error (fst (error_row e)) then fst (snd (snd (snd (error_row e)))) else None)"
  by (auto simp: into_response_def Let_def error_response_new_def with_details_def
      split: prod.splits option.splits)

lemma into_response_unauthorized:
  "rs_status (snd (into_response (from_service_error SE_Unauthorized))) = 401"
  "rs_status (snd (into_response (from_service_error SE_Forbidden))) = 403"
  by (simp_all add: into_response_status from_service_error_def)

section \<open>Properties\<close>

lemma server_error_response:
  assumes "\<not> is_client_error (fst (error_row e))" "error_row e = (status, code, message, details, logged)"
  shows "snd (into_response e) = \<lparr>rs_status = status, rs_headers = [(''content-type'', HeaderText ''application/json'')],
           rs_body = ErrorBody (error_response_new status code message), rs_error = Some e\<rparr>"
  using assms by (simp add: into_response_def Let_def split: option.splits)

text \<open>C25.
  A response that is not a client error (4xx) discloses nothing of its cause. What the client
  gets is one header, the content type, and an object of exactly three members: the status, and
  a code and a message that are fixed texts, chosen by the kind of the error alone. An internal
  error, of the service layer or of the web layer, is the same 500 answer whatever it says.\<close>
theorem server_errors_leak_nothing:
  fixes e :: "'x api_error"
  assumes "\<not> is_client_error (rs_status (snd (into_response e)))"
  shows "rs_headers (snd (into_response e)) = [(''content-type'', HeaderText ''application/json'')] \<and>
         (\<exists>b. rs_body (snd (into_response e)) = ErrorBody b \<and>
           (\<exists>code message.
              error_response_members b =
                [(''status'', JNumber (rs_status (snd (into_response e)))), (''code'', JString code),
                 (''message'', JString message)] \<and>
              (code, message) =
                (case e of
                   JsonExtraction _ _ _ \<Rightarrow> (''INVALID_JSON'', ''Failed to parse JSON request body'')
                 | PathExtraction _ _ _ \<Rightarrow> (''INVALID_PATH'', ''Invalid path parameter'')
                 | QueryExtraction _ _ _ \<Rightarrow> (''INVALID_QUERY'', ''Invalid query parameter'')
                 | _ \<Rightarrow> (''INTERNAL_ERROR'', ''An internal error occurred'')))) \<and>
         rs_status (snd (into_response e)) =
           (case e of JsonExtraction s _ _ \<Rightarrow> s | PathExtraction s _ _ \<Rightarrow> s | QueryExtraction s _ _ \<Rightarrow> s | _ \<Rightarrow> 500)"
proof -
  obtain status code message details logged where row: "error_row e = (status, code, message, details, logged)"
    by (metis prod_cases5)
  with assms have server: "\<not> is_client_error status" by (simp add: into_response_status)
  then have response: "snd (into_response e) = \<lparr>rs_status = status,
      rs_headers = [(''content-type'', HeaderText ''application/json'')],
      rs_body = ErrorBody (error_response_new status code message), rs_error = Some e\<rparr>"
    using server_error_response row by (metis fst_conv)
  show ?thesis
    using row server unfolding response
    by (cases e rule: error_row.cases) (auto simp: error_response_members_def error_response_new_def is_client_error_def)
qed

theorem server_errors_leak_nothing_witness:
  "\<exists>b. rs_body (snd (into_response (InternalErr ''password=hunter2'' :: string api_error))) = ErrorBody b \<and>
       error_response_members b =
         [(''status'', JNumber 500), (''code'', JString ''INTERNAL_ERROR''),
          (''message'', JString ''An internal error occurred'')]"
  using server_errors_leak_nothing [of "InternalErr ''password=hunter2'' :: string api_error"]
  by (simp add: into_response_status is_client_error_def)

text \<open>
  A domain error that reaches the client through the service layer is a client error, 400 for
  invalid input and 409 for a violated business rule, carries the domain's message as its
  details and is logged; the errors that are not logged are exactly 404, 401 and 403 of the
  service layer.\<close>
lemma domain_error_responses:
  "(case into_response (from_service_error (domain_err_to_service d :: 'x service_error)) of (logs, r) \<Rightarrow>
      length logs = 1 \<and> rs_error r = Some (ServiceErr (domain_err_to_service d)) \<and>
      (\<exists>b. rs_body r = ErrorBody b \<and> er_status b = rs_status r \<and>
        (case d of DE_InvalidInput msg \<Rightarrow> rs_status r = 400 \<and> er_code b = ''INVALID_INPUT'' \<and> er_details b = Some msg
         | DE_BusinessRuleViolation msg \<Rightarrow> rs_status r = 409 \<and> er_code b = ''CONFLICT'' \<and> er_details b = Some msg))) \<and>
   (fst (into_response (e :: 'x api_error)) = [] \<longleftrightarrow>
      e \<in> {ServiceErr SE_NotFound, ServiceErr SE_Unauthorized, ServiceErr SE_Forbidden})"
proof
  show "case into_response (from_service_error (domain_err_to_service d :: 'x service_error)) of (logs, r) \<Rightarrow>
      length logs = 1 \<and> rs_error r = Some (ServiceErr (domain_err_to_service d)) \<and>
      (\<exists>b. rs_body r = ErrorBody b \<and> er_status b = rs_status r \<and>
        (case d of DE_InvalidInput msg \<Rightarrow> rs_status r = 400 \<and> er_code b = ''INVALID_INPUT'' \<and> er_details b = Some msg
         | DE_BusinessRuleViolation msg \<Rightarrow> rs_status r = 409 \<and> er_code b = ''CONFLICT'' \<and> er_details b = Some msg))"
    by (cases d) (simp_all add: into_response_def from_service_error_def error_response_new_def with_details_def
        is_client_error_def Let_def)
  show "fst (into_response e) = [] \<longleftrightarrow>
      e \<in> {ServiceErr SE_NotFound, ServiceErr SE_Unauthorized, ServiceErr SE_Forbidden}"
    by (cases e rule: error_row.cases) (simp_all add: into_response_def Let_def)
qed

end
