(* ===== verification/Authz_Builder.thy ===== *)
theory Authz_Builder
  imports Api_Error
begin

text \<open>
  The authorization chain of \<open>stano-axum\<close> under construction (\<open>security/authorization.rs\<close>,
  \<open>security/pattern.rs\<close>). The crate \<open>matchit\<close> is a parameter, the record of the functions the
  code calls: an empty router, the insertion of a pattern, and whether a path is found. A claims
  validator is asynchronous application code: it may read and change the server's state \<open>'w\<close>.
\<close>

section \<open>Patterns\<close>

record ('r, 'ie) matchit =
  mi_new :: 'r
  mi_insert :: "string \<Rightarrow> 'r \<Rightarrow> 'ie + 'r"
  mi_at :: "'r \<Rightarrow> string \<Rightarrow> bool"

datatype 'r compiled_pattern = CompiledPattern 'r

definition compiled_pattern_new :: "('r, 'ie) matchit \<Rightarrow> string \<Rightarrow> 'ie + 'r compiled_pattern" where
  "compiled_pattern_new mi pattern = map_ok CompiledPattern (mi_insert mi pattern (mi_new mi))"

fun pattern_matches :: "('r, 'ie) matchit \<Rightarrow> 'r compiled_pattern \<Rightarrow> string \<Rightarrow> bool" where
  "pattern_matches mi (CompiledPattern r) path = mi_at mi r path"

section \<open>Rules and the builder\<close>

type_synonym ('e, 'w) claims_validator = "'e claims \<Rightarrow> 'w \<Rightarrow> (string + unit) \<times> 'w"

datatype 'e effect = PermitAll | Authenticated | HasRole "'e \<Rightarrow> bool"

record ('r, 'e) rule =
  ru_methods :: "string list option"
  ru_pattern :: "'r compiled_pattern"
  ru_effect :: "'e effect"

datatype 'ie build_error = MissingAnyRequest | InvalidPattern 'ie

fun build_error_display :: "('ie \<Rightarrow> string) \<Rightarrow> 'ie build_error \<Rightarrow> string" where
  "build_error_display show_ie MissingAnyRequest = ''authorization chain must end with a terminal any_request() rule''"
| "build_error_display show_ie (InvalidPattern err) = ''invalid request matcher pattern: '' @ show_ie err"

record ('r, 'ie, 'e, 'w) authorization_builder =
  ab_rules :: "('r, 'e) rule list"
  ab_any_request :: "'e effect option"
  ab_claims_validator :: "('e, 'w) claims_validator option"
  ab_cookie_name :: "string option"
  ab_poisoned :: "'ie option"

definition authorization_builder_new :: "('r, 'ie, 'e, 'w) authorization_builder" where
  "authorization_builder_new =
     \<lparr>ab_rules = [], ab_any_request = None, ab_claims_validator = None, ab_cookie_name = None,
      ab_poisoned = None\<rparr>"

datatype pattern_spec = Pattern string | AnyRequest

record ('r, 'ie, 'e, 'w) request_matcher_builder =
  rm_parent :: "('r, 'ie, 'e, 'w) authorization_builder"
  rm_methods :: "string list option"
  rm_pattern :: pattern_spec

definition request_matcher ::
  "string \<Rightarrow> ('r, 'ie, 'e, 'w) authorization_builder \<Rightarrow> ('r, 'ie, 'e, 'w) request_matcher_builder" where
  "request_matcher pattern b = \<lparr>rm_parent = b, rm_methods = None, rm_pattern = Pattern pattern\<rparr>"

definition any_request ::
  "('r, 'ie, 'e, 'w) authorization_builder \<Rightarrow> ('r, 'ie, 'e, 'w) request_matcher_builder" where
  "any_request b = \<lparr>rm_parent = b, rm_methods = None, rm_pattern = AnyRequest\<rparr>"

definition with_claims_validator ::
  "('e, 'w) claims_validator \<Rightarrow> ('r, 'ie, 'e, 'w) authorization_builder \<Rightarrow>
   ('r, 'ie, 'e, 'w) authorization_builder" where
  "with_claims_validator v b = b\<lparr>ab_claims_validator := Some v\<rparr>"

definition cookie_name ::
  "string \<Rightarrow> ('r, 'ie, 'e, 'w) authorization_builder \<Rightarrow> ('r, 'ie, 'e, 'w) authorization_builder" where
  "cookie_name n b = b\<lparr>ab_cookie_name := Some n\<rparr>"

definition methods ::
  "string list \<Rightarrow> ('r, 'ie, 'e, 'w) request_matcher_builder \<Rightarrow> ('r, 'ie, 'e, 'w) request_matcher_builder" where
  "methods ms rm = rm\<lparr>rm_methods := Some ms\<rparr>"

text \<open>\<open>poison\<close> keeps the first error.\<close>

definition poison :: "'ie \<Rightarrow> ('r, 'ie, 'e, 'w) authorization_builder \<Rightarrow> ('r, 'ie, 'e, 'w) authorization_builder" where
  "poison err b = (case ab_poisoned b of None \<Rightarrow> b\<lparr>ab_poisoned := Some err\<rparr> | Some _ \<Rightarrow> b)"

definition finish ::
  "('r, 'ie) matchit \<Rightarrow> 'e effect \<Rightarrow> ('r, 'ie, 'e, 'w) request_matcher_builder \<Rightarrow>
   ('r, 'ie, 'e, 'w) authorization_builder" where
  "finish mi eff rm =
     (let parent = rm_parent rm in
      case rm_pattern rm of
        AnyRequest \<Rightarrow> parent\<lparr>ab_any_request := Some eff\<rparr>
      | Pattern pattern \<Rightarrow>
          (case compiled_pattern_new mi pattern of
             Inr compiled \<Rightarrow>
               parent\<lparr>ab_rules := ab_rules parent @
                 [\<lparr>ru_methods = rm_methods rm, ru_pattern = compiled, ru_effect = eff\<rparr>]\<rparr>
           | Inl err \<Rightarrow> poison err parent))"

definition permit_all ::
  "('r, 'ie) matchit \<Rightarrow> ('r, 'ie, 'e, 'w) request_matcher_builder \<Rightarrow> ('r, 'ie, 'e, 'w) authorization_builder" where
  "permit_all mi rm = finish mi PermitAll rm"

definition authenticated ::
  "('r, 'ie) matchit \<Rightarrow> ('r, 'ie, 'e, 'w) request_matcher_builder \<Rightarrow> ('r, 'ie, 'e, 'w) authorization_builder" where
  "authenticated mi rm = finish mi Authenticated rm"

definition has_role ::
  "('r, 'ie) matchit \<Rightarrow> ('e \<Rightarrow> bool) \<Rightarrow> ('r, 'ie, 'e, 'w) request_matcher_builder \<Rightarrow>
   ('r, 'ie, 'e, 'w) authorization_builder" where
  "has_role mi predicate rm = finish mi (HasRole predicate) rm"

definition has_any_role ::
  "('r, 'ie) matchit \<Rightarrow> ('e \<Rightarrow> bool) list \<Rightarrow> ('r, 'ie, 'e, 'w) request_matcher_builder \<Rightarrow>
   ('r, 'ie, 'e, 'w) authorization_builder" where
  "has_any_role mi predicates rm = finish mi (HasRole (\<lambda>ext. list_ex (\<lambda>p. p ext) predicates)) rm"

section \<open>The finished layer\<close>

text \<open>\<open>CheckState\<close> and \<open>AuthorizationLayer\<close> of \<open>security/layer.rs\<close>, and \<open>build_layer\<close>.\<close>

record ('r, 'e, 'w) check_state =
  cs_rules :: "('r, 'e) rule list"
  cs_any_request :: "'e effect"
  cs_jwt_config :: jwt_config
  cs_claims_validator :: "('e, 'w) claims_validator option"

record ('r, 'e, 'w) authorization_layer =
  al_check :: "('r, 'e, 'w) check_state"
  al_cookie_name :: "string option"

definition build_layer ::
  "('r, 'e) rule list \<Rightarrow> 'e effect \<Rightarrow> jwt_config \<Rightarrow> ('e, 'w) claims_validator option \<Rightarrow> string option \<Rightarrow>
   ('r, 'e, 'w) authorization_layer" where
  "build_layer rules any_req config validator cookie =
     \<lparr>al_check = \<lparr>cs_rules = rules, cs_any_request = any_req, cs_jwt_config = config,
                 cs_claims_validator = validator\<rparr>,
      al_cookie_name = cookie\<rparr>"

definition build ::
  "jwt_config \<Rightarrow> ('r, 'ie, 'e, 'w) authorization_builder \<Rightarrow> 'ie build_error + ('r, 'e, 'w) authorization_layer" where
  "build config b =
     (case ab_poisoned b of
        Some err \<Rightarrow> Inl (InvalidPattern err)
      | None \<Rightarrow>
          and_then (ok_or MissingAnyRequest (ab_any_request b))
            (\<lambda>any_req. Inr (build_layer (ab_rules b) any_req config (ab_claims_validator b) (ab_cookie_name b))))"

section \<open>Chains\<close>

text \<open>A chain of builder calls, and the specification of what it builds.\<close>

datatype ('e, 'w) chain_step =
    RuleStep string "string list option" "'e effect"
  | AnyStep "string list option" "'e effect"
  | ValidatorStep "('e, 'w) claims_validator"
  | CookieStep string

fun with_methods ::
  "string list option \<Rightarrow> ('r, 'ie, 'e, 'w) request_matcher_builder \<Rightarrow> ('r, 'ie, 'e, 'w) request_matcher_builder" where
  "with_methods None rm = rm"
| "with_methods (Some ms) rm = methods ms rm"

fun apply_step ::
  "('r, 'ie) matchit \<Rightarrow> ('e, 'w) chain_step \<Rightarrow> ('r, 'ie, 'e, 'w) authorization_builder \<Rightarrow>
   ('r, 'ie, 'e, 'w) authorization_builder" where
  "apply_step mi (RuleStep p ms eff) b = finish mi eff (with_methods ms (request_matcher p b))"
| "apply_step mi (AnyStep ms eff) b = finish mi eff (with_methods ms (any_request b))"
| "apply_step mi (ValidatorStep v) b = with_claims_validator v b"
| "apply_step mi (CookieStep n) b = cookie_name n b"

definition run_chain ::
  "('r, 'ie) matchit \<Rightarrow> ('e, 'w) chain_step list \<Rightarrow> ('r, 'ie, 'e, 'w) authorization_builder" where
  "run_chain mi steps = fold (apply_step mi) steps authorization_builder_new"

fun step_rule :: "('r, 'ie) matchit \<Rightarrow> ('e, 'w) chain_step \<Rightarrow> ('r, 'e) rule list" where
  "step_rule mi (RuleStep p ms eff) =
     (case compiled_pattern_new mi p of
        Inr c \<Rightarrow> [\<lparr>ru_methods = ms, ru_pattern = c, ru_effect = eff\<rparr>] | Inl _ \<Rightarrow> [])"
| "step_rule mi _ = []"

fun step_bad :: "('r, 'ie) matchit \<Rightarrow> ('e, 'w) chain_step \<Rightarrow> 'ie option" where
  "step_bad mi (RuleStep p ms eff) = (case compiled_pattern_new mi p of Inl e \<Rightarrow> Some e | Inr _ \<Rightarrow> None)"
| "step_bad mi _ = None"

fun step_any :: "('e, 'w) chain_step \<Rightarrow> 'e effect option" where
  "step_any (AnyStep _ eff) = Some eff"
| "step_any _ = None"

fun step_validator :: "('e, 'w) chain_step \<Rightarrow> ('e, 'w) claims_validator option" where
  "step_validator (ValidatorStep v) = Some v"
| "step_validator _ = None"

fun step_cookie :: "('e, 'w) chain_step \<Rightarrow> string option" where
  "step_cookie (CookieStep n) = Some n"
| "step_cookie _ = None"

text \<open>The first and the last \<open>Some\<close> of a list.\<close>

abbreviation last_map :: "('a \<Rightarrow> 'b option) \<Rightarrow> 'a list \<Rightarrow> 'b option" where
  "last_map f xs \<equiv> find_map f (rev xs)"

lemma find_map_append: "find_map f (xs @ ys) = (case find_map f xs of Some b \<Rightarrow> Some b | None \<Rightarrow> find_map f ys)"
  by (induction xs) (auto split: option.splits)

lemma with_methods_simps [simp]:
  "rm_parent (with_methods ms rm) = rm_parent rm"
  "rm_pattern (with_methods ms rm) = rm_pattern rm"
  "rm_methods (with_methods ms rm) = (case ms of None \<Rightarrow> rm_methods rm | Some m \<Rightarrow> Some m)"
  by (cases ms; simp add: methods_def)+

lemma run_chain_eq:
  "run_chain mi steps =
     \<lparr>ab_rules = concat (map (step_rule mi) steps), ab_any_request = last_map step_any steps,
      ab_claims_validator = last_map step_validator steps, ab_cookie_name = last_map step_cookie steps,
      ab_poisoned = find_map (step_bad mi) steps\<rparr>"
proof (induction steps rule: rev_induct)
  case Nil
  then show ?case by (simp add: run_chain_def authorization_builder_new_def)
next
  case (snoc x steps)
  then have "run_chain mi (steps @ [x]) = apply_step mi x
     \<lparr>ab_rules = concat (map (step_rule mi) steps), ab_any_request = last_map step_any steps,
      ab_claims_validator = last_map step_validator steps, ab_cookie_name = last_map step_cookie steps,
      ab_poisoned = find_map (step_bad mi) steps\<rparr>"
    by (simp add: run_chain_def)
  then show ?case
    by (cases x)
       (auto simp: finish_def request_matcher_def any_request_def with_claims_validator_def cookie_name_def
          poison_def find_map_append Let_def split: option.splits sum.splits)
qed

text \<open>C26.
  What an authorization chain builds. It fails with the first invalid pattern if there is one,
  else for want of an \<open>any_request()\<close> rule; otherwise the layer has exactly the rules of the
  chain in their order, each with its methods and effect, the effect of the last
  \<open>any_request()\<close> (whose methods are ignored), the last validator and the last cookie name.\<close>
theorem build_chain_spec:
  "build config (run_chain mi steps) =
     (case find_map (step_bad mi) steps of
        Some err \<Rightarrow> Inl (InvalidPattern err)
      | None \<Rightarrow>
          (case last_map step_any steps of
             None \<Rightarrow> Inl MissingAnyRequest
           | Some eff \<Rightarrow>
               Inr (build_layer (concat (map (step_rule mi) steps)) eff config
                      (last_map step_validator steps) (last_map step_cookie steps))))"
  by (simp add: run_chain_eq build_def split: option.splits)

end
