(* ===== verification/Authz_Layer.thy ===== *)
theory Authz_Layer
  imports Authz_Builder
begin

text \<open>
  The authorization layer of \<open>stano-axum\<close> at work (\<open>security/layer.rs\<close>): the extraction of the
  token, the choice of the rule, the effect of the rule, and the \<open>tower\<close> service that wraps the
  application. The state of the server has the \<open>MeterProvider\<close> that is installed (any value
  \<open>'mp\<close>), the provider to which the lazily created failure counter is bound, what has been
  counted, and the log.
\<close>

record 'mp server_world =
  meter_provider :: 'mp
  failure_counter :: "'mp option"
  failures_counted :: "('mp \<times> string \<times> nat) list"
  now :: nat     \<comment> \<open>nanoseconds\<close>
  log :: "log_event list"

datatype auth_outcome = Allow | Unauthorized | Forbidden

section \<open>The token\<close>

definition bearer :: string where
  "bearer = ''Bearer ''"

definition extract_token :: "header_map \<Rightarrow> string option \<Rightarrow> string option" where
  "extract_token headers cookie =
     (case Option.bind (Option.bind (header_get headers ''authorization'') to_str) (strip_prefix bearer) of
        Some token \<Rightarrow> Some token
      | None \<Rightarrow>
          Option.bind cookie (\<lambda>cookie_name.
          Option.bind (Option.bind (header_get headers ''cookie'') to_str) (\<lambda>cookie_header.
            find_map (\<lambda>pair.
                case split_once (CHR ''='') (trim pair) of
                  None \<Rightarrow> None
                | Some (name, value) \<Rightarrow> if name = cookie_name then Some value else None)
              (split_on (CHR '';'') cookie_header))))"

section \<open>The check\<close>

definition rule_applies :: "('r, 'ie) matchit \<Rightarrow> string \<Rightarrow> string \<Rightarrow> ('r, 'e) rule \<Rightarrow> bool" where
  "rule_applies mi meth path rule =
     ((case ru_methods rule of None \<Rightarrow> True | Some ms \<Rightarrow> meth \<in> set ms) \<and>
      pattern_matches mi (ru_pattern rule) path)"

definition select_effect :: "('r, 'ie) matchit \<Rightarrow> ('r, 'e, 'w) check_state \<Rightarrow> string \<Rightarrow> string \<Rightarrow> 'e effect" where
  "select_effect mi cs meth path =
     (case find (rule_applies mi meth path) (cs_rules cs) of
        Some rule \<Rightarrow> ru_effect rule
      | None \<Rightarrow> cs_any_request cs)"

fun run_validator :: "('e, 'w) claims_validator option \<Rightarrow> 'e claims \<Rightarrow> 'w \<Rightarrow> bool \<times> 'w" where
  "run_validator None c w = (True, w)"
| "run_validator (Some v) c w = (case v c w of (r, w') \<Rightarrow> (is_ok r, w'))"

text \<open>
  The effect of the rule on the request's security context. The answer is the auth_outcome, the
  context and the state.
\<close>

definition decode_token ::
  "('ek, 'dk, 'e) jwt_crate \<Rightarrow> jwt_config \<Rightarrow> string option \<Rightarrow> 'e claims option" where
  "decode_token jw config token = Option.bind token (\<lambda>t. ok (decode_jwt jw t config))"

fun apply_effect ::
  "('ek, 'dk, 'e) jwt_crate \<Rightarrow> 'e effect \<Rightarrow> string option \<Rightarrow> jwt_config \<Rightarrow> ('e, 'w) claims_validator option \<Rightarrow>
   'e security_context option \<Rightarrow> 'w \<Rightarrow> auth_outcome \<times> 'e security_context option \<times> 'w" where
  "apply_effect jw PermitAll token config validator sc w =
     (case decode_token jw config token of
        Some c \<Rightarrow>
          (case run_validator validator c w of (valid, w') \<Rightarrow>
             (Allow, if valid then Some (sc_new c) else sc, w'))
      | None \<Rightarrow> (Allow, sc, w))"
| "apply_effect jw Authenticated token config validator sc w =
     (case decode_token jw config token of
        Some c \<Rightarrow>
          (case run_validator validator c w of (valid, w') \<Rightarrow>
             if valid then (Allow, Some (sc_new c), w') else (Unauthorized, sc, w'))
      | None \<Rightarrow> (Unauthorized, sc, w))"
| "apply_effect jw (HasRole predicate) token config validator sc w =
     (case decode_token jw config token of
        Some c \<Rightarrow>
          (case run_validator validator c w of (valid, w') \<Rightarrow>
             if \<not> valid then (Unauthorized, sc, w')
             else if predicate (ext c) then (Allow, Some (sc_new c), w')
             else (Forbidden, sc, w'))
      | None \<Rightarrow> (Unauthorized, sc, w))"

definition check ::
  "('r, 'ie) matchit \<Rightarrow> ('ek, 'dk, 'e) jwt_crate \<Rightarrow> ('r, 'e, 'w) check_state \<Rightarrow> string \<Rightarrow> string \<Rightarrow> string option \<Rightarrow>
   'e security_context option \<Rightarrow> 'w \<Rightarrow> auth_outcome \<times> 'e security_context option \<times> 'w" where
  "check mi jw cs meth path token sc w =
     apply_effect jw (select_effect mi cs meth path) token (cs_jwt_config cs) (cs_claims_validator cs) sc w"

section \<open>The service\<close>

fun failure_status :: "auth_outcome \<Rightarrow> nat option" where
  "failure_status Allow = None"
| "failure_status Unauthorized = Some 401"
| "failure_status Forbidden = Some 403"

text \<open>The counter is created on the first rejection, from the provider that is installed then.\<close>

definition count_failure :: "string \<Rightarrow> nat \<Rightarrow> ('mp, 'z) server_world_scheme \<Rightarrow> ('mp, 'z) server_world_scheme" where
  "count_failure meth status w =
     (let counter = unwrap_or (meter_provider w) (failure_counter w) in
      w\<lparr>failure_counter := Some counter,
        failures_counted := failures_counted w @ [(counter, meth, status)]\<rparr>)"

definition rejection_response ::
  "auth_outcome \<Rightarrow> ('mp, 'z) server_world_scheme \<Rightarrow> 'x response \<times> ('mp, 'z) server_world_scheme" where
  "rejection_response out w =
     (case into_response (from_service_error (if out = Unauthorized then SE_Unauthorized else SE_Forbidden)) of
        (logs, r) \<Rightarrow> (r, w\<lparr>log := log w @ logs\<rparr>))"

definition authorization_service ::
  "('r, 'ie) matchit \<Rightarrow> ('ek, 'dk, 'e) jwt_crate \<Rightarrow>
   ('r, 'e, ('mp, 'z) server_world_scheme) authorization_layer \<Rightarrow>
   ('e, 'x, 'err, ('mp, 'z) server_world_scheme) service \<Rightarrow>
   ('e, 'x, 'err, ('mp, 'z) server_world_scheme) service" where
  "authorization_service mi jw layer inner req w =
     (let token = extract_token (rq_headers req) (al_cookie_name layer) in
      case check mi jw (al_check layer) (rq_method req) (rq_path req) token (rq_security req) w of
        (out, sc, w) \<Rightarrow>
          let req = req\<lparr>rq_security := sc\<rparr>;
              w = (case failure_status out of
                     Some status \<Rightarrow> count_failure (rq_method req) status w
                   | None \<Rightarrow> w)
          in case out of
               Allow \<Rightarrow> inner req w
             | _ \<Rightarrow> (case rejection_response out w of (r, w) \<Rightarrow> (Reply r, w)))"

section \<open>Lemmas\<close>

lemma rejection_response_eq:
  "rejection_response out w = (r, w') \<Longrightarrow>
   rs_status r = (if out = Unauthorized then 401 else 403) \<and> w' = w \<and>
   rs_error r = Some (ServiceErr (if out = Unauthorized then SE_Unauthorized else SE_Forbidden))"
  by (auto simp: rejection_response_def into_response_def from_service_error_def Let_def split: if_splits)

lemma decode_token_Some_iff:
  "decode_token jw config token = Some c \<longleftrightarrow> (\<exists>t. token = Some t \<and> decode_jwt jw t config = Inr c)"
  by (cases token) (auto simp: decode_token_def)

text \<open>What \<open>Allow\<close> means for an effect that is not \<open>PermitAll\<close>.\<close>

lemma apply_effect_Allow:
  assumes "apply_effect jw eff token config v sc w = (Allow, sc', w')" "eff \<noteq> PermitAll"
  shows "\<exists>t c. token = Some t \<and> decode_jwt jw t config = Inr c \<and> sc' = Some (sc_new c) \<and>
           run_validator v c w = (True, w') \<and> (\<forall>p. eff = HasRole p \<longrightarrow> p (ext c))"
  using assms
  by (cases eff) (auto simp: decode_token_Some_iff split: option.splits prod.splits if_splits)

lemma apply_effect_PermitAll:
  "fst (apply_effect jw PermitAll token config v sc w) = Allow"
  by (auto split: option.splits prod.splits)

lemma select_effect_first:
  assumes "cs_rules cs = before @ rule # after" "rule_applies mi m p rule"
    "\<forall>r\<in>set before. \<not> rule_applies mi m p r"
  shows "select_effect mi cs m p = ru_effect rule"
proof -
  have "find (rule_applies mi m p) before = None" using assms(3) by (simp add: find_None_iff)
  then have "find (rule_applies mi m p) (before @ rule # after) = Some rule"
    using assms(2) by (induction before) (auto split: if_splits)
  then show ?thesis by (simp add: select_effect_def assms(1))
qed

lemma select_effect_any:
  "\<forall>r\<in>set (cs_rules cs). \<not> rule_applies mi m p r \<Longrightarrow> select_effect mi cs m p = cs_any_request cs"
  by (simp add: select_effect_def find_None_iff [THEN iffD2])

section \<open>The chain of the test module\<close>

text \<open>
  The chain that the tests of \<open>layer.rs\<close> and the documentation of the builder configure. To run
  it, \<open>matchit\<close> is instantiated with exact and prefix (\<open>/a/{*rest}\<close>) patterns, and
  \<open>jsonwebtoken\<close> with tokens that are the role in clear text after the public key.
\<close>

definition app_chain :: "(string, 'w) chain_step list" where
  "app_chain =
     [RuleStep ''/public/{*rest}'' None PermitAll,
      RuleStep ''/admin/{*rest}'' None (HasRole (\<lambda>role. role = ''ADMIN'')),
      AnyStep None Authenticated]"

definition app_builder :: "('r, 'ie) matchit \<Rightarrow> ('r, 'ie, string, 'w) authorization_builder" where
  "app_builder mi =
     authenticated mi (any_request
       (has_role mi (\<lambda>role. role = ''ADMIN'') (request_matcher ''/admin/{*rest}''
         (permit_all mi (request_matcher ''/public/{*rest}'' authorization_builder_new)))))"

lemma app_builder_chain: "app_builder mi = run_chain mi app_chain"
  by (simp add: app_builder_def run_chain_def app_chain_def authenticated_def has_role_def permit_all_def)

definition prefix_matchit :: "(string list, string) matchit" where
  "prefix_matchit =
     \<lparr>mi_new = [],
      mi_insert = (\<lambda>p r. if p = [] then Inl ''empty'' else Inr (p # r)),
      mi_at = (\<lambda>r path. list_ex (\<lambda>p. if ends_with p ''{*rest}'' then take (length p - 7) path = take (length p - 7) p
                                     else p = path) r)\<rparr>"

definition plain_jwt :: "(string, string, string) jwt_crate" where
  "plain_jwt =
     \<lparr>enc_from_ec_pem = Inr, dec_from_ec_pem = Inr,
      sign_es256 = (\<lambda>c k. Inr (k @ ext c)),
      verify_es256 = (\<lambda>t k. case strip_prefix k t of
          Some role \<Rightarrow> Inr \<lparr>sub = ''user-1'', session_id = ''session-1'', exp = 0, ext = role\<rparr>
        | None \<Rightarrow> Inl \<lparr>expired_signature = False, jw_text = ''InvalidSignature''\<rparr>)\<rparr>"

definition app_config :: jwt_config where
  "app_config = \<lparr>private_key_pem = ''key:'', public_key_pem = ''key:'', expiration_seconds = 3600\<rparr>"

definition app_layer :: "(string list, string, 'w) authorization_layer" where
  "app_layer = (case build app_config (app_builder prefix_matchit) of Inr l \<Rightarrow> l)"

definition app_request :: "string \<Rightarrow> string option \<Rightarrow> string request" where
  "app_request path bearer_token =
     \<lparr>rq_method = ''GET'', rq_path = path, rq_query = None,
      rq_headers = (case bearer_token of None \<Rightarrow> [] | Some t \<Rightarrow> [(''authorization'', HeaderText (bearer @ t))]),
      rq_body = [], rq_security = None, rq_request_id = None, rq_matched_path = None\<rparr>"

definition ok_service :: "('e, string, string, 'w) service" where
  "ok_service req w = (Reply \<lparr>rs_status = 200, rs_headers = [], rs_body = Body ''ok'', rs_error = None\<rparr>, w)"

definition world0 :: "string server_world" where
  "world0 = \<lparr>meter_provider = ''otel'', failure_counter = None, failures_counted = [], now = 0, log = []\<rparr>"

definition app_status :: "string \<Rightarrow> string option \<Rightarrow> nat" where
  "app_status path token =
     (case fst (authorization_service prefix_matchit plain_jwt app_layer ok_service (app_request path token) world0) of
        Reply r \<Rightarrow> rs_status r | _ \<Rightarrow> 0)"

lemma app_statuses:
  "app_status ''/public/x'' None = 200" "app_status ''/other'' None = 401"
  "app_status ''/other'' (Some ''key:USER'') = 200" "app_status ''/admin/x'' (Some ''key:USER'') = 403"
  "app_status ''/admin/x'' (Some ''key:ADMIN'') = 200" "app_status ''/admin/x'' (Some ''ADMIN'') = 401"
  by code_simp+

section \<open>Properties\<close>

text \<open>C3.
  The gate fails closed. Where the effect that applies to a request is not \<open>permit_all\<close>, either
  the request carries a token that decodes under the configured key, the validator accepts its
  claims and a required role is held, and the application is called with exactly those claims
  as its security context; or the answer is 401 or 403 and the application is not called (the
  result is the same whatever the application is).\<close>
theorem authorization_fails_closed:
  fixes layer :: "('r, 'e, ('mp, 'z) server_world_scheme) authorization_layer"
    and inner :: "('e, 'x, 'err, ('mp, 'z) server_world_scheme) service"
  assumes "select_effect mi (al_check layer) (rq_method req) (rq_path req) \<noteq> PermitAll"
  shows "(\<exists>t c w'. extract_token (rq_headers req) (al_cookie_name layer) = Some t \<and>
             decode_jwt jw t (cs_jwt_config (al_check layer)) = Inr c \<and>
             run_validator (cs_claims_validator (al_check layer)) c w = (True, w') \<and>
             (\<forall>p. select_effect mi (al_check layer) (rq_method req) (rq_path req) = HasRole p \<longrightarrow> p (ext c)) \<and>
             authorization_service mi jw layer inner req w = inner (req\<lparr>rq_security := Some (sc_new c)\<rparr>) w') \<or>
         (\<exists>r w'. rs_status r \<in> {401, 403} \<and>
             (\<forall>inner' :: ('e, 'x, 'err, ('mp, 'z) server_world_scheme) service.
                authorization_service mi jw layer inner' req w = (Reply r, w')))"
proof -
  obtain out sc w' where chk: "check mi jw (al_check layer) (rq_method req) (rq_path req)
      (extract_token (rq_headers req) (al_cookie_name layer)) (rq_security req) w = (out, sc, w')"
    by (cases "check mi jw (al_check layer) (rq_method req) (rq_path req)
      (extract_token (rq_headers req) (al_cookie_name layer)) (rq_security req) w") auto
  show ?thesis
  proof (cases "out = Allow")
    case True
    from apply_effect_Allow [OF chk [unfolded check_def True] assms] obtain t c where
      "extract_token (rq_headers req) (al_cookie_name layer) = Some t"
      "decode_jwt jw t (cs_jwt_config (al_check layer)) = Inr c" "sc = Some (sc_new c)"
      "run_validator (cs_claims_validator (al_check layer)) c w = (True, w')"
      "\<forall>p. select_effect mi (al_check layer) (rq_method req) (rq_path req) = HasRole p \<longrightarrow> p (ext c)"
      by blast
    moreover have "authorization_service mi jw layer inner req w = inner (req\<lparr>rq_security := sc\<rparr>) w'"
      using chk True by (simp add: authorization_service_def)
    ultimately show ?thesis by blast
  next
    case False
    then obtain status where status: "failure_status out = Some status" by (cases out) auto
    let ?w = "count_failure (rq_method req) status w'"
    obtain r :: "'x response" and w2 where rr: "rejection_response out ?w = (r, w2)"
      by (metis prod.exhaust)
    have "authorization_service mi jw layer inner' req w = (Reply r, w2)"
      for inner' :: "('e, 'x, 'err, ('mp, 'z) server_world_scheme) service"
      using chk False status rr by (cases out) (simp_all add: authorization_service_def Let_def)
    moreover have "rs_status r \<in> {401, 403}"
      using rejection_response_eq [OF rr] by simp
    ultimately show ?thesis by blast
  qed
qed

theorem authorization_fails_closed_witness:
  "\<exists>r w'. rs_status r \<in> {401, 403} \<and>
     (\<forall>inner :: (string, string, string, string server_world) service.
        authorization_service prefix_matchit plain_jwt app_layer inner (app_request ''/other'' None) world0 = (Reply r, w'))"
proof -
  have "case select_effect prefix_matchit (al_check (app_layer :: (string list, string, string server_world) authorization_layer))
      (rq_method (app_request ''/other'' None)) (rq_path (app_request ''/other'' None)) of PermitAll \<Rightarrow> False | _ \<Rightarrow> True"
    by code_simp
  then have sel: "select_effect prefix_matchit (al_check (app_layer :: (string list, string, string server_world) authorization_layer))
      (rq_method (app_request ''/other'' None)) (rq_path (app_request ''/other'' None)) \<noteq> PermitAll"
    by (auto split: effect.splits)
  have none: "extract_token (rq_headers (app_request ''/other'' None))
      (al_cookie_name (app_layer :: (string list, string, string server_world) authorization_layer)) = None"
    by code_simp
  show ?thesis
    using authorization_fails_closed [where mi = prefix_matchit and jw = plain_jwt and w = world0 and inner = ok_service
        and layer = "app_layer :: (string list, string, string server_world) authorization_layer"
        and req = "app_request ''/other'' None"] sel none
    by simp
qed

text \<open>
  Rules are tried in the order of the chain: the effect on a request is that of the first rule
  whose methods and pattern admit it, whatever rules follow, and that of \<open>any_request()\<close> when
  no rule admits it.\<close>
lemma first_matching_rule_wins:
  "(\<forall>before rule after. cs_rules cs = before @ rule # after \<and> rule_applies mi m p rule \<and>
      list_all (\<lambda>r. \<not> rule_applies mi m p r) before \<longrightarrow> select_effect mi cs m p = ru_effect rule) \<and>
   (list_all (\<lambda>r. \<not> rule_applies mi m p r) (cs_rules cs) \<longrightarrow> select_effect mi cs m p = cs_any_request cs)"
  using select_effect_first [of cs _ _ _ mi m p] select_effect_any [of cs mi m p]
  by (auto simp: list_all_iff)

lemma first_matching_rule_wins_witness:
  "select_effect prefix_matchit
     \<lparr>cs_rules = [\<lparr>ru_methods = Some [''POST''], ru_pattern = CompiledPattern [''/x''], ru_effect = Authenticated\<rparr>,
                  \<lparr>ru_methods = None, ru_pattern = CompiledPattern [''/x''], ru_effect = PermitAll\<rparr>],
      cs_any_request = Authenticated, cs_jwt_config = app_config, cs_claims_validator = None\<rparr> ''GET'' ''/x'' = PermitAll"
proof -
  let ?r1 = "\<lparr>ru_methods = Some [''POST''], ru_pattern = CompiledPattern [''/x''], ru_effect = Authenticated\<rparr>"
  let ?r2 = "\<lparr>ru_methods = None, ru_pattern = CompiledPattern [''/x''], ru_effect = PermitAll\<rparr>"
  let ?cs = "\<lparr>cs_rules = [?r1, ?r2], cs_any_request = Authenticated, cs_jwt_config = app_config, cs_claims_validator = None\<rparr>"
  have "cs_rules ?cs = [?r1] @ ?r2 # [] \<and> rule_applies prefix_matchit ''GET'' ''/x'' ?r2 \<and>
        list_all (\<lambda>r. \<not> rule_applies prefix_matchit ''GET'' ''/x'' r) [?r1]"
    by (simp add: rule_applies_def prefix_matchit_def ends_with_def)
  then have "select_effect prefix_matchit ?cs ''GET'' ''/x'' = ru_effect ?r2"
    using first_matching_rule_wins [THEN conjunct1] by blast
  then show ?thesis by simp
qed

text \<open>
  A \<open>permit_all\<close> rule never rejects: the application is always called, with the request's own
  security context, or with the claims of a token that decodes and that the validator accepts.\<close>
lemma permit_all_never_rejects:
  assumes "select_effect mi (al_check layer) (rq_method req) (rq_path req) = PermitAll"
  shows "\<exists>sc w'. authorization_service mi jw layer inner req w = inner (req\<lparr>rq_security := sc\<rparr>) w' \<and>
           (sc = rq_security req \<or>
            (\<exists>t c. extract_token (rq_headers req) (al_cookie_name layer) = Some t \<and>
                   decode_jwt jw t (cs_jwt_config (al_check layer)) = Inr c \<and> sc = Some (sc_new c)))"
proof -
  let ?e = "apply_effect jw PermitAll (extract_token (rq_headers req) (al_cookie_name layer))
      (cs_jwt_config (al_check layer)) (cs_claims_validator (al_check layer)) (rq_security req) w"
  obtain sc w' where e: "?e = (Allow, sc, w')" using apply_effect_PermitAll by (metis prod.collapse)
  then have "authorization_service mi jw layer inner req w = inner (req\<lparr>rq_security := sc\<rparr>) w'"
    by (simp add: authorization_service_def check_def assms del: apply_effect.simps)
  moreover from e have "sc = rq_security req \<or>
            (\<exists>t c. extract_token (rq_headers req) (al_cookie_name layer) = Some t \<and>
                   decode_jwt jw t (cs_jwt_config (al_check layer)) = Inr c \<and> sc = Some (sc_new c))"
    by (auto simp: decode_token_Some_iff split: option.splits prod.splits if_splits)
  ultimately show ?thesis by blast
qed

lemma permit_all_never_rejects_witness:
  "\<exists>sc w'. authorization_service prefix_matchit plain_jwt
      \<lparr>al_check = \<lparr>cs_rules = [], cs_any_request = PermitAll, cs_jwt_config = app_config, cs_claims_validator = None\<rparr>,
       al_cookie_name = None\<rparr> ok_service (app_request ''/x'' (Some ''bad'')) world0
     = ok_service ((app_request ''/x'' (Some ''bad''))\<lparr>rq_security := sc\<rparr>) w'"
  using permit_all_never_rejects
    [of prefix_matchit "\<lparr>al_check = \<lparr>cs_rules = [], cs_any_request = PermitAll, cs_jwt_config = app_config, cs_claims_validator = None\<rparr>,
       al_cookie_name = None\<rparr>" "app_request ''/x'' (Some ''bad'')" plain_jwt ok_service world0]
  by (auto simp: select_effect_def)

text \<open>Cookie headers: \<open>n1=v1; n2=v2\<close>, as clients write them.\<close>

definition cookie_pair :: "string \<times> string \<Rightarrow> string" where
  "cookie_pair nv = fst nv @ ''='' @ snd nv"

definition cookie_string :: "(string \<times> string) list \<Rightarrow> string" where
  "cookie_string kvs = join_with ''; '' (map cookie_pair kvs)"

definition plain_cookie :: "string \<times> string \<Rightarrow> bool" where
  "plain_cookie nv = (CHR ''='' \<notin> set (fst nv) \<and> CHR '';'' \<notin> set (fst nv) \<and> CHR '';'' \<notin> set (snd nv) \<and>
     trim (cookie_pair nv) = cookie_pair nv)"

lemma trim_blank: "trim (CHR '' '' # s) = trim s"
proof -
  have "strip_one ws_encodings (CHR '' '' # s) = Some s"
    by (simp add: strip_one_def ws_encodings_def strip_prefix_def)
  then have "trim_start (CHR '' '' # s) = trim_start s"
    by (simp add: trim_start_def trim_by.simps [of ws_encodings "CHR '' '' # s"])
  then show ?thesis by (simp add: trim_def)
qed

lemma cookie_pair_no_semi: "plain_cookie nv \<Longrightarrow> CHR '';'' \<notin> set (cookie_pair nv)"
  by (simp add: plain_cookie_def cookie_pair_def)

lemma split_once_cookie_pair: "plain_cookie nv \<Longrightarrow> split_once (CHR ''='') (cookie_pair nv) = Some nv"
  by (cases nv) (simp add: split_once_Some_iff plain_cookie_def cookie_pair_def)

lemma cookie_lookup:
  defines "look n \<equiv> (\<lambda>pair. case split_once (CHR ''='') (trim pair) of None \<Rightarrow> None
             | Some (name, value) \<Rightarrow> if name = n then Some value else None)"
  assumes "list_all plain_cookie kvs"
  shows "find_map (look n) (split_on (CHR '';'') (cookie_string kvs)) = map_of kvs n"
proof -
  have step: "look n (cookie_pair nv) = (if fst nv = n then Some (snd nv) else None)"
    "look n (CHR '' '' # cookie_pair nv) = (if fst nv = n then Some (snd nv) else None)"
    if "plain_cookie nv" for nv
    using that split_once_cookie_pair [OF that] by (cases nv, simp add: look_def trim_blank plain_cookie_def)+
  have rest: "find_map (look n) (split_on (CHR '';'') (CHR '' '' # join_with ''; '' (map cookie_pair kvs))) = map_of kvs n"
    if "list_all plain_cookie kvs" "kvs \<noteq> []" for kvs
    using that
  proof (induction kvs)
    case (Cons nv kvs)
    have semi: "CHR '';'' \<notin> set (CHR '' '' # cookie_pair nv)" using Cons.prems cookie_pair_no_semi by simp
    show ?case
    proof (cases "kvs = []")
      case True
      then show ?thesis using Cons.prems split_on_no_sep [OF semi] step(2) [of nv] by (cases nv) simp
    next
      case False
      have "split_on (CHR '';'') (CHR '' '' # join_with ''; '' (map cookie_pair (nv # kvs)))
          = (CHR '' '' # cookie_pair nv) # split_on (CHR '';'') (CHR '' '' # join_with ''; '' (map cookie_pair kvs))"
        using split_on_append [OF semi] False by (simp add: join_with_Cons)
      then show ?thesis using Cons False step(2) [of nv] by (cases nv) simp
    qed
  qed simp
  show ?thesis
  proof (cases kvs)
    case Nil
    have "trim [] = []" using trim_pieces [of "[]"] by auto
    then show ?thesis by (simp add: Nil cookie_string_def look_def)
  next
    case (Cons nv rest_kvs)
    have semi: "CHR '';'' \<notin> set (cookie_pair nv)" using assms(2) Cons cookie_pair_no_semi by simp
    show ?thesis
    proof (cases "rest_kvs = []")
      case True
      then show ?thesis using Cons assms(2) split_on_no_sep [OF semi] step(1) [of nv]
        by (cases nv) (simp add: cookie_string_def)
    next
      case False
      have "split_on (CHR '';'') (cookie_string kvs)
          = cookie_pair nv # split_on (CHR '';'') (CHR '' '' # join_with ''; '' (map cookie_pair rest_kvs))"
        using split_on_append [OF semi] False Cons by (simp add: cookie_string_def join_with_Cons)
      then show ?thesis using Cons assms(2) False step(1) [of nv] rest [of rest_kvs] by (cases nv) simp
    qed
  qed
qed





end
