(* ===== verification/Axum_Extract.thy ===== *)
theory Axum_Extract
  imports Authz_Layer
begin

text \<open>
  The rest of \<open>stano-axum\<close>: the extractors (\<open>extractors/\<close>), the two logging middlewares
  (\<open>middleware/\<close>), the hook after authorization (\<open>security/post_authorization_hook.rs\<close>) and the
  collection of routes (\<open>routes.rs\<close>). axum's own extractors are arguments.
\<close>

section \<open>Extractors\<close>

datatype 't app_json = AppJson 't

datatype 't app_path = AppPath 't

datatype 't app_query = AppQuery 't

datatype 'e app_security_context = AppSecurityContext "'e security_context"

text \<open>An extraction answers with a value or an \<open>ApiError\<close>, and logs.\<close>

definition app_json_from_request ::
  "('e request \<Rightarrow> rejection + 't) \<Rightarrow> 'e request \<Rightarrow> log_event list \<times> ('x api_error + 't app_json)" where
  "app_json_from_request json req =
     (case json req of
        Inl r \<Rightarrow> (case from_json_rejection r of (logs, e) \<Rightarrow> (logs, Inl e))
      | Inr value \<Rightarrow> ([], Inr (AppJson value)))"

fun app_json_into_response :: "('t \<Rightarrow> 'x response) \<Rightarrow> 't app_json \<Rightarrow> 'x response" where
  "app_json_into_response json_response (AppJson t) = json_response t"

definition app_path_from_request_parts ::
  "('e request \<Rightarrow> rejection + 't) \<Rightarrow> 'e request \<Rightarrow> log_event list \<times> ('x api_error + 't app_path)" where
  "app_path_from_request_parts path req =
     (case path req of
        Inl r \<Rightarrow> (case from_path_rejection r of (logs, e) \<Rightarrow> (logs, Inl e))
      | Inr value \<Rightarrow> ([], Inr (AppPath value)))"

definition app_query_from_request_parts ::
  "('e request \<Rightarrow> rejection + 't) \<Rightarrow> 'e request \<Rightarrow> log_event list \<times> ('x api_error + 't app_query)" where
  "app_query_from_request_parts query req =
     (case query req of
        Inl r \<Rightarrow> (case from_query_rejection r of (logs, e) \<Rightarrow> (logs, Inl e))
      | Inr value \<Rightarrow> ([], Inr (AppQuery value)))"

definition app_security_context_from_request_parts ::
  "'e request \<Rightarrow> 'x api_error + 'e app_security_context" where
  "app_security_context_from_request_parts req =
     ok_or (from_service_error SE_Unauthorized) (map_option AppSecurityContext (rq_security req))"

text \<open>
  The contract the three wrapping extractors share: a value passes through and logs nothing; a
  rejection becomes the extractor's own error with the rejection's status and text, and logs
  the warning of its kind.
\<close>

locale wrapping_extractor =
  fixes extr :: "('e request \<Rightarrow> rejection + 't) \<Rightarrow> 'e request \<Rightarrow> log_event list \<times> ('x api_error + 'w)"
    and wrap :: "'t \<Rightarrow> 'w"
    and mk_error :: "nat \<Rightarrow> string \<Rightarrow> string \<Rightarrow> 'x api_error"
    and what :: string
    and code :: string
    and message :: string
  assumes extract_value: "inner req = Inr t \<Longrightarrow> extr inner req = ([], Inr (wrap t))"
    and extract_error: "inner req = Inl r \<Longrightarrow>
      extr inner req = ([rejection_warning what r], Inl (mk_error (rj_status r) (rj_body_text r) (rj_type_name r)))"
    and error_row_mk: "error_row (mk_error s b n) = (s, code, message, Some b, True)"
begin

lemma extracts_iff: "(\<exists>w. snd (extr inner req) = Inr w) \<longleftrightarrow> (\<exists>t. inner req = Inr t)"
  using extract_value extract_error by (cases "inner req") fastforce+

text \<open>The response to a request whose extraction fails, and the two events logged on the way.\<close>

lemma rejection_reaches_client:
  assumes "inner req = Inl r" "is_client_error (rj_status r)"
  shows "\<exists>e. extr inner req =
             ([\<lparr>le_level = WARN, le_message = what @ '' extraction failed'',
                le_fields = [(''rejection_status'', StatusText (rj_status r)), (''rejection_body'', Text (rj_body_text r))]\<rparr>],
              Inl e) \<and>
           e = mk_error (rj_status r) (rj_body_text r) (rj_type_name r) \<and>
           into_response e =
             ([\<lparr>le_level = ERROR, le_message = ''API error occurred'',
                le_fields = [(''error_type'', debug_error e), (''status'', StatusText (rj_status r)), (''code'', Text code)]\<rparr>],
              \<lparr>rs_status = rj_status r, rs_headers = [(''content-type'', HeaderText ''application/json'')],
               rs_body = ErrorBody \<lparr>er_status = rj_status r, er_code = code, er_message = message,
                                    er_details = Some (rj_body_text r), er_request_id = None\<rparr>,
               rs_error = Some e\<rparr>)"
  using extract_error [of inner req r] assms error_row_mk
  by (simp add: rejection_warning_def into_response_def error_response_new_def with_details_def)

end

interpretation ex_json: wrapping_extractor app_json_from_request AppJson JsonExtraction
  "''JSON''" "''INVALID_JSON''" "''Failed to parse JSON request body''"
  by unfold_locales (auto simp: app_json_from_request_def from_json_rejection_def)

interpretation ex_path: wrapping_extractor app_path_from_request_parts AppPath PathExtraction
  "''Path''" "''INVALID_PATH''" "''Invalid path parameter''"
  by unfold_locales (auto simp: app_path_from_request_parts_def from_path_rejection_def)

interpretation ex_query: wrapping_extractor app_query_from_request_parts AppQuery QueryExtraction
  "''Query''" "''INVALID_QUERY''" "''Invalid query parameter''"
  by unfold_locales (auto simp: app_query_from_request_parts_def from_query_rejection_def)

section \<open>Middleware\<close>

text \<open>
  A middleware made with \<open>axum::middleware::from_fn\<close>: it runs the rest of the stack and goes on
  with the response. If the rest does not complete with a response, neither does it, and the
  code after the call is not run.
\<close>

definition after_response ::
  "('x response \<Rightarrow> 'w \<Rightarrow> 'x response \<times> 'w) \<Rightarrow> ('x, 'err) reply \<times> 'w \<Rightarrow> ('x, 'err) reply \<times> 'w" where
  "after_response f p =
     (case p of
        (Reply r, w) \<Rightarrow> (case f r w of (r', w') \<Rightarrow> (Reply r', w'))
      | _ \<Rightarrow> p)"

definition log_line :: "log_event \<Rightarrow> ('mp, 'z) server_world_scheme \<Rightarrow> ('mp, 'z) server_world_scheme" where
  "log_line ev w = w\<lparr>log := log w @ [ev]\<rparr>"

text \<open>\<open>Uri\<close> as it is displayed.\<close>

definition uri_text :: "'e request \<Rightarrow> string" where
  "uri_text req = rq_path req @ (case rq_query req of None \<Rightarrow> [] | Some q \<Rightarrow> ''?'' @ q)"

definition error_logging_middleware ::
  "('e, 'x, 'err, ('mp, 'z) server_world_scheme) service \<Rightarrow> ('e, 'x, 'err, ('mp, 'z) server_world_scheme) service" where
  "error_logging_middleware nxt req w =
     (let request_id = Option.bind (header_get (rq_headers req) ''x-request-id'') to_str;
          meth = rq_method req;
          uri = uri_text req
      in after_response (\<lambda>response w.
           case rs_error response of
             Some error \<Rightarrow>
               (response,
                log_line \<lparr>le_level = ERROR, le_message = ''Request failed with API error'',
                          le_fields = [(''method'', Text meth), (''uri'', Text uri),
                                       (''request_id'', DebugOption request_id), (''error'', debug_error error)]\<rparr> w)
           | None \<Rightarrow> (response, w))
         (nxt req w))"

text \<open>\<open>trace_id\<close> is the id of the current span's OpenTelemetry context.\<close>

definition http_request_logging_middleware ::
  "(('mp, 'z) server_world_scheme \<Rightarrow> string) \<Rightarrow>
   ('e, 'x, 'err, ('mp, 'z) server_world_scheme) service \<Rightarrow> ('e, 'x, 'err, ('mp, 'z) server_world_scheme) service" where
  "http_request_logging_middleware trace_id nxt req w =
     (let meth = rq_method req;
          uri = uri_text req;
          start = now w
      in after_response (\<lambda>response w.
           let latency_ms = (now w - start) div 1000000;
               status = rs_status response
           in (response,
               log_line \<lparr>le_level = INFO, le_message = ''HTTP request completed'',
                         le_fields = [(''method'', Text meth), (''uri'', Text uri), (''status'', Number status),
                                      (''latency_ms'', Number latency_ms), (''trace_id'', Text (trace_id w))]\<rparr> w))
         (nxt req w))"

text \<open>
  The contract of an observing middleware: it calls the rest of the stack once, with the
  request as it is, and passes on what becomes of it; it only adds to the log.
\<close>

locale observer =
  fixes mw :: "('e, 'x, 'err, ('mp, 'z) server_world_scheme) service \<Rightarrow>
               ('e, 'x, 'err, ('mp, 'z) server_world_scheme) service"
  assumes observes: "\<exists>evs. mw nxt req w = (fst (nxt req w), (snd (nxt req w))\<lparr>log := log (snd (nxt req w)) @ evs\<rparr>)"
begin

lemma same_reply: "fst (mw nxt req w) = fst (nxt req w)"
  using observes [of nxt req w] by auto

lemma same_counters:
  "failures_counted (snd (mw nxt req w)) = failures_counted (snd (nxt req w))"
  "failure_counter (snd (mw nxt req w)) = failure_counter (snd (nxt req w))"
  "now (snd (mw nxt req w)) = now (snd (nxt req w))"
  using observes [of nxt req w] by auto

end

lemma log_nothing: "w = w\<lparr>log := log w @ []\<rparr>"
  by simp

interpretation elog: observer error_logging_middleware
proof (unfold_locales, goal_cases)
  case (1 nxt req w)
  show ?case
  proof (cases "nxt req w")
    case (Pair r w')
    show ?thesis
    proof (cases "\<exists>resp e. r = Reply resp \<and> rs_error resp = Some e")
      case True
      with Pair show ?thesis by (auto simp: error_logging_middleware_def after_response_def log_line_def)
    next
      case False
      with Pair have "error_logging_middleware nxt req w = (r, w')"
        by (auto simp: error_logging_middleware_def after_response_def split: reply.splits option.splits)
      with Pair show ?thesis by (intro exI [of _ "[]"]) simp
    qed
  qed
qed

interpretation rlog: observer "http_request_logging_middleware trace_id"
  for trace_id :: "('mp, 'z) server_world_scheme \<Rightarrow> string"
proof (unfold_locales, goal_cases)
  case (1 nxt req w)
  show ?case
  proof (cases "nxt req w")
    case (Pair r w')
    show ?thesis
    proof (cases "\<exists>resp. r = Reply resp")
      case True
      with Pair show ?thesis
        by (auto simp: http_request_logging_middleware_def after_response_def log_line_def Let_def)
    next
      case False
      with Pair have "http_request_logging_middleware trace_id nxt req w = (r, w')"
        by (auto simp: http_request_logging_middleware_def after_response_def split: reply.splits)
      with Pair show ?thesis by (intro exI [of _ "[]"]) simp
    qed
  qed
qed

section \<open>The hook after authorization\<close>

type_synonym ('e, 'x, 'err, 'w) apply_fn =
  "'e request \<Rightarrow> ('e, 'x, 'err, 'w) service \<Rightarrow> 'w \<Rightarrow> ('x, 'err) reply \<times> 'w"

record ('e, 'x, 'err, 'w) post_authorization_hook =
  hook_apply :: "('e, 'x, 'err, 'w) apply_fn"

text \<open>\<open>f\<close> answers with something that converts into a response by \<open>to_response\<close>.\<close>

definition hook_from_fn ::
  "('a \<Rightarrow> 'x response) \<Rightarrow> ('e request \<Rightarrow> ('e, 'x, 'err, 'w) service \<Rightarrow> 'w \<Rightarrow> (('x, 'err) reply + 'a) \<times> 'w) \<Rightarrow>
   ('e, 'x, 'err, 'w) post_authorization_hook" where
  "hook_from_fn to_response f =
     \<lparr>hook_apply = (\<lambda>req nxt w.
        case f req nxt w of
          (Inr a, w') \<Rightarrow> (Reply (to_response a), w')
        | (Inl incomplete, w') \<Rightarrow> (incomplete, w'))\<rparr>"

definition hook_layer ::
  "('e, 'x, 'err, 'w) post_authorization_hook \<Rightarrow> ('e, 'x, 'err, 'w) service \<Rightarrow> ('e, 'x, 'err, 'w) service" where
  "hook_layer hook inner req w = hook_apply hook req inner w"

section \<open>Routes\<close>

text \<open>
  \<open>collect_routes\<close>: \<open>routes\<close> adds what a registration's function returns to an
  \<open>OpenApiRouter\<close>, and panics (\<open>None\<close>) when the route overlaps with one that is there; the
  registrations are those of the crate \<open>inventory\<close>, in its order.
\<close>

definition collect_routes :: "'router \<Rightarrow> ('router \<Rightarrow> 'mr \<Rightarrow> 'router option) \<Rightarrow> (unit \<Rightarrow> 'mr) list \<Rightarrow> 'router option" where
  "collect_routes new_router routes registrations =
     fold (\<lambda>reg router. Option.bind router (\<lambda>router. routes router (reg ()))) registrations (Some new_router)"

section \<open>Properties\<close>

text \<open>C36.
  When one of the extractors rejects a request with a client error, the client gets the status
  and the text of axum's rejection, under the code of the extractor (\<open>INVALID_JSON\<close>,
  \<open>INVALID_PATH\<close>, \<open>INVALID_QUERY\<close>), and exactly two events are logged: the warning of the
  conversion, which names the kind of the extractor and carries the rejection's status and text,
  and the error of the response, which carries the error, its status and its code.\<close>
theorem extractor_rejections:
  fixes inner :: "'e request \<Rightarrow> rejection + 't"
  assumes "inner req = Inl r" "is_client_error (rj_status r)"
  shows "(\<exists>e :: 'x api_error. app_json_from_request inner req =
             ([\<lparr>le_level = WARN, le_message = ''JSON extraction failed'',
                le_fields = [(''rejection_status'', StatusText (rj_status r)), (''rejection_body'', Text (rj_body_text r))]\<rparr>],
              Inl e) \<and>
           e = JsonExtraction (rj_status r) (rj_body_text r) (rj_type_name r) \<and>
           into_response e =
             ([\<lparr>le_level = ERROR, le_message = ''API error occurred'',
                le_fields = [(''error_type'', debug_error e), (''status'', StatusText (rj_status r)),
                             (''code'', Text ''INVALID_JSON'')]\<rparr>],
              \<lparr>rs_status = rj_status r, rs_headers = [(''content-type'', HeaderText ''application/json'')],
               rs_body = ErrorBody \<lparr>er_status = rj_status r, er_code = ''INVALID_JSON'',
                                    er_message = ''Failed to parse JSON request body'',
                                    er_details = Some (rj_body_text r), er_request_id = None\<rparr>,
               rs_error = Some e\<rparr>)) \<and>
         (\<exists>e :: 'x api_error. app_path_from_request_parts inner req =
             ([\<lparr>le_level = WARN, le_message = ''Path extraction failed'',
                le_fields = [(''rejection_status'', StatusText (rj_status r)), (''rejection_body'', Text (rj_body_text r))]\<rparr>],
              Inl e) \<and>
           e = PathExtraction (rj_status r) (rj_body_text r) (rj_type_name r) \<and>
           into_response e =
             ([\<lparr>le_level = ERROR, le_message = ''API error occurred'',
                le_fields = [(''error_type'', debug_error e), (''status'', StatusText (rj_status r)),
                             (''code'', Text ''INVALID_PATH'')]\<rparr>],
              \<lparr>rs_status = rj_status r, rs_headers = [(''content-type'', HeaderText ''application/json'')],
               rs_body = ErrorBody \<lparr>er_status = rj_status r, er_code = ''INVALID_PATH'',
                                    er_message = ''Invalid path parameter'',
                                    er_details = Some (rj_body_text r), er_request_id = None\<rparr>,
               rs_error = Some e\<rparr>)) \<and>
         (\<exists>e :: 'x api_error. app_query_from_request_parts inner req =
             ([\<lparr>le_level = WARN, le_message = ''Query extraction failed'',
                le_fields = [(''rejection_status'', StatusText (rj_status r)), (''rejection_body'', Text (rj_body_text r))]\<rparr>],
              Inl e) \<and>
           e = QueryExtraction (rj_status r) (rj_body_text r) (rj_type_name r) \<and>
           into_response e =
             ([\<lparr>le_level = ERROR, le_message = ''API error occurred'',
                le_fields = [(''error_type'', debug_error e), (''status'', StatusText (rj_status r)),
                             (''code'', Text ''INVALID_QUERY'')]\<rparr>],
              \<lparr>rs_status = rj_status r, rs_headers = [(''content-type'', HeaderText ''application/json'')],
               rs_body = ErrorBody \<lparr>er_status = rj_status r, er_code = ''INVALID_QUERY'',
                                    er_message = ''Invalid query parameter'',
                                    er_details = Some (rj_body_text r), er_request_id = None\<rparr>,
               rs_error = Some e\<rparr>))"
  by (intro conjI ex_json.rejection_reaches_client [unfolded append.simps] ex_path.rejection_reaches_client [unfolded append.simps]
        ex_query.rejection_reaches_client [unfolded append.simps] assms)

theorem extractor_rejections_witness:
  "\<exists>logs e. app_path_from_request_parts
         (\<lambda>_. Inl \<lparr>rj_status = 400, rj_body_text = ''bad id'', rj_type_name = ''PathRejection''\<rparr> :: rejection + unit)
         (app_request ''/items/x'' None) = (logs, Inl (e :: string api_error)) \<and>
      map le_message logs = [''Path extraction failed''] \<and> rs_status (snd (into_response e)) = 400"
proof -
  let ?r = "\<lparr>rj_status = 400, rj_body_text = ''bad id'', rj_type_name = ''PathRejection''\<rparr>"
  let ?inner = "\<lambda>_ :: string request. Inl ?r :: rejection + unit"
  have "?inner (app_request ''/items/x'' None) = Inl ?r" "is_client_error (rj_status ?r)"
    by (simp_all add: is_client_error_def)
  from extractor_rejections [of ?inner "app_request ''/items/x'' None" ?r, where ?'x = string, OF this, THEN conjunct2, THEN conjunct1]
  show ?thesis by auto
qed

text \<open>
  The security context a handler extracts is the one the gate put there: behind an
  \<open>authenticated()\<close> or \<open>has_role()\<close> rule the extraction in the application succeeds, with the
  claims of the request's token; a request without context is answered 401.\<close>
lemma security_context_from_gate:
  fixes layer :: "('r, 'e, ('mp, 'z) server_world_scheme) authorization_layer"
  assumes "select_effect mi (al_check layer) (rq_method req) (rq_path req) \<noteq> PermitAll"
    and "check mi jw (al_check layer) (rq_method req) (rq_path req)
           (extract_token (rq_headers req) (al_cookie_name layer)) (rq_security req) w = (Allow, sc, w')"
  shows "\<exists>t c. extract_token (rq_headers req) (al_cookie_name layer) = Some t \<and>
           decode_jwt jw t (cs_jwt_config (al_check layer)) = Inr c \<and>
           authorization_service mi jw layer inner req w = inner (req\<lparr>rq_security := sc\<rparr>) w' \<and>
           (app_security_context_from_request_parts (req\<lparr>rq_security := sc\<rparr>)
              :: 'x api_error + 'e app_security_context) = Inr (AppSecurityContext (sc_new c)) \<and>
           (app_security_context_from_request_parts (req\<lparr>rq_security := None\<rparr>)
              :: 'x api_error + 'e app_security_context) = Inl (ServiceErr SE_Unauthorized)"
  using apply_effect_Allow [OF assms(2) [unfolded check_def] assms(1)] assms(2)
  by (auto simp: authorization_service_def app_security_context_from_request_parts_def from_service_error_def)

lemma security_context_from_gate_witness:
  "\<exists>c. (app_security_context_from_request_parts
         ((app_request ''/x'' (Some ''key:USER''))\<lparr>rq_security := Some (sc_new c)\<rparr>)
          :: string api_error + string app_security_context) = Inr (AppSecurityContext (sc_new c)) \<and> ext c = ''USER''"
proof -
  let ?l = "\<lparr>al_check = \<lparr>cs_rules = [], cs_any_request = Authenticated, cs_jwt_config = app_config, cs_claims_validator = None\<rparr>,
       al_cookie_name = None\<rparr>"
  let ?c = "\<lparr>sub = ''user-1'', session_id = ''session-1'', exp = 0, ext = ''USER''\<rparr>"
  let ?req = "app_request ''/x'' (Some ''key:USER'')"
  have tok: "extract_token (rq_headers ?req) None = Some ''key:USER''"
    by (simp add: app_request_def extract_token_def header_get_def bearer_def strip_prefix_def)
  have sel: "select_effect prefix_matchit (al_check ?l) (rq_method ?req) (rq_path ?req) \<noteq> PermitAll"
    by (simp add: select_effect_def)
  have chk: "check prefix_matchit plain_jwt (al_check ?l) (rq_method ?req) (rq_path ?req)
      (extract_token (rq_headers ?req) (al_cookie_name ?l)) (rq_security ?req) world0 = (Allow, Some (sc_new ?c), world0)"
    by (simp add: tok check_def select_effect_def decode_token_def decode_jwt_def plain_jwt_def app_config_def strip_prefix_def)
  obtain c where
    "(app_security_context_from_request_parts (?req\<lparr>rq_security := Some (sc_new ?c)\<rparr>)
              :: string api_error + string app_security_context) = Inr (AppSecurityContext (sc_new c))"
    using security_context_from_gate [OF sel chk, of ok_service] by auto
  then show ?thesis
    by (intro exI [of _ ?c]) (simp add: app_security_context_from_request_parts_def)
qed

text \<open>
  The logging middlewares observe only: they pass on the response (or the failure, panic or
  drop) of the rest of the stack and leave the counters alone; \<open>error_logging_middleware\<close> adds
  one event exactly when the response carries an \<open>ApiError\<close>, the request log one event exactly
  when there is a response, with its status.\<close>
lemma logging_middlewares_observe:
  "fst (error_logging_middleware nxt req w) = fst (nxt req w) \<and>
   fst (http_request_logging_middleware trace_id nxt req w) = fst (nxt req w) \<and>
   failures_counted (snd (error_logging_middleware nxt req w)) = failures_counted (snd (nxt req w)) \<and>
   failures_counted (snd (http_request_logging_middleware trace_id nxt req w)) = failures_counted (snd (nxt req w)) \<and>
   length (log (snd (error_logging_middleware nxt req w))) = length (log (snd (nxt req w))) +
     (case fst (nxt req w) of Reply r \<Rightarrow> if rs_error r = None then 0 else 1 | _ \<Rightarrow> 0) \<and>
   length (log (snd (http_request_logging_middleware trace_id nxt req w))) = length (log (snd (nxt req w))) +
     (case fst (nxt req w) of Reply r \<Rightarrow> 1 | _ \<Rightarrow> 0)"
  by (cases "nxt req w"; cases "fst (nxt req w)")
     (auto simp: elog.same_reply rlog.same_reply elog.same_counters rlog.same_counters
        error_logging_middleware_def http_request_logging_middleware_def after_response_def log_line_def Let_def
        split: option.splits)

end
