(* ===== verification/Launch_Config.thy ===== *)
theory Launch_Config
  imports Di_Environment Jwt_Security
begin

text \<open>
  The configuration of \<open>stano-launcher\<close> (\<open>config.rs\<close> and the configuration part of
  \<open>observability.rs\<close>) and how it is read from an environment. The type \<open>'f\<close> is \<open>f64\<close>, its
  parser and the constant 1.0 are arguments.
\<close>

section \<open>Observability\<close>

datatype otlp_protocol = Grpc | HttpProtobuf

record 'f observability_config =
  oc_enabled :: bool
  oc_protocol :: otlp_protocol
  oc_service_name :: string
  oc_service_version :: string
  oc_resource_attributes :: "(string \<times> string) list"
  oc_trace_sample_ratio :: 'f
  oc_log_filter :: string
  oc_metrics_enabled :: bool
  oc_prometheus_enabled :: bool
  oc_http_logging_enabled :: bool
  oc_process_metrics_enabled :: bool

definition env_switch :: "environment \<Rightarrow> string \<Rightarrow> bool" where
  "env_switch env key = eq_ignore_ascii_case (unwrap_or [] (env key)) ''true''"

definition observability_config_from_env ::
  "(string \<Rightarrow> 'f option) \<Rightarrow> 'f \<Rightarrow> environment \<Rightarrow> 'f observability_config" where
  "observability_config_from_env parse_f64 one env =
     (let p = to_ascii_lowercase (unwrap_or [] (env ''OTEL_EXPORTER_OTLP_PROTOCOL''));
          protocol = (if p = ''http/protobuf'' \<or> p = ''http'' then HttpProtobuf else Grpc)
      in \<lparr>oc_enabled = env_switch env ''MRP_OTEL_ENABLED'',
          oc_protocol = protocol,
          oc_service_name = unwrap_or ''stano-app'' (env ''OTEL_SERVICE_NAME''),
          oc_service_version = unwrap_or ''0.0.0'' (env ''OTEL_SERVICE_VERSION''),
          oc_resource_attributes = [],
          oc_trace_sample_ratio = unwrap_or one (Option.bind (env ''OTEL_TRACES_SAMPLER_ARG'') parse_f64),
          oc_log_filter = unwrap_or ''info'' (env ''RUST_LOG''),
          oc_metrics_enabled = env_switch env ''MRP_OTEL_METRICS_ENABLED'',
          oc_prometheus_enabled = env_switch env ''MRP_PROMETHEUS_ENABLED'',
          oc_http_logging_enabled = env_switch env ''MRP_HTTP_LOGGING_ENABLED'',
          oc_process_metrics_enabled = env_switch env ''MRP_PROCESS_METRICS_ENABLED''\<rparr>)"

section \<open>The bootstrap configuration\<close>

record 'f bootstrap_config =
  bc_port :: "16 word"
  bc_jwt_config :: jwt_config
  bc_cors_origins :: "string list"
  bc_cors_origin_suffixes :: "string list"
  bc_cors_dev_origins :: "string list"
  bc_is_dev :: bool
  bc_observability :: "'f observability_config"
  bc_enable_swagger :: bool

text \<open>\<open>debug_assertions\<close> is the value of \<open>cfg!(debug_assertions)\<close> in the build.\<close>

definition is_dev_environment :: "bool \<Rightarrow> environment \<Rightarrow> bool" where
  "is_dev_environment debug_assertions env =
     (debug_assertions \<or> eq_ignore_ascii_case (unwrap_or [] (env ''RUST_ENV'')) ''development'')"

definition parse_csv_env :: "environment \<Rightarrow> string \<Rightarrow> string list" where
  "parse_csv_env env key =
     filter (\<lambda>s. s \<noteq> []) (map trim (split_on (CHR '','') (unwrap_or [] (env key))))"

section \<open>Properties\<close>

text \<open>C39.
  \<open>parse_csv_env\<close> gives trimmed, non-empty entries without commas, nothing for a variable that
  is unset, and reads back any list of such entries from their comma-separated text.\<close>
theorem parse_csv_env_round_trip:
  assumes "list_all (\<lambda>x. x \<noteq> [] \<and> trim x = x \<and> CHR '','' \<notin> set x) xs"
  shows "parse_csv_env (env(key \<mapsto> join_with '','' xs)) key = xs \<and>
         list_all (\<lambda>x. x \<noteq> [] \<and> trim x = x \<and> CHR '','' \<notin> set x) (parse_csv_env env' key') \<and>
         parse_csv_env (env(key := None)) key = []"
proof (intro conjI)
  have nil: "trim [] = []" using trim_pieces [of "[]"] by auto
  show "parse_csv_env (env(key := None)) key = []" by (simp add: parse_csv_env_def nil)
  show "parse_csv_env (env(key \<mapsto> join_with '','' xs)) key = xs"
  proof (cases "xs = []")
    case True
    then show ?thesis by (simp add: parse_csv_env_def nil)
  next
    case False
    then have "split_on (CHR '','') (join_with '','' xs) = xs"
      using assms by (intro split_on_join) (auto simp: list_all_iff)
    moreover have "map trim xs = xs" using assms by (intro map_idI) (auto simp: list_all_iff)
    moreover have "filter (\<lambda>s. s \<noteq> []) xs = xs" using assms by (auto simp: list_all_iff filter_id_conv)
    ultimately show ?thesis by (simp add: parse_csv_env_def)
  qed
  show "list_all (\<lambda>x. x \<noteq> [] \<and> trim x = x \<and> CHR '','' \<notin> set x) (parse_csv_env env' key')"
    unfolding parse_csv_env_def list_all_iff
    using split_on_pieces set_trim trim_idem by fastforce
qed

theorem parse_csv_env_round_trip_witness:
  "parse_csv_env [''CORS'' \<mapsto> join_with '','' [''https://a.example'', ''https://b.example'']] ''CORS''
     = [''https://a.example'', ''https://b.example'']"
proof -
  have "list_all (\<lambda>x. x \<noteq> [] \<and> trim x = x \<and> CHR '','' \<notin> set x) [''https://a.example'', ''https://b.example'']"
    by code_simp
  from parse_csv_env_round_trip [OF this, of Map.empty "''CORS''"] show ?thesis by simp
qed

text \<open>
  The platform's switches are independent and off by default: setting one variable changes
  exactly its own switch, which is on exactly for \<open>true\<close> in any letter case.\<close>
lemma observability_switches_independent:
  "observability_config_from_env pf one (env(''MRP_OTEL_ENABLED'' := v)) =
     (observability_config_from_env pf one env)\<lparr>oc_enabled := (\<exists>s. v = Some s \<and> to_ascii_lowercase s = ''true'')\<rparr> \<and>
   observability_config_from_env pf one (env(''MRP_OTEL_METRICS_ENABLED'' := v)) =
     (observability_config_from_env pf one env)\<lparr>oc_metrics_enabled := (\<exists>s. v = Some s \<and> to_ascii_lowercase s = ''true'')\<rparr> \<and>
   observability_config_from_env pf one (env(''MRP_PROMETHEUS_ENABLED'' := v)) =
     (observability_config_from_env pf one env)\<lparr>oc_prometheus_enabled := (\<exists>s. v = Some s \<and> to_ascii_lowercase s = ''true'')\<rparr> \<and>
   observability_config_from_env pf one (env(''MRP_HTTP_LOGGING_ENABLED'' := v)) =
     (observability_config_from_env pf one env)\<lparr>oc_http_logging_enabled := (\<exists>s. v = Some s \<and> to_ascii_lowercase s = ''true'')\<rparr> \<and>
   observability_config_from_env pf one (env(''MRP_PROCESS_METRICS_ENABLED'' := v)) =
     (observability_config_from_env pf one env)\<lparr>oc_process_metrics_enabled := (\<exists>s. v = Some s \<and> to_ascii_lowercase s = ''true'')\<rparr>"
proof -
  have true: "to_ascii_lowercase ''true'' = ''true''" by code_simp
  have "eq_ignore_ascii_case (unwrap_or [] v) ''true'' \<longleftrightarrow> (\<exists>s. v = Some s \<and> to_ascii_lowercase s = ''true'')"
    by (cases v) (simp_all add: eq_ignore_ascii_case_def true, simp add: to_ascii_lowercase_def)
  then show ?thesis
    by (simp add: observability_config_from_env_def env_switch_def Let_def)
qed

end
