(* ===== verification/Launch_Observability.thy ===== *)
theory Launch_Observability
  imports Launch_Config Axum_Extract
begin

text \<open>
  \<open>observability.rs\<close> of \<open>stano-launcher\<close>: what \<open>init_observability\<close> builds and installs, the
  guard that flushes and shuts down the providers, the middleware that records HTTP metrics,
  and the Prometheus endpoint. The OpenTelemetry crates are arguments: whether each exporter can
  be built, whether a filter directive parses, and what a provider answers to \<open>force_flush\<close> and
  \<open>shutdown\<close>, given the calls made so far.
\<close>

section \<open>Providers\<close>

datatype metric_reader = PrometheusReader | PeriodicExporter otlp_protocol

type_synonym resource = "(string \<times> string) list"

datatype 'f provider =
    TracerProvider resource otlp_protocol 'f    \<comment> \<open>batch exporter, ratio of the parent-based sampler\<close>
  | MeterProvider resource "metric_reader list"
  | LoggerProvider resource otlp_protocol

record 'f otel_guard =
  og_tracer_provider :: "'f provider option"
  og_meter_provider :: "'f provider option"
  og_logger_provider :: "'f provider option"
  og_prometheus_registry :: bool

definition prometheus_registry :: "'f otel_guard \<Rightarrow> bool" where
  "prometheus_registry g = og_prometheus_registry g"

datatype sdk_call = ForceFlush | Shutdown

text \<open>
  The calls made on providers, the warnings logged about them, and the providers that have been
  installed as global ones, which live as long as the process.
\<close>

record 'f otel_world =
  ow_calls :: "(sdk_call \<times> 'f provider) list"
  ow_warnings :: "string list"
  ow_installed :: "'f provider list"

text \<open>An answer of the SDK: \<open>Some\<close> is the text of an error.\<close>

type_synonym 'f sdk = "(sdk_call \<times> 'f provider) list \<Rightarrow> sdk_call \<Rightarrow> 'f provider \<Rightarrow> string option"

definition call_sdk :: "'f sdk \<Rightarrow> sdk_call \<Rightarrow> 'f provider \<Rightarrow> 'f otel_world \<Rightarrow> string option \<times> 'f otel_world" where
  "call_sdk sdk c p w = (sdk (ow_calls w) c p, w\<lparr>ow_calls := ow_calls w @ [(c, p)]\<rparr>)"

text \<open>One step of \<open>force_flush\<close> or \<open>shutdown\<close>: \<open>if let Some(provider) = ... { provider.call()?; }\<close>.\<close>

definition provider_step ::
  "'f sdk \<Rightarrow> sdk_call \<Rightarrow> string \<Rightarrow> 'f provider option \<Rightarrow> 'f otel_world \<Rightarrow> (string + unit) \<times> 'f otel_world" where
  "provider_step sdk c msg p w =
     (case p of
        None \<Rightarrow> (Inr (), w)
      | Some provider \<Rightarrow>
          (case call_sdk sdk c provider w of
             (None, w') \<Rightarrow> (Inr (), w')
           | (Some e, w') \<Rightarrow> (Inl (msg @ e), w')))"

definition provider_steps ::
  "'f sdk \<Rightarrow> sdk_call \<Rightarrow> string \<Rightarrow> 'f otel_guard \<Rightarrow> 'f otel_world \<Rightarrow> (string + unit) \<times> 'f otel_world" where
  "provider_steps sdk c verb g w =
     (case provider_step sdk c (''failed to '' @ verb @ '' tracer provider: '') (og_tracer_provider g) w of
        (Inl e, w) \<Rightarrow> (Inl e, w)
      | (Inr _, w) \<Rightarrow>
          (case provider_step sdk c (''failed to '' @ verb @ '' meter provider: '') (og_meter_provider g) w of
             (Inl e, w) \<Rightarrow> (Inl e, w)
           | (Inr _, w) \<Rightarrow> provider_step sdk c (''failed to '' @ verb @ '' logger provider: '') (og_logger_provider g) w))"

definition force_flush :: "'f sdk \<Rightarrow> 'f otel_guard \<Rightarrow> 'f otel_world \<Rightarrow> (string + unit) \<times> 'f otel_world" where
  "force_flush sdk g w = provider_steps sdk ForceFlush ''flush'' g w"

text \<open>\<open>Drop\<close> shuts every provider down, and logs what fails.\<close>

definition drop_step :: "'f sdk \<Rightarrow> string \<Rightarrow> 'f provider option \<Rightarrow> 'f otel_world \<Rightarrow> 'f otel_world" where
  "drop_step sdk what p w =
     (case p of
        None \<Rightarrow> w
      | Some provider \<Rightarrow>
          (case call_sdk sdk Shutdown provider w of
             (None, w') \<Rightarrow> w'
           | (Some e, w') \<Rightarrow>
               w'\<lparr>ow_warnings := ow_warnings w' @ [''failed to shut down OTel '' @ what @ '' provider on drop'']\<rparr>))"

definition otel_guard_drop :: "'f sdk \<Rightarrow> 'f otel_guard \<Rightarrow> 'f otel_world \<Rightarrow> 'f otel_world" where
  "otel_guard_drop sdk g w =
     drop_step sdk ''logger'' (og_logger_provider g)
       (drop_step sdk ''meter'' (og_meter_provider g)
         (drop_step sdk ''tracer'' (og_tracer_provider g) w))"

text \<open>\<open>shutdown(self)\<close> consumes the guard, so the guard is dropped when it returns.\<close>

definition otel_guard_shutdown :: "'f sdk \<Rightarrow> 'f otel_guard \<Rightarrow> 'f otel_world \<Rightarrow> (string + unit) \<times> 'f otel_world" where
  "otel_guard_shutdown sdk g w =
     (case provider_steps sdk Shutdown ''shut down'' g w of (r, w') \<Rightarrow> (r, otel_guard_drop sdk g w'))"

section \<open>Initialisation\<close>

definition build_resource :: "'f observability_config \<Rightarrow> resource" where
  "build_resource config =
     [(''service.name'', oc_service_name config), (''service.version'', oc_service_version config)] @
     oc_resource_attributes config"

record 'fl otel_crates =
  cr_try_filter :: "string \<Rightarrow> 'fl option"
  cr_filter_new :: "string \<Rightarrow> 'fl"
  cr_prometheus_exporter :: "string option"              \<comment> \<open>error of building it\<close>
  cr_metric_exporter :: "otlp_protocol \<Rightarrow> string option"
  cr_span_exporter :: "otlp_protocol \<Rightarrow> string option"
  cr_log_exporter :: "otlp_protocol \<Rightarrow> string option"

datatype ('f, 'fl) otel_effect =
    SetMeterProvider "'f provider"
  | SetTracerProvider "'f provider"
  | SpawnProcessObserver
  | TryInitSubscriber 'fl bool     \<comment> \<open>the filter, and whether the OTLP layers are added\<close>

text \<open>The result, and the effects on the process in their order, also of the failing runs.\<close>

definition init_observability ::
  "'fl otel_crates \<Rightarrow> 'f observability_config \<Rightarrow> (string + 'f otel_guard) \<times> ('f, 'fl) otel_effect list" where
  "init_observability cr config =
     (let env_filter = unwrap_or (cr_filter_new cr ''info'') (cr_try_filter cr (oc_log_filter config));
          resource = build_resource config;
          protocol = oc_protocol config;
          prometheus = (if oc_prometheus_enabled config then cr_prometheus_exporter cr else None)
      in case prometheus of
        Some e \<Rightarrow> (Inl (''failed to build Prometheus exporter: '' @ e), [])
      | None \<Rightarrow>
     (let readers = (if oc_prometheus_enabled config then [PrometheusReader] else []);
          push = oc_enabled config \<and> oc_metrics_enabled config
      in case (if push then cr_metric_exporter cr protocol else None) of
        Some e \<Rightarrow> (Inl (''failed to build OTLP metric exporter: '' @ e), [])
      | None \<Rightarrow>
     (let readers = readers @ (if push then [PeriodicExporter protocol] else []);
          meter_provider = (if readers = [] then None else Some (MeterProvider resource readers));
          effects = (case meter_provider of None \<Rightarrow> [] | Some p \<Rightarrow> [SetMeterProvider p]) @
                    (if oc_process_metrics_enabled config \<and> readers \<noteq> [] then [SpawnProcessObserver] else [])
      in if \<not> oc_enabled config
         then (Inr \<lparr>og_tracer_provider = None, og_meter_provider = meter_provider, og_logger_provider = None,
                    og_prometheus_registry = oc_prometheus_enabled config\<rparr>,
               effects @ [TryInitSubscriber env_filter False])
         else
           (case cr_span_exporter cr protocol of
              Some e \<Rightarrow> (Inl (''failed to build OTLP span exporter: '' @ e), effects)
            | None \<Rightarrow>
           (let tracer_provider = TracerProvider resource protocol (oc_trace_sample_ratio config);
                effects = effects @ [SetTracerProvider tracer_provider]
            in case cr_log_exporter cr protocol of
                 Some e \<Rightarrow> (Inl (''failed to build OTLP log exporter: '' @ e), effects)
               | None \<Rightarrow>
                   (Inr \<lparr>og_tracer_provider = Some tracer_provider, og_meter_provider = meter_provider,
                         og_logger_provider = Some (LoggerProvider resource protocol),
                         og_prometheus_registry = oc_prometheus_enabled config\<rparr>,
                    effects @ [TryInitSubscriber env_filter True]))))))"

text \<open>What the effects leave in the process.\<close>

fun installed_provider :: "('f, 'fl) otel_effect \<Rightarrow> 'f provider list" where
  "installed_provider (SetMeterProvider p) = [p]"
| "installed_provider (SetTracerProvider p) = [p]"
| "installed_provider SpawnProcessObserver = []"
| "installed_provider (TryInitSubscriber _ _) = []"

definition install_globals :: "('f, 'fl) otel_effect list \<Rightarrow> 'f otel_world \<Rightarrow> 'f otel_world" where
  "install_globals effects w = w\<lparr>ow_installed := ow_installed w @ concat (map installed_provider effects)\<rparr>"

section \<open>HTTP metrics\<close>

record 'mp http_world = "'mp server_world" +
  active_requests :: "string \<Rightarrow> int"                            \<comment> \<open>the up-down counter, by method\<close>
  request_durations :: "(string \<times> string \<times> nat \<times> nat) list"    \<comment> \<open>method, route, status, nanoseconds\<close>

definition record_http_metrics ::
  "('e, 'x, 'err, ('mp, 'z) http_world_scheme) service \<Rightarrow> ('e, 'x, 'err, ('mp, 'z) http_world_scheme) service" where
  "record_http_metrics nxt req w =
     (let meth = rq_method req;
          route = unwrap_or ''unknown'' (rq_matched_path req);
          w = w\<lparr>active_requests := (active_requests w)(meth := active_requests w meth + 1)\<rparr>;
          start = now w
      in after_response (\<lambda>response w.
           (response,
            w\<lparr>active_requests := (active_requests w)(meth := active_requests w meth - 1),
              request_durations := request_durations w @ [(meth, route, rs_status response, now w - start)]\<rparr>))
         (nxt req w))"

section \<open>The Prometheus endpoint\<close>

text \<open>\<open>encode\<close> is the text encoder on what the registry gathers.\<close>

definition serve_prometheus_metrics ::
  "(('mp, 'z) server_world_scheme \<Rightarrow> string + string) \<Rightarrow> string \<Rightarrow> ('mp, 'z) server_world_scheme \<Rightarrow>
   'x response \<times> ('mp, 'z) server_world_scheme" where
  "serve_prometheus_metrics encode format_type w =
     (case encode w of
        Inl e \<Rightarrow>
          (\<lparr>rs_status = 500, rs_headers = [(''content-type'', HeaderText ''text/plain; charset=utf-8'')],
            rs_body = Body ''failed to encode metrics'', rs_error = None\<rparr>,
           log_line \<lparr>le_level = ERROR, le_message = ''failed to encode Prometheus metrics'',
                     le_fields = [(''error'', Text e)]\<rparr> w)
      | Inr buffer \<Rightarrow>
          (\<lparr>rs_status = 200, rs_headers = [(''content-type'', HeaderText format_type)], rs_body = Body buffer,
            rs_error = None\<rparr>, w))"

text \<open>The route the router has: its path, its method and its handler.\<close>

definition prometheus_router ::
  "(('mp, 'z) server_world_scheme \<Rightarrow> string + string) \<Rightarrow> string \<Rightarrow>
   (string \<times> string \<times> ('e, 'x, 'err, ('mp, 'z) server_world_scheme) service) list" where
  "prometheus_router encode format_type =
     [(''/metrics'', ''GET'', \<lambda>_ w. case serve_prometheus_metrics encode format_type w of (r, w) \<Rightarrow> (Reply r, w))]"

section \<open>Lemmas\<close>

definition guard_providers :: "'f otel_guard \<Rightarrow> 'f provider list" where
  "guard_providers g = concat (map (\<lambda>p. case p of None \<Rightarrow> [] | Some q \<Rightarrow> [q])
     [og_tracer_provider g, og_meter_provider g, og_logger_provider g])"

lemma provider_step_calls:
  assumes "provider_step sdk c m p w = (r, w')"
  shows "ow_calls w' = ow_calls w @ map (Pair c) (case p of None \<Rightarrow> [] | Some q \<Rightarrow> [q])" "ow_warnings w' = ow_warnings w"
  using assms by (auto simp: provider_step_def call_sdk_def split: option.splits)

lemma drop_step_calls:
  "ow_calls (drop_step sdk m p w) = ow_calls w @ (case p of None \<Rightarrow> [] | Some q \<Rightarrow> [(Shutdown, q)])"
  by (auto simp: drop_step_def call_sdk_def split: option.splits)

lemma otel_guard_drop_calls:
  "ow_calls (otel_guard_drop sdk g w) = ow_calls w @ map (Pair Shutdown) (guard_providers g)"
  by (auto simp: otel_guard_drop_def drop_step_calls guard_providers_def split: option.splits)

lemma provider_steps_calls:
  "\<exists>qs. ow_calls (snd (provider_steps sdk c verb g w)) = ow_calls w @ map (Pair c) qs \<and> prefix qs (guard_providers g) \<and>
        (is_ok (fst (provider_steps sdk c verb g w)) \<longrightarrow> qs = guard_providers g) \<and>
        ow_warnings (snd (provider_steps sdk c verb g w)) = ow_warnings w"
proof -
  let ?opt = "\<lambda>p. case p of None \<Rightarrow> [] | Some q \<Rightarrow> [q]"
  obtain r1 w1 where 1: "provider_step sdk c (''failed to '' @ verb @ '' tracer provider: '') (og_tracer_provider g) w = (r1, w1)"
    by (metis prod.exhaust)
  obtain r2 w2 where 2: "provider_step sdk c (''failed to '' @ verb @ '' meter provider: '') (og_meter_provider g) w1 = (r2, w2)"
    by (metis prod.exhaust)
  obtain r3 w3 where 3: "provider_step sdk c (''failed to '' @ verb @ '' logger provider: '') (og_logger_provider g) w2 = (r3, w3)"
    by (metis prod.exhaust)
  note calls = provider_step_calls [OF 1] provider_step_calls [OF 2] provider_step_calls [OF 3]
  let ?qs = "case (r1, r2) of (Inl _, _) \<Rightarrow> ?opt (og_tracer_provider g)
      | (_, Inl _) \<Rightarrow> ?opt (og_tracer_provider g) @ ?opt (og_meter_provider g)
      | _ \<Rightarrow> guard_providers g"
  show ?thesis
    by (rule exI [of _ ?qs]) (use 1 2 3 calls in \<open>auto simp: provider_steps_def guard_providers_def split: sum.splits\<close>)
qed

lemma init_observability_guard:
  "fst (init_observability cr config) = Inr g \<Longrightarrow> prometheus_registry g = oc_prometheus_enabled config"
  by (auto simp: init_observability_def Let_def prometheus_registry_def split: if_splits option.splits)

section \<open>Properties\<close>

text \<open>
  What \<open>init_observability\<close> installs when it succeeds: a tracer and a logger provider exactly when
  export is enabled, a meter provider exactly when there is a reader for it (Prometheus, or the
  push exporter, which needs \<open>enabled\<close> as well as \<open>metrics_enabled\<close>); the global providers are the
  guard's; the process observer is started exactly when it is asked for and a reader exists; and
  the subscriber is installed last, with the OTLP layers exactly when export is enabled.\<close>
lemma init_observability_installs:
  assumes "init_observability cr config = (Inr g, effects)"
  shows "(og_tracer_provider g \<noteq> None \<longleftrightarrow> oc_enabled config) \<and> (og_logger_provider g \<noteq> None \<longleftrightarrow> oc_enabled config) \<and>
         (og_meter_provider g \<noteq> None \<longleftrightarrow>
            oc_prometheus_enabled config \<or> oc_enabled config \<and> oc_metrics_enabled config) \<and>
         prometheus_registry g = oc_prometheus_enabled config \<and>
         {p. SetMeterProvider p \<in> set effects} = set_option (og_meter_provider g) \<and>
         {p. SetTracerProvider p \<in> set effects} = set_option (og_tracer_provider g) \<and>
         (SpawnProcessObserver \<in> set effects \<longleftrightarrow> oc_process_metrics_enabled config \<and> og_meter_provider g \<noteq> None) \<and>
         (\<exists>fl. last effects = TryInitSubscriber fl (oc_enabled config))"
  using assms
  by (auto simp: init_observability_def Let_def prometheus_registry_def split: if_splits option.splits)

lemma init_observability_installs_witness:
  "\<exists>g effects. init_observability
      \<lparr>cr_try_filter = \<lambda>s. Some s, cr_filter_new = id, cr_prometheus_exporter = None, cr_metric_exporter = \<lambda>_. None,
       cr_span_exporter = \<lambda>_. None, cr_log_exporter = \<lambda>_. None\<rparr>
      (observability_config_from_env (\<lambda>_. None) (1 :: nat) [''MRP_OTEL_METRICS_ENABLED'' \<mapsto> ''TRUE'']) = (Inr g, effects) \<and>
      og_meter_provider g = None"
proof -
  let ?cr = "\<lparr>cr_try_filter = \<lambda>s. Some s, cr_filter_new = id, cr_prometheus_exporter = None, cr_metric_exporter = \<lambda>_. None,
       cr_span_exporter = \<lambda>_. None, cr_log_exporter = \<lambda>_. None\<rparr>"
  let ?c = "observability_config_from_env (\<lambda>_. None) (1 :: nat) [''MRP_OTEL_METRICS_ENABLED'' \<mapsto> ''TRUE'']"
  have off: "oc_enabled ?c = False" "oc_prometheus_enabled ?c = False"
    by (simp_all add: observability_config_from_env_def env_switch_def eq_ignore_ascii_case_def to_ascii_lowercase_def Let_def)
  then obtain g effects where g: "init_observability ?cr ?c = (Inr g, effects)"
    by (simp add: init_observability_def Let_def)
  from init_observability_installs [OF g] off have "og_meter_provider g = None" by simp
  with g show ?thesis by blast
qed

text \<open>
  Shutting the guard down reaches every provider, even when shutting an earlier one down fails
  and \<open>shutdown\<close> returns early: the drop of the guard takes care of the rest.\<close>
lemma shutdown_reaches_every_provider:
  "\<forall>p\<in>set (guard_providers g). (Shutdown, p) \<in> set (ow_calls (snd (otel_guard_shutdown sdk g w)))"
  by (auto simp: otel_guard_shutdown_def otel_guard_drop_calls split: prod.splits)

lemma shutdown_reaches_every_provider_witness:
  "let g = \<lparr>og_tracer_provider = Some (TracerProvider [] Grpc (1 :: nat)), og_meter_provider = None,
            og_logger_provider = Some (LoggerProvider [] Grpc), og_prometheus_registry = False\<rparr>;
       failing = (\<lambda>_ _ _. Some ''collector unreachable'')
   in (Shutdown, LoggerProvider [] Grpc) \<in> set (ow_calls (snd (otel_guard_shutdown failing g \<lparr>ow_calls = [], ow_warnings = [], ow_installed = []\<rparr>)))"
  unfolding Let_def by (rule shutdown_reaches_every_provider [rule_format]) (simp add: guard_providers_def)

text \<open>C40.
  A graceful shutdown shuts every provider down twice, once in \<open>shutdown\<close> and once more when the
  guard is dropped. With an SDK that refuses to shut a provider down a second time, every
  successful shutdown therefore logs a warning for each provider of the guard.\<close>
theorem graceful_shutdown_is_double:
  assumes "fst (otel_guard_shutdown sdk g w) = Inr ()"
    and "\<And>calls p. (Shutdown, p) \<in> set calls \<Longrightarrow> sdk calls Shutdown p \<noteq> None"
  shows "ow_calls (snd (otel_guard_shutdown sdk g w)) =
           ow_calls w @ map (Pair Shutdown) (guard_providers g @ guard_providers g) \<and>
         length (ow_warnings (snd (otel_guard_shutdown sdk g w))) = length (ow_warnings w) + length (guard_providers g)"
proof -
  obtain r w1 where body: "provider_steps sdk Shutdown ''shut down'' g w = (r, w1)" by (metis prod.exhaust)
  have r: "r = Inr ()" using assms(1) body by (simp add: otel_guard_shutdown_def)
  obtain qs where "ow_calls w1 = ow_calls w @ map (Pair Shutdown) (guard_providers g)" "ow_warnings w1 = ow_warnings w"
    using provider_steps_calls [of sdk Shutdown "''shut down''" g w] body r by auto
  note w1 = this
  have warn: "length (ow_warnings (drop_step sdk m p w')) = length (ow_warnings w') + (case p of None \<Rightarrow> 0 | Some _ \<Rightarrow> 1)"
    if "\<forall>q\<in>set_option p. (Shutdown, q) \<in> set (ow_calls w')" for m p w'
    using that assms(2) [of _ "ow_calls w'"]
    by (cases p) (auto simp: drop_step_def call_sdk_def split: option.splits)
  let ?w2 = "drop_step sdk ''tracer'' (og_tracer_provider g) w1"
  let ?w3 = "drop_step sdk ''meter'' (og_meter_provider g) ?w2"
  have shut: "\<forall>q\<in>set_option (og_tracer_provider g). (Shutdown, q) \<in> set (ow_calls w1)"
    "\<forall>q\<in>set_option (og_meter_provider g). (Shutdown, q) \<in> set (ow_calls ?w2)"
    "\<forall>q\<in>set_option (og_logger_provider g). (Shutdown, q) \<in> set (ow_calls ?w3)"
    by (auto simp: drop_step_calls w1 guard_providers_def)
  have "length (guard_providers g) = (case og_tracer_provider g of None \<Rightarrow> 0 | Some _ \<Rightarrow> 1) +
      (case og_meter_provider g of None \<Rightarrow> 0 | Some _ \<Rightarrow> 1) + (case og_logger_provider g of None \<Rightarrow> 0 | Some _ \<Rightarrow> 1)"
    by (auto simp: guard_providers_def split: option.splits)
  then have "length (ow_warnings (otel_guard_drop sdk g w1)) = length (ow_warnings w1) + length (guard_providers g)"
    unfolding otel_guard_drop_def warn [OF shut(3)] warn [OF shut(2)] warn [OF shut(1)] by simp
  then show ?thesis
    using body r w1 by (simp add: otel_guard_shutdown_def otel_guard_drop_calls)
qed

theorem graceful_shutdown_is_double_witness:
  "let sdk = (\<lambda>calls c p. if c = Shutdown \<and> (Shutdown, p) \<in> set calls then Some ''already shut down'' else None);
       g = \<lparr>og_tracer_provider = Some (TracerProvider [] Grpc (1 :: nat)), og_meter_provider = None,
            og_logger_provider = Some (LoggerProvider [] Grpc), og_prometheus_registry = False\<rparr>
   in length (ow_warnings (snd (otel_guard_shutdown sdk g \<lparr>ow_calls = [], ow_warnings = [], ow_installed = []\<rparr>))) = 2"
proof -
  let ?sdk = "\<lambda>calls c p. if c = Shutdown \<and> (Shutdown, p) \<in> set calls then Some ''already shut down'' else None"
  let ?g = "\<lparr>og_tracer_provider = Some (TracerProvider [] Grpc (1 :: nat)), og_meter_provider = None,
            og_logger_provider = Some (LoggerProvider [] Grpc), og_prometheus_registry = False\<rparr>"
  have "fst (otel_guard_shutdown ?sdk ?g \<lparr>ow_calls = [], ow_warnings = [], ow_installed = []\<rparr>) = Inr ()"
    by (simp add: otel_guard_shutdown_def provider_steps_def provider_step_def call_sdk_def)
  from graceful_shutdown_is_double [OF this] show ?thesis by (simp add: guard_providers_def)
qed

text \<open>C35.
  The gauge of active requests is balanced exactly for requests that complete: around an
  application that leaves the gauge alone, a request that ends with a response leaves it as it
  was and records one duration with method, matched route and status; a request that panics or
  is dropped (a timeout) leaves it one too high for good, and records nothing.\<close>
theorem active_requests_balance:
  assumes "\<And>w. active_requests (snd (nxt req w)) = active_requests w \<and> request_durations (snd (nxt req w)) = request_durations w"
  shows "case record_http_metrics nxt req w of (reply, w') \<Rightarrow>
           (case reply of
              Reply r \<Rightarrow> active_requests w' = active_requests w \<and>
                (\<exists>t. request_durations w' = request_durations w @
                   [(rq_method req, unwrap_or ''unknown'' (rq_matched_path req), rs_status r, t)])
            | _ \<Rightarrow> active_requests w' = (active_requests w)(rq_method req := active_requests w (rq_method req) + 1) \<and>
                request_durations w' = request_durations w)"
proof -
  let ?w = "w\<lparr>active_requests := (active_requests w)(rq_method req := active_requests w (rq_method req) + 1)\<rparr>"
  obtain reply w' where nxt: "nxt req ?w = (reply, w')" by (metis prod.exhaust)
  then have "active_requests w' = active_requests ?w" "request_durations w' = request_durations w"
    using assms [of ?w] by auto
  then show ?thesis
    using nxt by (cases reply) (auto simp: record_http_metrics_def after_response_def Let_def)
qed

theorem active_requests_balance_witness:
  "active_requests (snd (record_http_metrics (\<lambda>req w. (Dropped, w)) (app_request ''/slow'' None)
     \<lparr>meter_provider = (), failure_counter = None, failures_counted = [], now = 0, log = [],
      active_requests = (\<lambda>_. 0), request_durations = []\<rparr>)) ''GET'' = 1"
  using active_requests_balance [of "\<lambda>req w. (Dropped, w)" "app_request ''/slow'' None"
      "\<lparr>meter_provider = (), failure_counter = None, failures_counted = [], now = 0, log = [],
      active_requests = (\<lambda>_. 0), request_durations = []\<rparr>"]
  by (simp add: record_http_metrics_def after_response_def app_request_def Let_def)

end
