(* ===== verification/Launch_Server.thy ===== *)
theory Launch_Server
  imports Launch_Observability "HOL-Library.AList"
begin

text \<open>
  \<open>server.rs\<close> of \<open>stano-launcher\<close>: the middleware stack, its order, the CORS policy, the
  security headers, the panic handler, and the life of \<open>run\<close>. The layers of \<open>tower-http\<close> and the
  dispatch of \<open>axum\<close> are arguments; a layer turns a service into a service.
\<close>

section \<open>CORS\<close>

text \<open>What the code sets of a \<open>CorsLayer\<close>.\<close>

datatype allow_origin = AnyOrigin | OriginList "header_value list" | OriginPredicate "header_value \<Rightarrow> bool"

datatype allow_set = AnyValue | MirrorRequest

record cors_config =
  cc_origin :: allow_origin
  cc_methods :: allow_set
  cc_headers :: allow_set
  cc_credentials :: bool

definition cors_permissive :: cors_config where
  "cors_permissive = \<lparr>cc_origin = AnyOrigin, cc_methods = AnyValue, cc_headers = AnyValue, cc_credentials = False\<rparr>"

text \<open>\<open>parse\<close> is \<open>HeaderValue::from_str\<close>.\<close>

definition cors_layer :: "(string \<Rightarrow> header_value option) \<Rightarrow> 'f bootstrap_config \<Rightarrow> cors_config" where
  "cors_layer parse config =
     (if bc_is_dev config \<and> bc_cors_dev_origins config \<noteq> []
      then \<lparr>cc_origin = OriginList (List.map_filter parse (bc_cors_dev_origins config)),
            cc_methods = MirrorRequest, cc_headers = MirrorRequest, cc_credentials = True\<rparr>
      else if bc_cors_origins config = [] \<and> bc_cors_origin_suffixes config = []
      then cors_permissive
      else
        (let exact_origins = bc_cors_origins config;
             suffixes = bc_cors_origin_suffixes config
         in \<lparr>cc_origin = OriginPredicate (\<lambda>origin.
               unwrap_or False (map_option (\<lambda>s. list_ex (\<lambda>p. p = s) exact_origins \<or>
                                                 list_ex (\<lambda>suf. ends_with s suf) suffixes)
                                  (to_str origin))),
             cc_methods = MirrorRequest, cc_headers = MirrorRequest, cc_credentials = True\<rparr>))"

text \<open>The origins that a configuration admits, as \<open>tower-http\<close> documents them.\<close>

fun origin_allowed :: "allow_origin \<Rightarrow> header_value \<Rightarrow> bool" where
  "origin_allowed AnyOrigin v = True"
| "origin_allowed (OriginList vs) v = (v \<in> set vs)"
| "origin_allowed (OriginPredicate p) v = p v"

section \<open>Security headers and panics\<close>

definition security_headers :: "(string \<times> string) list" where
  "security_headers =
     [(''x-content-type-options'', ''nosniff''), (''x-frame-options'', ''DENY''),
      (''strict-transport-security'', ''max-age=31536000; includeSubDomains'')]"

definition add_security_headers :: "('e, 'x, 'err, 'w) service \<Rightarrow> ('e, 'x, 'err, 'w) service" where
  "add_security_headers nxt req w =
     after_response (\<lambda>res w.
       (res\<lparr>rs_headers := fold (\<lambda>(name, value). header_insert name (HeaderText value)) security_headers (rs_headers res)\<rparr>, w))
     (nxt req w)"

definition handle_panic ::
  "panic_payload \<Rightarrow> ('mp, 'z) server_world_scheme \<Rightarrow> 'x response \<times> ('mp, 'z) server_world_scheme" where
  "handle_panic err w =
     (let msg = (case err of PanicString s \<Rightarrow> s | PanicStr s \<Rightarrow> s | PanicOther \<Rightarrow> ''unknown panic'')
      in (\<lparr>rs_status = 500, rs_headers = [(''content-type'', HeaderText ''application/json'')],
           rs_body = ErrorBody (error_response_new 500 ''INTERNAL_ERROR'' ''An internal error occurred''),
           rs_error = None\<rparr>,
          log_line \<lparr>le_level = ERROR, le_message = ''Handler panicked'', le_fields = [(''panic_message'', Text msg)]\<rparr> w))"

section \<open>The OpenAPI document\<close>

datatype security_scheme = HttpBearer string   \<comment> \<open>the bearer format\<close>

record openapi_components =
  oa_schemas :: "string list"
  oa_security_schemes :: "(string \<times> security_scheme) list"

record openapi =
  oa_components :: "openapi_components option"

definition register_bearer_auth_scheme :: "openapi \<Rightarrow> openapi" where
  "register_bearer_auth_scheme doc =
     (let components = unwrap_or \<lparr>oa_schemas = [], oa_security_schemes = []\<rparr> (oa_components doc)
      in doc\<lparr>oa_components := Some (components\<lparr>oa_security_schemes :=
           AList.update ''bearerAuth'' (HttpBearer ''JWT'') (oa_security_schemes components)\<rparr>)\<rparr>)"

section \<open>Routers\<close>

text \<open>
  What the code relies on of an \<open>axum\<close> router: it has routes and a fallback. As \<open>axum\<close> documents,
  \<open>layer\<close> wraps the services of both; \<open>route_layer\<close> those of the routes only, and panics (\<open>None\<close>)
  when there are none; \<open>merge\<close> panics (\<open>None\<close>) when routes of the two routers overlap. Which do is
  \<open>axum\<close>'s matter and an argument. The layers run after the route has been selected.
\<close>

record ('e, 'x, 'err, 'w) router =
  rt_routes :: "(string \<times> string \<times> ('e, 'x, 'err, 'w) service) list"   \<comment> \<open>path, method\<close>
  rt_fallback :: "('e, 'x, 'err, 'w) service"

type_synonym ('e, 'x, 'err, 'w) layer = "('e, 'x, 'err, 'w) service \<Rightarrow> ('e, 'x, 'err, 'w) service"

definition router_layer :: "('e, 'x, 'err, 'w) layer \<Rightarrow> ('e, 'x, 'err, 'w) router \<Rightarrow> ('e, 'x, 'err, 'w) router" where
  "router_layer l r =
     \<lparr>rt_routes = map (\<lambda>(p, m, s). (p, m, l s)) (rt_routes r), rt_fallback = l (rt_fallback r)\<rparr>"

definition router_route_layer ::
  "('e, 'x, 'err, 'w) layer \<Rightarrow> ('e, 'x, 'err, 'w) router \<Rightarrow> ('e, 'x, 'err, 'w) router option" where
  "router_route_layer l r =
     (if rt_routes r = [] then None
      else Some (r\<lparr>rt_routes := map (\<lambda>(p, m, s). (p, m, l s)) (rt_routes r)\<rparr>))"

record ('e, 'x, 'err, 'w, 'or) axum_crates =
  ax_openapi_router_new :: 'or
  ax_openapi_router_merge :: "'or \<Rightarrow> 'or \<Rightarrow> 'or option"
  ax_split_for_parts :: "'or \<Rightarrow> ('e, 'x, 'err, 'w) router \<times> openapi"
  ax_swagger_ui :: "openapi \<Rightarrow> ('e, 'x, 'err, 'w) router"
  ax_merge :: "('e, 'x, 'err, 'w) router \<Rightarrow> ('e, 'x, 'err, 'w) router \<Rightarrow> ('e, 'x, 'err, 'w) router option"
  ax_select :: "(string \<times> string) list \<Rightarrow> 'e request \<Rightarrow> (string \<times> string) option"
  ax_not_found :: "('e, 'x, 'err, 'w) service"

definition route_keys :: "(string \<times> string \<times> 's) list \<Rightarrow> (string \<times> string) list" where
  "route_keys = map (\<lambda>(p, m, s). (p, m))"

definition find_route :: "(string \<times> string \<times> 's) list \<Rightarrow> string \<times> string \<Rightarrow> (string \<times> string \<times> 's) option" where
  "find_route rts k = find (\<lambda>(p, m, s). (p, m) = k) rts"

text \<open>
  The router as a service: the service that it selects for a request, and the request as that
  service gets it, with the path of the selected route as its \<open>MatchedPath\<close>.
\<close>

definition router_target ::
  "('e, 'x, 'err, 'w, 'or) axum_crates \<Rightarrow> ('e, 'x, 'err, 'w) router \<Rightarrow> 'e request \<Rightarrow> ('e, 'x, 'err, 'w) service \<times> 'e request" where
  "router_target ax r req =
     (case Option.bind (ax_select ax (route_keys (rt_routes r)) req) (find_route (rt_routes r)) of
        Some (path, meth, svc) \<Rightarrow> (svc, req\<lparr>rq_matched_path := Some path\<rparr>)
      | None \<Rightarrow> (rt_fallback r, req))"

definition router_service :: "('e, 'x, 'err, 'w, 'or) axum_crates \<Rightarrow> ('e, 'x, 'err, 'w) router \<Rightarrow> ('e, 'x, 'err, 'w) service" where
  "router_service ax r req w = (case router_target ax r req of (svc, req') \<Rightarrow> svc req' w)"

section \<open>The stack\<close>

record ('e, 'x, 'err, 'w) tower_http =
  th_timeout :: "nat \<Rightarrow> nat \<Rightarrow> ('e, 'x, 'err, 'w) layer"          \<comment> \<open>status, seconds\<close>
  th_trace :: "level \<Rightarrow> ('e, 'x, 'err, 'w) layer"
  th_catch_panic :: "(panic_payload \<Rightarrow> 'w \<Rightarrow> 'x response \<times> 'w) \<Rightarrow> ('e, 'x, 'err, 'w) layer"
  th_compression :: "('e, 'x, 'err, 'w) layer"
  th_set_request_id :: "string \<Rightarrow> ('e, 'x, 'err, 'w) layer"
  th_propagate_request_id :: "string \<Rightarrow> ('e, 'x, 'err, 'w) layer"
  th_request_body_limit :: "nat \<Rightarrow> ('e, 'x, 'err, 'w) layer"
  th_cors :: "cors_config \<Rightarrow> ('e, 'x, 'err, 'w) layer"

text \<open>
  The two optional layers of the application, as services around the rest; \<open>gate_layer\<close> applies
  the authorization of \<open>stano-axum\<close>.
\<close>

definition gate_layer ::
  "('r, 'ie) matchit \<Rightarrow> ('ek, 'dk, 'e) jwt_crate \<Rightarrow>
   ('r, 'e, ('mp, 'z) server_world_scheme) authorization_layer option \<Rightarrow>
   ('e, 'x, 'err, ('mp, 'z) server_world_scheme) layer" where
  "gate_layer mi jw authorization =
     (case authorization of None \<Rightarrow> (\<lambda>s. s) | Some layer \<Rightarrow> authorization_service mi jw layer)"

definition hook_layers :: "('e, 'x, 'err, 'w) post_authorization_hook option \<Rightarrow> ('e, 'x, 'err, 'w) layer" where
  "hook_layers post = (case post of None \<Rightarrow> (\<lambda>s. s) | Some hook \<Rightarrow> hook_layer hook)"

text \<open>
  The calls of \<open>.layer(...)\<close> in their order, in three groups: every layer wraps those before it.
\<close>

definition inner_layers ::
  "('e, 'x, 'err, ('mp, 'z) server_world_scheme) tower_http \<Rightarrow> (('mp, 'z) server_world_scheme \<Rightarrow> string) \<Rightarrow>
   'f bootstrap_config \<Rightarrow> ('e, 'x, 'err, ('mp, 'z) server_world_scheme) layer list" where
  "inner_layers th trace_id config =
     [th_timeout th 408 300] @
     (if oc_http_logging_enabled (bc_observability config) then [http_request_logging_middleware trace_id] else []) @
     [th_trace th INFO,
      error_logging_middleware,
      th_catch_panic th handle_panic,
      th_compression th]"

definition request_id_layers :: "('e, 'x, 'err, 'w) tower_http \<Rightarrow> ('e, 'x, 'err, 'w) layer list" where
  "request_id_layers th = [th_set_request_id th ''x-request-id'', th_propagate_request_id th ''x-request-id'']"

definition outer_layers ::
  "('e, 'x, 'err, ('mp, 'z) server_world_scheme) tower_http \<Rightarrow>
   (string \<Rightarrow> header_value option) \<Rightarrow> ('r, 'ie) matchit \<Rightarrow> ('ek, 'dk, 'e) jwt_crate \<Rightarrow> 'f bootstrap_config \<Rightarrow>
   ('r, 'e, ('mp, 'z) server_world_scheme) authorization_layer option \<Rightarrow>
   ('e, 'x, 'err, ('mp, 'z) server_world_scheme) post_authorization_hook option \<Rightarrow>
   ('e, 'x, 'err, ('mp, 'z) server_world_scheme) layer list" where
  "outer_layers th parse mi jw config authorization post_authorization =
     [th_request_body_limit th (10 * 1024 * 1024),
      hook_layers post_authorization,
      gate_layer mi jw authorization,
      add_security_headers,
      th_cors th (cors_layer parse config)]"

definition app_layers ::
  "('e, 'x, 'err, ('mp, 'z) server_world_scheme) tower_http \<Rightarrow> (('mp, 'z) server_world_scheme \<Rightarrow> string) \<Rightarrow>
   (string \<Rightarrow> header_value option) \<Rightarrow> ('r, 'ie) matchit \<Rightarrow> ('ek, 'dk, 'e) jwt_crate \<Rightarrow> 'f bootstrap_config \<Rightarrow>
   ('r, 'e, ('mp, 'z) server_world_scheme) authorization_layer option \<Rightarrow>
   ('e, 'x, 'err, ('mp, 'z) server_world_scheme) post_authorization_hook option \<Rightarrow>
   ('e, 'x, 'err, ('mp, 'z) server_world_scheme) layer list" where
  "app_layers th trace_id parse mi jw config authorization post_authorization =
     inner_layers th trace_id config @ request_id_layers th @
     outer_layers th parse mi jw config authorization post_authorization"

text \<open>
  The routes: those that were collected, unless collecting them panicked, and the extra ones,
  merged into a new router.
\<close>

definition merged_routes :: "('e, 'x, 'err, 'w, 'or) axum_crates \<Rightarrow> 'or option \<Rightarrow> 'or \<Rightarrow> 'or option" where
  "merged_routes ax collected extra_routes =
     Option.bind collected (\<lambda>collected.
       Option.bind (ax_openapi_router_merge ax (ax_openapi_router_new ax) collected) (\<lambda>router.
         ax_openapi_router_merge ax router extra_routes))"

text \<open>
  The application of \<open>run\<close>: the routes, the optional endpoints, the HTTP metrics and the
  stack. \<open>None\<close> is a panic, of collecting or merging routes that overlap or of \<open>route_layer\<close>.
\<close>

definition build_app ::
  "('e, 'x, 'err, ('mp, 'z) http_world_scheme, 'or) axum_crates \<Rightarrow>
   ('e, 'x, 'err, ('mp, 'z) http_world_scheme) layer list \<Rightarrow>
   (string \<times> string \<times> ('e, 'x, 'err, ('mp, 'z) http_world_scheme) service) list option \<Rightarrow>
   'or option \<Rightarrow> 'or \<Rightarrow> 'f bootstrap_config \<Rightarrow> ('e, 'x, 'err, ('mp, 'z) http_world_scheme) router option" where
  "build_app ax layers metrics_routes collected extra_routes config =
     Option.bind (merged_routes ax collected extra_routes) (\<lambda>merged.
       let (router, doc) = ax_split_for_parts ax merged;
           doc = register_bearer_auth_scheme doc
       in Option.bind (if bc_enable_swagger config then ax_merge ax router (ax_swagger_ui ax doc) else Some router) (\<lambda>app.
          Option.bind (case metrics_routes of
                         None \<Rightarrow> Some app
                       | Some rts \<Rightarrow> ax_merge ax app \<lparr>rt_routes = rts, rt_fallback = ax_not_found ax\<rparr>) (\<lambda>app.
          Option.bind (if oc_metrics_enabled (bc_observability config) \<or> oc_prometheus_enabled (bc_observability config)
                       then router_route_layer record_http_metrics app
                       else Some app) (\<lambda>app.
          Some (fold router_layer layers app)))))"

section \<open>\<open>run\<close>\<close>

text \<open>
  How \<open>run\<close> ends: it returns, or it unwinds with a panic of putting the application together.
  What \<open>init_observability\<close> has installed stays installed however it ends. Whether the listener
  binds and what serving ends with are arguments.
\<close>

datatype run_outcome = Returned "string + unit" | RunPanicked

definition run ::
  "'fl otel_crates \<Rightarrow> 'f sdk \<Rightarrow> (16 word \<Rightarrow> string option) \<Rightarrow>
   (('e, 'x, 'err, ('mp, 'z) http_world_scheme) router \<Rightarrow> string option) \<Rightarrow>
   ('e, 'x, 'err, ('mp, 'z) http_world_scheme, 'or) axum_crates \<Rightarrow>
   ('e, 'x, 'err, ('mp, 'z) http_world_scheme) layer list \<Rightarrow>
   ('reg \<Rightarrow> ('mp, 'z) http_world_scheme \<Rightarrow> string + string) \<Rightarrow> string \<Rightarrow> 'or option \<Rightarrow>
   'or \<Rightarrow> 'f bootstrap_config \<Rightarrow> ('reg \<Rightarrow> 'reg) option \<Rightarrow> 'reg \<Rightarrow> 'f otel_world \<Rightarrow>
   run_outcome \<times> 'reg \<times> 'f otel_world" where
  "run cr sdk bind serve ax layers encode format_type collected extra_routes config register_metrics registry w =
     (case init_observability cr (bc_observability config) of
        (Inl e, effects) \<Rightarrow> (Returned (Inl e), registry, install_globals effects w)
      | (Inr otel_guard, effects) \<Rightarrow>
          let w = install_globals effects w;
              registry = (if prometheus_registry otel_guard
                          then (case register_metrics of None \<Rightarrow> registry | Some f \<Rightarrow> f registry)
                          else registry);
              endpoint = (if prometheus_registry otel_guard
                          then Some (prometheus_router (encode registry) format_type) else None)
          in case build_app ax layers endpoint collected extra_routes config of
               None \<Rightarrow> (RunPanicked, registry, otel_guard_drop sdk otel_guard w)
             | Some app \<Rightarrow>
                 (case bind (bc_port config) of
                    Some e \<Rightarrow> (Returned (Inl e), registry, otel_guard_drop sdk otel_guard w)
                  | None \<Rightarrow>
                      (case serve app of
                         Some e \<Rightarrow> (Returned (Inl e), registry, otel_guard_drop sdk otel_guard w)
                       | None \<Rightarrow>
                           (case otel_guard_shutdown sdk otel_guard w of
                              (r, w) \<Rightarrow> (Returned r, registry, w)))))"

section \<open>Lemmas\<close>

lemma find_layered [simp]:
  "find_route (map (\<lambda>(p, m, s). (p, m, l s)) rts) k = map_option (\<lambda>(p, m, s). (p, m, l s)) (find_route rts k)"
  by (induction rts) (auto simp: find_route_def)

lemma keys_layered [simp]: "route_keys (map (\<lambda>(p, m, s). (p, m, l s)) rts) = route_keys rts"
  by (simp add: route_keys_def split_def)

lemma router_target_layer:
  "router_target ax (router_layer l r) req = (case router_target ax r req of (svc, req') \<Rightarrow> (l svc, req'))"
  by (cases "ax_select ax (route_keys (rt_routes r)) req")
     (auto simp: router_target_def router_layer_def split: option.splits)

lemma router_target_req: "\<exists>mp. snd (router_target ax r req) = req\<lparr>rq_matched_path := mp\<rparr>"
proof (cases "Option.bind (ax_select ax (route_keys (rt_routes r)) req) (find_route (rt_routes r))")
  case None
  then have "snd (router_target ax r req) = req\<lparr>rq_matched_path := rq_matched_path req\<rparr>"
    by (simp add: router_target_def)
  then show ?thesis by (rule exI)
next
  case (Some t)
  then show ?thesis by (cases t) (auto simp: router_target_def)
qed

lemma router_target_layers:
  "router_target ax (fold router_layer ls r) req =
     (case router_target ax r req of (svc, req') \<Rightarrow> (fold (\<lambda>l. l) ls svc, req'))"
  by (induction ls arbitrary: r) (auto simp: router_target_layer split: prod.splits)

lemma header_get_fold_insert:
  "header_get (fold (\<lambda>(name, value). header_insert name (HeaderText value)) hs h) n =
     (case map_of (rev hs) n of Some v \<Rightarrow> Some (HeaderText v) | None \<Rightarrow> header_get h n)"
  by (induction hs arbitrary: h) (auto simp: map_add_def split: option.splits)

lemma add_security_headers_get:
  assumes "add_security_headers nxt req w = (Reply r, w')" "(name, value) \<in> set security_headers"
  shows "header_get (rs_headers r) name = Some (HeaderText value)"
  using assms
  by (cases "nxt req w"; cases "fst (nxt req w)")
     (auto simp: add_security_headers_def after_response_def header_get_fold_insert security_headers_def)

section \<open>A small server\<close>

text \<open>
  The third-party parts instantiated: a router that selects the route with the path and the
  method of the request, and that panics when it gets a route twice; layers that do what the code relies on, or nothing. The identifier that
  is set is always the same.
\<close>

definition plain_axum ::
  "('e, 'x, 'err, ('mp, 'z) http_world_scheme, ('e, 'x, 'err, ('mp, 'z) http_world_scheme) router) axum_crates" where
  "plain_axum =
     (let not_found = (\<lambda>_ w. (Reply \<lparr>rs_status = 404, rs_headers = [], rs_body = Body [], rs_error = None\<rparr>, w));
          merge = (\<lambda>a b. if list_ex (\<lambda>k. k \<in> set (route_keys (rt_routes a))) (route_keys (rt_routes b)) then None
                          else Some (a\<lparr>rt_routes := rt_routes a @ rt_routes b\<rparr>));
          page = (\<lambda>_ w. (Reply \<lparr>rs_status = 200, rs_headers = [], rs_body = Body ''swagger'', rs_error = None\<rparr>, w))
      in \<lparr>ax_openapi_router_new = \<lparr>rt_routes = [], rt_fallback = not_found\<rparr>,
          ax_openapi_router_merge = merge,
          ax_split_for_parts = (\<lambda>r. (r, \<lparr>oa_components = None\<rparr>)),
          ax_swagger_ui = (\<lambda>_. \<lparr>rt_routes = [(''/api-docs/openapi.json'', ''GET'', page), (''/swagger'', ''GET'', page),
                                       (''/swagger/{*rest}'', ''GET'', page)], rt_fallback = not_found\<rparr>),
          ax_merge = merge,
          ax_select = (\<lambda>keys req. find (\<lambda>k. k = (rq_path req, rq_method req)) keys),
          ax_not_found = not_found\<rparr>)"

definition plain_tower :: "('e, 'x, 'err, ('mp, 'z) server_world_scheme) tower_http" where
  "plain_tower =
     \<lparr>th_timeout = (\<lambda>_ _ s. s), th_trace = (\<lambda>_ s. s),
      th_catch_panic = (\<lambda>h s req w. case s req w of
          (Panics p, w') \<Rightarrow> (case h p w' of (r, w'') \<Rightarrow> (Reply r, w'')) | a \<Rightarrow> a),
      th_compression = (\<lambda>s. s),
      th_set_request_id = (\<lambda>name s req w. case header_get (rq_headers req) name of
          None \<Rightarrow> s (req\<lparr>rq_headers := header_insert name (HeaderText ''id-1'') (rq_headers req), rq_request_id := Some ''id-1''\<rparr>) w
        | Some v \<Rightarrow> s (req\<lparr>rq_request_id := to_str v\<rparr>) w),
      th_propagate_request_id = (\<lambda>name s req w. case header_get (rq_headers req) name of
          None \<Rightarrow> s req w
        | Some v \<Rightarrow> after_response (\<lambda>r w. (if header_get (rs_headers r) name = None
            then r\<lparr>rs_headers := header_insert name v (rs_headers r)\<rparr> else r, w)) (s req w)),
      th_request_body_limit = (\<lambda>_ s. s), th_cors = (\<lambda>_ s. s)\<rparr>"

definition http_world0 :: "string http_world" where
  "http_world0 = \<lparr>meter_provider = ''otel'', failure_counter = None, failures_counted = [], now = 0, log = [],
     active_requests = (\<lambda>_. 0), request_durations = []\<rparr>"

definition small_config :: "nat bootstrap_config" where
  "small_config = \<lparr>bc_port = 8080, bc_jwt_config = app_config, bc_cors_origins = [''https://app.example''],
     bc_cors_origin_suffixes = [], bc_cors_dev_origins = [], bc_is_dev = False,
     bc_observability = observability_config_from_env (\<lambda>_. None) 1 Map.empty, bc_enable_swagger = False\<rparr>"

section \<open>Routes that do not overlap\<close>

text \<open>
  What \<open>axum\<close> and \<open>matchit\<close> document of routes, as far as an application needs it. Routes with the
  same path but different methods go together, and so do routes whose paths first differ in two
  literal segments or of which one ends where the other goes on. (Nothing is said of the others;
  a placeholder and a literal in the same place, for one, would do as well.)
\<close>

definition literal_segment :: "string \<Rightarrow> bool" where
  "literal_segment s = (CHR ''{'' \<notin> set s)"

definition catch_all :: "string \<Rightarrow> bool" where
  "catch_all s = (strip_prefix ''{*'' s \<noteq> None)"

fun segments_disjoint :: "string list \<Rightarrow> string list \<Rightarrow> bool" where
  "segments_disjoint (a # as) (b # bs) =
     (if a = b then \<not> catch_all a \<and> segments_disjoint as bs else literal_segment a \<and> literal_segment b)"
| "segments_disjoint (a # as) [] = (\<not> catch_all a)"
| "segments_disjoint [] (b # bs) = (\<not> catch_all b)"
| "segments_disjoint [] [] = False"

definition routes_compatible :: "string \<times> string \<Rightarrow> string \<times> string \<Rightarrow> bool" where
  "routes_compatible k k' =
     (if fst k = fst k' then snd k \<noteq> snd k'
      else segments_disjoint (split_on (CHR ''/'') (fst k)) (split_on (CHR ''/'') (fst k')))"

text \<open>
  Routers without a fallback of their own (\<open>plain\<close>), with the paths and methods they have: a new one
  has none; adding a route (\<open>routes\<close>) and merging succeed if no two routes overlap, and the
  result has the routes of both; Swagger UI is served below \<open>/swagger\<close> and \<open>/api-docs\<close>, where its
  paths were given.
\<close>

definition routing_behaviour ::
  "('e, 'x, 'err, 'w, 'or) axum_crates \<Rightarrow> ('or \<Rightarrow> 'mr \<Rightarrow> 'or option) \<Rightarrow> ('or \<Rightarrow> bool) \<Rightarrow>
   ('or \<Rightarrow> (string \<times> string) set) \<Rightarrow> ('mr \<Rightarrow> (string \<times> string) set) \<Rightarrow> bool" where
  "routing_behaviour ax routes plain keys keys_of \<longleftrightarrow>
     (plain (ax_openapi_router_new ax) \<and> keys (ax_openapi_router_new ax) = {}) \<and>
     (\<forall>r mr. plain r \<and> (\<forall>k \<in> keys r. \<forall>k' \<in> keys_of mr. routes_compatible k k') \<longrightarrow>
        (\<exists>r'. routes r mr = Some r' \<and> plain r' \<and> keys r' = keys r \<union> keys_of mr)) \<and>
     (\<forall>a b. plain a \<and> plain b \<and> (\<forall>k \<in> keys a. \<forall>k' \<in> keys b. routes_compatible k k') \<longrightarrow>
        (\<exists>c. ax_openapi_router_merge ax a b = Some c \<and> plain c \<and> keys c = keys a \<union> keys b)) \<and>
     (\<forall>r doc. plain r \<and>
        (\<forall>k \<in> keys r. \<forall>k' \<in> set (route_keys (rt_routes (ax_swagger_ui ax doc))). routes_compatible k k') \<longrightarrow>
        (\<exists>c. ax_merge ax (fst (ax_split_for_parts ax r)) (ax_swagger_ui ax doc) = Some c)) \<and>
     (\<forall>doc. \<forall>k \<in> set (route_keys (rt_routes (ax_swagger_ui ax doc))).
        \<exists>seg rest. split_on (CHR ''/'') (fst k) = [] # seg # rest \<and> seg \<in> {''swagger'', ''api-docs''})"

lemma collect_routes_succeeds:
  assumes "routing_behaviour ax routes plain keys keys_of"
    and "map (\<lambda>reg. keys_of (reg ())) regs = map (\<lambda>k. {k}) ks" "distinct ks"
    and "\<forall>k \<in> set ks. \<forall>k' \<in> set ks. k \<noteq> k' \<longrightarrow> routes_compatible k k'"
  shows "\<exists>r. collect_routes (ax_openapi_router_new ax) routes regs = Some r \<and> plain r \<and> keys r = set ks"
proof -
  have step: "plain r \<Longrightarrow> (\<forall>k \<in> keys r. \<forall>k' \<in> keys_of mr. routes_compatible k k') \<Longrightarrow>
      \<exists>r'. routes r mr = Some r' \<and> plain r' \<and> keys r' = keys r \<union> keys_of mr" for r mr
    using assms(1) unfolding routing_behaviour_def by blast
  have folds: "\<exists>r'. fold (\<lambda>reg router. Option.bind router (\<lambda>router. routes router (reg ()))) regs (Some r) = Some r' \<and>
      plain r' \<and> keys r' = keys r \<union> set ks"
    if "plain r" "\<forall>k \<in> keys r. \<forall>k' \<in> set ks. routes_compatible k k'" for r
    using that assms(2-4)
  proof (induction regs arbitrary: ks r)
    case (Cons reg regs)
    then obtain k ks' where ks: "ks = k # ks'" "keys_of (reg ()) = {k}" "map (\<lambda>reg. keys_of (reg ())) regs = map (\<lambda>k. {k}) ks'"
      by (cases ks) auto
    obtain r1 where r1: "routes r (reg ()) = Some r1" "plain r1" "keys r1 = insert k (keys r)"
      using step [OF Cons.prems(1), of "reg ()"] Cons.prems(2) ks by auto
    have "\<forall>k1 \<in> keys r1. \<forall>k' \<in> set ks'. routes_compatible k1 k'"
      using Cons.prems(2,4,5) ks(1) r1(3) by auto
    from Cons.IH [OF r1(2) this ks(3)] Cons.prems(4,5) ks(1) r1 show ?case by auto
  qed simp
  have new: "plain (ax_openapi_router_new ax)" "keys (ax_openapi_router_new ax) = {}"
    using assms(1) by (simp_all add: routing_behaviour_def)
  show ?thesis using folds [OF new(1)] by (simp add: collect_routes_def new(2))
qed

text \<open>The router of the small server has this behaviour; its registrations are single routes.\<close>

definition plain_routes ::
  "('e, 'x, 'err, ('mp, 'z) http_world_scheme) router \<Rightarrow> string \<times> string \<times> ('e, 'x, 'err, ('mp, 'z) http_world_scheme) service \<Rightarrow>
   ('e, 'x, 'err, ('mp, 'z) http_world_scheme) router option" where
  "plain_routes r route = ax_openapi_router_merge plain_axum r \<lparr>rt_routes = [route], rt_fallback = ax_not_found plain_axum\<rparr>"

lemma routes_compatible_distinct: "routes_compatible k k' \<Longrightarrow> k \<noteq> k'"
  by (auto simp: routes_compatible_def)

lemma route_keys_append: "set (route_keys (xs @ ys)) = set (route_keys xs) \<union> set (route_keys ys)"
  by (simp add: route_keys_def)

lemma plain_merge:
  assumes "\<forall>k \<in> set (route_keys (rt_routes a)). \<forall>k' \<in> set (route_keys (rt_routes b)). routes_compatible k k'"
  shows "ax_openapi_router_merge plain_axum a b = Some (a\<lparr>rt_routes := rt_routes a @ rt_routes b\<rparr>)"
    "ax_merge plain_axum a b = Some (a\<lparr>rt_routes := rt_routes a @ rt_routes b\<rparr>)"
proof -
  have "\<not> list_ex (\<lambda>k. k \<in> set (route_keys (rt_routes a))) (route_keys (rt_routes b))"
    using assms routes_compatible_distinct by (fastforce simp: list_ex_iff)
  then show "ax_openapi_router_merge plain_axum a b = Some (a\<lparr>rt_routes := rt_routes a @ rt_routes b\<rparr>)"
    "ax_merge plain_axum a b = Some (a\<lparr>rt_routes := rt_routes a @ rt_routes b\<rparr>)"
    by (simp_all add: plain_axum_def Let_def)
qed

lemma plain_routing_behaviour:
  "routing_behaviour plain_axum plain_routes (\<lambda>_. True) (\<lambda>r. set (route_keys (rt_routes r))) (\<lambda>(p, m, s). {(p, m)})"
  unfolding routing_behaviour_def
proof (intro conjI allI impI, goal_cases)
  case (3 r mr)
  let ?one = "\<lparr>rt_routes = [mr], rt_fallback = ax_not_found plain_axum\<rparr>"
  have "set (route_keys (rt_routes ?one)) = (case mr of (p, m, s) \<Rightarrow> {(p, m)})"
    by (simp add: route_keys_def split: prod.splits)
  with 3 show ?case using plain_merge(1) [of r ?one] by (simp add: plain_routes_def route_keys_append)
next
  case (4 a b)
  then show ?case by (simp add: plain_merge route_keys_append)
next
  case (5 r doc)
  moreover have "fst (ax_split_for_parts plain_axum r) = r" by (simp add: plain_axum_def Let_def)
  ultimately show ?case using plain_merge(2) by fastforce
qed (auto simp: plain_axum_def route_keys_def Let_def)

text \<open>\<open>handle_panic\<close> tells the client nothing of the panic.\<close>

lemma handle_panic_leaks_nothing:
  "fst (handle_panic p w) = (fst (handle_panic q w') :: 'x response)"
  by (simp add: handle_panic_def Let_def)

lemma build_app_layered:
  "build_app ax layers endpoint collected extra config = Some app \<Longrightarrow> \<exists>r0. app = fold router_layer layers r0"
  by (auto simp: build_app_def case_prod_beta Let_def bind_eq_Some_conv)

lemma gate_before_app:
  fixes app :: "('e, 'x, 'err, ('mp, 'z) http_world_scheme) router"
  assumes "build_app ax (app_layers th trace_id parse mi jw config (Some layer) post) endpoint collected extra config = Some app"
  shows "\<exists>inner mp.
     router_service ax app req w = th_cors th (cors_layer parse config) inner (req\<lparr>rq_matched_path := mp\<rparr>) w \<and>
     (\<forall>req0 w0 r w1 name value. inner req0 w0 = (Reply r, w1) \<longrightarrow> (name, value) \<in> set security_headers \<longrightarrow>
        header_get (rs_headers r) name = Some (HeaderText value)) \<and>
     (\<forall>req0 w0 out sc w1 status.
        check mi jw (al_check layer) (rq_method req0) (rq_path req0)
          (extract_token (rq_headers req0) (al_cookie_name layer)) (rq_security req0) w0 = (out, sc, w1) \<longrightarrow>
        failure_status out = Some status \<longrightarrow>
        inner req0 w0 = add_security_headers (\<lambda>_ w. case rejection_response out w of (r, w) \<Rightarrow> (Reply r, w))
                          req0 (count_failure (rq_method req0) status w1) \<and>
        (\<exists>r w2. inner req0 w0 = (Reply r, w2) \<and> rs_status r = status))"
proof -
  obtain r0 where app: "app = fold router_layer (app_layers th trace_id parse mi jw config (Some layer) post) r0"
    using build_app_layered [OF assms] by blast
  obtain svc mp where t: "router_target ax r0 req = (svc, req\<lparr>rq_matched_path := mp\<rparr>)"
    using router_target_req [of ax r0 req] by (metis prod.collapse)
  let ?below = "hook_layers post (th_request_body_limit th (10 * 1024 * 1024)
      (fold (\<lambda>l. l) (inner_layers th trace_id config @ request_id_layers th) svc))"
  let ?inner = "add_security_headers (gate_layer mi jw (Some layer) ?below)"
  have app_eq: "router_service ax app req w = th_cors th (cors_layer parse config) ?inner (req\<lparr>rq_matched_path := mp\<rparr>) w"
    unfolding router_service_def app router_target_layers t by (simp add: app_layers_def outer_layers_def)
  have rejects: "?inner req0 w0 = add_security_headers (\<lambda>_ w. case rejection_response out w of (r, w) \<Rightarrow> (Reply r, w))
      req0 (count_failure (rq_method req0) status w1) \<and> (\<exists>r w2. ?inner req0 w0 = (Reply r, w2) \<and> rs_status r = status)"
    if "check mi jw (al_check layer) (rq_method req0) (rq_path req0)
          (extract_token (rq_headers req0) (al_cookie_name layer)) (rq_security req0) w0 = (out, sc, w1)"
      "failure_status out = Some status" for req0 w0 out sc w1 status
  proof -
    have eq: "?inner req0 w0 = add_security_headers (\<lambda>_ w. case rejection_response out w of (r, w) \<Rightarrow> (Reply r, w))
        req0 (count_failure (rq_method req0) status w1)"
      using that by (cases out) (simp_all add: gate_layer_def add_security_headers_def authorization_service_def Let_def)
    obtain r :: "'x response" and w2
      where r: "rejection_response out (count_failure (rq_method req0) status w1) = (r, w2)"
      by (metis prod.exhaust)
    have "rs_status r = status" using rejection_response_eq [OF r] that(2) by (cases out) auto
    then show ?thesis unfolding eq by (simp add: add_security_headers_def after_response_def r)
  qed
  show ?thesis
  proof (intro exI [of _ ?inner] exI [of _ mp] conjI allI impI, goal_cases)
    case 1
    show ?case by (rule app_eq)
  next
    case (2 req0 w0 r w1 name val)
    then show ?case by (rule add_security_headers_get)
  next
    case (3 req0 w0 out sc w1 status)
    then show ?case by (rule rejects [THEN conjunct1])
  next
    case (4 req0 w0 out sc w1 status)
    then show ?case by (rule rejects [THEN conjunct2])
  qed
qed

section \<open>Properties\<close>

text \<open>C11.
  What stands between CORS and the application. Whatever the routes, handlers and other layers:
  every response that reaches the CORS layer carries the three security headers, and a request
  that the authorization layer rejects is answered 401 or 403, with the security headers, from
  the gate alone (its answer does not depend on the application) and counted once. (The
  README of the workspace lists the layers the other way round, with the security headers
  outermost and CORS innermost; the README of the crate and the comments in the code have CORS
  outermost, as here.)\<close>
theorem gate_stands_before_the_app:
  fixes app :: "('e, 'x, 'err, ('mp, 'z) http_world_scheme) router"
  assumes "build_app ax (app_layers th trace_id parse mi jw config (Some layer) post) endpoint collected extra config = Some app"
  shows "\<exists>inner mp.
     router_service ax app req w = th_cors th (cors_layer parse config) inner (req\<lparr>rq_matched_path := mp\<rparr>) w \<and>
     (\<forall>req0 w0 r w1 name value. inner req0 w0 = (Reply r, w1) \<longrightarrow> (name, value) \<in> set security_headers \<longrightarrow>
        header_get (rs_headers r) name = Some (HeaderText value)) \<and>
     (\<forall>req0 w0 out sc w1 status.
        check mi jw (al_check layer) (rq_method req0) (rq_path req0)
          (extract_token (rq_headers req0) (al_cookie_name layer)) (rq_security req0) w0 = (out, sc, w1) \<longrightarrow>
        failure_status out = Some status \<longrightarrow>
        inner req0 w0 = add_security_headers (\<lambda>_ w. case rejection_response out w of (r, w) \<Rightarrow> (Reply r, w))
                          req0 (count_failure (rq_method req0) status w1) \<and>
        (\<exists>r w2. inner req0 w0 = (Reply r, w2) \<and> rs_status r = status))"
  using assms by (rule gate_before_app)

theorem gate_stands_before_the_app_witness:
  "let l = \<lparr>al_check = \<lparr>cs_rules = [], cs_any_request = Authenticated, cs_jwt_config = app_config, cs_claims_validator = None\<rparr>,
            al_cookie_name = None\<rparr>;
       layers = app_layers plain_tower (\<lambda>_. []) (\<lambda>s. Some (HeaderText s)) prefix_matchit plain_jwt small_config (Some l) None
   in \<exists>app r w'. build_app plain_axum layers None (Some \<lparr>rt_routes = [(''/x'', ''GET'', ok_service)], rt_fallback = ok_service\<rparr>)
           \<lparr>rt_routes = [], rt_fallback = ok_service\<rparr> small_config = Some app \<and>
        router_service plain_axum app (app_request ''/x'' None) http_world0 = (Reply r, w') \<and> rs_status r = 401 \<and>
        header_get (rs_headers r) ''x-frame-options'' = Some (HeaderText ''DENY'')"
proof -
  let ?l = "\<lparr>al_check = \<lparr>cs_rules = [], cs_any_request = Authenticated, cs_jwt_config = app_config, cs_claims_validator = None\<rparr>,
            al_cookie_name = None\<rparr>"
  let ?layers = "app_layers plain_tower (\<lambda>_. []) (\<lambda>s. Some (HeaderText s)) prefix_matchit plain_jwt small_config (Some ?l) None
      :: (string, string, string, string http_world) layer list"
  let ?build = "build_app plain_axum ?layers None (Some \<lparr>rt_routes = [(''/x'', ''GET'', ok_service)], rt_fallback = ok_service\<rparr>)
           \<lparr>rt_routes = [], rt_fallback = ok_service\<rparr> small_config"
  have "?build \<noteq> None"
    by (simp add: build_app_def merged_routes_def plain_axum_def route_keys_def small_config_def Let_def observability_config_from_env_def
        env_switch_def eq_ignore_ascii_case_def to_ascii_lowercase_def)
  then obtain app where app: "?build = Some app" by blast
  have cors: "th_cors plain_tower c s = s" for c and s :: "(string, string, string, string http_world) service"
    by (simp add: plain_tower_def)
  from gate_stands_before_the_app [OF app, of "app_request ''/x'' None" http_world0] show ?thesis
    unfolding cors
  proof (elim exE conjE, goal_cases)
    case (1 inner mp)
    note heads = 1(2) [rule_format] and rejects = 1(3) [rule_format, THEN conjunct2]
    let ?req = "(app_request ''/x'' None)\<lparr>rq_matched_path := mp\<rparr>"
    have "check prefix_matchit plain_jwt (al_check ?l) (rq_method ?req) (rq_path ?req)
            (extract_token (rq_headers ?req) (al_cookie_name ?l)) (rq_security ?req) http_world0
          = (Unauthorized, None, http_world0)"
      by (simp add: check_def select_effect_def decode_token_def app_request_def extract_token_def header_get_def)
    from rejects [OF this, of 401] obtain r w2 where r: "inner ?req http_world0 = (Reply r, w2)" "rs_status r = 401" by auto
    have "(''x-frame-options'', ''DENY'') \<in> set security_headers" by (simp add: security_headers_def)
    note header = heads [OF r(1) this]
    show ?case
      unfolding Let_def
      by (rule exI [of _ app], rule exI [of _ r], rule exI [of _ w2]) (simp only: app 1(1) r header simp_thms)
  qed
qed

text \<open>C32.
  A request without \<open>x-request-id\<close> gets a generated one, which the application and its log see,
  but the response does not carry it back: \<open>PropagateRequestId\<close> is layered outside
  \<open>SetRequestId\<close> and looks at the request before the identifier is set. Only an identifier that
  the client sent is sent back.\<close>
theorem generated_request_id_not_returned:
  assumes "\<And>inner req w. header_get (rq_headers req) ''x-request-id'' = None \<Longrightarrow>
      \<exists>i. th_set_request_id th ''x-request-id'' inner req w =
        inner (req\<lparr>rq_headers := header_insert ''x-request-id'' (HeaderText i) (rq_headers req), rq_request_id := Some i\<rparr>) w"
    and "\<And>inner req w v. header_get (rq_headers req) ''x-request-id'' = Some v \<Longrightarrow>
      th_set_request_id th ''x-request-id'' inner req w = inner (req\<lparr>rq_request_id := to_str v\<rparr>) w"
    and "\<And>inner req w. th_propagate_request_id th ''x-request-id'' inner req w =
      (case header_get (rq_headers req) ''x-request-id'' of
         None \<Rightarrow> inner req w
       | Some v \<Rightarrow> after_response (\<lambda>r w.
           (if header_get (rs_headers r) ''x-request-id'' = None
            then r\<lparr>rs_headers := header_insert ''x-request-id'' v (rs_headers r)\<rparr> else r, w)) (inner req w))"
  shows "let served = fold (\<lambda>l. l) (inner_layers th trace_id config) svc;
             answered = fold (\<lambda>l. l) (inner_layers th trace_id config @ request_id_layers th) svc
         in case header_get (rq_headers req) ''x-request-id'' of
              None \<Rightarrow> \<exists>i. answered req w =
                served (req\<lparr>rq_headers := header_insert ''x-request-id'' (HeaderText i) (rq_headers req), rq_request_id := Some i\<rparr>) w
            | Some v \<Rightarrow>
                (case answered req w of
                   (Reply r, w') \<Rightarrow> \<exists>r0. served (req\<lparr>rq_request_id := to_str v\<rparr>) w = (Reply r0, w') \<and>
                     header_get (rs_headers r) ''x-request-id'' =
                       (case header_get (rs_headers r0) ''x-request-id'' of None \<Rightarrow> Some v | Some v0 \<Rightarrow> Some v0)
                 | p \<Rightarrow> p = served (req\<lparr>rq_request_id := to_str v\<rparr>) w)"
proof (cases "header_get (rq_headers req) ''x-request-id''")
  case None
  then show ?thesis using assms(1) [OF None] by (auto simp: request_id_layers_def assms(3))
next
  case (Some v)
  let ?served = "fold (\<lambda>l. l) (inner_layers th trace_id config) svc"
  obtain reply w' where served: "?served (req\<lparr>rq_request_id := to_str v\<rparr>) w = (reply, w')" by (metis prod.exhaust)
  then show ?thesis
    using Some assms(2) [OF Some, of ?served]
    by (cases reply) (auto simp: request_id_layers_def assms(3) after_response_def Let_def split: option.splits)
qed

theorem generated_request_id_not_returned_witness:
  "let answered = fold (\<lambda>l. l) (inner_layers plain_tower (\<lambda>_. []) small_config @ request_id_layers plain_tower) ok_service;
       req = app_request ''/x'' None
   in fst (answered req http_world0) = fst (ok_service req http_world0) \<and>
      (case fst (answered (req\<lparr>rq_headers := [(''x-request-id'', HeaderText ''mine'')]\<rparr>) http_world0) of
         Reply r \<Rightarrow> header_get (rs_headers r) ''x-request-id'' = Some (HeaderText ''mine'') | _ \<Rightarrow> False)"
proof -
  let ?layers = "inner_layers plain_tower (\<lambda>_. []) small_config"
  let ?req = "app_request ''/x'' None"
  let ?req' = "?req\<lparr>rq_headers := [(''x-request-id'', HeaderText ''mine'')]\<rparr>"
  have served: "fold (\<lambda>l. l) ?layers ok_service req http_world0 = ok_service req http_world0" for req
    by (simp add: inner_layers_def plain_tower_def small_config_def observability_config_from_env_def env_switch_def
        eq_ignore_ascii_case_def to_ascii_lowercase_def ok_service_def error_logging_middleware_def after_response_def Let_def)
  have set1: "\<exists>i. th_set_request_id plain_tower ''x-request-id'' inner req w =
        inner (req\<lparr>rq_headers := header_insert ''x-request-id'' (HeaderText i) (rq_headers req), rq_request_id := Some i\<rparr>) w"
    if "header_get (rq_headers req) ''x-request-id'' = None"
    for inner :: "(string, string, string, string http_world) service" and req w
    using that by (auto simp: plain_tower_def)
  have set2: "th_set_request_id plain_tower ''x-request-id'' inner req w = inner (req\<lparr>rq_request_id := to_str v\<rparr>) w"
    if "header_get (rq_headers req) ''x-request-id'' = Some v"
    for inner :: "(string, string, string, string http_world) service" and req w v
    using that by (simp add: plain_tower_def)
  have propagate: "th_propagate_request_id plain_tower ''x-request-id'' inner req w =
      (case header_get (rq_headers req) ''x-request-id'' of
         None \<Rightarrow> inner req w
       | Some v \<Rightarrow> after_response (\<lambda>r w.
           (if header_get (rs_headers r) ''x-request-id'' = None
            then r\<lparr>rs_headers := header_insert ''x-request-id'' v (rs_headers r)\<rparr> else r, w)) (inner req w))"
    for inner :: "(string, string, string, string http_world) service" and req w
    by (simp add: plain_tower_def)
  note law = generated_request_id_not_returned [OF set1 set2 propagate, where trace_id = "\<lambda>_. []" and config = small_config
      and svc = ok_service and w = http_world0, unfolded Let_def served]
  have 1: "header_get (rq_headers ?req) ''x-request-id'' = None" "header_get (rq_headers ?req') ''x-request-id'' = Some (HeaderText ''mine'')"
    by (simp_all add: app_request_def header_get_def)
  have "fst (fold (\<lambda>l. l) (?layers @ request_id_layers plain_tower) ok_service ?req http_world0) = fst (ok_service ?req http_world0)"
    using law [of ?req] unfolding 1 by (auto simp del: fold_append simp: ok_service_def)
  moreover have "case fst (fold (\<lambda>l. l) (?layers @ request_id_layers plain_tower) ok_service ?req' http_world0) of
         Reply r \<Rightarrow> header_get (rs_headers r) ''x-request-id'' = Some (HeaderText ''mine'') | _ \<Rightarrow> False"
    using law [of ?req'] unfolding 1
    by (auto simp del: fold_append simp: ok_service_def header_get_def split: prod.splits reply.splits)
  ultimately show ?thesis unfolding Let_def by blast
qed


lemma run_init_fails:
  "init_observability cr (bc_observability config) = (Inl e, effects) \<Longrightarrow>
   run cr sdk bind serve ax layers encode format_type collected extra config register registry w =
     (Returned (Inl e), registry, install_globals effects w)"
  by (simp add: run_def)

lemma run_ends:
  assumes "init_observability cr (bc_observability config) = (Inr g, effects)"
  shows "\<exists>endpoint. (\<not> prometheus_registry g \<longrightarrow> endpoint = None) \<and>
     snd (snd (run cr sdk bind serve ax layers encode format_type collected extra config register registry w))
       \<in> {otel_guard_drop sdk g (install_globals effects w), snd (otel_guard_shutdown sdk g (install_globals effects w))} \<and>
     (fst (run cr sdk bind serve ax layers encode format_type collected extra config register registry w) = RunPanicked \<longleftrightarrow>
        build_app ax layers endpoint collected extra config = None)"
proof -
  let ?endpoint = "if prometheus_registry g then Some (prometheus_router
      (encode (case register of None \<Rightarrow> registry | Some f \<Rightarrow> f registry)) format_type) else None"
  show ?thesis
    by (rule exI [of _ ?endpoint]) (auto simp: run_def assms Let_def split: option.splits prod.splits)
qed

lemma build_app_panics:
  assumes "\<not> bc_enable_swagger config" "\<not> oc_prometheus_enabled (bc_observability config)"
  shows "build_app ax layers None collected extra config = None \<longleftrightarrow>
     (case merged_routes ax collected extra of
        None \<Rightarrow> True
      | Some merged \<Rightarrow> oc_metrics_enabled (bc_observability config) \<and> rt_routes (fst (ax_split_for_parts ax merged)) = [])"
proof (cases "merged_routes ax collected extra")
  case (Some merged)
  obtain router doc where parts: "ax_split_for_parts ax merged = (router, doc)" by (metis prod.exhaust)
  show ?thesis
    by (simp add: build_app_def Some parts assms router_route_layer_def)
qed (simp add: build_app_def)

lemma install_globals_simps [simp]:
  "ow_calls (install_globals effects w) = ow_calls w" "ow_warnings (install_globals effects w) = ow_warnings w"
  by (simp_all add: install_globals_def)


definition metrics_config :: "nat bootstrap_config" where
  "metrics_config = small_config\<lparr>bc_observability := (bc_observability small_config)\<lparr>oc_metrics_enabled := True\<rparr>\<rparr>"

definition working_otel :: "string otel_crates" where
  "working_otel = \<lparr>cr_try_filter = \<lambda>s. Some s, cr_filter_new = id, cr_prometheus_exporter = None, cr_metric_exporter = \<lambda>_. None,
     cr_span_exporter = \<lambda>_. None, cr_log_exporter = \<lambda>_. None\<rparr>"

lemma metrics_config_simps [simp]:
  "oc_enabled (bc_observability metrics_config) = False" "oc_prometheus_enabled (bc_observability metrics_config) = False"
  "oc_metrics_enabled (bc_observability metrics_config) = True" "bc_enable_swagger metrics_config = False"
  by (simp_all add: metrics_config_def small_config_def observability_config_from_env_def env_switch_def eq_ignore_ascii_case_def
      to_ascii_lowercase_def Let_def)


end
