(* ===== verification/Launch_Shutdown.thy ===== *)
theory Launch_Shutdown
  imports Http_Model
begin

text \<open>
  The future that ends serving (\<open>shutdown.rs\<close> of \<open>stano-launcher\<close>): it completes at the first of
  Ctrl+C and, on Unix, SIGTERM. The executor polls it at times it chooses; \<open>tokio::select!\<close> polls its
  two branches in an order it draws for each poll and takes the first that is ready.
\<close>

section \<open>Signals\<close>

text \<open>
  What \<open>tokio::signal\<close> does for one kind of signal: its handler cannot be installed, or it can, and
  the signal arrives at some times. A listener is told of the signals that arrive after its handler
  was installed; one that comes before ends the process in the way of the system, or goes to
  listeners elsewhere in the process, and is not seen.
\<close>

datatype signal_source = CannotInstall | Signals "nat list"

datatype poll = PollReady | PollPending | PollPanics string

text \<open>
  A branch, with the time at which its handler was installed: that is its first poll, and \<open>expect\<close>
  panics if it fails; the later polls look for a signal since then.
\<close>

fun poll_signal :: "string \<Rightarrow> signal_source \<Rightarrow> nat option \<Rightarrow> nat \<Rightarrow> poll \<times> nat option" where
  "poll_signal msg CannotInstall installed at_time = (PollPanics msg, installed)"
| "poll_signal msg (Signals ss) None at_time = (PollPending, Some at_time)"
| "poll_signal msg (Signals ss) (Some since) at_time =
     (if list_ex (\<lambda>s. since < s \<and> s \<le> at_time) ss then PollReady else PollPending, Some since)"

definition poll_ctrl_c :: "signal_source \<Rightarrow> nat option \<Rightarrow> nat \<Rightarrow> poll \<times> nat option" where
  "poll_ctrl_c s installed at_time = poll_signal ''failed to install Ctrl+C handler'' s installed at_time"

text \<open>Not on Unix, the branch is \<open>std::future::pending\<close>.\<close>

definition poll_terminate :: "bool \<Rightarrow> signal_source \<Rightarrow> nat option \<Rightarrow> nat \<Rightarrow> poll \<times> nat option" where
  "poll_terminate unix s installed at_time =
     (if unix then poll_signal ''failed to install SIGTERM handler'' s installed at_time else (PollPending, None))"

fun select_poll :: "poll \<Rightarrow> poll \<Rightarrow> poll" where
  "select_poll PollPending p = p"
| "select_poll p _ = p"

section \<open>The future\<close>

datatype shutdown_state = Waiting | ShutDownAt nat | ShutdownPanicked string

definition draining :: log_event where
  "draining =
     \<lparr>le_level = INFO,
      le_message = ''Shutdown signal received '' @ [CHR 0xE2, CHR 0x80, CHR 0x94] @ '' draining connections'',
      le_fields = []\<rparr>"

text \<open>
  The future under the polls it is given, each with the draw of \<open>select!\<close> (is Ctrl+C first?) and
  its time; with what it logs. The branch that is polled second is not polled when the first is
  ready or panics, but the future has ended then.
\<close>

fun shutdown_from ::
  "bool \<Rightarrow> signal_source \<Rightarrow> signal_source \<Rightarrow> nat option \<Rightarrow> nat option \<Rightarrow> (bool \<times> nat) list \<Rightarrow> shutdown_state \<times> log_event list" where
  "shutdown_from unix ctrl_c terminate ci ti [] = (Waiting, [])"
| "shutdown_from unix ctrl_c terminate ci ti ((ctrl_c_first, t) # polls) =
     (case (poll_ctrl_c ctrl_c ci t, poll_terminate unix terminate ti t) of
        ((a, ci'), (b, ti')) \<Rightarrow>
          (case (if ctrl_c_first then select_poll a b else select_poll b a) of
             PollReady \<Rightarrow> (ShutDownAt t, [draining])
           | PollPanics m \<Rightarrow> (ShutdownPanicked m, [])
           | PollPending \<Rightarrow> shutdown_from unix ctrl_c terminate ci' ti' polls))"

definition shutdown_signal ::
  "bool \<Rightarrow> signal_source \<Rightarrow> signal_source \<Rightarrow> (bool \<times> nat) list \<Rightarrow> shutdown_state \<times> log_event list" where
  "shutdown_signal unix ctrl_c terminate polls = shutdown_from unix ctrl_c terminate None None polls"

text \<open>Whether a signal that the future waits for has arrived between two times.\<close>

fun arrived :: "signal_source \<Rightarrow> nat \<Rightarrow> nat \<Rightarrow> bool" where
  "arrived CannotInstall since at_time = False"
| "arrived (Signals ss) since at_time = (\<exists>s \<in> set ss. since < s \<and> s \<le> at_time)"

definition signalled :: "bool \<Rightarrow> signal_source \<Rightarrow> signal_source \<Rightarrow> nat \<Rightarrow> nat \<Rightarrow> bool" where
  "signalled unix ctrl_c terminate since t = (arrived ctrl_c since t \<or> unix \<and> arrived terminate since t)"

lemma poll_installed:
  "s \<noteq> CannotInstall \<Longrightarrow> poll_signal m s (Some since) t = (if arrived s since t then PollReady else PollPending, Some since)"
  "s \<noteq> CannotInstall \<Longrightarrow> poll_signal m s None t = (PollPending, Some t)"
  by (cases s; auto simp: list_ex_iff)+

lemma select_poll_simps [simp]: "select_poll p PollPending = p" "select_poll p p = p"
  by (cases p; simp)+

text \<open>Once both handlers are installed.\<close>

lemma shutdown_from_installed:
  assumes "ctrl_c \<noteq> CannotInstall" "unix \<longrightarrow> terminate \<noteq> CannotInstall"
  shows "fst (shutdown_from unix ctrl_c terminate (Some since) (if unix then Some since else None) polls) =
     (case find (signalled unix ctrl_c terminate since) (map snd polls) of None \<Rightarrow> Waiting | Some t \<Rightarrow> ShutDownAt t)"
proof (induction polls)
  case (Cons p polls)
  obtain first t where p: "p = (first, t)" by (cases p)
  show ?case
    using Cons.IH assms unfolding p
    by (cases unix) (auto simp: poll_ctrl_c_def poll_terminate_def poll_installed signalled_def)
qed simp

lemma shutdown_from_logs:
  "snd (shutdown_from unix ctrl_c terminate ci ti polls) =
     (case fst (shutdown_from unix ctrl_c terminate ci ti polls) of ShutDownAt _ \<Rightarrow> [draining] | _ \<Rightarrow> [])"
  by (induction unix ctrl_c terminate ci ti polls rule: shutdown_from.induct) (auto split: poll.split prod.split)

section \<open>Property\<close>

text \<open>C24.
  How the future ends, whatever it is polled with. At its first poll it installs the handlers: if
  one cannot be installed it panics there, with the message of the one that is polled first among
  those that cannot. Otherwise it completes at the first later poll before which, but after the
  first poll, Ctrl+C or, on Unix, SIGTERM has arrived, whatever \<open>select!\<close> draws, and waits as long as
  neither has; a signal from before the first poll does not count. It logs one event, when it
  completes.\<close>
theorem shutdown_signal_first:
  "fst (shutdown_signal unix ctrl_c terminate polls) =
     (case polls of
        [] \<Rightarrow> Waiting
      | (ctrl_c_first, t0) # later \<Rightarrow>
          if ctrl_c = CannotInstall \<and> (ctrl_c_first \<or> \<not> (unix \<and> terminate = CannotInstall))
          then ShutdownPanicked ''failed to install Ctrl+C handler''
          else if unix \<and> terminate = CannotInstall
          then ShutdownPanicked ''failed to install SIGTERM handler''
          else (case find (signalled unix ctrl_c terminate t0) (map snd later) of
                  None \<Rightarrow> Waiting
                | Some t \<Rightarrow> ShutDownAt t)) \<and>
   snd (shutdown_signal unix ctrl_c terminate polls) =
     (case fst (shutdown_signal unix ctrl_c terminate polls) of ShutDownAt _ \<Rightarrow> [draining] | _ \<Rightarrow> [])"
proof
  show "snd (shutdown_signal unix ctrl_c terminate polls) =
     (case fst (shutdown_signal unix ctrl_c terminate polls) of ShutDownAt _ \<Rightarrow> [draining] | _ \<Rightarrow> [])"
    unfolding shutdown_signal_def by (rule shutdown_from_logs)
next
  show "fst (shutdown_signal unix ctrl_c terminate polls) =
     (case polls of
        [] \<Rightarrow> Waiting
      | (ctrl_c_first, t0) # later \<Rightarrow>
          if ctrl_c = CannotInstall \<and> (ctrl_c_first \<or> \<not> (unix \<and> terminate = CannotInstall))
          then ShutdownPanicked ''failed to install Ctrl+C handler''
          else if unix \<and> terminate = CannotInstall
          then ShutdownPanicked ''failed to install SIGTERM handler''
          else (case find (signalled unix ctrl_c terminate t0) (map snd later) of
                  None \<Rightarrow> Waiting
                | Some t \<Rightarrow> ShutDownAt t))"
  proof (cases polls)
    case (Cons p later)
    obtain first t0 where p: "p = (first, t0)" by (cases p)
    show ?thesis
    proof (cases "ctrl_c = CannotInstall \<or> unix \<and> terminate = CannotInstall")
      case True
      then show ?thesis
        unfolding Cons p shutdown_signal_def
        by (cases ctrl_c; cases terminate; cases unix; cases first) (simp_all add: poll_ctrl_c_def poll_terminate_def)
    next
      case False
      then have ok: "ctrl_c \<noteq> CannotInstall" "unix \<longrightarrow> terminate \<noteq> CannotInstall" by auto
      have "fst (shutdown_signal unix ctrl_c terminate polls) =
          fst (shutdown_from unix ctrl_c terminate (Some t0) (if unix then Some t0 else None) later)"
        using ok unfolding Cons p shutdown_signal_def
        by (cases unix) (simp_all add: poll_ctrl_c_def poll_terminate_def poll_installed)
      then show ?thesis using ok unfolding shutdown_from_installed [OF ok] by (auto simp: Cons p)
    qed
  qed (simp add: shutdown_signal_def)
qed

theorem shutdown_signal_first_witness:
  "shutdown_signal True (Signals [0, 9]) (Signals [5]) [(True, 1), (False, 4), (True, 7), (False, 8)] = (ShutDownAt 7, [draining]) \<and>
   fst (shutdown_signal True (Signals [0]) CannotInstall [(True, 1), (False, 4)]) =
     ShutdownPanicked ''failed to install SIGTERM handler''"
  using shutdown_signal_first [of True "Signals [0, 9]" "Signals [5]" "[(True, 1), (False, 4), (True, 7), (False, 8)]"]
    shutdown_signal_first [of True "Signals [0]" CannotInstall "[(True, 1), (False, 4)]"]
  by (simp add: signalled_def prod_eq_iff)

end
