(* ===== verification/Db_Tracing.thy ===== *)
theory Db_Tracing
  imports Di_Environment Http_Model
begin

text \<open>
  \<open>stano-seaorm\<close>: the connection (\<open>db_config.rs\<close>) and the instrumentation of its queries
  (\<open>query_tracing.rs\<close>). A duration is a number of nanoseconds, a point in time nanoseconds since
  the epoch. The crates \<open>sea-orm\<close> and \<open>opentelemetry\<close> are arguments: connecting, the pool, the
  conversions of a duration to \<open>f64\<close>, and the providers that are installed (any values).
\<close>

section \<open>Configuration\<close>

definition known_operations :: "string list" where
  "known_operations = [''SELECT'', ''INSERT'', ''UPDATE'', ''DELETE'', ''BEGIN'', ''COMMIT'', ''ROLLBACK'']"

record query_tracing_config =
  qt_enabled :: bool
  qt_include_statement :: bool
  qt_slow_query_threshold :: nat

definition query_tracing_default :: query_tracing_config where
  "query_tracing_default =
     \<lparr>qt_enabled = False, qt_include_statement = True, qt_slow_query_threshold = 200 * 1000000\<rparr>"

definition query_tracing_config_from_env :: "environment \<Rightarrow> query_tracing_config" where
  "query_tracing_config_from_env env =
     (let defaults = query_tracing_default
      in \<lparr>qt_enabled = unwrap_or (qt_enabled defaults)
            (map_option (\<lambda>v. eq_ignore_ascii_case v ''true'') (env ''MRP_DB_TRACING_ENABLED'')),
          qt_include_statement = unwrap_or (qt_include_statement defaults)
            (map_option (\<lambda>v. eq_ignore_ascii_case v ''true'') (env ''MRP_DB_TRACING_INCLUDE_STATEMENT'')),
          qt_slow_query_threshold = unwrap_or (qt_slow_query_threshold defaults)
            (map_option (\<lambda>ms. unat ms * 1000000) (Option.bind (env ''MRP_DB_SLOW_QUERY_MS'') parse_u64))\<rparr>)"

definition parse_operation :: "string \<Rightarrow> string option" where
  "parse_operation sql =
     Option.bind (first_word sql) (\<lambda>w.
       let first_token = to_ascii_uppercase w in find (\<lambda>op. op = first_token) known_operations)"

section \<open>The callback\<close>

text \<open>The gauge of the pool: \<open>size\<close> is a \<open>u32\<close>, the number of idle connections a \<open>usize\<close>.\<close>

definition pool_gauge :: "32 word \<Rightarrow> 64 word \<Rightarrow> (string \<times> 64 word) list" where
  "pool_gauge pool_size idle =
     (let size64 = ucast pool_size :: 64 word;
          used = (if idle \<le> size64 then size64 - idle else 0)
      in [(''idle'', idle), (''used'', used)])"

text \<open>What the callback reads of \<open>sea_orm::metric::Info\<close>.\<close>

record info =
  in_sql :: string
  in_elapsed :: nat
  in_failed :: bool

datatype span_kind = SpanClient | SpanServer | SpanProducer | SpanConsumer | SpanInternal

record 'cx span =
  sn_name :: string
  sn_kind :: span_kind
  sn_start :: int
  sn_end :: int
  sn_attributes :: "(string \<times> string) list"
  sn_error :: "string option"
  sn_parent :: 'cx

record 'f query_event =
  qe_level :: level
  qe_message :: string
  qe_elapsed_ms :: 'f
  qe_operation :: string
  qe_statement :: string

text \<open>
  The state the callback works on. The instruments are bound, once, to the providers that are
  installed when the first query completes.
\<close>

record ('mp, 'tp, 'cx, 'f) db_world =
  dw_meter_provider :: 'mp
  dw_tracer_provider :: 'tp
  dw_current_span :: 'cx
  dw_now :: int
  dw_instruments :: "('mp \<times> 'tp) option"
  dw_gauges :: "'mp list"                                               \<comment> \<open>where a gauge has been registered\<close>
  dw_durations :: "('mp \<times> 'f \<times> (string \<times> string) list) list"
  dw_spans :: "('tp \<times> 'cx span) list"
  dw_events :: "'f query_event list"

definition get_instruments ::
  "('mp, 'tp, 'cx, 'f) db_world \<Rightarrow> ('mp \<times> 'tp) \<times> ('mp, 'tp, 'cx, 'f) db_world" where
  "get_instruments w =
     (case dw_instruments w of
        Some i \<Rightarrow> (i, w)
      | None \<Rightarrow>
          let i = (dw_meter_provider w, dw_tracer_provider w)
          in (i, w\<lparr>dw_instruments := Some i, dw_gauges := dw_gauges w @ [dw_meter_provider w]\<rparr>))"

text \<open>
  \<open>SystemTime::checked_sub\<close>: the seconds of a point in time are an \<open>i64\<close>.
\<close>

definition checked_sub :: "int \<Rightarrow> nat \<Rightarrow> int option" where
  "checked_sub t d = (if - (2 ^ 63) * 1000000000 \<le> t - int d then Some (t - int d) else None)"

definition query_tracing_callback ::
  "(nat \<Rightarrow> 'f) \<Rightarrow> (nat \<Rightarrow> 'f) \<Rightarrow> query_tracing_config \<Rightarrow> info \<Rightarrow>
   ('mp, 'tp, 'cx, 'f) db_world \<Rightarrow> ('mp, 'tp, 'cx, 'f) db_world" where
  "query_tracing_callback as_secs_f64 as_millis_f64 config info w =
     (case get_instruments w of
        ((meter, tracer), w) \<Rightarrow>
          let operation = unwrap_or ''UNKNOWN'' (parse_operation (in_sql info));
              elapsed_ms = as_millis_f64 (in_elapsed info);
              statement = (if qt_include_statement config then in_sql info else []);
              base = [(''db.system'', ''postgresql''), (''db.operation'', operation)];
              attributes = base @ (if qt_include_statement config then [(''db.statement'', statement)] else []);
              end_time = dw_now w;
              start_time = unwrap_or end_time (checked_sub end_time (in_elapsed info));
              span = \<lparr>sn_name = operation, sn_kind = SpanClient, sn_start = start_time, sn_end = end_time, sn_attributes = attributes,
                      sn_error = (if in_failed info then Some ''query failed'' else None),
                      sn_parent = dw_current_span w\<rparr>;
              (lvl, msg) = (if in_failed info then (ERROR, ''query failed'')
                            else if qt_slow_query_threshold config \<le> in_elapsed info then (WARN, ''slow query'')
                            else (DEBUG, ''query''))
          in w\<lparr>dw_durations := dw_durations w @ [(meter, as_secs_f64 (in_elapsed info), base)],
               dw_spans := dw_spans w @ [(tracer, span)],
               dw_events := dw_events w @ [\<lparr>qe_level = lvl, qe_message = msg, qe_elapsed_ms = elapsed_ms,
                                            qe_operation = operation, qe_statement = statement\<rparr>]\<rparr>)"

section \<open>The connection\<close>

datatype db_config_error = ConnectionFailed string

fun db_config_error_display :: "db_config_error \<Rightarrow> string" where
  "db_config_error_display (ConnectionFailed e) = ''Failed to connect to database: '' @ e"

text \<open>The options that are set; durations in seconds. \<open>co_sqlx_logging\<close> is on unless it is switched off.\<close>

record connect_options =
  co_url :: string
  co_max_connections :: nat
  co_min_connections :: nat
  co_connect_timeout :: nat
  co_acquire_timeout :: nat
  co_idle_timeout :: nat
  co_max_lifetime :: nat
  co_sqlx_logging :: bool

text \<open>
  A configured database: its connection, and the configuration of the callback if one is installed.
  (\<open>from_url\<close> asks the connection for its Postgres pool, which panics for a connection of another
  kind; \<open>sea-orm\<close> is built with the Postgres driver alone, so there is none.)
\<close>

record 'c db_config =
  db_connection :: 'c
  db_metric_callback :: "query_tracing_config option"

definition from_url ::
  "(connect_options \<Rightarrow> string + 'c) \<Rightarrow> string \<Rightarrow> query_tracing_config \<Rightarrow> db_config_error + 'c db_config" where
  "from_url connect database_url tracing_config =
     (let opt = \<lparr>co_url = database_url, co_max_connections = 100, co_min_connections = 5,
                 co_connect_timeout = 30, co_acquire_timeout = 30, co_idle_timeout = 600,
                 co_max_lifetime = 3600, co_sqlx_logging = True\<rparr>;
          opt = (if qt_enabled tracing_config then opt\<lparr>co_sqlx_logging := False\<rparr> else opt)
      in map_ok (\<lambda>c. \<lparr>db_connection = c,
                      db_metric_callback = (if qt_enabled tracing_config then Some tracing_config else None)\<rparr>)
           (map_err ConnectionFailed (connect opt)))"

text \<open>A query on a configured database ends with the callback, if there is one.\<close>

definition query_done ::
  "(nat \<Rightarrow> 'f) \<Rightarrow> (nat \<Rightarrow> 'f) \<Rightarrow> 'c db_config \<Rightarrow> info \<Rightarrow>
   ('mp, 'tp, 'cx, 'f) db_world \<Rightarrow> ('mp, 'tp, 'cx, 'f) db_world" where
  "query_done secs millis db info w =
     (case db_metric_callback db of None \<Rightarrow> w | Some config \<Rightarrow> query_tracing_callback secs millis config info w)"

section \<open>Lemmas\<close>

lemma parse_operation_Some_iff:
  "parse_operation sql = Some op \<longleftrightarrow>
     op \<in> set known_operations \<and> (\<exists>w. first_word sql = Some w \<and> to_ascii_uppercase w = op)"
proof -
  have "find (\<lambda>op. op = t) xs = Some op \<longleftrightarrow> op \<in> set xs \<and> t = op" for t and xs :: "string list"
    by (induction xs) auto
  then show ?thesis by (cases "first_word sql") (auto simp: parse_operation_def)
qed

lemma get_instruments_fields:
  assumes "get_instruments w = (i, w')"
  shows "dw_events w' = dw_events w" "dw_spans w' = dw_spans w" "dw_durations w' = dw_durations w"
    "dw_now w' = dw_now w" "dw_current_span w' = dw_current_span w" "dw_instruments w' = Some i"
    "dw_meter_provider w' = dw_meter_provider w" "dw_tracer_provider w' = dw_tracer_provider w"
    "i = unwrap_or (dw_meter_provider w, dw_tracer_provider w) (dw_instruments w)"
    "dw_gauges w' = dw_gauges w @ (if dw_instruments w = None then [fst i] else [])"
  using assms by (auto simp: get_instruments_def Let_def split: option.splits)

text \<open>What one query adds.\<close>

lemma callback_adds:
  fixes w :: "('mp, 'tp, 'cx, 'f) db_world"
  shows "\<exists>span ev.
     dw_spans (query_tracing_callback s m config info w) =
       dw_spans w @ [(snd (unwrap_or (dw_meter_provider w, dw_tracer_provider w) (dw_instruments w)), span)] \<and>
     dw_events (query_tracing_callback s m config info w) = dw_events w @ [ev] \<and>
     dw_durations (query_tracing_callback s m config info w) = dw_durations w @
       [(fst (unwrap_or (dw_meter_provider w, dw_tracer_provider w) (dw_instruments w)), s (in_elapsed info),
         [(''db.system'', ''postgresql''), (''db.operation'', qe_operation ev)])] \<and>
     qe_level ev = (if in_failed info then ERROR
                    else if qt_slow_query_threshold config \<le> in_elapsed info then WARN else DEBUG) \<and>
     qe_operation ev = unwrap_or ''UNKNOWN'' (parse_operation (in_sql info)) \<and>
     qe_statement ev = (if qt_include_statement config then in_sql info else []) \<and>
     sn_name span = qe_operation ev \<and> (sn_error span \<noteq> None \<longleftrightarrow> in_failed info) \<and>
     sn_parent span = dw_current_span w \<and> sn_end span = dw_now w \<and>
     sn_start span = unwrap_or (dw_now w) (checked_sub (dw_now w) (in_elapsed info)) \<and>
     (''db.statement'' \<in> fst ` set (sn_attributes span) \<longleftrightarrow> qt_include_statement config)"
proof -
  obtain i w' where g: "get_instruments w = (i, w')" by (metis prod.exhaust)
  obtain mp tp where i: "i = (mp, tp)" by (metis prod.exhaust)
  note f = get_instruments_fields [OF g]
  show ?thesis
    unfolding query_tracing_callback_def g i
    by (simp add: f(1-5) f(9) [symmetric] i Let_def)
qed

text \<open>
  The life of a process: providers are installed (again), and queries complete.
\<close>

datatype ('mp, 'tp) db_step = InstallProviders 'mp 'tp | QueryDone info

fun run_step ::
  "(nat \<Rightarrow> 'f) \<Rightarrow> (nat \<Rightarrow> 'f) \<Rightarrow> query_tracing_config \<Rightarrow> ('mp, 'tp) db_step \<Rightarrow>
   ('mp, 'tp, 'cx, 'f) db_world \<Rightarrow> ('mp, 'tp, 'cx, 'f) db_world" where
  "run_step s m config (InstallProviders mp tp) w = w\<lparr>dw_meter_provider := mp, dw_tracer_provider := tp\<rparr>"
| "run_step s m config (QueryDone info) w = query_tracing_callback s m config info w"

fun is_query :: "('mp, 'tp) db_step \<Rightarrow> bool" where
  "is_query (QueryDone _) = True"
| "is_query _ = False"

text \<open>Once the instruments are bound, everything goes to them.\<close>

definition bound_to :: "'mp \<Rightarrow> 'tp \<Rightarrow> ('mp, 'tp, 'cx, 'f) db_world \<Rightarrow> bool" where
  "bound_to mp tp w \<longleftrightarrow> dw_instruments w = Some (mp, tp) \<and> dw_gauges w = [mp] \<and>
     (\<forall>d\<in>set (dw_durations w). fst d = mp) \<and> (\<forall>sp\<in>set (dw_spans w). fst sp = tp)"

lemma callback_instruments:
  "dw_instruments (query_tracing_callback s m config info w) =
     Some (unwrap_or (dw_meter_provider w, dw_tracer_provider w) (dw_instruments w))"
  "dw_gauges (query_tracing_callback s m config info w) =
     dw_gauges w @ (if dw_instruments w = None then [dw_meter_provider w] else [])"
proof -
  obtain mp tp w' where g: "get_instruments w = ((mp, tp), w')" by (metis prod.exhaust)
  note f = get_instruments_fields [OF g]
  have u: "unwrap_or (dw_meter_provider w, dw_tracer_provider w) (dw_instruments w) = (mp, tp)" using f(9) by simp
  have "dw_instruments (query_tracing_callback s m config info w) = Some (mp, tp)"
    "dw_gauges (query_tracing_callback s m config info w) = dw_gauges w'"
    using f(6) by (simp_all add: query_tracing_callback_def g Let_def)
  then show "dw_instruments (query_tracing_callback s m config info w) =
     Some (unwrap_or (dw_meter_provider w, dw_tracer_provider w) (dw_instruments w))"
    "dw_gauges (query_tracing_callback s m config info w) =
     dw_gauges w @ (if dw_instruments w = None then [dw_meter_provider w] else [])"
    using f(10) u by auto
qed

lemma callback_targets:
  "\<exists>span d. dw_spans (query_tracing_callback s m config info w) =
       dw_spans w @ [(snd (unwrap_or (dw_meter_provider w, dw_tracer_provider w) (dw_instruments w)), span)] \<and>
     dw_durations (query_tracing_callback s m config info w) =
       dw_durations w @ [(fst (unwrap_or (dw_meter_provider w, dw_tracer_provider w) (dw_instruments w)), d)]"
  using callback_adds [of s m config info w] by blast

lemma bound_to_step: "bound_to mp tp w \<Longrightarrow> bound_to mp tp (run_step s m config st w)"
proof (cases st)
  case (QueryDone info)
  assume b: "bound_to mp tp w"
  obtain span d where "dw_spans (query_tracing_callback s m config info w) = dw_spans w @ [(tp, span)]"
    "dw_durations (query_tracing_callback s m config info w) = dw_durations w @ [(mp, d)]"
    using callback_targets [of s m config info w] b by (auto simp: bound_to_def)
  then show ?thesis using b by (auto simp: bound_to_def QueryDone callback_instruments)
qed (auto simp: bound_to_def)

lemma bound_to_steps: "bound_to mp tp w \<Longrightarrow> bound_to mp tp (fold (run_step s m config) steps w)"
  by (induction steps arbitrary: w) (auto simp: bound_to_step)

lemma unbound_steps:
  "\<not> list_ex is_query steps \<Longrightarrow>
     dw_instruments (fold (run_step s m config) steps w) = dw_instruments w \<and>
     dw_gauges (fold (run_step s m config) steps w) = dw_gauges w \<and>
     dw_durations (fold (run_step s m config) steps w) = dw_durations w \<and>
     dw_spans (fold (run_step s m config) steps w) = dw_spans w"
proof (induction steps arbitrary: w)
  case (Cons st steps)
  then show ?case by (cases st) auto
qed simp

lemma durations_count:
  "length (dw_durations (fold (run_step s m config) steps w)) = length (dw_durations w) + length (filter is_query steps)"
proof (induction steps arbitrary: w)
  case (Cons st steps)
  have "length (dw_durations (run_step s m config st w)) = length (dw_durations w) + (if is_query st then 1 else 0)"
  proof (cases st)
    case (QueryDone info)
    then show ?thesis using callback_adds [of s m config info w] by auto
  qed simp
  with Cons show ?case by simp
qed simp

definition db_world0 :: "(string, string, string, nat) db_world" where
  "db_world0 = \<lparr>dw_meter_provider = ''noop'', dw_tracer_provider = ''noop'', dw_current_span = ''GET /widgets'',
     dw_now = 5000000000, dw_instruments = None, dw_gauges = [], dw_durations = [], dw_spans = [], dw_events = []\<rparr>"

definition slow_select :: info where
  "slow_select = \<lparr>in_sql = '' select id from widgets'', in_elapsed = 300000000, in_failed = False\<rparr>"

section \<open>Properties\<close>

text \<open>C33.
  A database that \<open>from_url\<close> has configured reports every query once, if tracing is enabled: as one
  event, at \<open>ERROR\<close> when it failed, else at \<open>WARN\<close> when it reached the threshold, else at \<open>DEBUG\<close>;
  as one span under the span it ran in; as one measured duration. The text of the statement is
  reported exactly when it is to be included, an unknown operation as \<open>UNKNOWN\<close>. Without tracing
  nothing changes. (The READMEs of the crate and of the workspace know the event only, and say
  that there is no span; the code ends a span of its own for every query.)\<close>
theorem queries_are_reported:
  assumes "from_url connect url config = Inr db"
  shows "if qt_enabled config then
      \<exists>span tracer ev meter op.
        dw_spans (query_done s m db info w) = dw_spans w @ [(tracer, span)] \<and>
        dw_events (query_done s m db info w) = dw_events w @ [ev] \<and>
        dw_durations (query_done s m db info w) =
          dw_durations w @ [(meter, s (in_elapsed info), [(''db.system'', ''postgresql''), (''db.operation'', op)])] \<and>
        qe_level ev = (if in_failed info then ERROR
                       else if qt_slow_query_threshold config \<le> in_elapsed info then WARN else DEBUG) \<and>
        qe_statement ev = (if qt_include_statement config then in_sql info else []) \<and>
        (''db.statement'' \<in> fst ` set (sn_attributes span) \<longleftrightarrow> qt_include_statement config) \<and>
        qe_operation ev = op \<and> sn_name span = op \<and> sn_parent span = dw_current_span w \<and>
        (sn_error span \<noteq> None \<longleftrightarrow> in_failed info) \<and>
        (op \<in> set known_operations \<and> (\<exists>word. first_word (in_sql info) = Some word \<and> to_ascii_uppercase word = op) \<or>
         op = ''UNKNOWN'' \<and> parse_operation (in_sql info) = None)
    else query_done s m db info w = w"
proof (cases "qt_enabled config")
  case True
  then have db: "db_metric_callback db = Some config"
    using assms by (auto simp: from_url_def map_ok_Inr_iff Let_def)
  have qd: "query_done s m db info w = query_tracing_callback s m config info w"
    by (simp add: query_done_def db)
  have op: "op \<in> set known_operations \<and> (\<exists>word. first_word (in_sql info) = Some word \<and> to_ascii_uppercase word = op) \<or>
         op = ''UNKNOWN'' \<and> parse_operation (in_sql info) = None"
    if "op = unwrap_or ''UNKNOWN'' (parse_operation (in_sql info))" for op
    using that parse_operation_Some_iff [of "in_sql info" op] by (cases "parse_operation (in_sql info)") auto
  obtain span ev where "dw_spans (query_done s m db info w) =
       dw_spans w @ [(snd (unwrap_or (dw_meter_provider w, dw_tracer_provider w) (dw_instruments w)), span)]"
     "dw_events (query_done s m db info w) = dw_events w @ [ev]"
     "dw_durations (query_done s m db info w) = dw_durations w @
       [(fst (unwrap_or (dw_meter_provider w, dw_tracer_provider w) (dw_instruments w)), s (in_elapsed info),
         [(''db.system'', ''postgresql''), (''db.operation'', qe_operation ev)])]"
     and rest: "qe_level ev = (if in_failed info then ERROR
                    else if qt_slow_query_threshold config \<le> in_elapsed info then WARN else DEBUG)"
     "qe_operation ev = unwrap_or ''UNKNOWN'' (parse_operation (in_sql info))"
     "qe_statement ev = (if qt_include_statement config then in_sql info else [])"
     "sn_name span = qe_operation ev" "sn_error span \<noteq> None \<longleftrightarrow> in_failed info" "sn_parent span = dw_current_span w"
     "''db.statement'' \<in> fst ` set (sn_attributes span) \<longleftrightarrow> qt_include_statement config"
    unfolding qd using callback_adds [of s m config info w] by blast
  moreover note rest(1, 3, 7) refl [of "qe_operation ev"] rest(4, 6, 5) op [OF rest(2)]
  ultimately show ?thesis
    unfolding if_P [OF True] by (intro exI conjI)
next
  case False
  then show ?thesis using assms by (auto simp: from_url_def query_done_def map_ok_Inr_iff Let_def)
qed

theorem queries_are_reported_witness:
  "let config = query_tracing_config_from_env [''MRP_DB_TRACING_ENABLED'' \<mapsto> ''True''];
       db = (case from_url (\<lambda>opt. if co_sqlx_logging opt then Inl ''logged twice'' else Inr ()) ''postgres://'' config of Inr db \<Rightarrow> db)
   in \<exists>ev. dw_events (query_done id id db slow_select db_world0) = [ev] \<and> qe_level ev = WARN \<and> qe_operation ev = ''SELECT''"
proof -
  define config where "config = query_tracing_config_from_env [''MRP_DB_TRACING_ENABLED'' \<mapsto> ''True'']"
  let ?connect = "\<lambda>opt. if co_sqlx_logging opt then Inl ''logged twice'' else Inr ()"
  have true: "eq_ignore_ascii_case ''True'' ''true''" by code_simp
  have c: "qt_enabled config" "qt_slow_query_threshold config = 200000000"
    using true by (simp_all add: config_def query_tracing_config_from_env_def query_tracing_default_def Let_def)
  have "parse_operation '' select id from widgets'' = Some ''SELECT''" by code_simp
  then have op: "parse_operation (in_sql slow_select) = Some ''SELECT''" by (simp add: slow_select_def)
  obtain db where db: "from_url ?connect ''postgres://'' config = Inr db"
    using c by (simp add: from_url_def Let_def)
  have slow: "in_failed slow_select = False" "(200000000 \<le> in_elapsed slow_select) = True"
    by (simp_all add: slow_select_def)
  have none: "dw_events db_world0 = []" by (simp add: db_world0_def)
  have "\<exists>ev. dw_events (query_done id id db slow_select db_world0) = [ev] \<and> qe_level ev = WARN \<and> qe_operation ev = ''SELECT''"
    using queries_are_reported [OF db, of id id slow_select db_world0, unfolded if_P [OF c(1)]]
  proof (elim exE conjE)
    fix span tracer ev meter op
    assume ev: "dw_events (query_done id id db slow_select db_world0) = dw_events db_world0 @ [ev]"
      and level: "qe_level ev = (if in_failed slow_select then ERROR
                       else if qt_slow_query_threshold config \<le> in_elapsed slow_select then WARN else DEBUG)"
      and o: "qe_operation ev = op"
         "op \<in> set known_operations \<and> (\<exists>word. first_word (in_sql slow_select) = Some word \<and> to_ascii_uppercase word = op) \<or>
         op = ''UNKNOWN'' \<and> parse_operation (in_sql slow_select) = None"
    have "parse_operation (in_sql slow_select) = Some op"
      using o(2) unfolding parse_operation_Some_iff [symmetric] op by (elim disjE conjE) simp_all
    then have "op = ''SELECT''" unfolding op by simp
    moreover have "qe_level ev = WARN" using level slow c(2) by simp
    ultimately show ?thesis using ev none o(1) by (intro exI [of _ ev]) simp
  qed
  then show ?thesis unfolding Let_def config_def [symmetric] db by simp
qed

text \<open>C28.
  The instruments are bound late, and once. Before the first query nothing is registered; the
  first query binds them to the providers that are installed by then, and from there on every
  query is measured and traced by those, and the gauge of the pool is registered once, whatever
  providers are installed later.\<close>
theorem instruments_bound_at_first_query:
  assumes "dw_instruments w = None" "dw_gauges w = []" "dw_durations w = []" "dw_spans w = []"
    and "\<not> list_ex is_query before"
  shows "dw_gauges (fold (run_step s m config) before w) = [] \<and>
     (let w1 = fold (run_step s m config) before w;
          w2 = fold (run_step s m config) (before @ QueryDone info # after) w
      in dw_gauges w2 = [dw_meter_provider w1] \<and>
         fst ` set (dw_durations w2) = {dw_meter_provider w1} \<and> fst ` set (dw_spans w2) \<subseteq> {dw_tracer_provider w1} \<and>
         length (dw_durations w2) = Suc (length (filter is_query after)))"
proof -
  let ?w1 = "fold (run_step s m config) before w"
  let ?w2 = "fold (run_step s m config) (before @ QueryDone info # after) w"
  have w1: "dw_instruments ?w1 = None" "dw_gauges ?w1 = []" "dw_durations ?w1 = []" "dw_spans ?w1 = []"
    using unbound_steps [OF assms(5), of s m config w] assms by simp_all
  obtain span d where "dw_spans (query_tracing_callback s m config info ?w1) = [(dw_tracer_provider ?w1, span)]"
    "dw_durations (query_tracing_callback s m config info ?w1) = [(dw_meter_provider ?w1, d)]"
    using callback_targets [of s m config info ?w1] w1 by auto
  then have "bound_to (dw_meter_provider ?w1) (dw_tracer_provider ?w1) (run_step s m config (QueryDone info) ?w1)"
    by (simp add: bound_to_def callback_instruments w1)
  then have b: "bound_to (dw_meter_provider ?w1) (dw_tracer_provider ?w1) ?w2" using bound_to_steps by simp
  have "filter is_query before = []" using assms(5) by (simp add: filter_empty_conv list_ex_iff)
  then have len: "length (dw_durations ?w2) = Suc (length (filter is_query after))"
    using durations_count [of s m config "before @ QueryDone info # after" w] assms(3) by simp
  have "dw_durations ?w2 \<noteq> []" using len by auto
  then obtain d where "d \<in> set (dw_durations ?w2)" by (cases "dw_durations ?w2") auto
  then show ?thesis using b len w1 unfolding Let_def bound_to_def by auto
qed

theorem instruments_bound_at_first_query_witness:
  "dw_gauges (fold (run_step id id query_tracing_default)
     ([InstallProviders ''otlp'' ''otlp''] @ QueryDone slow_select # [InstallProviders ''x'' ''x'', QueryDone slow_select]) db_world0)
     = [''otlp'']"
  using instruments_bound_at_first_query [of db_world0 "[InstallProviders ''otlp'' ''otlp'']" id id query_tracing_default
      slow_select "[InstallProviders ''x'' ''x'', QueryDone slow_select]"]
  by (simp only: Let_def) (simp add: db_world0_def)

text \<open>C34.
  Bounds. The gauge of the pool reports the idle connections and the rest of the pool, saturating
  at zero when more are idle than the pool has (its size and the idle count are read one after
  the other); it never wraps. The span of a query ends when the callback runs and never starts
  later: it is exactly as long as the query, or empty where the start would be before the
  representable times.\<close>
theorem gauge_and_span_bounds:
  "map (unat \<circ> snd) (pool_gauge pool_size idle) = [unat idle, unat pool_size - unat idle] \<and>
   (\<exists>tracer span.
      dw_spans (query_tracing_callback s m config info w) = dw_spans w @ [(tracer, span)] \<and>
      sn_end span = dw_now w \<and> sn_start span \<le> sn_end span \<and>
      sn_end span - sn_start span \<in> {0, int (in_elapsed info)} \<and>
      (0 \<le> dw_now w \<and> in_elapsed info \<le> 2 ^ 63 * 1000000000 \<longrightarrow> sn_end span - sn_start span = int (in_elapsed info)))"
proof
  have size64: "unat (ucast pool_size :: 64 word) = unat pool_size"
    using unsigned_less [of pool_size, where 'a = nat]
    by (simp add: unsigned_ucast_eq take_bit_nat_eq_self)
  show "map (unat \<circ> snd) (pool_gauge pool_size idle) = [unat idle, unat pool_size - unat idle]"
  proof (cases "idle \<le> (ucast pool_size :: 64 word)")
    case True
    then show ?thesis by (simp add: pool_gauge_def unat_sub size64)
  next
    case False
    then have "unat pool_size \<le> unat idle" using size64 by (simp add: word_le_nat_alt)
    then show ?thesis using False by (simp add: pool_gauge_def)
  qed
next
  obtain tracer span where "dw_spans (query_tracing_callback s m config info w) = dw_spans w @ [(tracer, span)]"
    and e: "sn_end span = dw_now w" "sn_start span = unwrap_or (dw_now w) (checked_sub (dw_now w) (in_elapsed info))"
    using callback_adds [of s m config info w] by blast
  moreover have "sn_start span \<le> sn_end span \<and> sn_end span - sn_start span \<in> {0, int (in_elapsed info)} \<and>
      (0 \<le> dw_now w \<and> in_elapsed info \<le> 2 ^ 63 * 1000000000 \<longrightarrow> sn_end span - sn_start span = int (in_elapsed info))"
    unfolding e checked_sub_def by auto
  ultimately show "\<exists>tracer span.
      dw_spans (query_tracing_callback s m config info w) = dw_spans w @ [(tracer, span)] \<and>
      sn_end span = dw_now w \<and> sn_start span \<le> sn_end span \<and>
      sn_end span - sn_start span \<in> {0, int (in_elapsed info)} \<and>
      (0 \<le> dw_now w \<and> in_elapsed info \<le> 2 ^ 63 * 1000000000 \<longrightarrow> sn_end span - sn_start span = int (in_elapsed info))"
    by blast
qed

theorem gauge_and_span_bounds_witness:
  "\<exists>tracer span. dw_spans (query_tracing_callback id id query_tracing_default slow_select db_world0) = [(tracer, span)] \<and>
     sn_end span - sn_start span = 300000000"
  using gauge_and_span_bounds [of 10 12 id id query_tracing_default slow_select db_world0]
  by (auto simp: db_world0_def slow_select_def)

end
