(* ===== verification/Db_Mapper.thy ===== *)
theory Db_Mapper
  imports "HOL-Library.Word"
begin

text \<open>
  The trait \<open>Mapper\<close> of \<open>stano-seaorm\<close> (\<open>mapper.rs\<close>): conversions between a domain entity, the model
  a row is read into and the active model it is written from; with the mapper of its tests.
\<close>

record ('d, 'm, 'am) mapper =
  mp_to_domain :: "'m \<Rightarrow> 'd"
  mp_to_active_model :: "'d \<Rightarrow> 'am"

text \<open>
  What the clients of a mapper rely on; \<open>stored\<close> is the row that an active model is stored as, if it
  sets every column.
\<close>

locale mapping =
  fixes mp :: "('d, 'm, 'am) mapper" and stored :: "'am \<Rightarrow> 'm option"
  assumes writes_all: "stored (mp_to_active_model mp d) \<noteq> None"
    and reads_back: "stored (mp_to_active_model mp d) = Some m \<Longrightarrow> mp_to_domain mp m = d"
begin

lemma round_trip: "\<exists>m. stored (mp_to_active_model mp d) = Some m \<and> mp_to_domain mp m = d"
  using writes_all [of d] reads_back by auto

lemma active_model_inj: "mp_to_active_model mp d = mp_to_active_model mp d' \<Longrightarrow> d = d'"
  by (metis round_trip option.inject)

end

section \<open>The mapper of the tests\<close>

record user_domain =
  ud_id :: "32 word"
  ud_name :: string

record user_model =
  um_id :: "32 word"
  um_name :: string

record user_active_model =
  ua_id :: "32 word"
  ua_name :: string

definition user_mapper :: "(user_domain, user_model, user_active_model) mapper" where
  "user_mapper =
     \<lparr>mp_to_domain = (\<lambda>m. \<lparr>ud_id = um_id m, ud_name = um_name m\<rparr>),
      mp_to_active_model = (\<lambda>d. \<lparr>ua_id = ud_id d, ua_name = ud_name d\<rparr>)\<rparr>"

interpretation users: mapping user_mapper "\<lambda>am. Some \<lparr>um_id = ua_id am, um_name = ua_name am\<rparr>"
  by unfold_locales (auto simp: user_mapper_def)

end
