(* ===== verification/Example_Layers.thy ===== *)
theory Example_Layers
  imports Di_Meaning Db_Tracing Db_Mapper Authz_Layer
begin

text \<open>
  The layers of the example application: the widgets and the port to their repository
  (\<open>domain\<close>), the mapper and the repository over \<open>sea-orm\<close> (\<open>persistence\<close>), and the service
  (\<open>services\<close>). A method is a function of the state \<open>'w\<close> of the outside world, in which the
  database lives. The queries that \<open>sea-orm\<close> runs on a connection, the conversion of its errors
  into \<open>anyhow::Error\<close> and the drawing of an identifier are arguments.
\<close>

section \<open>Domain\<close>

record 'u widget =
  wd_id :: "'u id_v7"
  wd_name :: string

type_synonym ('a, 'x, 'w) operation = "'w \<Rightarrow> ('x service_error + 'a) \<times> 'w"

record ('u, 'x, 'w) widget_repository =
  wr_create :: "string \<Rightarrow> ('u widget, 'x, 'w) operation"
  wr_get :: "'u id_v7 \<Rightarrow> ('u widget, 'x, 'w) operation"
  wr_list :: "('u widget list, 'x, 'w) operation"
  wr_update :: "'u widget \<Rightarrow> ('u widget, 'x, 'w) operation"

section \<open>Persistence\<close>

record 'u model =
  em_id :: 'u
  em_name :: string

datatype 'a active_value = Set 'a | NotSet

record 'u active_model =
  am_id :: "'u active_value"
  am_name :: "string active_value"

definition to_domain :: "'u model \<Rightarrow> 'u widget" where
  "to_domain m = \<lparr>wd_id = id_v7_from (em_id m), wd_name = em_name m\<rparr>"

definition to_active_model :: "'u widget \<Rightarrow> 'u active_model" where
  "to_active_model w = \<lparr>am_id = Set (id_v7_as_uuid (wd_id w)), am_name = Set (wd_name w)\<rparr>"

definition widget_mapper :: "('u widget, 'u model, 'u active_model) mapper" where
  "widget_mapper = \<lparr>mp_to_domain = to_domain, mp_to_active_model = to_active_model\<rparr>"

text \<open>The row an active model is stored as, if it sets both columns.\<close>

fun stored_columns :: "'u active_value \<Rightarrow> string active_value \<Rightarrow> 'u model option" where
  "stored_columns (Set u) (Set n) = Some \<lparr>em_id = u, em_name = n\<rparr>"
| "stored_columns _ _ = None"

definition stored_row :: "'u active_model \<Rightarrow> 'u model option" where
  "stored_row am = stored_columns (am_id am) (am_name am)"

datatype 'de db_err = RecordNotUpdated | OtherDbErr 'de

record ('c, 'u, 'de, 'x, 'w) sea_orm =
  so_insert :: "'c \<Rightarrow> 'u active_model \<Rightarrow> 'w \<Rightarrow> ('de db_err + 'u model) \<times> 'w"
  so_find_by_id :: "'c \<Rightarrow> 'u \<Rightarrow> 'w \<Rightarrow> ('de db_err + 'u model option) \<times> 'w"
  so_all :: "'c \<Rightarrow> 'w \<Rightarrow> ('de db_err + 'u model list) \<times> 'w"
  so_update :: "'c \<Rightarrow> 'u active_model \<Rightarrow> 'w \<Rightarrow> ('de db_err + 'u model) \<times> 'w"
  so_anyhow :: "'de db_err \<Rightarrow> 'x"
  so_now_v7 :: "'w \<Rightarrow> 'u \<times> 'w"

text \<open>\<open>?\<close> on the result of a query: the error goes through \<open>map_err\<close>, the value on.\<close>

definition query ::
  "('de db_err \<Rightarrow> 'x service_error) \<Rightarrow> ('a \<Rightarrow> 'x service_error + 'b) \<Rightarrow> ('de db_err + 'a) \<times> 'w \<Rightarrow> ('x service_error + 'b) \<times> 'w" where
  "query err f p = (case p of (Inl e, w) \<Rightarrow> (Inl (err e), w) | (Inr a, w) \<Rightarrow> (f a, w))"

definition from_db_err :: "('c, 'u, 'de, 'x, 'w) sea_orm \<Rightarrow> 'de db_err \<Rightarrow> 'x service_error" where
  "from_db_err so e = service_error_from_anyhow (so_anyhow so e)"

definition seaorm_create :: "('c, 'u, 'de, 'x, 'w) sea_orm \<Rightarrow> 'c db_config \<Rightarrow> string \<Rightarrow> ('u widget, 'x, 'w) operation" where
  "seaorm_create so db name w =
     (case so_now_v7 so w of (uuid, w) \<Rightarrow>
        let widget = \<lparr>wd_id = id_v7_new uuid, wd_name = name\<rparr>;
            active = to_active_model widget
        in query (from_db_err so) (\<lambda>m. Inr (to_domain m)) (so_insert so (db_connection db) active w))"

definition seaorm_get :: "('c, 'u, 'de, 'x, 'w) sea_orm \<Rightarrow> 'c db_config \<Rightarrow> 'u id_v7 \<Rightarrow> ('u widget, 'x, 'w) operation" where
  "seaorm_get so db wid w =
     query (from_db_err so) (\<lambda>m. ok_or SE_NotFound (map_option to_domain m))
       (so_find_by_id so (db_connection db) (id_v7_as_uuid wid) w)"

definition seaorm_list :: "('c, 'u, 'de, 'x, 'w) sea_orm \<Rightarrow> 'c db_config \<Rightarrow> ('u widget list, 'x, 'w) operation" where
  "seaorm_list so db w = query (from_db_err so) (\<lambda>ms. Inr (map to_domain ms)) (so_all so (db_connection db) w)"

definition seaorm_update :: "('c, 'u, 'de, 'x, 'w) sea_orm \<Rightarrow> 'c db_config \<Rightarrow> 'u widget \<Rightarrow> ('u widget, 'x, 'w) operation" where
  "seaorm_update so db widget w =
     query (\<lambda>err. case err of RecordNotUpdated \<Rightarrow> SE_NotFound | _ \<Rightarrow> from_db_err so err) (\<lambda>m. Inr (to_domain m))
       (so_update so (db_connection db) (to_active_model widget) w)"

definition seaorm_repository :: "('c, 'u, 'de, 'x, 'w) sea_orm \<Rightarrow> 'c db_config \<Rightarrow> ('u, 'x, 'w) widget_repository" where
  "seaorm_repository so db =
     \<lparr>wr_create = seaorm_create so db, wr_get = seaorm_get so db, wr_list = seaorm_list so db, wr_update = seaorm_update so db\<rparr>"

definition connect ::
  "(connect_options \<Rightarrow> string + 'c) \<Rightarrow> string \<Rightarrow> environment \<Rightarrow> db_config_error + 'c db_config" where
  "connect db_connect database_url env = from_url db_connect database_url (query_tracing_config_from_env env)"

section \<open>Services\<close>

record ('u, 'x, 'w) widget_service =
  ws_create :: "string \<Rightarrow> ('u widget, 'x, 'w) operation"
  ws_get :: "'u id_v7 \<Rightarrow> ('u widget, 'x, 'w) operation"
  ws_list :: "('u widget list, 'x, 'w) operation"
  ws_update :: "'u widget \<Rightarrow> ('u widget, 'x, 'w) operation"

definition widget_service_of :: "('u, 'x, 'w) widget_repository \<Rightarrow> ('u, 'x, 'w) widget_service" where
  "widget_service_of repo =
     \<lparr>ws_create = (\<lambda>name. wr_create repo name), ws_get = (\<lambda>wid. wr_get repo wid), ws_list = wr_list repo,
      ws_update = (\<lambda>widget. wr_update repo widget)\<rparr>"

section \<open>Errors of the port\<close>

text \<open>
  What the clients of \<open>WidgetRepository\<close> and \<open>WidgetService\<close> rely on: a widget that is not there
  is the only reason for an answer other than an internal error, and only where an identifier
  is given.
\<close>

locale widget_port =
  fixes create :: "string \<Rightarrow> ('u widget, 'x, 'w) operation"
    and get :: "'u id_v7 \<Rightarrow> ('u widget, 'x, 'w) operation"
    and list_all_widgets :: "('u widget list, 'x, 'w) operation"
    and update :: "'u widget \<Rightarrow> ('u widget, 'x, 'w) operation"
  assumes create_error: "fst (create name w) = Inl e \<Longrightarrow> \<exists>x. e = SE_Internal x"
    and get_error: "fst (get wid w) = Inl e \<Longrightarrow> e = SE_NotFound \<or> (\<exists>x. e = SE_Internal x)"
    and list_error: "fst (list_all_widgets w) = Inl e \<Longrightarrow> \<exists>x. e = SE_Internal x"
    and update_error: "fst (update wd w) = Inl e \<Longrightarrow> e = SE_NotFound \<or> (\<exists>x. e = SE_Internal x)"
begin

lemma error_statuses:
  "fst (create name w) = Inl e \<Longrightarrow> fst (error_row (from_service_error e)) = 500"
  "fst (get wid w) = Inl e \<Longrightarrow> fst (error_row (from_service_error e)) \<in> {404, 500}"
  "fst (list_all_widgets w) = Inl e \<Longrightarrow> fst (error_row (from_service_error e)) = 500"
  "fst (update wd w) = Inl e \<Longrightarrow> fst (error_row (from_service_error e)) \<in> {404, 500}"
  by (auto simp: from_service_error_def dest!: create_error get_error list_error update_error)

end

lemma query_Inl_iff:
  "fst (query err f p) = Inl e \<longleftrightarrow>
     (case fst p of Inl d \<Rightarrow> e = err d | Inr a \<Rightarrow> f a = Inl e)"
  by (auto simp: query_def split: prod.splits sum.splits)

lemma ok_or_Inl_iff: "ok_or err m = Inl e \<longleftrightarrow> m = None \<and> e = err"
  by (cases m) auto

lemmas seaorm_defs = seaorm_create_def seaorm_get_def seaorm_list_def seaorm_update_def

interpretation seaorm: widget_port "seaorm_create so db" "seaorm_get so db" "seaorm_list so db" "seaorm_update so db"
  for so :: "('c, 'u, 'de, 'x, 'w) sea_orm" and db :: "'c db_config"
proof (unfold_locales, goal_cases)
  case (1 name w e)
  then show ?case
    by (auto simp: seaorm_defs query_Inl_iff from_db_err_def service_error_from_anyhow_def Let_def
        split: prod.splits sum.splits)
next
  case (2 wid w e)
  then show ?case
    by (auto simp: seaorm_defs query_Inl_iff ok_or_Inl_iff from_db_err_def service_error_from_anyhow_def
        split: sum.splits)
next
  case (3 w e)
  then show ?case
    by (auto simp: seaorm_defs query_Inl_iff from_db_err_def service_error_from_anyhow_def split: sum.splits)
next
  case (4 wd w e)
  then show ?case
    by (auto simp: seaorm_defs query_Inl_iff from_db_err_def service_error_from_anyhow_def
        split: sum.splits db_err.splits)
qed

section \<open>The repository as a map\<close>

text \<open>
  The documented behaviour of \<open>sea-orm\<close> over a reachable table whose primary key is \<open>id\<close>: \<open>rows\<close>
  is what the table holds in a state, \<open>up\<close> that it answers. The stored rows are returned, an
  update of an absent row is \<open>RecordNotUpdated\<close>, an insertion under a present key an error.
\<close>

definition table_behaviour ::
  "('c, 'u, 'de, 'x, 'w) sea_orm \<Rightarrow> 'c \<Rightarrow> ('w \<Rightarrow> 'u \<rightharpoonup> string) \<Rightarrow> ('w \<Rightarrow> bool) \<Rightarrow> bool" where
  "table_behaviour so c rows up \<longleftrightarrow>
     (\<forall>w. up w \<longrightarrow>
        (\<forall>u. so_find_by_id so c u w = (Inr (map_option (\<lambda>n. \<lparr>em_id = u, em_name = n\<rparr>) (rows w u)), w)) \<and>
        (\<exists>us. so_all so c w = (Inr (map (\<lambda>u. \<lparr>em_id = u, em_name = the (rows w u)\<rparr>) us), w) \<and>
              distinct us \<and> set us = dom (rows w)) \<and>
        (\<forall>u n. case rows w u of
           None \<Rightarrow> so_update so c \<lparr>am_id = Set u, am_name = Set n\<rparr> w = (Inl RecordNotUpdated, w) \<and>
                   (\<exists>w'. so_insert so c \<lparr>am_id = Set u, am_name = Set n\<rparr> w = (Inr \<lparr>em_id = u, em_name = n\<rparr>, w') \<and>
                         up w' \<and> rows w' = (rows w)(u \<mapsto> n))
         | Some _ \<Rightarrow> (\<exists>e. so_insert so c \<lparr>am_id = Set u, am_name = Set n\<rparr> w = (Inl e, w)) \<and>
                   (\<exists>w'. so_update so c \<lparr>am_id = Set u, am_name = Set n\<rparr> w = (Inr \<lparr>em_id = u, em_name = n\<rparr>, w') \<and>
                         up w' \<and> rows w' = (rows w)(u \<mapsto> n))) \<and>
        up (snd (so_now_v7 so w)) \<and> rows (snd (so_now_v7 so w)) = rows w)"

text \<open>A row that is written from a widget is read back as that widget.\<close>

interpretation widgets: mapping widget_mapper stored_row
  by unfold_locales (auto simp: widget_mapper_def stored_row_def to_active_model_def to_domain_def v7.of_as)

lemma mapper_round_trip:
  "to_active_model wd = \<lparr>am_id = Set u, am_name = Set n\<rparr> \<Longrightarrow> to_domain \<lparr>em_id = u, em_name = n\<rparr> = wd"
  using widgets.reads_back [of wd "\<lparr>em_id = u, em_name = n\<rparr>"] by (simp add: widget_mapper_def stored_row_def)

text \<open>The abstract store: widgets by identifier, and what each operation does to it.\<close>

fun spec_get :: "('u \<rightharpoonup> string) \<Rightarrow> 'u id_v7 \<Rightarrow> 'x service_error + 'u widget" where
  "spec_get t wid = (case t (id_v7_as_uuid wid) of None \<Rightarrow> Inl SE_NotFound | Some n \<Rightarrow> Inr \<lparr>wd_id = wid, wd_name = n\<rparr>)"

fun spec_update :: "('u \<rightharpoonup> string) \<Rightarrow> 'u widget \<Rightarrow> ('x service_error + 'u widget) \<times> ('u \<rightharpoonup> string)" where
  "spec_update t wd =
     (let u = id_v7_as_uuid (wd_id wd)
      in if t u = None then (Inl SE_NotFound, t) else (Inr wd, t(u \<mapsto> wd_name wd)))"

lemma table_row:
  assumes "table_behaviour so c rows up" "up w"
  shows "case rows w u of
           None \<Rightarrow> so_update so c \<lparr>am_id = Set u, am_name = Set n\<rparr> w = (Inl RecordNotUpdated, w) \<and>
                   (\<exists>w'. so_insert so c \<lparr>am_id = Set u, am_name = Set n\<rparr> w = (Inr \<lparr>em_id = u, em_name = n\<rparr>, w') \<and>
                         up w' \<and> rows w' = (rows w)(u \<mapsto> n))
         | Some _ \<Rightarrow> (\<exists>e. so_insert so c \<lparr>am_id = Set u, am_name = Set n\<rparr> w = (Inl e, w)) \<and>
                   (\<exists>w'. so_update so c \<lparr>am_id = Set u, am_name = Set n\<rparr> w = (Inr \<lparr>em_id = u, em_name = n\<rparr>, w') \<and>
                         up w' \<and> rows w' = (rows w)(u \<mapsto> n))"
  using assms unfolding table_behaviour_def by blast

lemma seaorm_get_refines:
  assumes "table_behaviour so (db_connection db) rows up" "up w"
  shows "seaorm_get so db wid w = (spec_get (rows w) wid, w)"
proof -
  have "so_find_by_id so (db_connection db) (id_v7_as_uuid wid) w =
      (Inr (map_option (\<lambda>n. \<lparr>em_id = id_v7_as_uuid wid, em_name = n\<rparr>) (rows w (id_v7_as_uuid wid))), w)"
    using assms by (simp add: table_behaviour_def)
  then show ?thesis
    by (simp add: seaorm_get_def query_def option.map_comp to_domain_def v7.of_as o_def split: option.split)
qed

lemma seaorm_update_refines:
  assumes "table_behaviour so (db_connection db) rows up" "up w"
  shows "\<exists>w'. seaorm_update so db wd w = (fst (spec_update (rows w) wd), w') \<and> up w' \<and>
              rows w' = snd (spec_update (rows w) wd)"
proof -
  let ?u = "id_v7_as_uuid (wd_id wd)" and ?n = "wd_name wd"
  have am: "to_active_model wd = \<lparr>am_id = Set ?u, am_name = Set ?n\<rparr>" by (simp add: to_active_model_def)
  note row = table_row [OF assms, of ?u ?n, folded am]
  show ?thesis
  proof (cases "rows w ?u")
    case None
    then show ?thesis using row assms(2) by (auto simp: seaorm_update_def query_def Let_def)
  next
    case (Some m)
    then show ?thesis using row mapper_round_trip [OF am] by (auto simp: seaorm_update_def query_def Let_def)
  qed
qed

lemma seaorm_create_refines:
  assumes "table_behaviour so (db_connection db) rows up" "up w"
  shows "\<exists>r w'. seaorm_create so db n w = (r, w') \<and> up w' \<and>
           (case r of
              Inr wd \<Rightarrow> wd_name wd = n \<and> rows w (id_v7_as_uuid (wd_id wd)) = None \<and>
                        rows w' = (rows w)(id_v7_as_uuid (wd_id wd) \<mapsto> n)
            | Inl e \<Rightarrow> rows w (fst (so_now_v7 so w)) \<noteq> None \<and> rows w' = rows w)"
proof -
  obtain u w1 where u: "so_now_v7 so w = (u, w1)" by (metis prod.exhaust)
  have w1: "up w1" "rows w1 = rows w" using assms u unfolding table_behaviour_def by (metis snd_conv)+
  let ?wd = "\<lparr>wd_id = id_v7_new u, wd_name = n\<rparr>"
  have am: "to_active_model ?wd = \<lparr>am_id = Set u, am_name = Set n\<rparr>" by (simp add: to_active_model_def id_v7_new_def)
  note row = table_row [OF assms(1) w1(1), of u n, folded am, unfolded w1(2)]
  show ?thesis
  proof (cases "rows w u")
    case None
    then show ?thesis using row mapper_round_trip [OF am] u w1
      by (auto simp: seaorm_create_def query_def Let_def id_v7_new_def)
  next
    case (Some m)
    then show ?thesis using row u w1 by (auto simp: seaorm_create_def query_def Let_def)
  qed
qed

lemma seaorm_list_refines:
  assumes "table_behaviour so (db_connection db) rows up" "up w"
  shows "\<exists>wds. seaorm_list so db w = (Inr wds, w) \<and> distinct (map wd_id wds) \<and>
               set wds = {wd. rows w (id_v7_as_uuid (wd_id wd)) = Some (wd_name wd)}"
proof -
  obtain us where us: "so_all so (db_connection db) w = (Inr (map (\<lambda>u. \<lparr>em_id = u, em_name = the (rows w u)\<rparr>) us), w)"
    "distinct us" "set us = dom (rows w)"
    using assms unfolding table_behaviour_def by blast
  let ?f = "\<lambda>u. \<lparr>wd_id = id_v7_from u, wd_name = the (rows w u)\<rparr>"
  have "distinct (map wd_id (map ?f us))"
    using us(2) by (simp add: distinct_map o_def inj_on_def id_v7_from_def)
  moreover have "wd \<in> set (map ?f us) \<longleftrightarrow> rows w (id_v7_as_uuid (wd_id wd)) = Some (wd_name wd)" for wd
  proof
    assume "rows w (id_v7_as_uuid (wd_id wd)) = Some (wd_name wd)"
    then show "wd \<in> set (map ?f us)"
      by (auto simp: us(3) v7.of_as intro!: image_eqI [of _ _ "id_v7_as_uuid (wd_id wd)"] widget.equality)
  qed (auto simp: us(3) v7.as_of)
  ultimately show ?thesis using us(1) by (auto simp: seaorm_list_def query_def to_domain_def o_def)
qed

section \<open>Property\<close>

text \<open>
  A table in memory: a counter for identifiers, which skips one number after each, and the rows.
\<close>

definition memory_table :: "(unit, nat, string, string db_err, nat \<times> (nat \<times> string) list) sea_orm" where
  "memory_table =
     (let put = (\<lambda>am. case am_id am of Set u \<Rightarrow> (case am_name am of Set n \<Rightarrow> \<lparr>em_id = u, em_name = n\<rparr>))
      in \<lparr>so_insert = (\<lambda>_ am (k, t). case put am of m \<Rightarrow>
            if map_of t (em_id m) = None then (Inr m, (k, AList.update (em_id m) (em_name m) t))
            else (Inl (OtherDbErr ''duplicate key''), (k, t))),
          so_find_by_id = (\<lambda>_ u (k, t). (Inr (map_option (\<lambda>n. \<lparr>em_id = u, em_name = n\<rparr>) (map_of t u)), (k, t))),
          so_all = (\<lambda>_ (k, t). (Inr (map (\<lambda>(u, n). \<lparr>em_id = u, em_name = n\<rparr>) t), (k, t))),
          so_update = (\<lambda>_ am (k, t). case put am of m \<Rightarrow>
            if map_of t (em_id m) = None then (Inl RecordNotUpdated, (k, t))
            else (Inr m, (k, AList.update (em_id m) (em_name m) t))),
          so_anyhow = id,
          so_now_v7 = (\<lambda>(k, t). (k, (k + 2, t)))\<rparr>)"

lemma memory_table_behaviour:
  "table_behaviour memory_table () (map_of \<circ> snd) (distinct \<circ> map fst \<circ> snd)"
  unfolding table_behaviour_def
proof (intro allI impI conjI, goal_cases)
  case (2 w)
  obtain k t where w: "w = (k, t)" by (cases w)
  have "map (\<lambda>u. \<lparr>em_id = u, em_name = the (map_of t u)\<rparr>) (map fst t) = map (\<lambda>(u, n). \<lparr>em_id = u, em_name = n\<rparr>) t"
    using 2 by (auto simp: w)
  then show ?case using 2 by (intro exI [of _ "map fst t"]) (simp add: memory_table_def Let_def w dom_map_of_conv_image_fst)
next
  case (3 w u n)
  obtain k t where w: "w = (k, t)" by (cases w)
  then show ?case using 3
    by (auto simp: memory_table_def Let_def update_conv' distinct_update split: option.splits)
qed (auto simp: memory_table_def Let_def split: prod.splits)

text \<open>
  Over a table that behaves as \<open>sea-orm\<close> documents, the widget service implements a map from
  identifiers to names: \<open>get\<close> and \<open>update\<close> answer what the map says, \<open>NotFound\<close> included, and
  \<open>update\<close> changes that one entry; \<open>create\<close> adds an entry under an identifier that had none, and
  fails, changing nothing, only when the identifier drawn is taken; \<open>list\<close> has every entry once.\<close>
lemma widget_service_refines_map:
  assumes "table_behaviour so (db_connection db) rows up" "up w"
    and "svc = widget_service_of (seaorm_repository so db)"
  shows "ws_get svc wid w = (spec_get (rows w) wid, w) \<and>
    (\<exists>w'. ws_update svc wd w = (fst (spec_update (rows w) wd), w') \<and> up w' \<and>
          rows w' = snd (spec_update (rows w) wd)) \<and>
    (\<exists>r w'. ws_create svc n w = (r, w') \<and> up w' \<and>
       (case r of
          Inr wd \<Rightarrow> wd_name wd = n \<and> rows w (id_v7_as_uuid (wd_id wd)) = None \<and>
                    rows w' = (rows w)(id_v7_as_uuid (wd_id wd) \<mapsto> n)
        | Inl e \<Rightarrow> rows w (fst (so_now_v7 so w)) \<noteq> None \<and> rows w' = rows w)) \<and>
    (\<exists>wds. ws_list svc w = (Inr wds, w) \<and> distinct (map wd_id wds) \<and>
           set wds = {wd. rows w (id_v7_as_uuid (wd_id wd)) = Some (wd_name wd)})"
proof -
  have svc: "ws_get svc = seaorm_get so db" "ws_update svc = seaorm_update so db"
    "ws_create svc = seaorm_create so db" "ws_list svc = seaorm_list so db"
    by (simp_all add: assms(3) widget_service_of_def seaorm_repository_def)
  show ?thesis
    unfolding svc
    using seaorm_get_refines [OF assms(1,2)] seaorm_update_refines [OF assms(1,2)]
      seaorm_create_refines [OF assms(1,2)] seaorm_list_refines [OF assms(1,2)] by (intro conjI)
qed

lemma widget_service_refines_map_witness:
  "ws_get (widget_service_of (seaorm_repository memory_table \<lparr>db_connection = (), db_metric_callback = None\<rparr>))
     (IdV7 7) (9, [(7, ''gear'')]) = (Inr \<lparr>wd_id = IdV7 7, wd_name = ''gear''\<rparr>, (9, [(7, ''gear'')])) \<and>
   (\<exists>w'. ws_update (widget_service_of (seaorm_repository memory_table \<lparr>db_connection = (), db_metric_callback = None\<rparr>))
     \<lparr>wd_id = IdV7 8, wd_name = ''cog''\<rparr> (9, [(7, ''gear'')]) = (Inl SE_NotFound, w') \<and> map_of (snd w') = [7 \<mapsto> ''gear''])"
proof -
  let ?db = "\<lparr>db_connection = (), db_metric_callback = None\<rparr>" and ?w = "(9, [(7, ''gear'')]) :: nat \<times> (nat \<times> string) list"
  have table: "table_behaviour memory_table (db_connection ?db) (map_of \<circ> snd) (distinct \<circ> map fst \<circ> snd)"
    by (simp add: memory_table_behaviour)
  have up: "(distinct \<circ> map fst \<circ> snd) ?w" by simp
  note refines = widget_service_refines_map [OF table up refl, of "IdV7 7" "\<lparr>wd_id = IdV7 8, wd_name = ''cog''\<rparr>"]
  show ?thesis
    using refines [THEN conjunct1] refines [THEN conjunct2, THEN conjunct1] by (auto simp: Let_def)
qed

end
