(* ===== verification/Example_Migration.thy ===== *)
theory Example_Migration
  imports Example_Layers
begin

text \<open>
  The migration of the example application (\<open>migration/src\<close>): the table it creates and drops. The
  \<open>SchemaManager\<close> of \<open>sea-orm-migration\<close>, which runs the statements, is an argument.
\<close>

section \<open>Statements\<close>

datatype column_type = UuidColumn | TextColumn

record column_def =
  cd_name :: string
  cd_type :: column_type
  cd_not_null :: bool
  cd_primary_key :: bool

record table_create =
  tc_table :: string
  tc_columns :: "column_def list"

record ('de, 'w) schema_manager =
  sm_create_table :: "table_create \<Rightarrow> 'w \<Rightarrow> ('de db_err + unit) \<times> 'w"
  sm_drop_table :: "string \<Rightarrow> 'w \<Rightarrow> ('de db_err + unit) \<times> 'w"

text \<open>\<open>DeriveIden\<close> gives the table the name of the enum and the columns those of its variants, in snake case.\<close>

datatype widgets = WidgetsTable | WidgetsId | WidgetsName

fun widgets_iden :: "widgets \<Rightarrow> string" where
  "widgets_iden WidgetsTable = ''widgets''"
| "widgets_iden WidgetsId = ''id''"
| "widgets_iden WidgetsName = ''name''"

section \<open>The migration\<close>

definition create_widgets :: table_create where
  "create_widgets =
     \<lparr>tc_table = widgets_iden WidgetsTable,
      tc_columns =
        [\<lparr>cd_name = widgets_iden WidgetsId, cd_type = UuidColumn, cd_not_null = True, cd_primary_key = True\<rparr>,
         \<lparr>cd_name = widgets_iden WidgetsName, cd_type = TextColumn, cd_not_null = True, cd_primary_key = False\<rparr>]\<rparr>"

definition migration_up :: "('de, 'w) schema_manager \<Rightarrow> 'w \<Rightarrow> ('de db_err + unit) \<times> 'w" where
  "migration_up manager w = sm_create_table manager create_widgets w"

definition migration_down :: "('de, 'w) schema_manager \<Rightarrow> 'w \<Rightarrow> ('de db_err + unit) \<times> 'w" where
  "migration_down manager w = sm_drop_table manager (widgets_iden WidgetsTable) w"

record ('de, 'w) migration =
  mg_up :: "('de, 'w) schema_manager \<Rightarrow> 'w \<Rightarrow> ('de db_err + unit) \<times> 'w"
  mg_down :: "('de, 'w) schema_manager \<Rightarrow> 'w \<Rightarrow> ('de db_err + unit) \<times> 'w"

definition migrations :: "('de, 'w) migration list" where
  "migrations = [\<lparr>mg_up = migration_up, mg_down = migration_down\<rparr>]"

section \<open>What it does to a schema\<close>

text \<open>
  The documented behaviour of the two statements: \<open>tables\<close> is the schema in a state; a table that
  is there cannot be created again, one that is not there cannot be dropped.
\<close>

definition schema_behaviour :: "('de, 'w) schema_manager \<Rightarrow> ('w \<Rightarrow> string \<rightharpoonup> column_def list) \<Rightarrow> bool" where
  "schema_behaviour manager tables \<longleftrightarrow>
     (\<forall>w t. case tables w (tc_table t) of
        None \<Rightarrow> \<exists>w'. sm_create_table manager t w = (Inr (), w') \<and> tables w' = (tables w)(tc_table t \<mapsto> tc_columns t)
      | Some _ \<Rightarrow> \<exists>e. sm_create_table manager t w = (Inl e, w)) \<and>
     (\<forall>w n. case tables w n of
        None \<Rightarrow> \<exists>e. sm_drop_table manager n w = (Inl e, w)
      | Some _ \<Rightarrow> \<exists>w'. sm_drop_table manager n w = (Inr (), w') \<and> tables w' = (tables w)(n := None))"

text \<open>
  \<open>up\<close> creates the table the entity reads, with its columns, unless it is there; \<open>down\<close> after \<open>up\<close>
  gives the schema back.
\<close>

lemma migration_up_down:
  assumes "schema_behaviour manager tables" "tables w ''widgets'' = None"
  shows "\<exists>w' w''. migration_up manager w = (Inr (), w') \<and>
     map_option (map cd_name) (tables w' ''widgets'') = Some [''id'', ''name''] \<and>
     (\<exists>e. migration_up manager w' = (Inl e, w')) \<and>
     migration_down manager w' = (Inr (), w'') \<and> tables w'' = tables w"
proof -
  have create: "case tables w (tc_table t) of
        None \<Rightarrow> \<exists>w'. sm_create_table manager t w = (Inr (), w') \<and> tables w' = (tables w)(tc_table t \<mapsto> tc_columns t)
      | Some _ \<Rightarrow> \<exists>e. sm_create_table manager t w = (Inl e, w)" for w t
    using assms(1) by (simp add: schema_behaviour_def)
  have drop: "case tables w n of
        None \<Rightarrow> \<exists>e. sm_drop_table manager n w = (Inl e, w)
      | Some _ \<Rightarrow> \<exists>w'. sm_drop_table manager n w = (Inr (), w') \<and> tables w' = (tables w)(n := None)" for w n
    using assms(1) by (simp add: schema_behaviour_def)
  have name: "tc_table create_widgets = ''widgets''" "widgets_iden WidgetsTable = ''widgets''"
    by (simp_all add: create_widgets_def)
  obtain w' where up: "sm_create_table manager create_widgets w = (Inr (), w')"
      "tables w' = (tables w)(''widgets'' \<mapsto> tc_columns create_widgets)"
    using create [where w = w and t = create_widgets] assms(2) by (auto simp: name)
  then have there: "tables w' ''widgets'' = Some (tc_columns create_widgets)" by simp
  obtain e where again: "sm_create_table manager create_widgets w' = (Inl e, w')"
    using create [where w = w' and t = create_widgets] by (auto simp: name there)
  obtain w'' where "sm_drop_table manager ''widgets'' w' = (Inr (), w'')" "tables w'' = (tables w')(''widgets'' := None)"
    using drop [where w = w' and n = "''widgets''"] there by auto
  then show ?thesis using up again there assms(2)
    by (auto simp: migration_up_def migration_down_def name(2) create_widgets_def fun_upd_idem_iff)
qed

end
