(* ===== verification/Example_App.thy ===== *)
theory Example_App
  imports Example_Layers Axum_Extract
begin

text \<open>
  The example application: its composition root (\<open>launcher/src/lib.rs\<close>), which builds the context
  from the generated registrations of its two services, and the handlers of its REST layer
  (\<open>rest-api/src/lib.rs\<close>). The migrations, the database and the text form of an identifier are
  arguments. What the container holds is one of three components.
\<close>

section \<open>The components\<close>

datatype ('c, 'u, 'x, 'w) app_component =
    DbComponent "'c db_config"
  | RepositoryComponent "('u, 'x, 'w) widget_repository"
  | ServiceComponent "('u, 'x, 'w) widget_service"

fun as_db :: "('c, 'u, 'x, 'w) app_component \<Rightarrow> 'c db_config" where
  "as_db (DbComponent db) = db"

fun as_repository :: "('c, 'u, 'x, 'w) app_component \<Rightarrow> ('u, 'x, 'w) widget_repository" where
  "as_repository (RepositoryComponent repo) = repo"

fun as_service :: "('c, 'u, 'x, 'w) app_component \<Rightarrow> ('u, 'x, 'w) widget_service" where
  "as_service (ServiceComponent svc) = svc"

text \<open>The constructors \<open>new\<close> of the two structs, on the resolved fields.\<close>

definition widget_repository_new ::
  "('c, 'u, 'de, 'x, 'w) sea_orm \<Rightarrow> ('c, 'u, 'x, 'w) app_component arc list \<Rightarrow> ('c, 'u, 'x, 'w) app_component" where
  "widget_repository_new so args = RepositoryComponent (seaorm_repository so (as_db (arc_val (hd args))))"

definition widget_service_new ::
  "('c, 'u, 'x, 'w) app_component arc list \<Rightarrow> ('c, 'u, 'x, 'w) app_component" where
  "widget_service_new args = ServiceComponent (widget_service_of (as_repository (arc_val (hd args))))"

definition app_services ::
  "('c, 'u, 'de, 'x, 'w) sea_orm \<Rightarrow>
   (service_expansion \<times> (('c, 'u, 'x, 'w) app_component arc list \<Rightarrow> ('c, 'u, 'x, 'w) app_component)) list" where
  "app_services so =
     [(widget_repository_expansion, widget_repository_new so), (widget_service_expansion, widget_service_new)]"

section \<open>The composition root\<close>

datatype 'me context_error = DatabaseUrlNotSet | NotConnected db_config_error | NotMigrated 'me

text \<open>
  \<open>registrations\<close> is what \<open>inventory\<close> has collected, \<open>korder\<close> and \<open>sorder\<close> the orders in which the
  container's maps are iterated over; \<open>db_connect\<close> opens the pool and \<open>migrate\<close> runs the
  migrations. A failed \<open>expect\<close> is a panic.
\<close>

definition build_context ::
  "(process_vars \<Rightarrow> 'de2 + process_vars) \<Rightarrow> (connect_options \<Rightarrow> string + 'c) \<Rightarrow> ('c \<Rightarrow> 'w \<Rightarrow> ('me + unit) \<times> 'w) \<Rightarrow>
   (('c, 'u, 'x, 'w) app_component container \<Rightarrow> ('c, 'u, 'x, 'w) app_component container) list \<Rightarrow>
   type_id list \<Rightarrow> type_id list \<Rightarrow> process_vars \<Rightarrow> 'w \<Rightarrow>
   ('me context_error + ('c, 'u, 'x, 'w) app_component application_context \<times> ('c, 'u, 'x, 'w) app_component runtime) outcome \<times> 'w"
where
  "build_context dotenv db_connect migrate registrations korder sorder process w =
     (let env = os_environment_get (os_environment_new dotenv process) in
      case env ''DATABASE_URL'' of
        None \<Rightarrow> (Val (Inl DatabaseUrlNotSet), w)
      | Some database_url \<Rightarrow>
          (case connect db_connect database_url env of
             Inl e \<Rightarrow> (Val (Inl (NotConnected e)), w)
           | Inr db \<Rightarrow>
               (case migrate (db_connection db) w of
                  (Inl e, w) \<Rightarrow> (Val (Inl (NotMigrated e)), w)
                | (Inr _, w) \<Rightarrow>
                    let ctx = ctx_new env;
                        ctx = ctx_register_instance (RConcrete ''DbConfig'') \<lparr>arc_id = 0, arc_val = DbComponent db\<rparr> ctx;
                        ctx = ctx_register_all registrations ctx
                    in case ctx_validate korder sorder ctx (runtime_of (app_container ctx) 1) of
                         (Val (Inr _), st) \<Rightarrow> (Val (Inr (ctx, st)), w)
                       | (Val (Inl _), st) \<Rightarrow> (Panicked ''all registered components must resolve'', w)
                       | (Panicked m, st) \<Rightarrow> (Panicked m, w)
                       | (Deadlock, st) \<Rightarrow> (Deadlock, w))))"

section \<open>The handlers\<close>

record widget_response =
  wresp_id :: string
  wresp_name :: string

definition widget_response_from :: "('u \<Rightarrow> string) \<Rightarrow> 'u widget \<Rightarrow> widget_response" where
  "widget_response_from fmt widget = \<lparr>wresp_id = id_v7_display fmt (wd_id widget), wresp_name = wd_name widget\<rparr>"

text \<open>
  A handler gets its extracted arguments and the container's state; it ends with a value or an
  \<open>ApiError\<close>, or panics. \<open>call_service\<close> is the part that four of them share: look the service up,
  call it, and convert the error (\<open>?\<close>) or the value.
\<close>

type_synonym ('c, 'u, 'x, 'w, 'a) handler =
  "('c, 'u, 'x, 'w) app_component runtime \<Rightarrow> 'w \<Rightarrow>
   ('x api_error + 'a app_json) outcome \<times> ('c, 'u, 'x, 'w) app_component runtime \<times> 'w"

definition call_service ::
  "('c, 'u, 'x, 'w) app_component application_context \<Rightarrow> (('u, 'x, 'w) widget_service \<Rightarrow> ('b, 'x, 'w) operation) \<Rightarrow>
   ('b \<Rightarrow> 'a) \<Rightarrow> ('c, 'u, 'x, 'w, 'a) handler" where
  "call_service ctx operation into rt w =
     (case ctx_get_trait ctx (RDyn ''WidgetService'') rt of
        (Val service, rt) \<Rightarrow>
          (case operation (as_service (arc_val service)) w of
             (r, w) \<Rightarrow> (Val (map_ok (\<lambda>b. AppJson (into b)) (map_err from_service_error r)), rt, w))
      | (Panicked m, rt) \<Rightarrow> (Panicked m, rt, w)
      | (Deadlock, rt) \<Rightarrow> (Deadlock, rt, w))"

definition health_handler :: string where
  "health_handler = ''ok''"

definition create_widget_handler ::
  "('u \<Rightarrow> string) \<Rightarrow> ('c, 'u, 'x, 'w) app_component application_context \<Rightarrow> string \<Rightarrow>
   ('c, 'u, 'x, 'w, widget_response) handler" where
  "create_widget_handler fmt ctx req_name rt w =
     call_service ctx (\<lambda>service. ws_create service req_name) (widget_response_from fmt) rt w"

definition invalid_widget_id :: "'x api_error" where
  "invalid_widget_id = from_service_error (SE_InvalidInput ''invalid widget id'')"

definition get_widget_handler ::
  "(string \<Rightarrow> 'pe + 'u) \<Rightarrow> ('u \<Rightarrow> string) \<Rightarrow> ('c, 'u, 'x, 'w) app_component application_context \<Rightarrow> string \<Rightarrow>
   ('c, 'u, 'x, 'w, widget_response) handler" where
  "get_widget_handler parse_str fmt ctx wid rt w =
     (case id_v7_from_str parse_str wid of
        Inl _ \<Rightarrow> (Val (Inl invalid_widget_id), rt, w)
      | Inr widget_id \<Rightarrow> call_service ctx (\<lambda>service. ws_get service widget_id) (widget_response_from fmt) rt w)"

definition update_widget_handler ::
  "(string \<Rightarrow> 'pe + 'u) \<Rightarrow> ('u \<Rightarrow> string) \<Rightarrow> ('c, 'u, 'x, 'w) app_component application_context \<Rightarrow> string \<Rightarrow> string \<Rightarrow>
   ('c, 'u, 'x, 'w, widget_response) handler" where
  "update_widget_handler parse_str fmt ctx wid req_name rt w =
     (case id_v7_from_str parse_str wid of
        Inl _ \<Rightarrow> (Val (Inl invalid_widget_id), rt, w)
      | Inr widget_id \<Rightarrow>
          (let widget = \<lparr>wd_id = widget_id, wd_name = req_name\<rparr>
           in call_service ctx (\<lambda>service. ws_update service widget) (widget_response_from fmt) rt w))"

definition list_widgets_admin_handler ::
  "('u \<Rightarrow> string) \<Rightarrow> ('c, 'u, 'x, 'w) app_component application_context \<Rightarrow> 'e app_security_context \<Rightarrow>
   ('c, 'u, 'x, 'w, widget_response list) handler" where
  "list_widgets_admin_handler fmt ctx security_context rt w =
     call_service ctx ws_list (map (widget_response_from fmt)) rt w"

text \<open>The response to what a handler returns; \<open>axum::Json\<close> answers 200.\<close>

definition handler_status :: "'x api_error + 'a app_json \<Rightarrow> nat" where
  "handler_status r = (case r of Inl e \<Rightarrow> rs_status (snd (into_response e)) | Inr _ \<Rightarrow> 200)"

section \<open>The container of the application\<close>

text \<open>The keys, their order in the dependency graph, and what belongs under each.\<close>

definition app_keys :: "type_id list" where
  "app_keys = [type_id_of (RConcrete ''DbConfig''), trait_object_type_id (RDyn ''WidgetRepository''),
               trait_object_type_id (RDyn ''WidgetService'')]"

definition app_rank :: "type_id \<Rightarrow> nat" where
  "app_rank k = (if k = app_keys ! 2 then 2 else if k = app_keys ! 1 then 1 else 0)"

definition app_spec ::
  "('c, 'u, 'de, 'x, 'w) sea_orm \<Rightarrow> 'c db_config \<Rightarrow> type_id \<Rightarrow> ('c, 'u, 'x, 'w) app_component \<Rightarrow> bool" where
  "app_spec so db k v \<longleftrightarrow>
     (k = app_keys ! 0 \<longrightarrow> v = DbComponent db) \<and>
     (k = app_keys ! 1 \<longrightarrow> v = RepositoryComponent (seaorm_repository so db)) \<and>
     (k = app_keys ! 2 \<longrightarrow> v = ServiceComponent (widget_service_of (seaorm_repository so db)))"

definition app_container_of ::
  "(service_expansion \<times> (('c, 'u, 'x, 'w) app_component arc list \<Rightarrow> ('c, 'u, 'x, 'w) app_component)) list \<Rightarrow>
   'c db_config \<Rightarrow> ('c, 'u, 'x, 'w) app_component container" where
  "app_container_of svcs db =
     service_registry app_rty svcs
       (register_instance (RConcrete ''DbConfig'') \<lparr>arc_id = 0, arc_val = DbComponent db\<rparr> container_new)"

lemma app_keys_nth [simp]:
  "app_keys ! 0 = RConcrete ''DbConfig''" "app_keys ! Suc 0 = RTraitObject (RDyn ''WidgetRepository'')"
  "app_keys ! 2 = RTraitObject (RDyn ''WidgetService'')"
  by (simp_all add: app_keys_def type_id_of_def trait_object_type_id_def)

lemma widget_get_calls:
  "se_get_calls widget_service_expansion = [GetTraitCall (TyTraitObject ''WidgetRepository'')]"
  "se_get_calls widget_repository_expansion = [GetCall (TyPath [(''DbConfig'', NoArgs)])]"
  by (simp_all add: widget_expansion_defs)

lemma service_registry_deps:
  assumes "\<And>e mk. (e, mk) \<in> set svcs \<Longrightarrow> generated_key r e = k \<Longrightarrow> generated_deps r e = ds"
    and "k \<in> generated_key r ` fst ` set svcs \<or> deps_of c k = ds"
  shows "deps_of (service_registry r svcs c) k = ds"
  using assms
proof (induction svcs arbitrary: c)
  case (Cons p svcs)
  obtain e mk where p: "p = (e, mk)" by (cases p)
  have "deps_of (service_registry r svcs (generated_register r mk e c)) k = ds"
  proof (rule Cons.IH)
    show "k \<in> generated_key r ` fst ` set svcs \<or> deps_of (generated_register r mk e c) k = ds"
    proof (cases "k = generated_key r e")
      case True
      then show ?thesis using gen.reg_key(4) [of r mk e c] Cons.prems(1) [of e mk] by (simp add: p)
    next
      case False
      then show ?thesis using Cons.prems(2) gen.reg_other(4) [OF False, of mk c] by (auto simp: p)
    qed
  qed (use Cons.prems(1) in auto)
  then show ?case by (simp add: p service_registry_def register_all_def)
qed (simp add: service_registry_def register_all_def)

lemma app_services_accepted:
  "set svcs = set (app_services so) \<Longrightarrow> (e, mk) \<in> set svcs \<Longrightarrow> accepted app_rty e"
  by (auto simp: app_services_def widget_accepted)

lemma app_services_keys:
  "set svcs = set (app_services so) \<Longrightarrow> generated_key app_rty ` fst ` set svcs = set (tl app_keys)"
  by (auto simp: app_services_def widget_keys app_keys_def)

lemma app_base_sound: "sound_base (register_instance (RConcrete ''DbConfig'') a container_new)"
  by (rule sound_base_instance) (simp_all add: di_wf)

lemma app_container_sound:
  assumes "set svcs = set (app_services so)"
  shows "sound_base (app_container_of svcs db)" "registered (app_container_of svcs db) = set app_keys"
proof -
  note acc = app_services_accepted [OF assms]
  show "sound_base (app_container_of svcs db)"
    unfolding app_container_of_def by (rule service_registry_sound(1) [OF acc app_base_sound])
  show "registered (app_container_of svcs db) = set app_keys"
    unfolding app_container_of_def
    by (rule trans, rule service_registry_sound(2) [OF acc app_base_sound])
       (auto simp: app_services_keys [OF assms] inst.reg_registered app_keys_def)
qed

lemma app_deps:
  assumes "set svcs = set (app_services so)"
  shows "deps_of (app_container_of svcs db) k =
     (if k = app_keys ! 2 then [app_keys ! 1] else if k = app_keys ! 1 then [app_keys ! 0] else [])"
  unfolding app_container_of_def
proof (rule service_registry_deps, goal_cases)
  case (1 e mk)
  then show ?case using assms
    by (auto simp: app_services_def widget_keys type_id_of_def trait_object_type_id_def)
next
  case 2
  show ?case
    unfolding app_services_keys [OF assms]
    by (auto simp: app_keys_def deps_of_def inst.reg_dependencies container_new_def type_id_of_def trait_object_type_id_def)
qed

lemma app_acyclic:
  assumes "set svcs = set (app_services so)"
  shows "acyclic (edges (app_container_of svcs db))" "closed_deps (app_container_of svcs db)"
proof -
  show "acyclic (edges (app_container_of svcs db))"
    by (rule acyclicI_order [where f = app_rank])
       (auto simp: edges_def app_deps [OF assms] app_rank_def split: if_splits)
  show "closed_deps (app_container_of svcs db)"
    by (auto simp: closed_deps_def app_deps [OF assms] app_container_sound(2) [OF assms] app_keys_def
        type_id_of_def trait_object_type_id_def split: if_splits)
qed

lemma app_container_right:
  assumes "set svcs = set (app_services so)"
  shows "right_factories (app_spec so db) (app_container_of svcs db) \<and>
         right_cells (app_spec so db) (runtime_of (app_container_of svcs db) n)"
  unfolding app_container_of_def
proof (rule right_service_registry, goal_cases)
  case 1
  show ?case by (rule right_register_instance [OF right_container_new])
                (simp_all add: app_spec_def type_id_of_def)
next
  case 2
  show ?case by (rule right_register_instance [OF right_container_new])
                (simp_all add: app_spec_def type_id_of_def)
next
  case (3 e mk as)
  then show ?case using assms
    by (auto simp: app_services_def widget_keys widget_get_calls app_spec_def type_id_of_def trait_object_type_id_def
        list_all2_Cons1 widget_repository_new_def widget_service_new_def)
qed

text \<open>The state in which the application serves: the service is there and is the right one.\<close>

definition serving ::
  "('c, 'u, 'de, 'x, 'w) sea_orm \<Rightarrow> 'c db_config \<Rightarrow> ('c, 'u, 'x, 'w) app_component application_context \<Rightarrow>
   ('c, 'u, 'x, 'w) app_component runtime \<Rightarrow> bool" where
  "serving so db ctx rt \<longleftrightarrow>
     (\<exists>a. ctx_get_trait ctx (RDyn ''WidgetService'') rt = (Val a, rt) \<and>
          arc_val a = ServiceComponent (widget_service_of (seaorm_repository so db)))"

lemma app_validates:
  assumes "set svcs = set (app_services so)" "set korder = set app_keys" "set sorder = set app_keys"
    and "app_container ctx = app_container_of svcs db"
  shows "\<exists>rt. ctx_validate korder sorder ctx (runtime_of (app_container ctx) n) = (Val (Inr ()), rt) \<and>
              serving so db ctx rt"
proof -
  let ?c = "app_container_of svcs db" and ?T = "RDyn ''WidgetService''"
  note sound = app_container_sound [OF assms(1), of db]
  have parts: "container_wf ?c" "typed_factories ?c"
    "\<forall>k a. hm_get (singletons ?c) k = Some (Some a) \<longrightarrow> any_type a = any_type_of k"
    using sound(1) by (simp_all add: sound_base_def)
  have ready: "ready ?c (runtime_of ?c n)" by (rule ready_runtime_of [OF parts(1)]) (use parts(3) in blast)
  have "fst (validate korder sorder ?c (runtime_of ?c n)) = Val (Inr ())"
    by (rule sound_base_validates [OF sound(1) app_acyclic [OF assms(1)]]) (simp add: sound(2) assms(2))
  then obtain rt where val: "validate korder sorder ?c (runtime_of ?c n) = (Val (Inr ()), rt)"
    by (metis prod.collapse)
  have order: "set sorder = registered ?c" by (simp add: sound(2) assms(3))
  have trait: "has_trait ?T ?c" by (simp add: access_registered sound(2) app_keys_def)
  from validated_get [OF parts(1,2) ready [unfolded ready_def, THEN conjunct2] ready [unfolded ready_def, THEN conjunct1]
      order val, of ?T] trait
  obtain a where a: "get_trait ?c ?T rt = (Val a, rt)" by blast
  note right = app_container_right [OF assms(1), of db n]
  have "right_cells (app_spec so db) rt" by (rule validate_right [OF right [THEN conjunct1] right [THEN conjunct2] val])
  then have "app_spec so db (trait_object_type_id ?T) (arc_val a)"
    by (rule get_trait_right [OF right [THEN conjunct1] _ a])
  then have "arc_val a = ServiceComponent (widget_service_of (seaorm_repository so db))"
    by (simp add: app_spec_def type_id_of_def trait_object_type_id_def)
  with a val show ?thesis by (auto simp: serving_def ctx_validate_def ctx_get_trait_def assms(4))
qed

definition app_registrations ::
  "(service_expansion \<times> (('c, 'u, 'x, 'w) app_component arc list \<Rightarrow> ('c, 'u, 'x, 'w) app_component)) list \<Rightarrow>
   (('c, 'u, 'x, 'w) app_component container \<Rightarrow> ('c, 'u, 'x, 'w) app_component container) list" where
  "app_registrations svcs = map (\<lambda>(e, new). generated_register app_rty new e) svcs"

lemma app_context_container:
  "app_container (ctx_register_all (app_registrations svcs)
     (ctx_register_instance (RConcrete ''DbConfig'') \<lparr>arc_id = 0, arc_val = DbComponent db\<rparr> (ctx_new env))) =
   app_container_of svcs db"
  by (simp add: ctx_register_all_def ctx_register_instance_def ctx_new_def app_container_of_def service_registry_def
      app_registrations_def case_prod_beta)

text \<open>A served request is a call of the repository.\<close>

lemma call_service_serving:
  assumes "serving so db ctx rt"
  shows "call_service ctx operation into rt w =
     (case operation (widget_service_of (seaorm_repository so db)) w of
        (r, w) \<Rightarrow> (Val (map_ok (\<lambda>b. AppJson (into b)) (map_err from_service_error r)), rt, w))"
  using assms by (auto simp: serving_def call_service_def)

lemma handler_status_Inl: "handler_status (Inl e) = fst (error_row e)"
  by (simp add: handler_status_def into_response_status)

text \<open>
  A result of the repository and the answer: its value as JSON, an error with one of the given
  statuses.
\<close>

definition answers :: "('b \<Rightarrow> 'a) \<Rightarrow> nat set \<Rightarrow> 'x service_error + 'b \<Rightarrow> 'x api_error + 'a app_json \<Rightarrow> bool" where
  "answers into statuses res r \<longleftrightarrow>
     (case res of Inr b \<Rightarrow> r = Inr (AppJson (into b)) | Inl _ \<Rightarrow> handler_status r \<in> statuses)"

lemma answersI:
  "(\<And>e. res = Inl e \<Longrightarrow> fst (error_row (from_service_error e)) \<in> S) \<Longrightarrow>
   answers into S res (map_ok (\<lambda>b. AppJson (into b)) (map_err from_service_error res))"
  by (cases res) (simp_all add: answers_def handler_status_Inl)

lemmas service_of_seaorm = widget_service_of_def seaorm_repository_def

lemma call_service_answers:
  assumes "serving so db ctx rt" "operation (widget_service_of (seaorm_repository so db)) w = (res, w')"
    and "\<And>e. res = Inl e \<Longrightarrow> fst (error_row (from_service_error e)) \<in> S"
  shows "\<exists>r. call_service ctx operation into rt w = (Val r, rt, w') \<and> answers into S res r"
  using call_service_serving [OF assms(1), of operation into w] answersI [OF assms(3)] by (simp add: assms(2))

lemma create_serving:
  assumes "serving so db ctx rt"
  shows "\<exists>r. create_widget_handler fmt ctx name rt w = (Val r, rt, snd (seaorm_create so db name w)) \<and>
             answers (widget_response_from fmt) {500} (fst (seaorm_create so db name w)) r"
  unfolding create_widget_handler_def
  by (rule call_service_answers [OF assms], simp add: service_of_seaorm, drule seaorm.error_statuses(1), simp)

lemma get_serving:
  assumes "serving so db ctx rt"
  shows "case id_v7_from_str parse_str wid of
       Inl _ \<Rightarrow> get_widget_handler parse_str fmt ctx wid rt w = (Val (Inl invalid_widget_id), rt, w)
     | Inr i \<Rightarrow> \<exists>r. get_widget_handler parse_str fmt ctx wid rt w = (Val r, rt, snd (seaorm_get so db i w)) \<and>
                    answers (widget_response_from fmt) {404, 500} (fst (seaorm_get so db i w)) r"
proof -
  have "\<exists>r. call_service ctx (\<lambda>service. ws_get service i) (widget_response_from fmt) rt w =
      (Val r, rt, snd (seaorm_get so db i w)) \<and> answers (widget_response_from fmt) {404, 500} (fst (seaorm_get so db i w)) r" for i
    by (rule call_service_answers [OF assms], simp add: service_of_seaorm, drule seaorm.error_statuses(2), simp)
  then show ?thesis by (simp add: get_widget_handler_def split: sum.split)
qed

lemma update_serving:
  assumes "serving so db ctx rt"
  shows "case id_v7_from_str parse_str wid of
       Inl _ \<Rightarrow> update_widget_handler parse_str fmt ctx wid name rt w = (Val (Inl invalid_widget_id), rt, w)
     | Inr i \<Rightarrow> \<exists>r. update_widget_handler parse_str fmt ctx wid name rt w =
                      (Val r, rt, snd (seaorm_update so db \<lparr>wd_id = i, wd_name = name\<rparr> w)) \<and>
                    answers (widget_response_from fmt) {404, 500}
                      (fst (seaorm_update so db \<lparr>wd_id = i, wd_name = name\<rparr> w)) r"
proof -
  have "\<exists>r. call_service ctx (\<lambda>service. ws_update service wd) (widget_response_from fmt) rt w =
      (Val r, rt, snd (seaorm_update so db wd w)) \<and>
      answers (widget_response_from fmt) {404, 500} (fst (seaorm_update so db wd w)) r" for wd
    by (rule call_service_answers [OF assms], simp add: service_of_seaorm, drule seaorm.error_statuses(4), simp)
  then show ?thesis by (simp add: update_widget_handler_def Let_def split: sum.split)
qed

lemma list_serving:
  assumes "serving so db ctx rt"
  shows "\<exists>r. list_widgets_admin_handler fmt ctx sc rt w = (Val r, rt, snd (seaorm_list so db w)) \<and>
             answers (map (widget_response_from fmt)) {500} (fst (seaorm_list so db w)) r"
  unfolding list_widgets_admin_handler_def
  by (rule call_service_answers [OF assms], simp add: service_of_seaorm, drule seaorm.error_statuses(3), simp)

lemma invalid_widget_id_status:
  "handler_status (Inl invalid_widget_id :: 'x api_error + 'a app_json) = 400"
  by (simp add: handler_status_Inl invalid_widget_id_def from_service_error_def)

lemma not_Ok_unit: "r \<noteq> Inr () \<longleftrightarrow> (\<exists>e. r = Inl e)"
  by (cases r) simp_all

lemma build_context_cases:
  fixes so :: "('c, 'u, 'de, 'x, 'w) sea_orm"
  assumes "set svcs = set (app_services so)" "set korder = set app_keys" "set sorder = set app_keys"
    and "env = os_environment_get (os_environment_new dotenv process)"
    and "result = build_context dotenv db_connect migrate (app_registrations svcs) korder sorder process w"
  shows "case env ''DATABASE_URL'' of
      None \<Rightarrow> result = (Val (Inl DatabaseUrlNotSet), w)
    | Some url \<Rightarrow>
        (case connect db_connect url env of
           Inl e \<Rightarrow> result = (Val (Inl (NotConnected e)), w)
         | Inr db \<Rightarrow>
             (case migrate (db_connection db) w of
                (Inl e, w') \<Rightarrow> result = (Val (Inl (NotMigrated e)), w')
              | (Inr _, w') \<Rightarrow> \<exists>ctx rt. result = (Val (Inr (ctx, rt)), w') \<and> serving so db ctx rt \<and>
                                           ctx_environment ctx = env))"
proof -
  note unfold = assms(5) build_context_def assms(4) [symmetric]
  have ok: "\<exists>ctx rt. result = (Val (Inr (ctx, rt)), w') \<and> serving so db ctx rt \<and> ctx_environment ctx = env"
    if "env ''DATABASE_URL'' = Some url" "connect db_connect url env = Inr db" "migrate (db_connection db) w = (Inr u, w')"
    for url db u w'
  proof -
    let ?ctx = "ctx_register_all (app_registrations svcs)
      (ctx_register_instance (RConcrete ''DbConfig'') \<lparr>arc_id = 0, arc_val = DbComponent db\<rparr> (ctx_new env))"
    obtain rt where "ctx_validate korder sorder ?ctx (runtime_of (app_container ?ctx) 1) = (Val (Inr ()), rt)" "serving so db ?ctx rt"
      using app_validates [OF assms(1-3) app_context_container] by blast
    moreover have "ctx_environment ?ctx = env"
      by (simp add: ctx_environment_def ctx_register_all_def ctx_register_instance_def ctx_new_def)
    ultimately show ?thesis using that by (simp add: unfold Let_def)
  qed
  show ?thesis
    using ok by (auto simp: unfold Let_def split: option.splits sum.splits prod.splits)
qed

section \<open>Properties\<close>

text \<open>C4.
  The start-up of the example application, whatever order the linker gave the registrations and
  the maps their keys: \<open>build_context\<close> fails for want of \<open>DATABASE_URL\<close>, of a connection or of the
  migrations, with that error; otherwise it returns a context whose \<open>WidgetService\<close> resolves to the
  service over the repository on the database that was opened. It never panics at its \<open>expect\<close>.\<close>
theorem build_context_never_panics:
  fixes so :: "('c, 'u, 'de, 'x, 'w) sea_orm"
  assumes "set svcs = set (app_services so)" "set korder = set app_keys" "set sorder = set app_keys"
    and "env = os_environment_get (os_environment_new dotenv process)"
    and "result = build_context dotenv db_connect migrate (app_registrations svcs) korder sorder process w"
  shows "case env ''DATABASE_URL'' of
      None \<Rightarrow> result = (Val (Inl DatabaseUrlNotSet), w)
    | Some url \<Rightarrow>
        (case connect db_connect url env of
           Inl e \<Rightarrow> result = (Val (Inl (NotConnected e)), w)
         | Inr db \<Rightarrow>
             (case migrate (db_connection db) w of
                (Inl e, w') \<Rightarrow> result = (Val (Inl (NotMigrated e)), w')
              | (Inr _, w') \<Rightarrow> \<exists>ctx rt. result = (Val (Inr (ctx, rt)), w') \<and> serving so db ctx rt \<and>
                                           ctx_environment ctx = env))"
  using assms by (rule build_context_cases)

definition app_process :: process_vars where
  "app_process = [''DATABASE_URL'' \<mapsto> Unicode ''postgres://localhost/widgets'']"

definition no_dotenv :: "process_vars \<Rightarrow> string + process_vars" where
  "no_dotenv p = Inl ''not found''"

definition app_connect :: "connect_options \<Rightarrow> string + unit" where
  "app_connect opt = Inr ()"

definition app_migrate :: "unit \<Rightarrow> 'w \<Rightarrow> (string + unit) \<times> 'w" where
  "app_migrate c w = (Inr (), w)"

lemma app_process_url:
  "os_environment_get (os_environment_new no_dotenv app_process) ''DATABASE_URL'' = Some ''postgres://localhost/widgets''"
  by (simp add: os_environment_get_def os_environment_new_def no_dotenv_def env_var_def app_process_def)

lemma app_connects: "\<exists>db. connect app_connect url env = Inr db"
  by (simp add: connect_def from_url_def app_connect_def Let_def)

theorem build_context_never_panics_witness:
  "\<exists>ctx rt db. build_context no_dotenv app_connect app_migrate (app_registrations (rev (app_services memory_table))) app_keys
      (rev app_keys) app_process (9, []) = (Val (Inr (ctx, rt)), (9, [])) \<and> serving memory_table db ctx rt"
proof -
  obtain db where "connect app_connect ''postgres://localhost/widgets''
      (os_environment_get (os_environment_new no_dotenv app_process)) = Inr db"
    using app_connects by blast
  with build_context_never_panics [OF set_rev refl set_rev refl refl, where so = memory_table and dotenv = no_dotenv
      and process = app_process and db_connect = app_connect and migrate = app_migrate and w = "(9, [])"]
  show ?thesis by (auto simp: app_process_url app_migrate_def)
qed




end
