(* ===== verification/Example_Server.thy ===== *)
theory Example_Server
  imports Example_Security Launch_Shutdown "HOL-Library.Multiset"
begin

text \<open>
  The example application as it is served: its routes as services (\<open>rest-api/src/lib.rs\<close>, with the
  extraction and the conversion that \<open>axum\<close> does around a handler) and \<open>main\<close>
  (\<open>launcher/src/main.rs\<close>), which starts everything. The state of the server is extended by that of
  the container and the outside world, in which the database lives.
\<close>

section \<open>Handlers as services\<close>

record ('mp, 'c, 'u, 'x, 'o) app_world = "'mp http_world" +
  aw_runtime :: "('c, 'u, 'x, 'o) app_component runtime"
  aw_outside :: 'o

record create_widget_request =
  cwr_name :: string

record update_widget_request =
  uwr_name :: string

text \<open>
  What the routes use of \<open>axum\<close> and \<open>serde\<close>: the extractors \<open>Path\<close> and \<open>Json\<close>, and the responses of
  \<open>Json\<close> and of text.
\<close>

record ('e, 'x) web_crates =
  wc_path :: "'e request \<Rightarrow> rejection + string"
  wc_create_json :: "'e request \<Rightarrow> rejection + create_widget_request"
  wc_update_json :: "'e request \<Rightarrow> rejection + update_widget_request"
  wc_widget_json :: "widget_response \<Rightarrow> 'x response"
  wc_widgets_json :: "widget_response list \<Rightarrow> 'x response"
  wc_text :: "string \<Rightarrow> 'x response"

definition log_all :: "log_event list \<Rightarrow> ('mp, 'z) server_world_scheme \<Rightarrow> ('mp, 'z) server_world_scheme" where
  "log_all evs w = fold log_line evs w"

definition error_response_of :: "'x api_error \<Rightarrow> ('mp, 'z) server_world_scheme \<Rightarrow> 'x response \<times> ('mp, 'z) server_world_scheme" where
  "error_response_of e w = (case into_response e of (logs, r) \<Rightarrow> (r, log_all logs w))"

definition replied :: "'x response \<times> 'w \<Rightarrow> ('x, 'err) reply \<times> 'w" where
  "replied p = (case p of (r, w) \<Rightarrow> (Reply r, w))"

text \<open>
  \<open>axum\<close> runs the extractors from left to right and answers with the first rejection; then it runs
  the handler and converts the result. A panic unwinds; a handler that blocks never completes.
\<close>

definition extracted ::
  "log_event list \<times> ('x api_error + 't) \<Rightarrow> ('t \<Rightarrow> ('mp, 'z) server_world_scheme \<Rightarrow> ('x, 'err) reply \<times> ('mp, 'z) server_world_scheme) \<Rightarrow>
   ('mp, 'z) server_world_scheme \<Rightarrow> ('x, 'err) reply \<times> ('mp, 'z) server_world_scheme" where
  "extracted extraction rest w =
     (case extraction of
        (logs, Inl e) \<Rightarrow> replied (error_response_of e (log_all logs w))
      | (logs, Inr t) \<Rightarrow> rest t (log_all logs w))"

definition run_handler ::
  "('a \<Rightarrow> 'x response) \<Rightarrow> ('c, 'u, 'x, 'o, 'a) handler \<Rightarrow> ('mp, 'c, 'u, 'x, 'o) app_world \<Rightarrow>
   ('x, 'err) reply \<times> ('mp, 'c, 'u, 'x, 'o) app_world" where
  "run_handler json_response h w =
     (case h (aw_runtime w) (aw_outside w) of
        (result, rt, out) \<Rightarrow>
          let w = w\<lparr>aw_runtime := rt, aw_outside := out\<rparr>
          in case result of
               Val (Inr a) \<Rightarrow> (Reply (app_json_into_response json_response a), w)
             | Val (Inl e) \<Rightarrow> replied (error_response_of e w)
             | Panicked m \<Rightarrow> (Panics (PanicString m), w)
             | Deadlock \<Rightarrow> (Dropped, w))"

section \<open>The routes\<close>

type_synonym ('e, 'err, 'mp, 'c, 'u, 'x, 'o) app_service = "('e, 'x, 'err, ('mp, 'c, 'u, 'x, 'o) app_world) service"

definition health_route :: "('e, 'x) web_crates \<Rightarrow> ('e, 'err, 'mp, 'c, 'u, 'x, 'o) app_service" where
  "health_route wc req w = (Reply (wc_text wc health_handler), w)"

definition create_widget_route ::
  "('e, 'x) web_crates \<Rightarrow> ('u \<Rightarrow> string) \<Rightarrow> ('c, 'u, 'x, 'o) app_component application_context \<Rightarrow>
   ('e, 'err, 'mp, 'c, 'u, 'x, 'o) app_service" where
  "create_widget_route wc fmt ctx req w =
     extracted (app_json_from_request (wc_create_json wc) req)
       (\<lambda>body. case body of AppJson body \<Rightarrow> run_handler (wc_widget_json wc) (create_widget_handler fmt ctx (cwr_name body))) w"

definition get_widget_route ::
  "('e, 'x) web_crates \<Rightarrow> (string \<Rightarrow> 'pe + 'u) \<Rightarrow> ('u \<Rightarrow> string) \<Rightarrow> ('c, 'u, 'x, 'o) app_component application_context \<Rightarrow>
   ('e, 'err, 'mp, 'c, 'u, 'x, 'o) app_service" where
  "get_widget_route wc parse_str fmt ctx req w =
     extracted (app_path_from_request_parts (wc_path wc) req)
       (\<lambda>wid. case wid of AppPath wid \<Rightarrow> run_handler (wc_widget_json wc) (get_widget_handler parse_str fmt ctx wid)) w"

definition update_widget_route ::
  "('e, 'x) web_crates \<Rightarrow> (string \<Rightarrow> 'pe + 'u) \<Rightarrow> ('u \<Rightarrow> string) \<Rightarrow> ('c, 'u, 'x, 'o) app_component application_context \<Rightarrow>
   ('e, 'err, 'mp, 'c, 'u, 'x, 'o) app_service" where
  "update_widget_route wc parse_str fmt ctx req w =
     extracted (app_path_from_request_parts (wc_path wc) req)
       (\<lambda>wid. case wid of AppPath wid \<Rightarrow>
          extracted (app_json_from_request (wc_update_json wc) req)
            (\<lambda>body. case body of AppJson body \<Rightarrow>
               run_handler (wc_widget_json wc) (update_widget_handler parse_str fmt ctx wid (uwr_name body)))) w"

definition list_widgets_admin_route ::
  "('e, 'x) web_crates \<Rightarrow> ('u \<Rightarrow> string) \<Rightarrow> ('c, 'u, 'x, 'o) app_component application_context \<Rightarrow>
   ('e, 'err, 'mp, 'c, 'u, 'x, 'o) app_service" where
  "list_widgets_admin_route wc fmt ctx req w =
     extracted ([], app_security_context_from_request_parts req)
       (\<lambda>sc. run_handler (wc_widgets_json wc) (list_widgets_admin_handler fmt ctx sc)) w"

text \<open>The paths and methods of the route attributes.\<close>

definition widget_routes ::
  "('e, 'x) web_crates \<Rightarrow> (string \<Rightarrow> 'pe + 'u) \<Rightarrow> ('u \<Rightarrow> string) \<Rightarrow> ('c, 'u, 'x, 'o) app_component application_context \<Rightarrow>
   (string \<times> string \<times> ('e, 'err, 'mp, 'c, 'u, 'x, 'o) app_service) list" where
  "widget_routes wc parse_str fmt ctx =
     [(''/health'', ''GET'', health_route wc),
      (''/widgets'', ''POST'', create_widget_route wc fmt ctx),
      (''/widgets/{id}'', ''GET'', get_widget_route wc parse_str fmt ctx),
      (''/widgets/{id}'', ''PUT'', update_widget_route wc parse_str fmt ctx),
      (''/admin/widgets'', ''GET'', list_widgets_admin_route wc fmt ctx)]"

definition widget_endpoints :: "(string \<times> string) list" where
  "widget_endpoints =
     [(''/health'', ''GET''), (''/widgets'', ''POST''), (''/widgets/{id}'', ''GET''), (''/widgets/{id}'', ''PUT''), (''/admin/widgets'', ''GET'')]"

section \<open>\<open>main\<close>\<close>

text \<open>
  How \<open>main\<close> ends: the error of \<open>build_context\<close>, a panic before the server runs, or what \<open>run\<close>
  ends with. \<open>serve\<close> stands for \<open>axum::serve\<close> with the application, in the state it starts from.
\<close>

datatype 'me main_outcome = StartupFailed "'me context_error" | StartupPanicked string | StartupBlocked | Ran run_outcome

definition app_main ::
  "(process_vars \<Rightarrow> 'de2 + process_vars) \<Rightarrow> (connect_options \<Rightarrow> string + 'c) \<Rightarrow> ('c \<Rightarrow> 'o \<Rightarrow> ('me + unit) \<times> 'o) \<Rightarrow>
   (('c, 'u, 'x, 'o) app_component container \<Rightarrow> ('c, 'u, 'x, 'o) app_component container) list \<Rightarrow>
   type_id list \<Rightarrow> type_id list \<Rightarrow> process_vars \<Rightarrow>
   ('r, 'ie) matchit \<Rightarrow> ('ek, 'dk, app_claims) jwt_crate \<Rightarrow>
   (app_claims, 'x, 'err, ('mp, 'c, 'u, 'x, 'o) app_world) tower_http \<Rightarrow> (('mp, 'c, 'u, 'x, 'o) app_world \<Rightarrow> string) \<Rightarrow>
   (string \<Rightarrow> header_value option) \<Rightarrow> 'f \<Rightarrow> string \<Rightarrow> 'fl otel_crates \<Rightarrow> 'f sdk \<Rightarrow> (16 word \<Rightarrow> string option) \<Rightarrow>
   (('c, 'u, 'x, 'o) app_component runtime \<Rightarrow> 'o \<Rightarrow> (app_claims, 'x, 'err, ('mp, 'c, 'u, 'x, 'o) app_world) router \<Rightarrow> string option) \<Rightarrow>
   (app_claims, 'x, 'err, ('mp, 'c, 'u, 'x, 'o) app_world, 'or) axum_crates \<Rightarrow> ('or \<Rightarrow> 'mr \<Rightarrow> 'or option) \<Rightarrow>
   (('c, 'u, 'x, 'o) app_component application_context \<Rightarrow> (unit \<Rightarrow> 'mr) list) \<Rightarrow>
   ('reg \<Rightarrow> ('mp, 'c, 'u, 'x, 'o) app_world \<Rightarrow> string + string) \<Rightarrow> string \<Rightarrow> 'reg \<Rightarrow> 'f otel_world \<Rightarrow> 'o \<Rightarrow>
   'me main_outcome \<times> 'f otel_world \<times> 'o" where
  "app_main dotenv db_connect migrate registrations korder sorder process mi jw th trace_id parse one pkg_version
     cr sdk bind serve ax routes route_registrations encode format_type registry ow w =
     (case build_context dotenv db_connect migrate registrations korder sorder process w of
        (Val (Inl e), w) \<Rightarrow> (StartupFailed e, ow, w)
      | (Panicked m, w) \<Rightarrow> (StartupPanicked m, ow, w)
      | (Deadlock, w) \<Rightarrow> (StartupBlocked, ow, w)
      | (Val (Inr (ctx, rt)), w) \<Rightarrow>
          let jwt_config = demo_jwt_config
          in case build_authorization mi jwt_config of
               Inl m \<Rightarrow> (StartupPanicked m, ow, w)
             | Inr authorization \<Rightarrow>
                 let config = app_bootstrap_config one pkg_version;
                     layers = app_layers th trace_id parse mi jw config (Some authorization) None;
                     collected = collect_routes (ax_openapi_router_new ax) routes (route_registrations ctx)
                 in case run cr sdk bind (serve rt w) ax layers encode format_type collected
                           (ax_openapi_router_new ax) config None registry ow of
                      (out, _, ow) \<Rightarrow> (Ran out, ow, w))"

text \<open>With observability off there is nothing to install and nothing to shut down.\<close>

lemma app_config_simps:
  "bc_observability (app_bootstrap_config one v) =
     \<lparr>oc_enabled = False, oc_protocol = Grpc, oc_service_name = ''stano-example-app'',
      oc_service_version = v, oc_resource_attributes = [], oc_trace_sample_ratio = one,
      oc_log_filter = ''info'', oc_metrics_enabled = False, oc_prometheus_enabled = False,
      oc_http_logging_enabled = True, oc_process_metrics_enabled = False\<rparr>"
  "bc_port (app_bootstrap_config one v) = 8080"
  "cors_layer parse (app_bootstrap_config one v) = cors_permissive"
  by (simp_all add: app_bootstrap_config_def cors_layer_def)

definition no_providers :: "'f otel_guard" where
  "no_providers = \<lparr>og_tracer_provider = None, og_meter_provider = None, og_logger_provider = None, og_prometheus_registry = False\<rparr>"

lemma app_observability:
  "init_observability cr (bc_observability (app_bootstrap_config one v)) =
     (Inr no_providers, [TryInitSubscriber (unwrap_or (cr_filter_new cr ''info'') (cr_try_filter cr ''info'')) False])"
  "install_globals [TryInitSubscriber fl on] ow = ow"
  by (simp_all add: init_observability_def install_globals_def no_providers_def app_config_simps Let_def)

lemma no_providers_shutdown:
  "otel_guard_shutdown sdk no_providers ow = (Inr (), ow)" "otel_guard_drop sdk no_providers ow = ow"
  "prometheus_registry no_providers = False"
  by (simp_all add: otel_guard_shutdown_def otel_guard_drop_def provider_steps_def provider_step_def drop_step_def
      no_providers_def prometheus_registry_def)

lemma app_runs:
  assumes "build_app ax layers None collected extra (app_bootstrap_config one v) = Some app"
  shows "run cr sdk bind serve ax layers encode ft collected extra (app_bootstrap_config one v) None registry ow =
       (Returned (case bind 8080 of Some e \<Rightarrow> Inl e | None \<Rightarrow> (case serve app of Some e \<Rightarrow> Inl e | None \<Rightarrow> Inr ())), registry, ow)"
  by (simp add: run_def assms app_observability no_providers_shutdown app_config_simps(2) Let_def split: option.splits)

text \<open>The routes of the application do not overlap, with one another or with Swagger UI.\<close>

lemma widget_route_keys: "route_keys (widget_routes wc parse_str fmt ctx) = widget_endpoints"
  by (simp add: route_keys_def widget_routes_def widget_endpoints_def)

lemma widget_endpoints_distinct: "distinct widget_endpoints"
  by (simp add: widget_endpoints_def)

lemma widget_endpoints_compatible:
  "\<forall>k \<in> set widget_endpoints. \<forall>k' \<in> set widget_endpoints. k \<noteq> k' \<longrightarrow> routes_compatible k k'"
proof -
  have "list_all (\<lambda>k. list_all (\<lambda>k'. k = k' \<or> routes_compatible k k') widget_endpoints) widget_endpoints"
    by code_simp
  then show ?thesis by (auto simp: list_all_iff)
qed

lemma different_tops_compatible:
  assumes "split_on (CHR ''/'') (fst k) = [] # a # as" "split_on (CHR ''/'') (fst k') = [] # b # bs"
    and "a \<noteq> b" "literal_segment a" "literal_segment b"
  shows "routes_compatible k k'"
proof -
  have "fst k \<noteq> fst k'" using assms(1-3) by force
  then show ?thesis using assms by (simp add: routes_compatible_def catch_all_def strip_prefix_def)
qed

lemma widget_endpoints_beside_swagger:
  assumes "k \<in> set widget_endpoints" "split_on (CHR ''/'') (fst k') = [] # seg # rest" "seg \<in> {''swagger'', ''api-docs''}"
  shows "routes_compatible k k'"
proof -
  have "list_all (\<lambda>k. case split_on (CHR ''/'') (fst k) of
      s # t # _ \<Rightarrow> s = [] \<and> literal_segment t \<and> t \<noteq> ''swagger'' \<and> t \<noteq> ''api-docs'' | _ \<Rightarrow> False) widget_endpoints"
    by code_simp
  then have "case split_on (CHR ''/'') (fst k) of
      s # t # _ \<Rightarrow> s = [] \<and> literal_segment t \<and> t \<noteq> ''swagger'' \<and> t \<noteq> ''api-docs'' | _ \<Rightarrow> False"
    using assms(1) unfolding list_all_iff by (rule bspec)
  then obtain a as where "split_on (CHR ''/'') (fst k) = [] # a # as" "literal_segment a" "a \<noteq> ''swagger''" "a \<noteq> ''api-docs''"
    by (cases "split_on (CHR ''/'') (fst k)"; cases "tl (split_on (CHR ''/'') (fst k))") auto
  then show ?thesis
    using assms(3) by (auto intro: different_tops_compatible [OF _ assms(2)] simp: literal_segment_def)
qed

lemma permuted_singletons:
  assumes "mset (map f xs) = mset (map (\<lambda>k. {k}) ys)"
  shows "\<exists>ks. map f xs = map (\<lambda>k. {k}) ks \<and> mset ks = mset ys"
proof -
  let ?ks = "map (\<lambda>x. the_elem (f x)) xs"
  have "f x = {the_elem (f x)}" if "x \<in> set xs" for x
  proof -
    have "f x \<in> set_mset (mset (map f xs))" using that by simp
    then obtain k where "f x = {k}" unfolding assms by auto
    then show ?thesis by simp
  qed
  then have "map f xs = map (\<lambda>k. {k}) ?ks" by (simp add: comp_def)
  moreover have "mset ?ks = image_mset the_elem (mset (map f xs))" by (simp add: image_mset.compositionality comp_def)
  then have "mset ?ks = mset ys" unfolding assms by (simp add: image_mset.compositionality comp_def)
  ultimately show ?thesis by blast
qed

lemma app_assembles:
  fixes regs :: "(unit \<Rightarrow> 'mr) list"
  assumes "routing_behaviour ax routes plain keys keys_of"
    and "mset (map (\<lambda>reg. keys_of (reg ())) regs) = mset (map (\<lambda>k. {k}) widget_endpoints)"
  shows "\<exists>app. build_app ax layers None (collect_routes (ax_openapi_router_new ax) routes regs) (ax_openapi_router_new ax)
     (app_bootstrap_config one v) = Some app"
proof -
  let ?new = "ax_openapi_router_new ax" and ?W = widget_endpoints
  obtain ks where ks: "map (\<lambda>reg. keys_of (reg ())) regs = map (\<lambda>k. {k}) ks" "mset ks = mset ?W"
    using permuted_singletons [OF assms(2)] by blast
  have W: "distinct ks" "set ks = set ?W"
    using widget_endpoints_distinct ks(2) mset_eq_imp_distinct_iff mset_eq_setD by blast+
  obtain r where r: "collect_routes ?new routes regs = Some r" "plain r" "keys r = set ?W"
    using collect_routes_succeeds [OF assms(1) ks(1) W(1)] widget_endpoints_compatible unfolding W(2) by blast
  have new: "plain ?new" "keys ?new = {}"
    using assms(1) by (simp_all add: routing_behaviour_def)
  have merge: "\<exists>c. ax_openapi_router_merge ax a b = Some c \<and> plain c \<and> keys c = keys a \<union> keys b"
    if "plain a" "plain b" "\<forall>k \<in> keys a. \<forall>k' \<in> keys b. routes_compatible k k'" for a b
    using assms(1) that unfolding routing_behaviour_def by blast
  obtain r1 where r1: "ax_openapi_router_merge ax ?new r = Some r1" "plain r1" "keys r1 = set ?W"
    using merge [OF new(1) r(2)] new(2) r(3) by auto
  obtain r2 where r2: "ax_openapi_router_merge ax r1 ?new = Some r2" "plain r2" "keys r2 = set ?W"
    using merge [OF r1(2) new(1)] new(2) r1(3) by auto
  have "\<exists>c. ax_merge ax (fst (ax_split_for_parts ax r2)) (ax_swagger_ui ax doc) = Some c" for doc
  proof -
    have "\<forall>k' \<in> set (route_keys (rt_routes (ax_swagger_ui ax doc))).
        \<exists>seg rest. split_on (CHR ''/'') (fst k') = [] # seg # rest \<and> seg \<in> {''swagger'', ''api-docs''}"
      using assms(1) unfolding routing_behaviour_def by blast
    then have "\<forall>k \<in> keys r2. \<forall>k' \<in> set (route_keys (rt_routes (ax_swagger_ui ax doc))). routes_compatible k k'"
      unfolding r2(3) using widget_endpoints_beside_swagger by blast
    with r2(2) assms(1) show ?thesis unfolding routing_behaviour_def by blast
  qed
  moreover obtain router doc where parts: "ax_split_for_parts ax r2 = (router, doc)" by (metis prod.exhaust)
  ultimately obtain app where "ax_merge ax router (ax_swagger_ui ax (register_bearer_auth_scheme doc)) = Some app"
    by (metis fst_conv)
  then show ?thesis
    by (simp add: build_app_def merged_routes_def r(1) r1(1) r2(1) parts app_config_simps Let_def)
qed

text \<open>A request without credentials is rejected except on the public paths.\<close>

lemma no_token_unauthorized:
  assumes "al_cookie_name layer = None" "\<And>m path. select_effect mi (al_check layer) m path = app_effect path"
    and "header_get h ''authorization'' = None" "\<not> public_path path"
  shows "\<exists>sc'. check mi jw (al_check layer) meth path (extract_token h (al_cookie_name layer)) sc w = (Unauthorized, sc', w)"
  using assms by (simp add: check_def extract_nothing app_effect_def decode_token_def)

section \<open>The routes over a serving container\<close>

definition unchanged :: "('mp, 'c, 'u, 'x, 'o) app_world \<Rightarrow> ('mp, 'c, 'u, 'x, 'o) app_world \<Rightarrow> bool" where
  "unchanged w w' \<longleftrightarrow> aw_runtime w' = aw_runtime w \<and> aw_outside w' = aw_outside w"

lemma log_all_unchanged: "unchanged w (log_all evs w)"
proof (induction evs arbitrary: w)
  case (Cons ev evs)
  show ?case using Cons.IH [of "log_line ev w"] by (simp add: log_all_def unchanged_def log_line_def)
qed (simp add: log_all_def unchanged_def)

lemma error_response_of_simps [simp]:
  "rs_status (fst (error_response_of e w)) = fst (error_row e)"
  "unchanged w (snd (error_response_of e w))"
  "aw_runtime (snd (error_response_of e w)) = aw_runtime w" "aw_outside (snd (error_response_of e w)) = aw_outside w"
  using log_all_unchanged [of w]
  by (simp_all add: error_response_of_def unchanged_def case_prod_beta into_response_status)

lemma replied_eq: "replied p = (Reply (fst p), snd p)"
  by (simp add: replied_def split: prod.split)

lemma extracted_Inr: "extracted ([], Inr t) rest w = rest t w"
  by (simp add: extracted_def log_all_def)

lemma run_service_handler:
  assumes "serving so db ctx (aw_runtime w)"
  shows "run_handler json_response (call_service ctx operation into) w =
     (case operation (widget_service_of (seaorm_repository so db)) (aw_outside w) of
        (Inr b, out) \<Rightarrow> (Reply (json_response (into b)), w\<lparr>aw_outside := out\<rparr>)
      | (Inl e, out) \<Rightarrow> replied (error_response_of (from_service_error e) (w\<lparr>aw_outside := out\<rparr>)))"
  by (simp add: run_handler_def call_service_serving [OF assms] Let_def split: prod.splits sum.splits)

lemma handler_funs:
  "create_widget_handler fmt ctx name = call_service ctx (\<lambda>service. ws_create service name) (widget_response_from fmt)"
  "id_v7_from_str parse_str wid = Inr i \<Longrightarrow>
     get_widget_handler parse_str fmt ctx wid = call_service ctx (\<lambda>service. ws_get service i) (widget_response_from fmt)"
  "id_v7_from_str parse_str wid = Inr i \<Longrightarrow>
     update_widget_handler parse_str fmt ctx wid name =
       call_service ctx (\<lambda>service. ws_update service \<lparr>wd_id = i, wd_name = name\<rparr>) (widget_response_from fmt)"
  "list_widgets_admin_handler fmt ctx sc = call_service ctx ws_list (map (widget_response_from fmt))"
  by (intro ext; simp add: create_widget_handler_def get_widget_handler_def update_widget_handler_def
        list_widgets_admin_handler_def Let_def)+

lemma bad_id_reply:
  assumes "id_v7_from_str parse_str wid = Inl e"
  shows "run_handler json_response (get_widget_handler parse_str fmt ctx wid) w = replied (error_response_of invalid_widget_id w)"
    "run_handler json_response (update_widget_handler parse_str fmt ctx wid name) w = replied (error_response_of invalid_widget_id w)"
  using assms by (simp_all add: run_handler_def get_widget_handler_def update_widget_handler_def)

lemma invalid_id_row: "fst (error_row invalid_widget_id) = 400"
  by (simp add: invalid_widget_id_def from_service_error_def)

lemma not_found_row: "fst (error_row (from_service_error SE_NotFound)) = 404"
  by (simp add: from_service_error_def)

lemma request_extracted:
  "wc_path wc req = Inr wid \<Longrightarrow> app_path_from_request_parts (wc_path wc) req = ([], Inr (AppPath wid))"
  "wc_create_json wc req = Inr b \<Longrightarrow> app_json_from_request (wc_create_json wc) req = ([], Inr (AppJson b))"
  "wc_update_json wc req = Inr b' \<Longrightarrow> app_json_from_request (wc_update_json wc) req = ([], Inr (AppJson b'))"
  by (rule ex_path.extract_value ex_json.extract_value, assumption)+

lemma get_route_refines:
  assumes "serving so db ctx (aw_runtime w)" "table_behaviour so (db_connection db) rows up" "up (aw_outside w)"
    and "wc_path wc req = Inr wid"
  shows "\<exists>r w'. get_widget_route wc parse_str fmt ctx req w = (Reply r, w') \<and> unchanged w w' \<and>
     (case parse_str wid of
        Inl _ \<Rightarrow> rs_status r = 400
      | Inr u \<Rightarrow> (case rows (aw_outside w) u of
          None \<Rightarrow> rs_status r = 404
        | Some n \<Rightarrow> r = wc_widget_json wc \<lparr>wresp_id = fmt u, wresp_name = n\<rparr>))"
proof (cases "parse_str wid")
  case (Inl e)
  then have "id_v7_from_str parse_str wid = Inl e" by (simp add: replied_eq id_v7_from_str_def)
  then show ?thesis using Inl
    by (auto simp: replied_eq get_widget_route_def request_extracted(1) [OF assms(4)] extracted_Inr bad_id_reply invalid_id_row)
next
  case (Inr u)
  then have id: "id_v7_from_str parse_str wid = Inr (id_v7_from u)" by (simp add: replied_eq id_v7_from_str_def id_v7_from_def)
  have get: "seaorm_get so db (id_v7_from u) (aw_outside w) = (spec_get (rows (aw_outside w)) (id_v7_from u), aw_outside w)"
    by (rule seaorm_get_refines [OF assms(2,3)])
  have route: "get_widget_route wc parse_str fmt ctx req w =
      run_handler (wc_widget_json wc) (get_widget_handler parse_str fmt ctx wid) w"
    by (simp add: replied_eq get_widget_route_def request_extracted(1) [OF assms(4)] extracted_Inr)
  show ?thesis
  proof (cases "rows (aw_outside w) u")
    case None
    then show ?thesis using Inr get
      by (auto simp: replied_eq route handler_funs(2) [OF id] run_service_handler [OF assms(1)] service_of_seaorm v7.as_of not_found_row)
  next
    case (Some n)
    then show ?thesis using Inr get
      by (auto simp: replied_eq route handler_funs(2) [OF id] run_service_handler [OF assms(1)] service_of_seaorm v7.as_of
          unchanged_def widget_response_from_def id_v7_from_def)
  qed
qed

lemma update_route_refines:
  assumes "serving so db ctx (aw_runtime w)" "table_behaviour so (db_connection db) rows up" "up (aw_outside w)"
    and "wc_path wc req = Inr wid" "wc_update_json wc req = Inr b"
  shows "\<exists>r w'. update_widget_route wc parse_str fmt ctx req w = (Reply r, w') \<and> aw_runtime w' = aw_runtime w \<and> up (aw_outside w') \<and>
     (case parse_str wid of
        Inl _ \<Rightarrow> rs_status r = 400 \<and> unchanged w w'
      | Inr u \<Rightarrow> (case rows (aw_outside w) u of
          None \<Rightarrow> rs_status r = 404 \<and> rows (aw_outside w') = rows (aw_outside w)
        | Some _ \<Rightarrow> r = wc_widget_json wc \<lparr>wresp_id = fmt u, wresp_name = uwr_name b\<rparr> \<and>
            rows (aw_outside w') = (rows (aw_outside w))(u \<mapsto> uwr_name b)))"
proof -
  have route: "update_widget_route wc parse_str fmt ctx req w =
      run_handler (wc_widget_json wc) (update_widget_handler parse_str fmt ctx wid (uwr_name b)) w"
    by (simp add: replied_eq update_widget_route_def request_extracted(1) [OF assms(4)] request_extracted(3) [OF assms(5)] extracted_Inr)
  show ?thesis
  proof (cases "parse_str wid")
    case (Inl e)
    then have "id_v7_from_str parse_str wid = Inl e" by (simp add: replied_eq id_v7_from_str_def)
    then show ?thesis using Inl assms(3) by (simp add: replied_eq route bad_id_reply invalid_id_row)
  next
    case (Inr u)
    then have id: "id_v7_from_str parse_str wid = Inr (id_v7_from u)" by (simp add: replied_eq id_v7_from_str_def id_v7_from_def)
    let ?wd = "\<lparr>wd_id = id_v7_from u, wd_name = uwr_name b\<rparr>"
    obtain out where out: "seaorm_update so db ?wd (aw_outside w) = (fst (spec_update (rows (aw_outside w)) ?wd), out)" "up out"
      "rows out = snd (spec_update (rows (aw_outside w)) ?wd)"
      using seaorm_update_refines [OF assms(2,3), of ?wd] by blast
    show ?thesis
    proof (cases "rows (aw_outside w) u")
      case None
      then show ?thesis using Inr out
        by (auto simp: replied_eq route handler_funs(3) [OF id] run_service_handler [OF assms(1)] service_of_seaorm v7.as_of
            not_found_row unchanged_def)
    next
      case (Some n)
      then show ?thesis using Inr out
        by (auto simp: replied_eq route handler_funs(3) [OF id] run_service_handler [OF assms(1)] service_of_seaorm v7.as_of
            widget_response_from_def id_v7_from_def)
    qed
  qed
qed

lemma create_route_refines:
  assumes "serving so db ctx (aw_runtime w)" "table_behaviour so (db_connection db) rows up" "up (aw_outside w)"
    and "wc_create_json wc req = Inr b"
  shows "\<exists>r w'. create_widget_route wc fmt ctx req w = (Reply r, w') \<and> aw_runtime w' = aw_runtime w \<and> up (aw_outside w') \<and>
     ((\<exists>u. rows (aw_outside w) u = None \<and> r = wc_widget_json wc \<lparr>wresp_id = fmt u, wresp_name = cwr_name b\<rparr> \<and>
           rows (aw_outside w') = (rows (aw_outside w))(u \<mapsto> cwr_name b)) \<or>
      rs_status r = 500 \<and> rows (aw_outside w) (fst (so_now_v7 so (aw_outside w))) \<noteq> None \<and>
        rows (aw_outside w') = rows (aw_outside w))"
proof -
  have route: "create_widget_route wc fmt ctx req w =
      run_handler (wc_widget_json wc) (create_widget_handler fmt ctx (cwr_name b)) w"
    by (simp add: replied_eq create_widget_route_def request_extracted(2) [OF assms(4)] extracted_Inr)
  obtain res out where out: "seaorm_create so db (cwr_name b) (aw_outside w) = (res, out)" "up out"
    and spec: "case res of
              Inr wd \<Rightarrow> wd_name wd = cwr_name b \<and> rows (aw_outside w) (id_v7_as_uuid (wd_id wd)) = None \<and>
                        rows out = (rows (aw_outside w))(id_v7_as_uuid (wd_id wd) \<mapsto> cwr_name b)
            | Inl e \<Rightarrow> rows (aw_outside w) (fst (so_now_v7 so (aw_outside w))) \<noteq> None \<and> rows out = rows (aw_outside w)"
    using seaorm_create_refines [OF assms(2,3), of "cwr_name b"] by blast
  show ?thesis
  proof (cases res)
    case (Inl e)
    then have "fst (error_row (from_service_error e)) = 500"
      using seaorm.error_statuses(1) [of so db "cwr_name b" "aw_outside w" e] out(1) by simp
    then show ?thesis using Inl out spec
      by (simp add: replied_eq route handler_funs(1) run_service_handler [OF assms(1)] service_of_seaorm unchanged_def)
  next
    case (Inr wd)
    then show ?thesis using out spec
      by (cases "wd_id wd")
         (auto simp: replied_eq route handler_funs(1) run_service_handler [OF assms(1)] service_of_seaorm widget_response_from_def)
  qed
qed

lemma list_route_refines:
  assumes "serving so db ctx (aw_runtime w)" "table_behaviour so (db_connection db) rows up" "up (aw_outside w)"
  shows "\<exists>r w'. list_widgets_admin_route wc fmt ctx req w = (Reply r, w') \<and> unchanged w w' \<and>
     (case rq_security req of
        None \<Rightarrow> rs_status r = 401
      | Some _ \<Rightarrow> \<exists>wds. r = wc_widgets_json wc (map (widget_response_from fmt) wds) \<and> distinct (map wd_id wds) \<and>
          set wds = {wd. rows (aw_outside w) (id_v7_as_uuid (wd_id wd)) = Some (wd_name wd)})"
proof (cases "rq_security req")
  case None
  then have route: "list_widgets_admin_route wc fmt ctx req w = replied (error_response_of (from_service_error SE_Unauthorized) w)"
    by (simp add: replied_eq list_widgets_admin_route_def app_security_context_from_request_parts_def extracted_def log_all_def)
  show ?thesis using None by (simp add: route replied_eq from_service_error_def)
next
  case (Some sc)
  then have route: "list_widgets_admin_route wc fmt ctx req w =
      run_handler (wc_widgets_json wc) (list_widgets_admin_handler fmt ctx (AppSecurityContext sc)) w"
    by (simp add: replied_eq list_widgets_admin_route_def app_security_context_from_request_parts_def extracted_Inr)
  obtain wds where "seaorm_list so db (aw_outside w) = (Inr wds, aw_outside w)" "distinct (map wd_id wds)"
    "set wds = {wd. rows (aw_outside w) (id_v7_as_uuid (wd_id wd)) = Some (wd_name wd)}"
    using seaorm_list_refines [OF assms(2,3)] by blast
  then show ?thesis using Some
    by (auto simp: replied_eq route handler_funs(4) run_service_handler [OF assms(1)] service_of_seaorm unchanged_def)
qed

lemma served_bearer:
  fixes layer :: "('r, app_claims, ('mp, 'z) server_world_scheme) authorization_layer"
  assumes "matchit_behaviour mi" "build_authorization mi demo_jwt_config = Inr layer"
    and "header_get (rq_headers req) ''authorization'' = Some (HeaderText (bearer @ token))"
    and "decode_jwt jw token demo_jwt_config = Inr c" "\<not> under ''/admin/'' (rq_path req)"
  shows "authorization_service mi jw layer inner req w = inner (req\<lparr>rq_security := Some (sc_new c)\<rparr>) w"
proof -
  obtain layer' :: "('r, app_claims, ('mp, 'z) server_world_scheme) authorization_layer"
    where "build_authorization mi demo_jwt_config = Inr layer'" "al_cookie_name layer' = None"
      "cs_jwt_config (al_check layer') = demo_jwt_config" "cs_claims_validator (al_check layer') = None"
      "\<And>m path. select_effect mi (al_check layer') m path = app_effect path"
    using build_authorization_layer [OF assms(1)] by blast
  then show ?thesis
    using served_with_token [OF extract_bearer [OF assms(3)], where layer = layer and c = c and jw = jw and mi = mi and inner = inner and w = w]
      assms(2,4,5) by simp
qed

text \<open>What the authorization of the application and the security headers make of it.\<close>

definition guarded ::
  "('r, 'ie) matchit \<Rightarrow> (app_claims, 'x, 'err, ('mp, 'z) http_world_scheme, 'or) axum_crates \<Rightarrow>
   (app_claims, 'x, 'err, ('mp, 'z) http_world_scheme) tower_http \<Rightarrow>
   (app_claims, 'x, 'err, ('mp, 'z) http_world_scheme) router \<Rightarrow> bool" where
  "guarded mi ax th app \<longleftrightarrow>
     (\<forall>req world. \<exists>inner mp.
        router_service ax app req world = th_cors th cors_permissive inner (req\<lparr>rq_matched_path := mp\<rparr>) world \<and>
        (\<forall>req0 w0 r w1 name value. inner req0 w0 = (Reply r, w1) \<and> (name, value) \<in> set security_headers \<longrightarrow>
           header_get (rs_headers r) name = Some (HeaderText value)) \<and>
        (\<forall>req0 w0. header_get (rq_headers req0) ''authorization'' = None \<and> \<not> public_path (rq_path req0) \<longrightarrow>
           (\<exists>r w1. inner req0 w0 = (Reply r, w1) \<and> rs_status r = 401)))"

lemma app_guarded:
  fixes app :: "(app_claims, 'x, 'err, ('mp, 'z) http_world_scheme) router"
  assumes "build_app ax (app_layers th trace_id parse mi jw (app_bootstrap_config one v) (Some layer) post) endpoint
      collected extra (app_bootstrap_config one v) = Some app"
    and "al_cookie_name layer = None" "\<And>m path. select_effect mi (al_check layer) m path = app_effect path"
  shows "guarded mi ax th app"
  unfolding guarded_def
proof (intro allI)
  fix req and world :: "('mp, 'z) http_world_scheme"
  from gate_before_app [OF assms(1), of req world]
  obtain inner mp where app: "router_service ax app req world = th_cors th cors_permissive inner (req\<lparr>rq_matched_path := mp\<rparr>) world"
    and headers: "\<forall>req0 w0 r w1 name value. inner req0 w0 = (Reply r, w1) \<longrightarrow> (name, value) \<in> set security_headers \<longrightarrow>
        header_get (rs_headers r) name = Some (HeaderText value)"
    and rejects: "\<forall>req0 w0 out sc w1 status.
        check mi jw (al_check layer) (rq_method req0) (rq_path req0)
          (extract_token (rq_headers req0) (al_cookie_name layer)) (rq_security req0) w0 = (out, sc, w1) \<longrightarrow>
        failure_status out = Some status \<longrightarrow>
        inner req0 w0 = add_security_headers (\<lambda>_ w. case rejection_response out w of (r, w) \<Rightarrow> (Reply r, w))
                          req0 (count_failure (rq_method req0) status w1) \<and>
        (\<exists>r w2. inner req0 w0 = (Reply r, w2) \<and> rs_status r = status)"
    unfolding app_config_simps(3) by (elim exE conjE) (rule that)
  have "\<exists>r w1. inner req0 w0 = (Reply r, w1) \<and> rs_status r = 401"
    if free: "header_get (rq_headers req0) ''authorization'' = None" "\<not> public_path (rq_path req0)" for req0 w0
  proof -
    obtain sc where rejected: "check mi jw (al_check layer) (rq_method req0) (rq_path req0)
          (extract_token (rq_headers req0) (al_cookie_name layer)) (rq_security req0) w0 = (Unauthorized, sc, w0)"
      using no_token_unauthorized [OF assms(2,3) free] by blast
    show ?thesis by (rule rejects [rule_format, THEN conjunct2, OF rejected failure_status.simps(2)])
  qed
  then show "\<exists>inner mp.
        router_service ax app req world = th_cors th cors_permissive inner (req\<lparr>rq_matched_path := mp\<rparr>) world \<and>
        (\<forall>req0 w0 r w1 name value. inner req0 w0 = (Reply r, w1) \<and> (name, value) \<in> set security_headers \<longrightarrow>
           header_get (rs_headers r) name = Some (HeaderText value)) \<and>
        (\<forall>req0 w0. header_get (rq_headers req0) ''authorization'' = None \<and> \<not> public_path (rq_path req0) \<longrightarrow>
           (\<exists>r w1. inner req0 w0 = (Reply r, w1) \<and> rs_status r = 401))"
    using app headers by (intro exI [of _ inner] exI [of _ mp] conjI allI impI) blast+
qed

text \<open>Once the context is built, the application is assembled, guarded and served.\<close>

lemma app_main_serves:
  fixes mi :: "('r, 'ie) matchit"
    and ax :: "(app_claims, 'x, 'err, ('mp, 'c, 'u, 'x, 'o) app_world, 'or) axum_crates"
  assumes "matchit_behaviour mi"
    and "routing_behaviour ax routes plain keys keys_of"
    and "\<forall>ctx. mset (map (\<lambda>reg. keys_of (reg ())) (regs ctx)) = mset (map (\<lambda>k. {k}) widget_endpoints)"
    and "result = app_main dotenv db_connect migrate registrations korder sorder process mi jw th trace_id parse
           one v cr sdk bind serve ax routes regs encode ft registry ow w"
    and "build_context dotenv db_connect migrate registrations korder sorder process w = (Val (Inr (ctx, rt)), w')"
  shows "\<exists>app. result = (Ran (Returned (case bind 8080 of
          Some e \<Rightarrow> Inl e | None \<Rightarrow> (case serve rt w' app of Some e \<Rightarrow> Inl e | None \<Rightarrow> Inr ()))), ow, w') \<and> guarded mi ax th app"
proof -
  obtain layer :: "('r, app_claims, ('mp, 'c, 'u, 'x, 'o) app_world) authorization_layer"
    where layer: "build_authorization mi demo_jwt_config = Inr layer" "al_cookie_name layer = None"
      "\<And>m path. select_effect mi (al_check layer) m path = app_effect path"
    using build_authorization_layer [OF assms(1)] by blast
  let ?config = "app_bootstrap_config one v"
  let ?layers = "app_layers th trace_id parse mi jw ?config (Some layer) None"
  let ?collected = "collect_routes (ax_openapi_router_new ax) routes (regs ctx)"
  obtain app where app: "build_app ax ?layers None ?collected (ax_openapi_router_new ax) ?config = Some app"
    by (rule exE [OF app_assembles [OF assms(2) assms(3) [rule_format]]])
  have "guarded mi ax th app" by (rule app_guarded [OF app layer(2,3)])
  then show ?thesis by (intro exI [of _ app]) (simp add: assms(4,5) app_main_def layer(1) app_runs [OF app] Let_def)
qed

section \<open>Properties\<close>

text \<open>C13.
  What \<open>main\<close> does, under the documented behaviour of \<open>matchit\<close> and of the routing of \<open>axum\<close> and
  whatever the order of the registrations, the maps and the routes, which are those of the five
  handlers. It ends with an error for want of \<open>DATABASE_URL\<close>, of the
  connection or of the migrations; otherwise it serves on port 8080 with a container whose service is
  the one over that database, and ends with the error of the listener, of the server, or without one;
  it never panics, as no two of its routes overlap, and touches no telemetry. In the application it serves, whatever is asked, what
  reaches the (permissive) CORS layer has the security headers, and a request without credentials
  outside the public paths is answered 401.\<close>
theorem main_serves_guarded:
  fixes so :: "('c, 'u, 'de, 'x, 'o) sea_orm" and mi :: "('r, 'ie) matchit"
    and ax :: "(app_claims, 'x, 'err, ('mp, 'c, 'u, 'x, 'o) app_world, 'or) axum_crates"
  assumes "set svcs = set (app_services so)" "set korder = set app_keys" "set sorder = set app_keys"
    and "matchit_behaviour mi" "env = os_environment_get (os_environment_new dotenv process)"
    and "routing_behaviour ax routes plain keys keys_of"
    and "\<forall>ctx. mset (map (\<lambda>reg. keys_of (reg ())) (regs ctx)) = mset (map (\<lambda>k. {k}) widget_endpoints)"
    and "result = app_main dotenv db_connect migrate (app_registrations svcs) korder sorder process mi jw th trace_id parse
           one v cr sdk bind serve ax routes regs encode ft registry ow w"
  shows "case env ''DATABASE_URL'' of
      None \<Rightarrow> result = (StartupFailed DatabaseUrlNotSet, ow, w)
    | Some url \<Rightarrow>
        (case connect db_connect url env of
           Inl e \<Rightarrow> result = (StartupFailed (NotConnected e), ow, w)
         | Inr db \<Rightarrow>
             (case migrate (db_connection db) w of
                (Inl e, w') \<Rightarrow> result = (StartupFailed (NotMigrated e), ow, w')
              | (Inr _, w') \<Rightarrow> \<exists>ctx rt app.
                  serving so db ctx rt \<and>
                  result = (Ran (Returned (case bind 8080 of
                      Some e \<Rightarrow> Inl e
                    | None \<Rightarrow> (case serve rt w' app of Some e \<Rightarrow> Inl e | None \<Rightarrow> Inr ()))), ow, w') \<and>
                  (\<forall>req world. \<exists>inner mp.
                     router_service ax app req world = th_cors th cors_permissive inner (req\<lparr>rq_matched_path := mp\<rparr>) world \<and>
                     (\<forall>req0 w0 r w1 name value. inner req0 w0 = (Reply r, w1) \<and> (name, value) \<in> set security_headers \<longrightarrow>
                        header_get (rs_headers r) name = Some (HeaderText value)) \<and>
                     (\<forall>req0 w0. header_get (rq_headers req0) ''authorization'' = None \<and> \<not> public_path (rq_path req0) \<longrightarrow>
                        (\<exists>r w1. inner req0 w0 = (Reply r, w1) \<and> rs_status r = 401)))))"
proof -
  note start = build_context_cases [OF assms(1-3,5) refl, of db_connect migrate w]
  show ?thesis
  proof (cases "env ''DATABASE_URL''")
    case None
    then show ?thesis using start by (simp add: assms(8) app_main_def)
  next
    case url: (Some url)
    show ?thesis
    proof (cases "connect db_connect url env")
      case (Inl e)
      then show ?thesis using start url by (simp add: assms(8) app_main_def)
    next
      case db: (Inr db)
      show ?thesis
      proof (cases "migrate (db_connection db) w")
        case (Pair res w')
        show ?thesis
        proof (cases res)
          case (Inl e)
          then show ?thesis using start url db Pair by (simp add: assms(8) app_main_def)
        next
          case (Inr u)
          then obtain ctx rt where "build_context dotenv db_connect migrate (app_registrations svcs) korder sorder process w =
              (Val (Inr (ctx, rt)), w')" "serving so db ctx rt"
            using start url db Pair by auto
          with app_main_serves [OF assms(4,6,7,8) this(1)] show ?thesis using url db Pair Inr by (auto simp: guarded_def)
        qed
      qed
    qed
  qed
qed

text \<open>C12.
  The REST interface over a table that behaves as \<open>sea-orm\<close> documents implements a map from
  identifiers to names. In the state in which \<open>build_context\<close> leaves the container, every route
  replies, leaves the container as it is, and: reading answers with the entry, 404 for none, 400 for
  an identifier that does not parse; updating changes that entry and answers with it; creating adds
  an entry under an identifier that had none, or answers 500 and changes nothing when the identifier
  drawn is taken; the list has every entry once, and is answered 401 without a security context.\<close>
theorem rest_api_refines_map:
  assumes "serving so db ctx (aw_runtime w)" "table_behaviour so (db_connection db) rows up" "up (aw_outside w)"
  shows "(\<forall>req wid. wc_path wc req = Inr wid \<longrightarrow>
       (\<exists>r w'. get_widget_route wc parse_str fmt ctx req w = (Reply r, w') \<and> unchanged w w' \<and>
          (case parse_str wid of
             Inl _ \<Rightarrow> rs_status r = 400
           | Inr u \<Rightarrow> (case rows (aw_outside w) u of
               None \<Rightarrow> rs_status r = 404
             | Some n \<Rightarrow> r = wc_widget_json wc \<lparr>wresp_id = fmt u, wresp_name = n\<rparr>)))) \<and>
    (\<forall>req wid b. wc_path wc req = Inr wid \<and> wc_update_json wc req = Inr b \<longrightarrow>
       (\<exists>r w'. update_widget_route wc parse_str fmt ctx req w = (Reply r, w') \<and> aw_runtime w' = aw_runtime w \<and> up (aw_outside w') \<and>
          (case parse_str wid of
             Inl _ \<Rightarrow> rs_status r = 400 \<and> unchanged w w'
           | Inr u \<Rightarrow> (case rows (aw_outside w) u of
               None \<Rightarrow> rs_status r = 404 \<and> rows (aw_outside w') = rows (aw_outside w)
             | Some _ \<Rightarrow> r = wc_widget_json wc \<lparr>wresp_id = fmt u, wresp_name = uwr_name b\<rparr> \<and>
                 rows (aw_outside w') = (rows (aw_outside w))(u \<mapsto> uwr_name b))))) \<and>
    (\<forall>req b. wc_create_json wc req = Inr b \<longrightarrow>
       (\<exists>r w'. create_widget_route wc fmt ctx req w = (Reply r, w') \<and> aw_runtime w' = aw_runtime w \<and> up (aw_outside w') \<and>
          ((\<exists>u. rows (aw_outside w) u = None \<and> r = wc_widget_json wc \<lparr>wresp_id = fmt u, wresp_name = cwr_name b\<rparr> \<and>
               rows (aw_outside w') = (rows (aw_outside w))(u \<mapsto> cwr_name b)) \<or>
           rs_status r = 500 \<and> rows (aw_outside w) (fst (so_now_v7 so (aw_outside w))) \<noteq> None \<and>
             rows (aw_outside w') = rows (aw_outside w)))) \<and>
    (\<forall>req. \<exists>r w'. list_widgets_admin_route wc fmt ctx req w = (Reply r, w') \<and> unchanged w w' \<and>
       (case rq_security req of
          None \<Rightarrow> rs_status r = 401
        | Some _ \<Rightarrow> \<exists>wds. r = wc_widgets_json wc (map (widget_response_from fmt) wds) \<and> distinct (map wd_id wds) \<and>
            set wds = {wd. rows (aw_outside w) (id_v7_as_uuid (wd_id wd)) = Some (wd_name wd)}))"
proof (intro conjI allI impI, goal_cases)
  case (1 req wid)
  then show ?case by (rule get_route_refines [OF assms])
next
  case (2 req wid b)
  then show ?case by (elim conjE, intro update_route_refines [OF assms])
next
  case (3 req b)
  then show ?case by (rule create_route_refines [OF assms])
next
  case (4 req)
  show ?case by (rule list_route_refines [OF assms])
qed

text \<open>C14.
  A client with a token that the application has issued changes a widget and reads it back: through
  the authorization, the extractors, the handler, the service and the repository, \<open>PUT\<close> answers with
  the new name, and a \<open>GET\<close> of the same identifier after it answers the same.\<close>
theorem put_then_get:
  fixes w :: "('mp, 'c, 'u, 'x, 'o) app_world"
  assumes "matchit_behaviour mi" "es256_behaviour jw t demo_jwt_config" "unat secs + 3600 < 2 ^ 64" "t \<le> unat secs + 3600"
    and "build_authorization mi demo_jwt_config = Inr layer" "issue_token jw checks (Some secs) r demo_jwt_config = Inr token"
    and "serving so db ctx (aw_runtime w)" "table_behaviour so (db_connection db) rows up" "up (aw_outside w)"
    and "\<forall>req \<in> {put, get_req}. header_get (rq_headers req) ''authorization'' = Some (HeaderText (bearer @ token)) \<and>
           \<not> under ''/admin/'' (rq_path req) \<and> (\<forall>sc. wc_path wc (req\<lparr>rq_security := sc\<rparr>) = Inr wid)"
    and "\<forall>sc. wc_update_json wc (put\<lparr>rq_security := sc\<rparr>) = Inr b"
    and "parse_str wid = Inr u" "rows (aw_outside w) u = Some n"
  shows "\<exists>w1 w2. authorization_service mi jw layer (update_widget_route wc parse_str fmt ctx) put w =
       (Reply (wc_widget_json wc \<lparr>wresp_id = fmt u, wresp_name = uwr_name b\<rparr>) :: ('x, 'err) reply, w1) \<and>
     authorization_service mi jw layer (get_widget_route wc parse_str fmt ctx) get_req w1 =
       (Reply (wc_widget_json wc \<lparr>wresp_id = fmt u, wresp_name = uwr_name b\<rparr>) :: ('x, 'err) reply, w2) \<and>
     rows (aw_outside w2) = (rows (aw_outside w))(u \<mapsto> uwr_name b)"
proof -
  let ?c = "demo_claims secs r"
  have decoded: "decode_jwt jw token demo_jwt_config = Inr ?c"
    using issue_token_works [OF assms(2-4), of checks r] assms(6) by auto
  have gate: "authorization_service mi jw layer inner req w = inner (req\<lparr>rq_security := Some (sc_new ?c)\<rparr>) w"
    if "req \<in> {put, get_req}" for inner req and w
    using served_bearer [OF assms(1,5) _ decoded] that assms(10) by blast
  let ?put = "put\<lparr>rq_security := Some (sc_new ?c)\<rparr>" and ?get = "get_req\<lparr>rq_security := Some (sc_new ?c)\<rparr>"
  have reqs: "wc_path wc ?put = Inr wid" "wc_path wc ?get = Inr wid" "wc_update_json wc ?put = Inr b" using assms(10,11) by simp_all
  obtain w1 where w1: "update_widget_route wc parse_str fmt ctx ?put w =
      (Reply (wc_widget_json wc \<lparr>wresp_id = fmt u, wresp_name = uwr_name b\<rparr>) :: ('x, 'err) reply, w1)" "aw_runtime w1 = aw_runtime w"
      "up (aw_outside w1)" "rows (aw_outside w1) = (rows (aw_outside w))(u \<mapsto> uwr_name b)"
    using update_route_refines [OF assms(7-9) reqs(1,3), of parse_str fmt] assms(12,13) by auto
  have "serving so db ctx (aw_runtime w1)" using assms(7) w1(2) by simp
  from get_route_refines [OF this assms(8) w1(3) reqs(2), of parse_str fmt]
  obtain w2 where "get_widget_route wc parse_str fmt ctx ?get w1 =
      (Reply (wc_widget_json wc \<lparr>wresp_id = fmt u, wresp_name = uwr_name b\<rparr>) :: ('x, 'err) reply, w2)" "unchanged w1 w2"
    using assms(12) w1(4) by auto
  with w1 show ?thesis by (simp add: gate unchanged_def)
qed

section \<open>The application in memory\<close>

text \<open>
  Everything outside instantiated: the table in memory, the identifier \<open>7\<close>, bodies that are the
  name, responses in plain text, and a server that asks for a page without credentials.
\<close>

definition parse_seven :: "string \<Rightarrow> string + nat" where
  "parse_seven s = (if s = ''7'' then Inr 7 else Inl ''bad'')"

definition plain_web :: "('e, string db_err) web_crates" where
  "plain_web =
     (let text = (\<lambda>s. \<lparr>rs_status = 200, rs_headers = [], rs_body = Body s, rs_error = None\<rparr>)
      in \<lparr>wc_path = (\<lambda>req. Inr (drop 9 (rq_path req))),
          wc_create_json = (\<lambda>req. Inr \<lparr>cwr_name = rq_body req\<rparr>), wc_update_json = (\<lambda>req. Inr \<lparr>uwr_name = rq_body req\<rparr>),
          wc_widget_json = (\<lambda>r. text (wresp_id r @ '' '' @ wresp_name r)),
          wc_widgets_json = (\<lambda>rs. text (concat (map wresp_name rs))), wc_text = text\<rparr>)"

type_synonym memory = "nat \<times> (nat \<times> string) list"

type_synonym memory_world = "(string, unit, nat, string db_err, memory) app_world"

definition app_world0 :: "(unit, nat, string db_err, memory) app_component runtime \<Rightarrow> memory \<Rightarrow> memory_world" where
  "app_world0 rt out =
     \<lparr>meter_provider = ''otel'', failure_counter = None, failures_counted = [], now = 0, log = [],
      active_requests = (\<lambda>_. 0), request_durations = [], aw_runtime = rt, aw_outside = out\<rparr>"

definition one_widget :: memory where
  "one_widget = (9, [(7, ''gear'')])"

lemma memory_app_serves:
  "\<exists>ctx rt db. serving memory_table (db :: unit db_config) ctx (aw_runtime (app_world0 rt one_widget)) \<and>
     table_behaviour memory_table (db_connection db) (map_of \<circ> snd) (distinct \<circ> map fst \<circ> snd) \<and>
     (distinct \<circ> map fst \<circ> snd) (aw_outside (app_world0 rt one_widget))"
proof -
  obtain db where "connect app_connect ''postgres://localhost/widgets''
      (os_environment_get (os_environment_new no_dotenv app_process)) = Inr db"
    using app_connects by blast
  then obtain ctx rt where "serving memory_table db ctx rt"
    using build_context_cases [OF refl refl refl refl refl, where so = memory_table and dotenv = no_dotenv
      and process = app_process and db_connect = app_connect and migrate = app_migrate and w = one_widget]
    by (auto simp: app_process_url app_migrate_def)
  moreover have "db_connection db = ()" by simp
  ultimately show ?thesis using memory_table_behaviour
    by (intro exI [of _ ctx] exI [of _ rt] exI [of _ db]) (simp add: app_world0_def one_widget_def)
qed

theorem rest_api_refines_map_witness:
  "\<exists>ctx rt r w'. get_widget_route plain_web parse_seven show_nat ctx (app_request ''/widgets/7'' None) (app_world0 rt one_widget) =
     (Reply r :: (string db_err, unit) reply, w') \<and> rs_body r = Body (show_nat 7 @ '' gear'')"
proof -
  obtain ctx rt and db :: "unit db_config" where serving: "serving memory_table db ctx (aw_runtime (app_world0 rt one_widget))"
     "table_behaviour memory_table (db_connection db) (map_of \<circ> snd) (distinct \<circ> map fst \<circ> snd)"
     "(distinct \<circ> map fst \<circ> snd) (aw_outside (app_world0 rt one_widget))"
    using memory_app_serves by blast
  have path: "wc_path (plain_web :: (string, string db_err) web_crates) (app_request ''/widgets/7'' None) = Inr ''7''"
    by (simp add: plain_web_def app_request_def Let_def)
  obtain r :: "string db_err response" and w' where
    "get_widget_route plain_web parse_seven show_nat ctx (app_request ''/widgets/7'' None) (app_world0 rt one_widget) =
       (Reply r :: (string db_err, unit) reply, w')"
    "r = wc_widget_json (plain_web :: (string, string db_err) web_crates) \<lparr>wresp_id = show_nat 7, wresp_name = ''gear''\<rparr>"
    using rest_api_refines_map [OF serving, of plain_web parse_seven show_nat, THEN conjunct1, rule_format, OF path]
    by (auto simp: parse_seven_def app_world0_def one_widget_def)
  then show ?thesis
    by (intro exI [of _ ctx] exI [of _ rt] exI [of _ r] exI [of _ w']) (simp add: plain_web_def Let_def)
qed

definition demo_put :: "string \<Rightarrow> app_claims request" where
  "demo_put token = (demo_request ''/widgets/7'' token)\<lparr>rq_method := ''PUT'', rq_body := ''cog''\<rparr>"

lemma demo_requests:
  "\<forall>req \<in> {demo_put token, demo_request ''/widgets/7'' token}.
     header_get (rq_headers req) ''authorization'' = Some (HeaderText (bearer @ token)) \<and> \<not> under ''/admin/'' (rq_path req) \<and>
     (\<forall>sc. wc_path plain_web (req\<lparr>rq_security := sc\<rparr>) = Inr ''7'')"
  "\<forall>sc. wc_update_json plain_web ((demo_put token)\<lparr>rq_security := sc\<rparr>) = Inr \<lparr>uwr_name = ''cog''\<rparr>"
  by (simp_all add: demo_put_def demo_request_def header_get_def under_def plain_web_def Let_def)

theorem put_then_get_witness:
  "\<exists>layer token ctx rt r w1 w2. build_authorization exact_matchit demo_jwt_config = Inr layer \<and>
     issue_token (clear_jwt 1000) True (Some 1000) ''USER'' demo_jwt_config = Inr token \<and>
     authorization_service exact_matchit (clear_jwt 1000) layer (update_widget_route plain_web parse_seven show_nat ctx)
       (demo_put token) (app_world0 rt one_widget) = (Reply r :: (string db_err, unit) reply, w1) \<and>
     authorization_service exact_matchit (clear_jwt 1000) layer (get_widget_route plain_web parse_seven show_nat ctx)
       (demo_request ''/widgets/7'' token) w1 = (Reply r :: (string db_err, unit) reply, w2) \<and>
     rs_body r = Body (show_nat 7 @ '' cog'')"
proof -
  let ?json = "wc_widget_json (plain_web :: (app_claims, string db_err) web_crates) \<lparr>wresp_id = show_nat 7, wresp_name = ''cog''\<rparr>"
  obtain ctx rt and db :: "unit db_config" where serving: "serving memory_table db ctx (aw_runtime (app_world0 rt one_widget))"
     "table_behaviour memory_table (db_connection db) (map_of \<circ> snd) (distinct \<circ> map fst \<circ> snd)"
     "(distinct \<circ> map fst \<circ> snd) (aw_outside (app_world0 rt one_widget))"
    using memory_app_serves by blast
  obtain layer :: "(string list, app_claims, memory_world) authorization_layer"
    where layer: "build_authorization exact_matchit demo_jwt_config = Inr layer"
    using build_authorization_layer [OF exact_matchit_behaviour] by blast
  have clock: "unat (1000 :: 64 word) + 3600 < 2 ^ 64" "1000 \<le> unat (1000 :: 64 word) + 3600" by simp_all
  obtain token where token: "issue_token (clear_jwt 1000) True (Some 1000) ''USER'' demo_jwt_config = Inr token"
    using issue_token_works [OF clear_jwt_behaviour clock, of True "''USER''"] by blast
  have stored: "parse_seven ''7'' = Inr 7" "(map_of \<circ> snd) (aw_outside (app_world0 rt one_widget)) 7 = Some ''gear''"
    by (simp_all add: parse_seven_def app_world0_def one_widget_def)
  obtain w1 w2 where
    "authorization_service exact_matchit (clear_jwt 1000) layer (update_widget_route plain_web parse_seven show_nat ctx)
       (demo_put token) (app_world0 rt one_widget) = (Reply ?json :: (string db_err, unit) reply, w1)"
    "authorization_service exact_matchit (clear_jwt 1000) layer (get_widget_route plain_web parse_seven show_nat ctx)
       (demo_request ''/widgets/7'' token) w1 = (Reply ?json :: (string db_err, unit) reply, w2)"
    using put_then_get [where parse_str = parse_seven and fmt = show_nat and wid = "''7''" and u = 7 and n = "''gear''"
        and rows = "map_of \<circ> snd" and up = "distinct \<circ> map fst \<circ> snd" and w = "app_world0 rt one_widget"
        and put = "demo_put token" and get_req = "demo_request ''/widgets/7'' token",
      OF exact_matchit_behaviour clear_jwt_behaviour clock layer token serving demo_requests stored]
    by auto
  moreover have "rs_body ?json = Body (show_nat 7 @ '' cog'')" by (simp add: plain_web_def Let_def)
  ultimately show ?thesis using layer token by blast
qed

text \<open>A server that makes one request without credentials and stops with an error if it is served.\<close>

definition probe ::
  "(unit, nat, string db_err, memory) app_component runtime \<Rightarrow> memory \<Rightarrow>
   (app_claims, string db_err, unit, memory_world) router \<Rightarrow> string option" where
  "probe rt out app =
     (case router_service plain_axum app \<lparr>rq_method = ''GET'', rq_path = ''/widgets/7'', rq_query = None, rq_headers = [], rq_body = [],
          rq_security = None, rq_request_id = None, rq_matched_path = None\<rparr> (app_world0 rt out) of
        (Reply r, _) \<Rightarrow> if rs_status r = 401 then None else Some ''served''
      | _ \<Rightarrow> Some ''no reply'')"

definition no_otel :: "unit otel_crates" where
  "no_otel = \<lparr>cr_try_filter = (\<lambda>_. Some ()), cr_filter_new = (\<lambda>_. ()), cr_prometheus_exporter = None,
     cr_metric_exporter = (\<lambda>_. None), cr_span_exporter = (\<lambda>_. None), cr_log_exporter = (\<lambda>_. None)\<rparr>"

definition memory_main :: "string main_outcome \<times> nat otel_world \<times> memory" where
  "memory_main =
     app_main no_dotenv app_connect app_migrate (app_registrations (rev (app_services memory_table))) app_keys (rev app_keys)
       app_process exact_matchit (clear_jwt 0) plain_tower (\<lambda>_. []) (\<lambda>s. Some (HeaderText s)) 1 ''0.1.0'' no_otel
       (\<lambda>_ _ _. None) (\<lambda>_. None) probe plain_axum plain_routes
       (\<lambda>ctx. rev (map (\<lambda>route _. route) (widget_routes plain_web parse_seven show_nat ctx))) (\<lambda>_ _. Inr []) [] ()
       \<lparr>ow_calls = [], ow_warnings = [], ow_installed = []\<rparr> one_widget"

theorem main_serves_guarded_witness:
  "fst memory_main = Ran (Returned (Inr ()))"
proof -
  let ?req = "\<lparr>rq_method = ''GET'', rq_path = ''/widgets/7'', rq_query = None, rq_headers = [], rq_body = [],
          rq_security = None, rq_request_id = None, rq_matched_path = None\<rparr> :: app_claims request"
  obtain db where db: "connect app_connect ''postgres://localhost/widgets''
      (os_environment_get (os_environment_new no_dotenv app_process)) = Inr db"
    using app_connects by blast
  have free: "header_get (rq_headers (?req\<lparr>rq_matched_path := mp\<rparr>)) ''authorization'' = None"
    "\<not> public_path (rq_path (?req\<lparr>rq_matched_path := mp\<rparr>))" for mp
    by (simp_all add: header_get_def public_path_def under_def)
  have routed: "\<forall>ctx. mset (map (\<lambda>reg. (case reg () of (p, m, s) \<Rightarrow> {(p, m)}))
        (rev (map (\<lambda>route _. route) (widget_routes plain_web parse_seven show_nat ctx)))) =
      mset (map (\<lambda>k. {k}) widget_endpoints)"
    by (simp add: widget_routes_def widget_endpoints_def add_mset_commute)
  note runs = main_serves_guarded [OF set_rev refl set_rev exact_matchit_behaviour refl plain_routing_behaviour routed memory_main_def,
      unfolded app_process_url option.case db sum.case app_migrate_def prod.case]
  then obtain ctx rt app where result: "memory_main = (Ran (Returned (case probe rt one_widget app of Some e \<Rightarrow> Inl e | None \<Rightarrow> Inr ())),
       \<lparr>ow_calls = [], ow_warnings = [], ow_installed = []\<rparr>, one_widget)"
    and guard: "\<forall>req world. \<exists>inner mp.
       router_service plain_axum app req world = th_cors plain_tower cors_permissive inner (req\<lparr>rq_matched_path := mp\<rparr>) world \<and>
       (\<forall>req0 w0 r w1 name value. inner req0 w0 = (Reply r, w1) \<and> (name, value) \<in> set security_headers \<longrightarrow>
          header_get (rs_headers r) name = Some (HeaderText value)) \<and>
       (\<forall>req0 w0. header_get (rq_headers req0) ''authorization'' = None \<and> \<not> public_path (rq_path req0) \<longrightarrow>
          (\<exists>r w1. inner req0 w0 = (Reply r, w1) \<and> rs_status r = 401))"
    by (elim exE conjE) (rule that)
  obtain inner mp where svc: "router_service plain_axum app ?req (app_world0 rt one_widget) =
       th_cors plain_tower cors_permissive inner (?req\<lparr>rq_matched_path := mp\<rparr>) (app_world0 rt one_widget)"
    and reject: "\<forall>req0 w0. header_get (rq_headers req0) ''authorization'' = None \<and> \<not> public_path (rq_path req0) \<longrightarrow>
        (\<exists>r w1. inner req0 w0 = (Reply r, w1) \<and> rs_status r = 401)"
    using guard [THEN spec, THEN spec, of ?req "app_world0 rt one_widget"] by (elim exE conjE) (rule that)
  obtain r w1 where "inner (?req\<lparr>rq_matched_path := mp\<rparr>) (app_world0 rt one_widget) = (Reply r, w1)" "rs_status r = 401"
    using reject [THEN spec, THEN spec, THEN mp, OF conjI, OF free] by blast
  then have "router_service plain_axum app ?req (app_world0 rt one_widget) = (Reply r, w1)" "rs_status r = 401"
    unfolding svc by (simp_all add: plain_tower_def)
  then show ?thesis by (simp add: result probe_def)
qed

end
