(* ===== verification/Axum_Tests.thy ===== *)
theory Axum_Tests
  imports Common_Tests Axum_Extract
begin

text \<open>
  The test modules of \<open>stano-axum\<close> run on the model. A \<open>Router\<close> of the tests is a list of paths with
  their services, found by a concrete \<open>matchit\<close>; a body is read by the deserialisation it needs.
\<close>

section \<open>The crates\<close>

text \<open>
  \<open>matchit\<close>: the segments of a path match those of a pattern, \<open>{id}\<close> any one of them that is not empty,
  and \<open>{*rest}\<close> whatever is left, unless it is empty. A brace that is not closed is an error.
\<close>

definition placeholder :: "string \<Rightarrow> bool" where
  "placeholder s = (s \<noteq> [] \<and> hd s = CHR ''{'' \<and> last s = CHR ''}'' \<and> 2 < length s)"

fun segments_match :: "string list \<Rightarrow> string list \<Rightarrow> bool" where
  "segments_match [] segs = (segs = [])"
| "segments_match (p # ps) segs =
     (if take 2 p = ''{*'' then segs \<noteq> [] \<and> segs \<noteq> [[]]
      else case segs of
        [] \<Rightarrow> False
      | s # segs \<Rightarrow> (if placeholder p then s \<noteq> [] else s = p) \<and> segments_match ps segs)"

definition path_matches :: "string \<Rightarrow> string \<Rightarrow> bool" where
  "path_matches pattern path = segments_match (split_on (CHR ''/'') pattern) (split_on (CHR ''/'') path)"

definition well_formed_pattern :: "string \<Rightarrow> bool" where
  "well_formed_pattern pattern =
     list_all (\<lambda>s. placeholder s \<or> CHR ''{'' \<notin> set s \<and> CHR ''}'' \<notin> set s) (split_on (CHR ''/'') pattern)"

definition segment_matchit :: "(string list, string) matchit" where
  "segment_matchit =
     \<lparr>mi_new = [],
      mi_insert = (\<lambda>p r. if well_formed_pattern p then Inr (p # r) else Inl ''invalid parameter''),
      mi_at = (\<lambda>r path. list_ex (\<lambda>p. path_matches p path) r)\<rparr>"

text \<open>\<open>Router::new().route(..)..\<close>, the request, and the response of \<open>oneshot\<close>.\<close>

definition empty_response :: "nat \<Rightarrow> 'x response" where
  "empty_response status = \<lparr>rs_status = status, rs_headers = [], rs_body = Body [], rs_error = None\<rparr>"

definition text_response :: "string \<Rightarrow> 'x response" where
  "text_response s = \<lparr>rs_status = 200, rs_headers = [], rs_body = Body s, rs_error = None\<rparr>"

definition router_of :: "(string \<times> ('e, 'x, 'err, 'w) service) list \<Rightarrow> ('e, 'x, 'err, 'w) service" where
  "router_of routes req w =
     (case find (\<lambda>(p, _). path_matches p (rq_path req)) routes of
        Some (p, service) \<Rightarrow> service (req\<lparr>rq_matched_path := Some p\<rparr>) w
      | None \<Rightarrow> (Reply (empty_response 404), w))"

definition request_to :: "string \<Rightarrow> string \<Rightarrow> header_map \<Rightarrow> string \<Rightarrow> 'e request" where
  "request_to meth path headers body =
     \<lparr>rq_method = meth, rq_path = path, rq_query = None, rq_headers = headers, rq_body = body, rq_security = None,
      rq_request_id = None, rq_matched_path = None\<rparr>"

fun response_is :: "('x, 'err) reply \<times> 'w \<Rightarrow> ('x response \<Rightarrow> bool) \<Rightarrow> bool" where
  "response_is (Reply r, w) f = f r"
| "response_is _ f = False"

type_synonym 'e test_service = "('e, string, string, string server_world) service"

definition get_text :: "string \<Rightarrow> 'e test_service" where
  "get_text s req w = (Reply (text_response s), w)"

section \<open>\<open>stano-axum/src/error/api_error.rs\<close>\<close>

definition service_error_not_found_maps_correctly :: bool where
  "service_error_not_found_maps_correctly =
     (let api_err = from_service_error SE_NotFound :: string api_error; response = snd (into_response api_err)
      in rs_status response = 404)"

definition service_error_invalid_input_maps_correctly :: bool where
  "service_error_invalid_input_maps_correctly =
     (let api_err = from_service_error (SE_InvalidInput ''test'') :: string api_error; response = snd (into_response api_err)
      in rs_status response = 400)"

definition service_error_conflict_maps_correctly :: bool where
  "service_error_conflict_maps_correctly =
     (let api_err = from_service_error (SE_Conflict ''duplicate entry'') :: string api_error; response = snd (into_response api_err)
      in rs_status response = 409)"

definition service_error_unauthorized_maps_correctly :: bool where
  "service_error_unauthorized_maps_correctly =
     (let api_err = from_service_error SE_Unauthorized :: string api_error; response = snd (into_response api_err)
      in rs_status response = 401)"

definition service_error_forbidden_maps_correctly :: bool where
  "service_error_forbidden_maps_correctly =
     (let api_err = from_service_error SE_Forbidden :: string api_error; response = snd (into_response api_err)
      in rs_status response = 403)"

definition service_error_internal_maps_correctly :: bool where
  "service_error_internal_maps_correctly =
     (let api_err = from_service_error (SE_Internal ''database error'') :: string api_error; response = snd (into_response api_err)
      in rs_status response = 500)"

definition internal_error_hides_details :: bool where
  "internal_error_hides_details =
     (let api_err = InternalErr ''sensitive info'' :: string api_error; response = snd (into_response api_err)
      in rs_status response = 500)"

definition json_extraction_error_returns_bad_request :: bool where
  "json_extraction_error_returns_bad_request =
     (let api_err = JsonExtraction 400 ''invalid json'' ''JsonRejection'' :: string api_error; response = snd (into_response api_err)
      in rs_status response = 400)"

definition path_extraction_error_returns_bad_request :: bool where
  "path_extraction_error_returns_bad_request =
     (let api_err = PathExtraction 400 ''invalid path'' ''PathRejection'' :: string api_error; response = snd (into_response api_err)
      in rs_status response = 400)"

definition query_extraction_error_returns_bad_request :: bool where
  "query_extraction_error_returns_bad_request =
     (let api_err = QueryExtraction 400 ''invalid query'' ''QueryRejection'' :: string api_error; response = snd (into_response api_err)
      in rs_status response = 400)"

definition api_error_stored_in_response_extensions :: bool where
  "api_error_stored_in_response_extensions =
     (let api_err = from_service_error SE_NotFound :: string api_error; response = snd (into_response api_err)
      in rs_error response \<noteq> None)"

definition client_errors_include_details :: bool where
  "client_errors_include_details =
     (let api_err = from_service_error (SE_InvalidInput ''email is required'') :: string api_error; response = snd (into_response api_err)
      in rs_status response = 400 \<and> is_client_error (rs_status response))"

definition server_errors_hide_details :: bool where
  "server_errors_hide_details =
     (let api_err = InternalErr ''database connection failed'' :: string api_error; response = snd (into_response api_err)
      in rs_status response = 500 \<and> is_server_error (rs_status response))"

lemma api_error_tests:
  "service_error_not_found_maps_correctly"
  "service_error_invalid_input_maps_correctly"
  "service_error_conflict_maps_correctly"
  "service_error_unauthorized_maps_correctly"
  "service_error_forbidden_maps_correctly"
  "service_error_internal_maps_correctly"
  "internal_error_hides_details"
  "json_extraction_error_returns_bad_request"
  "path_extraction_error_returns_bad_request"
  "query_extraction_error_returns_bad_request"
  "api_error_stored_in_response_extensions"
  "client_errors_include_details"
  "server_errors_hide_details"
  by code_simp+

section \<open>\<open>stano-axum/src/error/error_response.rs\<close>\<close>

definition new_creates_basic_error_response :: bool where
  "new_creates_basic_error_response =
     (let error = error_response_new 404 ''NOT_FOUND'' ''Resource not found''
      in er_status error = 404 \<and> er_code error = ''NOT_FOUND'' \<and> er_message error = ''Resource not found'' \<and>
         er_details error = None \<and> er_request_id error = None)"

definition with_details_adds_details :: bool where
  "with_details_adds_details =
     (let error = with_details ''Email must be valid'' (error_response_new 400 ''INVALID_INPUT'' ''Invalid request'')
      in er_status error = 400 \<and> er_code error = ''INVALID_INPUT'' \<and> er_message error = ''Invalid request'' \<and>
         er_details error = Some ''Email must be valid'' \<and> er_request_id error = None)"

definition with_request_id_adds_request_id :: bool where
  "with_request_id_adds_request_id =
     (let error = with_request_id ''req-12345'' (error_response_new 500 ''INTERNAL_ERROR'' ''Something went wrong'')
      in er_status error = 500 \<and> er_code error = ''INTERNAL_ERROR'' \<and> er_message error = ''Something went wrong'' \<and>
         er_details error = None \<and> er_request_id error = Some ''req-12345'')"

definition chained_builders_work_correctly :: bool where
  "chained_builders_work_correctly =
     (let error = with_request_id ''req-99999'' (with_details ''User already exists'' (error_response_new 409 ''CONFLICT'' ''Resource conflict''))
      in er_status error = 409 \<and> er_code error = ''CONFLICT'' \<and> er_message error = ''Resource conflict'' \<and>
         er_details error = Some ''User already exists'' \<and> er_request_id error = Some ''req-99999'')"

definition serialization_excludes_none_fields :: bool where
  "serialization_excludes_none_fields =
     (let error = error_response_new 401 ''UNAUTHORIZED'' ''Authentication required'';
          json = map_of (error_response_members error)
      in json ''status'' = Some (JNumber 401) \<and> json ''code'' = Some (JString ''UNAUTHORIZED'') \<and>
         json ''message'' = Some (JString ''Authentication required'') \<and>
         json ''details'' = None \<and> json ''request_id'' = None)"

definition serialization_includes_present_fields :: bool where
  "serialization_includes_present_fields =
     (let error = with_request_id ''req-abc'' (with_details ''Field email is required''
                    (error_response_new 400 ''BAD_REQUEST'' ''Invalid input''));
          json = map_of (error_response_members error)
      in json ''status'' = Some (JNumber 400) \<and> json ''code'' = Some (JString ''BAD_REQUEST'') \<and>
         json ''message'' = Some (JString ''Invalid input'') \<and>
         json ''details'' = Some (JString ''Field email is required'') \<and>
         json ''request_id'' = Some (JString ''req-abc''))"

definition static_str_codes_work :: bool where
  "static_str_codes_work =
     (let error = error_response_new 404 ''NOT_FOUND'' ''Not found'' in er_code error = ''NOT_FOUND'')"

definition string_codes_work :: bool where
  "string_codes_work =
     (let dynamic_code = ''ERROR_'' @ show_nat 123; error = error_response_new 500 dynamic_code ''Error''
      in er_code error = dynamic_code)"

lemma error_response_tests:
  "new_creates_basic_error_response"
  "with_details_adds_details"
  "with_request_id_adds_request_id"
  "chained_builders_work_correctly"
  "serialization_excludes_none_fields"
  "serialization_includes_present_fields"
  "static_str_codes_work"
  "string_codes_work"
  by code_simp+

section \<open>\<open>stano-axum/src/extractors/app_json.rs\<close>\<close>

record test_payload =
  tp_name :: string
  tp_count :: int

definition payload_json :: string where
  "payload_json = ''{'' @ [CHR 0x22] @ ''name'' @ [CHR 0x22] @ '':'' @ [CHR 0x22] @ ''test'' @ [CHR 0x22] @ '','' @
     [CHR 0x22] @ ''count'' @ [CHR 0x22] @ '':42}''"

text \<open>\<open>axum::Json<TestPayload>\<close> on the bodies of the tests.\<close>

definition json_of_payload :: "'e request \<Rightarrow> rejection + test_payload" where
  "json_of_payload req =
     (if header_get (rq_headers req) ''content-type'' \<noteq> Some (HeaderText ''application/json'')
      then Inl \<lparr>rj_status = 415, rj_body_text = ''Expected request with `Content-Type: application/json`'',
                rj_type_name = ''MissingJsonContentType''\<rparr>
      else if rq_body req = payload_json then Inr \<lparr>tp_name = ''test'', tp_count = 42\<rparr>
      else Inl \<lparr>rj_status = 400, rj_body_text = ''Failed to parse the request body as JSON'', rj_type_name = ''JsonSyntaxError''\<rparr>)"

definition valid_json_extracts_successfully :: bool where
  "valid_json_extracts_successfully =
     (let req = request_to ''GET'' ''/test'' [(''content-type'', HeaderText ''application/json'')] payload_json :: unit request
      in case snd (app_json_from_request json_of_payload req) :: string api_error + test_payload app_json of
           Inr (AppJson extracted) \<Rightarrow> tp_name extracted = ''test'' \<and> tp_count extracted = 42
         | Inl _ \<Rightarrow> False)"

definition invalid_json_returns_api_error :: bool where
  "invalid_json_returns_api_error =
     (let req = request_to ''GET'' ''/test'' [(''content-type'', HeaderText ''application/json'')] ''{invalid json'' :: unit request
      in case snd (app_json_from_request json_of_payload req) :: string api_error + test_payload app_json of
           Inl (JsonExtraction status _ _) \<Rightarrow> status = 400
         | _ \<Rightarrow> False)"

lemma app_json_tests:
  "valid_json_extracts_successfully"
  "invalid_json_returns_api_error"
  by code_simp+

section \<open>\<open>stano-axum/src/extractors/app_path.rs\<close>\<close>

fun app_path_0 :: "'t app_path \<Rightarrow> 't" where
  "app_path_0 (AppPath t) = t"

definition app_path_is_tuple_struct :: bool where
  "app_path_is_tuple_struct = (let path = AppPath ''test'' in app_path_0 path = ''test'')"

text \<open>\<open>axum::extract::Path<u64>\<close> of the last segment.\<close>

definition path_u64 :: "'e request \<Rightarrow> rejection + 64 word" where
  "path_u64 req =
     ok_or \<lparr>rj_status = 400, rj_body_text = ''Invalid URL: Cannot parse value to a `u64`'', rj_type_name = ''FailedToDeserializePathParams''\<rparr>
       (parse_u64 (last (split_on (CHR ''/'') (rq_path req))))"

definition items_handler :: "'e test_service" where
  "items_handler req w =
     (case snd (app_path_from_request_parts path_u64 req) of
        Inr (AppPath item) \<Rightarrow> (Reply (text_response (show_nat (unat item))), w)
      | Inl e \<Rightarrow> (Reply (snd (into_response e)), w))"

definition items_router :: "'e test_service" where
  "items_router = router_of [(''/items/{id}'', items_handler)]"

definition valid_path_param_extracts_successfully :: bool where
  "valid_path_param_extracts_successfully =
     (let req = request_to ''GET'' ''/items/42'' [] [] :: unit request
      in response_is (items_router req world0) (\<lambda>response. rs_status response = 200 \<and> rs_body response = Body ''42''))"

definition invalid_path_param_returns_bad_request :: bool where
  "invalid_path_param_returns_bad_request =
     (let req = request_to ''GET'' ''/items/not-a-number'' [] [] :: unit request
      in response_is (items_router req world0) (\<lambda>response. rs_status response = 400 \<and>
           (case rs_body response of
              ErrorBody b \<Rightarrow> map_of (error_response_members b) ''code'' = Some (JString ''INVALID_PATH'')
            | Body _ \<Rightarrow> False)))"

lemma app_path_tests:
  "app_path_is_tuple_struct"
  "valid_path_param_extracts_successfully"
  "invalid_path_param_returns_bad_request"
  by code_simp+

section \<open>\<open>stano-axum/src/extractors/app_query.rs\<close>\<close>

record search_query =
  sq_q :: string
  sq_limit :: "int option"

text \<open>\<open>axum::extract::Query<SearchQuery>\<close> on queries without escapes and without signs.\<close>

definition query_pairs :: "'e request \<Rightarrow> (string \<times> string) list" where
  "query_pairs req =
     (case rq_query req of None \<Rightarrow> [] | Some q \<Rightarrow> List.map_filter (split_once (CHR ''='')) (split_on (CHR ''&'') q))"

fun query_limit :: "string option \<Rightarrow> rejection + int option" where
  "query_limit None = Inr None"
| "query_limit (Some v) =
     (case parse_u64 v of
        Some n \<Rightarrow> if n < 2 ^ 31 then Inr (Some (uint n)) else Inl \<lparr>rj_status = 400, rj_body_text = ''number too large to fit in target type'', rj_type_name = ''FailedToDeserializeQueryString''\<rparr>
      | None \<Rightarrow> Inl \<lparr>rj_status = 400, rj_body_text = ''invalid digit found in string'', rj_type_name = ''FailedToDeserializeQueryString''\<rparr>)"

definition query_of_search :: "'e request \<Rightarrow> rejection + search_query" where
  "query_of_search req =
     (case map_of (query_pairs req) ''q'' of
        Some q \<Rightarrow> (case query_limit (map_of (query_pairs req) ''limit'') of
            Inr limit \<Rightarrow> Inr \<lparr>sq_q = q, sq_limit = limit\<rparr>
          | Inl e \<Rightarrow> Inl e)
      | None \<Rightarrow> Inl \<lparr>rj_status = 400, rj_body_text = ''missing field `q`'', rj_type_name = ''FailedToDeserializeQueryString''\<rparr>)"

definition search_request :: "string \<Rightarrow> unit request" where
  "search_request qs = (request_to ''GET'' ''/search'' [] [])\<lparr>rq_query := Some qs\<rparr>"

definition valid_query_params_extract_successfully :: bool where
  "valid_query_params_extract_successfully =
     (let req = search_request ''q=rust&limit=10''
      in case snd (app_query_from_request_parts query_of_search req) :: string api_error + search_query app_query of
           Inr (AppQuery found) \<Rightarrow> sq_q found = ''rust'' \<and> sq_limit found = Some 10
         | Inl _ \<Rightarrow> False)"

definition optional_query_params_work :: bool where
  "optional_query_params_work =
     (let req = search_request ''q=rust''
      in case snd (app_query_from_request_parts query_of_search req) :: string api_error + search_query app_query of
           Inr (AppQuery found) \<Rightarrow> sq_q found = ''rust'' \<and> sq_limit found = None
         | Inl _ \<Rightarrow> False)"

definition missing_required_param_returns_api_error :: bool where
  "missing_required_param_returns_api_error =
     (let req = search_request ''limit=10''
      in case snd (app_query_from_request_parts query_of_search req) :: string api_error + search_query app_query of
           Inl (QueryExtraction status _ _) \<Rightarrow> status = 400
         | _ \<Rightarrow> False)"

lemma app_query_tests:
  "valid_query_params_extract_successfully"
  "optional_query_params_work"
  "missing_required_param_returns_api_error"
  by code_simp+

section \<open>\<open>stano-axum/src/extractors/app_security_context.rs\<close>\<close>

definition me_handler :: "app_claims test_service" where
  "me_handler req w =
     (case app_security_context_from_request_parts req of
        Inr (AppSecurityContext sc) \<Rightarrow> (Reply (text_response (role (sc_ext sc))), w)
      | Inl e \<Rightarrow> (Reply (snd (into_response e)), w))"

definition extracts_context_from_extensions :: bool where
  "extracts_context_from_extensions =
     (let claims = \<lparr>sub = ''user-1'', session_id = ''session-1'', exp = 0, ext = \<lparr>role = ''ADMIN''\<rparr>\<rparr>;
          router = (\<lambda>req w. router_of [(''/me'', me_handler)] (req\<lparr>rq_security := Some (sc_new claims)\<rparr>) w)
      in response_is (router (request_to ''GET'' ''/me'' [] []) world0) (\<lambda>response.
           rs_status response = 200 \<and> rs_body response = Body ''ADMIN''))"

definition rejects_when_missing :: bool where
  "rejects_when_missing =
     (let router = router_of [(''/me'', me_handler)]
      in response_is (router (request_to ''GET'' ''/me'' [] []) world0) (\<lambda>response. rs_status response = 401))"

lemma app_security_context_tests:
  "extracts_context_from_extensions"
  "rejects_when_missing"
  by code_simp+

section \<open>\<open>stano-axum/src/middleware/error_logging.rs\<close>\<close>

definition ok_router :: "unit test_service" where
  "ok_router = router_of [(''/ok'', get_text ''ok'')]"

definition test_error_logging_passes_through_response_without_api_error :: bool where
  "test_error_logging_passes_through_response_without_api_error =
     (let app = error_logging_middleware ok_router
      in response_is (app (request_to ''GET'' ''/ok'' [] []) world0) (\<lambda>response. rs_status response = 200))"

definition test_error_logging_logs_when_response_has_api_error_extension :: bool where
  "test_error_logging_logs_when_response_has_api_error_extension =
     (let fail = (\<lambda>req w. (Reply (snd (into_response (from_service_error SE_NotFound))), w)) :: unit test_service;
          app = error_logging_middleware (router_of [(''/fail'', fail)])
      in response_is (app (request_to ''GET'' ''/fail'' [] []) world0) (\<lambda>response. rs_status response = 404))"

definition test_error_logging_handles_missing_x_request_id_header :: bool where
  "test_error_logging_handles_missing_x_request_id_header =
     (let app = error_logging_middleware ok_router
      in response_is (app (request_to ''GET'' ''/ok'' [] []) world0) (\<lambda>response. rs_status response = 200))"

definition test_error_logging_handles_present_x_request_id_header :: bool where
  "test_error_logging_handles_present_x_request_id_header =
     (let app = error_logging_middleware ok_router
      in response_is (app (request_to ''GET'' ''/ok'' [(''x-request-id'', HeaderText ''abc-123'')] []) world0)
           (\<lambda>response. rs_status response = 200))"

lemma error_logging_tests:
  "test_error_logging_passes_through_response_without_api_error"
  "test_error_logging_logs_when_response_has_api_error_extension"
  "test_error_logging_handles_missing_x_request_id_header"
  "test_error_logging_handles_present_x_request_id_header"
  by code_simp+

section \<open>\<open>stano-axum/src/middleware/request_logging.rs\<close>\<close>

definition test_request_logging_passes_through_successful_response :: bool where
  "test_request_logging_passes_through_successful_response =
     (let app = http_request_logging_middleware (\<lambda>_. ''0'') ok_router
      in response_is (app (request_to ''GET'' ''/ok'' [] []) world0) (\<lambda>response. rs_status response = 200))"

definition test_request_logging_passes_through_error_response :: bool where
  "test_request_logging_passes_through_error_response =
     (let fail = (\<lambda>req w. (Reply (empty_response 500), w)) :: unit test_service;
          app = http_request_logging_middleware (\<lambda>_. ''0'') (router_of [(''/fail'', fail)])
      in response_is (app (request_to ''GET'' ''/fail'' [] []) world0) (\<lambda>response. rs_status response = 500))"

lemma request_logging_tests:
  "test_request_logging_passes_through_successful_response"
  "test_request_logging_passes_through_error_response"
  by code_simp+

section \<open>\<open>stano-axum/src/security/pattern.rs\<close>\<close>

definition matches_exact_path :: bool where
  "matches_exact_path =
     unwrap_ok (compiled_pattern_new segment_matchit ''/public'') (\<lambda>pattern.
       pattern_matches segment_matchit pattern ''/public'' \<and> \<not> pattern_matches segment_matchit pattern ''/private'')"

definition matches_named_segment :: bool where
  "matches_named_segment =
     unwrap_ok (compiled_pattern_new segment_matchit ''/users/{id}'') (\<lambda>pattern.
       pattern_matches segment_matchit pattern ''/users/42'' \<and> \<not> pattern_matches segment_matchit pattern ''/users'' \<and>
       \<not> pattern_matches segment_matchit pattern ''/users/42/extra'')"

definition matches_catch_all :: bool where
  "matches_catch_all =
     unwrap_ok (compiled_pattern_new segment_matchit ''/admin/{*rest}'') (\<lambda>pattern.
       pattern_matches segment_matchit pattern ''/admin/x'' \<and> pattern_matches segment_matchit pattern ''/admin/x/y/z'' \<and>
       \<not> pattern_matches segment_matchit pattern ''/admin'')"

definition invalid_pattern_returns_err :: bool where
  "invalid_pattern_returns_err = is_err (compiled_pattern_new segment_matchit ''/bad/{'')"

lemma pattern_tests:
  "matches_exact_path"
  "matches_named_segment"
  "matches_catch_all"
  "invalid_pattern_returns_err"
  by code_simp+

section \<open>\<open>stano-axum/src/security/post_authorization_hook.rs\<close>\<close>

definition tagging ::
  "string \<Rightarrow> 'e request \<Rightarrow> 'e test_service \<Rightarrow> string server_world \<Rightarrow> ((string, string) reply + string response) \<times> string server_world" where
  "tagging header req nxt w =
     (case nxt req w of
        (Reply res, w) \<Rightarrow> (Inr (res\<lparr>rs_headers := header_insert header (HeaderText ''yes'') (rs_headers res)\<rparr>), w)
      | (incomplete, w) \<Rightarrow> (Inl incomplete, w))"

definition tag_response ::
  "'e request \<Rightarrow> 'e test_service \<Rightarrow> string server_world \<Rightarrow> ((string, string) reply + string response) \<times> string server_world" where
  "tag_response = tagging ''x-hook-ran''"

definition hook_runs_and_can_modify_the_response :: bool where
  "hook_runs_and_can_modify_the_response =
     (let app = hook_layer (hook_from_fn (\<lambda>r. r) tag_response) (router_of [(''/hello'', get_text ''ok'')]) :: unit test_service
      in response_is (app (request_to ''GET'' ''/hello'' [] []) world0) (\<lambda>response.
           rs_status response = 200 \<and> header_get (rs_headers response) ''x-hook-ran'' = Some (HeaderText ''yes'')))"

definition tag_again ::
  "'e request \<Rightarrow> 'e test_service \<Rightarrow> string server_world \<Rightarrow> ((string, string) reply + string response) \<times> string server_world" where
  "tag_again = tagging ''x-hook-2-ran''"

definition hook_composes_with_another_layer_stacked_on_top :: bool where
  "hook_composes_with_another_layer_stacked_on_top =
     (let app = hook_layer (hook_from_fn (\<lambda>r. r) tag_again)
                  (hook_layer (hook_from_fn (\<lambda>r. r) tag_response) (router_of [(''/hello'', get_text ''ok'')])) :: unit test_service
      in response_is (app (request_to ''GET'' ''/hello'' [] []) world0) (\<lambda>response.
           rs_status response = 200 \<and> header_get (rs_headers response) ''x-hook-ran'' = Some (HeaderText ''yes'') \<and>
           header_get (rs_headers response) ''x-hook-2-ran'' = Some (HeaderText ''yes'')))"

lemma post_authorization_hook_tests:
  "hook_runs_and_can_modify_the_response"
  "hook_composes_with_another_layer_stacked_on_top"
  by code_simp+

section \<open>\<open>stano-axum/src/security/layer.rs\<close>\<close>

text \<open>A \<open>jsonwebtoken\<close> whose tokens are short: the role in clear text. They do not expire.\<close>

definition role_jwt :: "(string, string, app_claims) jwt_crate" where
  "role_jwt =
     \<lparr>enc_from_ec_pem = Inr, dec_from_ec_pem = Inr,
      sign_es256 = (\<lambda>c k. Inr (''es256.'' @ role (ext c))),
      verify_es256 = (\<lambda>t k. case strip_prefix ''es256.'' t of
          Some r \<Rightarrow> Inr \<lparr>sub = ''user-1'', session_id = ''session-1'', exp = 3600, ext = \<lparr>role = r\<rparr>\<rparr>
        | None \<Rightarrow> Inl \<lparr>expired_signature = False, jw_text = ''InvalidToken''\<rparr>)\<rparr>"

text \<open>\<open>token\<close> of the tests, at the time 0; its \<open>unwrap\<close> does not fail.\<close>

definition role_token :: "string \<Rightarrow> jwt_config \<Rightarrow> string" where
  "role_token role_name config =
     (let claims = \<lparr>sub = ''user-1'', session_id = ''session-1'', exp = 0 + 3600, ext = \<lparr>role = role_name\<rparr>\<rparr>
      in case encode_jwt role_jwt claims config of Inr t \<Rightarrow> t)"

type_synonym test_builder = "(string list, string, app_claims, string server_world) authorization_builder"

definition chained :: "test_builder \<Rightarrow> test_builder" where
  "chained b =
     authenticated segment_matchit (any_request
       (has_role segment_matchit (\<lambda>c. role c = ''ADMIN'') (request_matcher ''/admin/{*rest}''
         (permit_all segment_matchit (request_matcher ''/public/{*rest}'' b)))))"

definition layered :: "jwt_config \<Rightarrow> test_builder \<Rightarrow> app_claims test_service \<Rightarrow> app_claims test_service" where
  "layered config b router = (case build config b of Inr layer \<Rightarrow> authorization_service segment_matchit role_jwt layer router)"

definition three_routes :: "app_claims test_service" where
  "three_routes = router_of [(''/public/x'', get_text ''ok''), (''/admin/x'', get_text ''ok''), (''/other'', get_text ''ok'')]"

definition layer_app :: "jwt_config \<Rightarrow> app_claims test_service" where
  "layer_app config = layered config (chained authorization_builder_new) three_routes"

definition status_of :: "('x, 'err) reply \<times> 'w \<Rightarrow> nat" where
  "status_of p = (case fst p of Reply r \<Rightarrow> rs_status r | _ \<Rightarrow> 0)"

definition layer_request :: "app_claims test_service \<Rightarrow> string \<Rightarrow> string option \<Rightarrow> nat" where
  "layer_request app path token =
     status_of (app (request_to ''GET'' path
       (case token of None \<Rightarrow> [] | Some t \<Rightarrow> [(''authorization'', HeaderText (''Bearer '' @ t))]) []) world0)"

definition permit_all_allows_without_token :: bool where
  "permit_all_allows_without_token =
     (let config = jwt_test_config; app = layer_app config in layer_request app ''/public/x'' None = 200)"

definition any_request_rejects_missing_token :: bool where
  "any_request_rejects_missing_token =
     (let config = jwt_test_config; app = layer_app config in layer_request app ''/other'' None = 401)"

definition any_request_allows_valid_token :: bool where
  "any_request_allows_valid_token =
     (let config = jwt_test_config; app = layer_app config in layer_request app ''/other'' (Some (role_token ''USER'' config)) = 200)"

definition has_role_rejects_wrong_role :: bool where
  "has_role_rejects_wrong_role =
     (let config = jwt_test_config; app = layer_app config in layer_request app ''/admin/x'' (Some (role_token ''USER'' config)) = 403)"

definition has_role_allows_correct_role :: bool where
  "has_role_allows_correct_role =
     (let config = jwt_test_config; app = layer_app config in layer_request app ''/admin/x'' (Some (role_token ''ADMIN'' config)) = 200)"

definition has_role_rejects_missing_token :: bool where
  "has_role_rejects_missing_token =
     (let config = jwt_test_config; app = layer_app config in layer_request app ''/admin/x'' None = 401)"

definition app_with_validator :: "jwt_config \<Rightarrow> (app_claims claims \<Rightarrow> bool) \<Rightarrow> app_claims test_service" where
  "app_with_validator config validator =
     layered config
       (with_claims_validator (\<lambda>claims w. (if validator claims then Inr () else Inl ''rejected'', w))
         (chained authorization_builder_new))
       three_routes"

definition claims_validator_ok_allows_authenticated_request :: bool where
  "claims_validator_ok_allows_authenticated_request =
     (let config = jwt_test_config; app = app_with_validator config (\<lambda>_. True) in layer_request app ''/other'' (Some (role_token ''USER'' config)) = 200)"

definition claims_validator_err_rejects_authenticated_request :: bool where
  "claims_validator_err_rejects_authenticated_request =
     (let config = jwt_test_config; app = app_with_validator config (\<lambda>_. False) in layer_request app ''/other'' (Some (role_token ''USER'' config)) = 401)"

definition claims_validator_err_rejects_has_role_request_as_unauthorized :: bool where
  "claims_validator_err_rejects_has_role_request_as_unauthorized =
     (let config = jwt_test_config; app = app_with_validator config (\<lambda>_. False) in layer_request app ''/admin/x'' (Some (role_token ''ADMIN'' config)) = 401)"

definition claims_validator_err_on_permit_all_still_allows_without_context :: bool where
  "claims_validator_err_on_permit_all_still_allows_without_context =
     (let config = jwt_test_config; app = app_with_validator config (\<lambda>_. False) in layer_request app ''/public/x'' (Some (role_token ''USER'' config)) = 200)"

definition app_with_cookie :: "jwt_config \<Rightarrow> app_claims test_service" where
  "app_with_cookie config =
     layered config
       (cookie_name ''jwt_token''
         (authenticated segment_matchit (any_request
           (permit_all segment_matchit (request_matcher ''/public/{*rest}'' authorization_builder_new)))))
       (router_of [(''/other'', get_text ''ok'')])"

definition request_with_cookie :: "app_claims test_service \<Rightarrow> string \<Rightarrow> string option \<Rightarrow> nat" where
  "request_with_cookie app path cookie =
     status_of (app (request_to ''GET'' path (case cookie of None \<Rightarrow> [] | Some c \<Rightarrow> [(''cookie'', HeaderText c)]) []) world0)"

definition cookie_fallback_allows_authenticated_request_without_header :: bool where
  "cookie_fallback_allows_authenticated_request_without_header =
     (let config = jwt_test_config; app = app_with_cookie config; token = role_token ''USER'' config
      in request_with_cookie app ''/other'' (Some (''jwt_token='' @ token)) = 200)"

definition cookie_fallback_ignores_unrelated_cookies :: bool where
  "cookie_fallback_ignores_unrelated_cookies =
     (let config = jwt_test_config; app = app_with_cookie config
      in request_with_cookie app ''/other'' (Some ''other=value'') = 401)"

definition no_cookie_name_configured_is_header_only :: bool where
  "no_cookie_name_configured_is_header_only =
     (let config = jwt_test_config; app = layer_app config; token = role_token ''USER'' config
      in request_with_cookie app ''/other'' (Some (''jwt_token='' @ token)) = 401)"

lemma layer_tests:
  "permit_all_allows_without_token"
  "any_request_rejects_missing_token"
  "any_request_allows_valid_token"
  "has_role_rejects_wrong_role"
  "has_role_allows_correct_role"
  "has_role_rejects_missing_token"
  "claims_validator_ok_allows_authenticated_request"
  "claims_validator_err_rejects_authenticated_request"
  "claims_validator_err_rejects_has_role_request_as_unauthorized"
  "claims_validator_err_on_permit_all_still_allows_without_context"
  "cookie_fallback_allows_authenticated_request_without_header"
  "cookie_fallback_ignores_unrelated_cookies"
  "no_cookie_name_configured_is_header_only"
  by code_simp+

end
