(* ===== verification/Macro_Tests.thy ===== *)
theory Macro_Tests
  imports Test_Support Di_Macros Route_Macros
begin

text \<open>
  The tests of the two macro crates on the model: the test modules, the programs under \<open>tests/ui\<close> with
  the messages they are expected to fail with, and \<open>macro_integration.rs\<close>, which resolves components
  that the macros register. Attributes and items are given as \<open>syn\<close> parses them.
\<close>

section \<open>Syntax\<close>

definition typ_of :: "string \<Rightarrow> syn_type" where
  "typ_of n = TyPath [(n, NoArgs)]"

definition app_of :: "string \<Rightarrow> syn_type list \<Rightarrow> syn_type" where
  "app_of n args = TyPath [(n, AngleArgs (map GenType args))]"

definition arc_of :: "syn_type \<Rightarrow> syn_type" where
  "arc_of t = app_of ''Arc'' [t]"

definition static_str :: syn_type where
  "static_str = TyOther (''&'' @ [CHR 0x27] @ ''static str'')"

definition struct_of :: "string \<Rightarrow> fields \<Rightarrow> struct_def" where
  "struct_of n fs = \<lparr>s_attrs = [], s_vis = ''pub'', s_ident = n, s_generics = [], s_fields = fs\<rparr>"

definition trait_of :: "string \<Rightarrow> string list \<Rightarrow> trait_def" where
  "trait_of n bounds =
     \<lparr>t_ident = n, t_supertraits = map (\<lambda>b. BoundTrait False [(b, NoArgs)]) bounds,
      t_text = ''fn greet(&self) -> String;''\<rparr>"

text \<open>A manifest, as \<open>crate_name\<close> finds its dependencies.\<close>

definition manifest :: "string list \<Rightarrow> string \<Rightarrow> found_crate option" where
  "manifest deps pkg = (if pkg \<in> set deps then Some (Named (map (\<lambda>c. if c = CHR ''-'' then CHR ''_'' else c) pkg)) else None)"

fun error_says :: "string + 'a \<Rightarrow> string \<Rightarrow> bool" where
  "error_says (Inl m) t = contains_text m t"
| "error_says (Inr _) t = False"

section \<open>\<open>stano-di-macros/src/lib.rs\<close>\<close>

definition dev_manifest :: "string \<Rightarrow> found_crate option" where
  "dev_manifest = manifest [''stano-di'']"

definition test_extract_arc_inner_returns_inner_type_for_arc :: bool where
  "test_extract_arc_inner_returns_inner_type_for_arc = (extract_arc_inner (arc_of (typ_of ''Logger'')) = Some (typ_of ''Logger''))"

definition test_extract_arc_inner_returns_none_for_non_arc :: bool where
  "test_extract_arc_inner_returns_none_for_non_arc = (extract_arc_inner (typ_of ''Logger'') = None)"

definition test_is_trait_object_true_for_dyn_trait :: bool where
  "test_is_trait_object_true_for_dyn_trait = is_trait_object (TyTraitObject ''Greeter'')"

definition test_is_trait_object_false_for_concrete_type :: bool where
  "test_is_trait_object_false_for_concrete_type = (\<not> is_trait_object (typ_of ''Logger''))"

text \<open>An expansion has both impls, for the trait it is made from.\<close>

definition test_component_trait_generates_dyn_component_impl_for_valid_trait :: bool where
  "test_component_trait_generates_dyn_component_impl_for_valid_trait =
     unwrap_ok (component_trait dev_manifest (trait_of ''Greeter'' [''Send'', ''Sync''])) (\<lambda>expanded.
       ce_dyn_component_for expanded = ''Greeter'' \<and> ce_injectable_for expanded = ''Greeter'')"

definition test_component_trait_rejects_trait_missing_send_and_sync :: bool where
  "test_component_trait_rejects_trait_missing_send_and_sync =
     error_says (component_trait dev_manifest (trait_of ''Greeter'' [])) ''Send + Sync''"

definition test_component_trait_rejects_trait_with_only_send :: bool where
  "test_component_trait_rejects_trait_with_only_send =
     error_says (component_trait dev_manifest (trait_of ''Greeter'' [''Send''])) ''Send + Sync''"

definition test_component_trait_rejects_trait_with_only_sync :: bool where
  "test_component_trait_rejects_trait_with_only_sync =
     error_says (component_trait dev_manifest (trait_of ''Greeter'' [''Sync''])) ''Send + Sync''"

definition test_component_rejects_non_trait_item :: bool where
  "test_component_rejects_non_trait_item =
     error_says (component_impl dev_manifest (ItemStruct (struct_of ''NotATrait'' FieldsUnit))) ''can only be used on traits''"

definition test_component_impl_dispatches_valid_trait_to_component_trait :: bool where
  "test_component_impl_dispatches_valid_trait_to_component_trait =
     unwrap_ok (component_impl dev_manifest (ItemTrait (trait_of ''Greeter'' [''Send'', ''Sync'']))) (\<lambda>expanded.
       ce_dyn_component_for expanded = ''Greeter'' \<and> ce_injectable_for expanded = ''Greeter'')"

text \<open>The impl is for the struct; a trait argument selects \<open>register_trait_with_deps\<close>.\<close>

definition component_for :: "service_expansion \<Rightarrow> string" where
  "component_for e = s_ident (se_struct e)"

definition registers_trait :: "service_expansion \<Rightarrow> bool" where
  "registers_trait e = (se_trait e \<noteq> None)"

definition test_service_struct_generates_component_impl_for_unit_struct :: bool where
  "test_service_struct_generates_component_impl_for_unit_struct =
     unwrap_ok (service_struct dev_manifest (struct_of ''Widget'' FieldsUnit) None) (\<lambda>expanded. component_for expanded = ''Widget'')"

definition test_service_struct_without_trait_type_uses_register_with_deps :: bool where
  "test_service_struct_without_trait_type_uses_register_with_deps =
     unwrap_ok (service_struct dev_manifest (struct_of ''Widget'' FieldsUnit) None) (\<lambda>expanded. \<not> registers_trait expanded)"

definition test_service_struct_with_concrete_arc_field_uses_typeid_and_get :: bool where
  "test_service_struct_with_concrete_arc_field_uses_typeid_and_get =
     unwrap_ok (service_struct dev_manifest (struct_of ''Widget'' (FieldsNamed [(''logger'', arc_of (typ_of ''Logger''))])) None)
       (\<lambda>expanded. se_dependency_ids expanded = [TypeIdOf (typ_of ''Logger'')] \<and>
          se_get_calls expanded = [GetCall (typ_of ''Logger'')])"

definition test_service_struct_rejects_non_arc_field :: bool where
  "test_service_struct_rejects_non_arc_field =
     error_says (service_struct dev_manifest (struct_of ''Widget'' (FieldsNamed [(''logger'', typ_of ''Logger'')])) None)
       ''must be typed as Arc''"

definition test_service_struct_with_trait_object_field_uses_get_trait :: bool where
  "test_service_struct_with_trait_object_field_uses_get_trait =
     unwrap_ok (service_struct dev_manifest (struct_of ''Widget'' (FieldsNamed [(''greeter'', arc_of (TyTraitObject ''Greeter''))])) None)
       (\<lambda>expanded. se_get_calls expanded = [GetTraitCall (TyTraitObject ''Greeter'')] \<and>
          se_dependency_ids expanded = [TraitObjectTypeId (TyTraitObject ''Greeter'')])"

definition test_service_struct_with_trait_type_registers_via_register_trait_with_deps :: bool where
  "test_service_struct_with_trait_type_registers_via_register_trait_with_deps =
     unwrap_ok (service_struct dev_manifest (struct_of ''Widget'' FieldsUnit) (Some (TyTraitObject ''Greeter''))) registers_trait"

definition test_service_struct_rejects_tuple_struct :: bool where
  "test_service_struct_rejects_tuple_struct =
     error_says (service_struct dev_manifest (struct_of ''Widget'' (FieldsUnnamed [typ_of ''u32''])) None)
       ''named fields or unit structs''"

text \<open>\<open>syn::parse2::<Type>\<close> on the attributes of the tests.\<close>

definition parse_type :: "token list \<Rightarrow> string + syn_type" where
  "parse_type ts =
     (case ts of
        [TIdent d, TIdent n] \<Rightarrow> if d = ''dyn'' then Inr (TyTraitObject n) else Inl ''unexpected token''
      | [TIdent n] \<Rightarrow> Inr (typ_of n)
      | TIdent _ # _ \<Rightarrow> Inl ''expected identifier''
      | _ \<Rightarrow> Inl ''expected one of: `for`, parentheses, `fn`, identifier'')"

definition test_service_rejects_non_struct_item :: bool where
  "test_service_rejects_non_struct_item =
     error_says (service_impl dev_manifest parse_type [] (ItemTrait (trait_of ''NotAStruct'' []))) ''can only be used on structs''"

definition test_service_rejects_bad_trait_type_token :: bool where
  "test_service_rejects_bad_trait_type_token =
     error_says (service_impl dev_manifest parse_type [TLiteral ''123''] (ItemStruct (struct_of ''Widget'' FieldsUnit)))
       ''Failed to parse service trait type''"

definition test_service_impl_with_empty_attr_dispatches_to_service_struct :: bool where
  "test_service_impl_with_empty_attr_dispatches_to_service_struct =
     unwrap_ok (service_impl dev_manifest parse_type [] (ItemStruct (struct_of ''Widget'' FieldsUnit))) (\<lambda>expanded.
       component_for expanded = ''Widget'' \<and> \<not> registers_trait expanded)"

definition test_service_impl_with_valid_trait_attr_dispatches_to_service_struct :: bool where
  "test_service_impl_with_valid_trait_attr_dispatches_to_service_struct =
     unwrap_ok (service_impl dev_manifest parse_type [TIdent ''dyn'', TIdent ''Greeter''] (ItemStruct (struct_of ''Widget'' FieldsUnit)))
       registers_trait"

fun path_contains :: "crate_path \<Rightarrow> string \<Rightarrow> bool" where
  "path_contains p n = (cp_root p = CrateNamed n \<or> n \<in> set (cp_segments p))"

definition test_stano_di_path_resolves_to_dev_dependency :: bool where
  "test_stano_di_path_resolves_to_dev_dependency =
     unwrap_ok (stano_di_path dev_manifest) (\<lambda>path. path_contains path ''stano_di'')"

definition test_stano_di_path_falls_back_to_stano_starter_family :: bool where
  "test_stano_di_path_falls_back_to_stano_starter_family =
     unwrap_ok (stano_di_path (manifest [''stano-starter''])) (\<lambda>path. path_contains path ''stano_di'')"

definition test_stano_di_path_panics_when_no_known_dependency_present :: bool where
  "test_stano_di_path_panics_when_no_known_dependency_present = is_err (stano_di_path (manifest [''serde'']))"

lemma di_macro_tests:
  "test_extract_arc_inner_returns_inner_type_for_arc"
  "test_extract_arc_inner_returns_none_for_non_arc"
  "test_is_trait_object_true_for_dyn_trait"
  "test_is_trait_object_false_for_concrete_type"
  "test_component_trait_generates_dyn_component_impl_for_valid_trait"
  "test_component_trait_rejects_trait_missing_send_and_sync"
  "test_component_trait_rejects_trait_with_only_send"
  "test_component_trait_rejects_trait_with_only_sync"
  "test_component_rejects_non_trait_item"
  "test_component_impl_dispatches_valid_trait_to_component_trait"
  "test_service_struct_generates_component_impl_for_unit_struct"
  "test_service_struct_without_trait_type_uses_register_with_deps"
  "test_service_struct_with_concrete_arc_field_uses_typeid_and_get"
  "test_service_struct_rejects_non_arc_field"
  "test_service_struct_with_trait_object_field_uses_get_trait"
  "test_service_struct_with_trait_type_registers_via_register_trait_with_deps"
  "test_service_struct_rejects_tuple_struct"
  "test_service_rejects_non_struct_item"
  "test_service_rejects_bad_trait_type_token"
  "test_service_impl_with_empty_attr_dispatches_to_service_struct"
  "test_service_impl_with_valid_trait_attr_dispatches_to_service_struct"
  "test_stano_di_path_resolves_to_dev_dependency"
  "test_stano_di_path_falls_back_to_stano_starter_family"
  "test_stano_di_path_panics_when_no_known_dependency_present"
  by code_simp+

section \<open>\<open>stano-di-macros/tests/ui\<close>\<close>

text \<open>The items of the programs that must not compile, and the messages of their \<open>.stderr\<close> files.\<close>

definition ui_component_missing_sync :: bool where
  "ui_component_missing_sync =
     (component_impl dev_manifest (ItemTrait (trait_of ''Greeter'' [''Send''])) =
        Inl ''#[component] trait must have Send + Sync supertraits'')"

definition ui_component_on_non_trait :: bool where
  "ui_component_on_non_trait =
     (component_impl dev_manifest (ItemStruct (struct_of ''NotATrait'' FieldsUnit)) =
        Inl (''#[component] can only be used on traits. Structs do not need this annotation '' @
             [CHR 0xE2, CHR 0x80, CHR 0x94] @ '' use register() or register_instance() in the container setup.''))"

definition ui_component_without_send_sync :: bool where
  "ui_component_without_send_sync =
     (component_impl dev_manifest (ItemTrait (trait_of ''Greeter'' [])) =
        Inl ''#[component] trait must have Send + Sync supertraits'')"

definition ui_service_bad_trait_type_token :: bool where
  "ui_service_bad_trait_type_token =
     (service_impl dev_manifest parse_type [TIdent ''dyn'', TPunct (CHR ''+''), TPunct (CHR ''+''), TPunct (CHR ''+'')]
        (ItemStruct (struct_of ''Widget'' FieldsUnit)) =
        Inl ''Failed to parse service trait type: expected identifier'')"

definition ui_service_on_non_struct :: bool where
  "ui_service_on_non_struct =
     (service_impl dev_manifest parse_type [] (ItemOther ''enum NotAStruct { Variant }'') =
        Inl ''#[service] can only be used on structs'')"

definition ui_service_on_tuple_struct :: bool where
  "ui_service_on_tuple_struct =
     (service_impl dev_manifest parse_type [] (ItemStruct (struct_of ''Widget'' (FieldsUnnamed [typ_of ''i32'']))) =
        Inl ''#[service] only supports structs with named fields or unit structs'')"

definition ui_service_with_non_arc_field :: bool where
  "ui_service_with_non_arc_field =
     (service_impl dev_manifest parse_type [] (ItemStruct (struct_of ''Widget'' (FieldsNamed [(''count'', typ_of ''i32'')]))) =
        Inl ''Fields in #[service] structs must be typed as Arc<T>'')"

lemma di_macro_ui_tests:
  "ui_component_missing_sync"
  "ui_component_on_non_trait"
  "ui_component_without_send_sync"
  "ui_service_bad_trait_type_token"
  "ui_service_on_non_struct"
  "ui_service_on_tuple_struct"
  "ui_service_with_non_arc_field"
  by code_simp+

section \<open>\<open>stano-di/tests/macro_integration.rs\<close>\<close>

text \<open>The components of the test and what their methods answer.\<close>

datatype test_component =
    EnglishGreeter
  | Logger
  | LoggingGreeter test_component
  | PlainWidget
  | Combo test_component

fun logger_log :: "test_component \<Rightarrow> string \<Rightarrow> string" where
  "logger_log Logger msg = ''[log] '' @ msg"
| "logger_log _ msg = []"

fun greet :: "test_component \<Rightarrow> string" where
  "greet EnglishGreeter = ''hello''"
| "greet (LoggingGreeter logger) = logger_log logger ''hello''"
| "greet _ = []"

fun widget_value :: "test_component \<Rightarrow> int" where
  "widget_value PlainWidget = 42"
| "widget_value _ = 0"

fun describe :: "test_component \<Rightarrow> string" where
  "describe (Combo logger) = logger_log logger ''combo''"
| "describe _ = []"

text \<open>What the annotated items expand to, and the types their code names.\<close>

fun macro_rty :: "syn_type \<Rightarrow> rty" where
  "macro_rty (TyTraitObject n) = RDyn n"
| "macro_rty (TyPath [(n, _)]) = RConcrete n"
| "macro_rty _ = RConcrete []"

definition greeter_component :: component_expansion where
  "greeter_component = (case component_impl dev_manifest (ItemTrait (trait_of ''Greeter'' [''Send'', ''Sync''])) of Inr e \<Rightarrow> e)"

definition service_of ::
  "token list \<Rightarrow> struct_def \<Rightarrow> (test_component arc list \<Rightarrow> test_component) \<Rightarrow> test_component container \<Rightarrow> test_component container" where
  "service_of attr s new c =
     (case service_impl dev_manifest parse_type attr (ItemStruct s) of Inr e \<Rightarrow> generated_register macro_rty new e c)"

definition english_greeter :: "test_component container \<Rightarrow> test_component container" where
  "english_greeter = service_of [TIdent ''dyn'', TIdent ''Greeter''] (struct_of ''EnglishGreeter'' FieldsUnit) (\<lambda>_. EnglishGreeter)"

definition logger_service :: "test_component container \<Rightarrow> test_component container" where
  "logger_service = service_of [] (struct_of ''Logger'' FieldsUnit) (\<lambda>_. Logger)"

definition logging_greeter :: "test_component container \<Rightarrow> test_component container" where
  "logging_greeter =
     service_of [TIdent ''dyn'', TIdent ''Greeter'']
       (struct_of ''LoggingGreeter'' (FieldsNamed [(''logger'', arc_of (typ_of ''Logger''))])) (\<lambda>args. LoggingGreeter (arc_val (hd args)))"

definition plain_widget :: "test_component container \<Rightarrow> test_component container" where
  "plain_widget = service_of [] (struct_of ''PlainWidget'' FieldsUnit) (\<lambda>_. PlainWidget)"

definition combo_service :: "test_component container \<Rightarrow> test_component container" where
  "combo_service =
     service_of [] (struct_of ''Combo'' (FieldsNamed [(''logger'', arc_of (typ_of ''Logger''))])) (\<lambda>args. Combo (arc_val (hd args)))"

fun resolves :: "'a arc outcome \<times> 's \<Rightarrow> ('a \<Rightarrow> bool) \<Rightarrow> bool" where
  "resolves (Val a, st) f = f (arc_val a)"
| "resolves _ f = False"

definition test_component_and_service_macros_register_and_resolve_via_container :: bool where
  "test_component_and_service_macros_register_and_resolve_via_container =
     (let container = register_component english_greeter container_new
      in resolves (get_from greeter_component container (runtime_of container 0)) (\<lambda>greeter. greet greeter = ''hello''))"

definition test_component_and_service_macros_register_and_resolve_via_application_context :: bool where
  "test_component_and_service_macros_register_and_resolve_via_application_context =
     (let ctx = ctx_register_component english_greeter (ctx_new Map.empty)
      in resolves (ctx_get_trait ctx (RDyn ''Greeter'') (runtime_of (app_container ctx) 0)) (\<lambda>greeter. greet greeter = ''hello''))"

definition test_service_with_arc_dependency_field_resolves_via_container :: bool where
  "test_service_with_arc_dependency_field_resolves_via_container =
     (let container = register_component logging_greeter (register_component logger_service container_new)
      in resolves (get_trait container (RDyn ''Greeter'') (runtime_of container 0)) (\<lambda>greeter. greet greeter = ''[log] hello''))"

definition test_bare_service_without_trait_registers_as_concrete_type :: bool where
  "test_bare_service_without_trait_registers_as_concrete_type =
     (let container = register_component plain_widget container_new
      in resolves (get container (RConcrete ''PlainWidget'') (runtime_of container 0)) (\<lambda>widget. widget_value widget = 42))"

definition test_bare_service_with_arc_dependency_field :: bool where
  "test_bare_service_with_arc_dependency_field =
     (let container = register_component combo_service (register_component logger_service container_new)
      in resolves (get container (RConcrete ''Combo'') (runtime_of container 0)) (\<lambda>combo. describe combo = ''[log] combo''))"

lemma macro_integration_tests:
  "test_component_and_service_macros_register_and_resolve_via_container"
  "test_component_and_service_macros_register_and_resolve_via_application_context"
  "test_service_with_arc_dependency_field_resolves_via_container"
  "test_bare_service_without_trait_registers_as_concrete_type"
  "test_bare_service_with_arc_dependency_field"
  by code_simp+

section \<open>\<open>stano-route-macros/src/lib.rs\<close>\<close>

text \<open>The tokens of an attribute, and the text of an expansion without its spaces.\<close>

definition quoted :: "string \<Rightarrow> string" where
  "quoted s = CHR 0x22 # s @ [CHR 0x22]"

definition lit :: "string \<Rightarrow> token" where
  "lit s = TLiteral (quoted s)"

definition key :: "string \<Rightarrow> token list \<Rightarrow> token list" where
  "key n v = TIdent n # TPunct (CHR ''='') # v"

definition paren :: "token list \<Rightarrow> token" where
  "paren ts = TGroup Parenthesis ts"

definition entry :: "string \<Rightarrow> string \<Rightarrow> token" where
  "entry status body = paren (comma_separated [key ''status'' [TLiteral status], key ''body'' [TIdent body]])"

definition responses_key :: "token list \<Rightarrow> token list" where
  "responses_key inner = [TIdent ''responses'', paren inner]"

definition ok_string :: "token list" where
  "ok_string = responses_key [entry ''200'' ''String'']"

fun delimit :: "delimiter \<Rightarrow> string \<Rightarrow> string" where
  "delimit Parenthesis s = ''('' @ s @ '')''"
| "delimit Brace s = ''{'' @ s @ ''}''"
| "delimit Bracket s = ''['' @ s @ '']''"
| "delimit NoDelimiter s = s"

fun token_text :: "token \<Rightarrow> string" where
  "token_text (TIdent n) = n"
| "token_text (TPunct c) = [c]"
| "token_text (TLiteral l) = l"
| "token_text (TGroup d ts) = delimit d (concat (map token_text ts))"

text \<open>The types of the tests have one segment and at most one level of arguments in the arguments.\<close>

definition name_tokens :: "syn_type \<Rightarrow> token list" where
  "name_tokens t = (case t of TyPath [(n, _)] \<Rightarrow> [TIdent n] | _ \<Rightarrow> [])"

definition test_crates :: "string list \<Rightarrow> macro_crates" where
  "test_crates deps =
     \<lparr>mc_to_string = (\<lambda>ts. concat (map token_text ts)), mc_type_tokens = name_tokens,
      mc_parse_lit_str = (\<lambda>l. if hd l = CHR 0x22 then Some (butlast (tl l)) else None),
      mc_string_literal = quoted, mc_crate_name = manifest deps\<rparr>"

text \<open>
  An expansion: the \<open>utoipa\<close> attribute, the function, and the registration, as the macro quotes them.
\<close>

fun norm_text :: "macro_result \<Rightarrow> string" where
  "norm_text (CompileError m) = ''compile_error!{'' @ m @ ''}''"
| "norm_text (MacroPanics m) = []"
| "norm_text (Expands e) =
     ''utoipa::path('' @ token_text (TGroup NoDelimiter (comma_separated (re_path_args e))) @ '')'' @ fn_text (re_func e) @
     ''inventory::submit!{RouteRegistration(||routes!('' @ re_registered e @ ''))}''"

definition expand :: "string \<Rightarrow> token list list \<Rightarrow> fn_def \<Rightarrow> string" where
  "expand meth attr func = norm_text (route_method_fn (test_crates [''stano-axum'']) meth (comma_separated attr) func)"

definition handler_fn :: "string \<Rightarrow> syn_type list \<Rightarrow> syn_type \<Rightarrow> string \<Rightarrow> fn_def" where
  "handler_fn n params ret body =
     \<lparr>fn_ident = n, fn_inputs = map Typed params, fn_output = Some ret, fn_text = body\<rparr>"

definition ok_body :: string where
  "ok_body = ''{'' @ quoted ''ok'' @ ''}''"

definition todo_body :: string where
  "todo_body = ''{todo!()}''"

definition json_of :: "string \<Rightarrow> syn_type" where
  "json_of n = app_of ''AppJson'' [typ_of n]"

definition path_of :: "string \<Rightarrow> syn_type" where
  "path_of n = app_of ''AppPath'' [typ_of n]"

definition query_of :: "string \<Rightarrow> syn_type" where
  "query_of n = app_of ''AppQuery'' [typ_of n]"

definition result_of :: "syn_type \<Rightarrow> string \<Rightarrow> syn_type" where
  "result_of t err = app_of ''Result'' [t, typ_of err]"

definition says :: "string \<Rightarrow> string \<Rightarrow> bool" where
  "says expanded t = contains_text expanded t"

definition test_route_method_impl_rejects_non_fn_item :: bool where
  "test_route_method_impl_rejects_non_fn_item =
     (let expanded = norm_text (route_method_impl (test_crates [''stano-axum'']) ''get'' [] (ItemStruct (struct_of ''NotAFn'' FieldsUnit)))
      in says expanded ''compile_error'' \<and> says expanded ''#[get] can only be used on functions'')"

definition test_get_forwards_pass_through_keys_verbatim :: bool where
  "test_get_forwards_pass_through_keys_verbatim =
     (let expanded = expand ''get'' [key ''path'' [lit ''/health''], key ''tag'' [lit ''t''], [TIdent ''security'', paren [paren [lit ''bearerAuth'', TPunct (CHR ''=''), TGroup Bracket []]]], ok_string]
            (handler_fn ''health'' [] static_str ok_body)
      in \<not> says expanded ''compile_error'' \<and>
         says expanded (''path='' @ [CHR 0x22] @ ''/health'' @ [CHR 0x22]) \<and>
         says expanded (''tag='' @ [CHR 0x22] @ ''t'' @ [CHR 0x22]) \<and>
         says expanded ''security'')"

definition test_operation_id_is_injected_from_fn_name :: bool where
  "test_operation_id_is_injected_from_fn_name =
     (let expanded = expand ''get'' [key ''path'' [lit ''/health''], ok_string]
            (handler_fn ''health_check'' [] static_str ok_body)
      in says expanded (''operation_id='' @ [CHR 0x22] @ ''health_check'' @ [CHR 0x22]))"

definition test_request_body_inferred_from_single_app_json_param :: bool where
  "test_request_body_inferred_from_single_app_json_param =
     (let expanded = expand ''post'' [key ''path'' [lit ''/widgets'']]
            (handler_fn ''create'' [json_of ''Foo''] (json_of ''Bar'') todo_body)
      in says expanded ''request_body=Foo'')"

definition test_request_body_not_inferred_when_no_app_json_param :: bool where
  "test_request_body_not_inferred_when_no_app_json_param =
     (let expanded = expand ''get'' [key ''path'' [lit ''/x''], ok_string]
            (handler_fn ''handler'' [] static_str ok_body)
      in \<not> says expanded ''request_body'')"

definition test_request_body_multiple_app_json_params_is_compile_error :: bool where
  "test_request_body_multiple_app_json_params_is_compile_error =
     (let expanded = expand ''post'' [key ''path'' [lit ''/x'']]
            (handler_fn ''handler'' [json_of ''Foo'', json_of ''Bar''] (json_of ''Baz'') todo_body)
      in says expanded ''compile_error'' \<and>
         says expanded ''more than one AppJson'')"

definition test_request_body_explicit_and_inferred_agree_is_not_an_error :: bool where
  "test_request_body_explicit_and_inferred_agree_is_not_an_error =
     (let expanded = expand ''post'' [key ''path'' [lit ''/x''], key ''request_body'' [TIdent ''Foo'']]
            (handler_fn ''handler'' [json_of ''Foo''] (json_of ''Bar'') todo_body)
      in \<not> says expanded ''compile_error'' \<and>
         says expanded ''request_body=Foo'')"

definition test_request_body_explicit_conflicts_with_inferred_is_compile_error :: bool where
  "test_request_body_explicit_conflicts_with_inferred_is_compile_error =
     (let expanded = expand ''post'' [key ''path'' [lit ''/x''], key ''request_body'' [TIdent ''Bar'']]
            (handler_fn ''handler'' [json_of ''Foo''] (json_of ''Baz'') todo_body)
      in says expanded ''compile_error'' \<and>
         says expanded ''conflicts'')"

definition test_response_inferred_from_app_json_return :: bool where
  "test_response_inferred_from_app_json_return =
     (let expanded = expand ''get'' [key ''path'' [lit ''/x'']]
            (handler_fn ''handler'' [] (json_of ''Foo'') todo_body)
      in says expanded ''(status=200,body=Foo)'')"

definition test_response_inferred_from_result_app_json_return :: bool where
  "test_response_inferred_from_result_app_json_return =
     (let expanded = expand ''get'' [key ''path'' [lit ''/x'']]
            (handler_fn ''handler'' [] (result_of (json_of ''Foo'') ''ApiError'') todo_body)
      in says expanded ''(status=200,body=Foo)'' \<and>
         \<not> says expanded ''body=ApiError'')"

definition test_response_no_inference_requires_explicit_responses :: bool where
  "test_response_no_inference_requires_explicit_responses =
     (let expanded = expand ''get'' [key ''path'' [lit ''/x''], ok_string]
            (handler_fn ''handler'' [] static_str ok_body)
      in \<not> says expanded ''compile_error'' \<and>
         says expanded ''(status=200,body=String)'')"

definition test_response_no_inference_and_no_explicit_responses_is_compile_error :: bool where
  "test_response_no_inference_and_no_explicit_responses_is_compile_error =
     (let expanded = expand ''get'' [key ''path'' [lit ''/x'']]
            (handler_fn ''handler'' [] static_str ok_body)
      in says expanded ''compile_error'' \<and>
         says expanded ''cannot infer a 200 response'')"

definition test_response_duplicate_200_is_compile_error :: bool where
  "test_response_duplicate_200_is_compile_error =
     (let expanded = expand ''get'' [key ''path'' [lit ''/x''], responses_key [entry ''200'' ''Bar'']]
            (handler_fn ''handler'' [] (json_of ''Foo'') todo_body)
      in says expanded ''compile_error'' \<and>
         says expanded ''conflicts with an explicit'')"

definition test_response_explicit_error_appended_after_inferred_200 :: bool where
  "test_response_explicit_error_appended_after_inferred_200 =
     (let expanded = expand ''get'' [key ''path'' [lit ''/x''], responses_key [entry ''404'' ''String'']]
            (handler_fn ''handler'' [] (result_of (json_of ''Foo'') ''ApiError'') todo_body)
      in says expanded ''(status=200,body=Foo)'' \<and>
         says expanded ''(status=404,body=String)'')"

definition test_params_inferred_from_app_path_single_primitive :: bool where
  "test_params_inferred_from_app_path_single_primitive =
     (let expanded = expand ''get'' [key ''path'' [lit ''/widgets/{id}''], ok_string]
            (handler_fn ''handler'' [path_of ''String''] static_str ok_body)
      in says expanded (''('' @ [CHR 0x22] @ ''id'' @ [CHR 0x22] @ ''=String,Path)''))"

definition test_params_inferred_from_app_path_typed_id_suffix_heuristic :: bool where
  "test_params_inferred_from_app_path_typed_id_suffix_heuristic =
     (let expanded = expand ''get'' [key ''path'' [lit ''/widgets/{id}''], ok_string]
            (handler_fn ''handler'' [path_of ''WidgetId''] static_str ok_body)
      in says expanded (''('' @ [CHR 0x22] @ ''id'' @ [CHR 0x22] @ ''=WidgetId,Path)''))"

definition test_params_inferred_from_app_path_struct_uses_into_params_form :: bool where
  "test_params_inferred_from_app_path_struct_uses_into_params_form =
     (let expanded = expand ''get'' [key ''path'' [lit ''/widgets/{id}''], ok_string]
            (handler_fn ''handler'' [path_of ''WidgetPathParams''] static_str ok_body)
      in says expanded ''params(WidgetPathParams)'' \<and>
         \<not> says expanded ''Path)'')"

definition test_params_inferred_from_app_path_multi_placeholder_uses_into_params_form :: bool where
  "test_params_inferred_from_app_path_multi_placeholder_uses_into_params_form =
     (let expanded = expand ''get'' [key ''path'' [lit ''/a/{x}/{y}''], ok_string]
            (handler_fn ''handler'' [path_of ''String''] static_str ok_body)
      in says expanded ''params(String)'')"

definition test_params_inferred_from_app_query :: bool where
  "test_params_inferred_from_app_query =
     (let expanded = expand ''get'' [key ''path'' [lit ''/search''], ok_string]
            (handler_fn ''handler'' [query_of ''SearchParams''] static_str ok_body)
      in says expanded ''params(SearchParams)'')"

definition test_params_both_app_path_and_app_query_combine :: bool where
  "test_params_both_app_path_and_app_query_combine =
     (let expanded = expand ''get'' [key ''path'' [lit ''/widgets/{id}''], ok_string]
            (handler_fn ''handler'' [path_of ''String'', query_of ''SearchParams''] static_str ok_body)
      in says expanded (''('' @ [CHR 0x22] @ ''id'' @ [CHR 0x22] @ ''=String,Path)'') \<and>
         says expanded ''SearchParams'')"

definition test_params_multiple_app_path_is_compile_error :: bool where
  "test_params_multiple_app_path_is_compile_error =
     (let expanded = expand ''get'' [key ''path'' [lit ''/x/{a}/{b}'']]
            (handler_fn ''handler'' [path_of ''String'', path_of ''String''] static_str ok_body)
      in says expanded ''compile_error'' \<and>
         says expanded ''more than one AppPath'')"

definition test_params_multiple_app_query_is_compile_error :: bool where
  "test_params_multiple_app_query_is_compile_error =
     (let expanded = expand ''get'' [key ''path'' [lit ''/x'']]
            (handler_fn ''handler'' [query_of ''Foo'', query_of ''Bar''] static_str ok_body)
      in says expanded ''compile_error'' \<and>
         says expanded ''more than one AppQuery'')"

definition test_params_explicit_and_inferred_both_appear :: bool where
  "test_params_explicit_and_inferred_both_appear =
     (let expanded = expand ''get'' [key ''path'' [lit ''/widgets/{id}''], ok_string, [TIdent ''params'', paren [paren [lit ''legacy'', TPunct (CHR ''=''), TIdent ''String'', TPunct (CHR '',''), TIdent ''Query'']]]]
            (handler_fn ''handler'' [path_of ''String''] static_str ok_body)
      in says expanded (''('' @ [CHR 0x22] @ ''id'' @ [CHR 0x22] @ ''=String,Path)'') \<and>
         says expanded (''('' @ [CHR 0x22] @ ''legacy'' @ [CHR 0x22] @ ''=String,Query)''))"

definition test_route_method_fn_generates_inventory_registration :: bool where
  "test_route_method_fn_generates_inventory_registration =
     (let expanded = expand ''post'' [key ''path'' [lit ''/x'']]
            (handler_fn ''health'' [json_of ''Foo''] (json_of ''Bar'') todo_body)
      in says expanded ''RouteRegistration'' \<and>
         says expanded ''inventory::submit'' \<and>
         says expanded ''routes!(health)'')"

definition test_route_method_fn_preserves_original_function_body :: bool where
  "test_route_method_fn_preserves_original_function_body =
     (let expanded = expand ''get'' [key ''path'' [lit ''/health''], ok_string]
            (handler_fn ''health'' [] static_str ok_body)
      in says expanded ([CHR 0x22] @ ''ok'' @ [CHR 0x22]))"

definition test_get_emits_get_method_key :: bool where
  "test_get_emits_get_method_key =
     (let expanded = expand ''get'' [key ''path'' [lit ''/x''], ok_string]
            (handler_fn ''handler'' [] static_str ok_body)
      in says expanded ''utoipa::path(get,'')"

definition test_post_emits_post_method_key :: bool where
  "test_post_emits_post_method_key =
     (let expanded = expand ''post'' [key ''path'' [lit ''/x''], ok_string]
            (handler_fn ''handler'' [] static_str ok_body)
      in says expanded ''utoipa::path(post,'')"

definition test_stano_routes_path_resolves_to_direct_axum_dependency :: bool where
  "test_stano_routes_path_resolves_to_direct_axum_dependency =
     unwrap_ok (stano_routes_path (manifest [''stano-axum''])) (\<lambda>path. path_contains path ''stano_axum'')"

definition test_stano_routes_path_falls_back_to_stano_launcher :: bool where
  "test_stano_routes_path_falls_back_to_stano_launcher =
     unwrap_ok (stano_routes_path (manifest [''stano-launcher''])) (\<lambda>path. path_contains path ''stano_launcher'' \<and> path_contains path ''stano_axum'')"

definition test_stano_routes_path_falls_back_to_stano_starter_rest :: bool where
  "test_stano_routes_path_falls_back_to_stano_starter_rest =
     unwrap_ok (stano_routes_path (manifest [''stano-starter-rest''])) (\<lambda>path. path_contains path ''stano_axum'')"

definition test_stano_routes_path_panics_when_no_known_dependency_present :: bool where
  "test_stano_routes_path_panics_when_no_known_dependency_present = is_err (stano_routes_path (manifest [''serde'']))"

lemma route_macro_tests:
  "test_route_method_impl_rejects_non_fn_item"
  "test_get_forwards_pass_through_keys_verbatim"
  "test_operation_id_is_injected_from_fn_name"
  "test_request_body_inferred_from_single_app_json_param"
  "test_request_body_not_inferred_when_no_app_json_param"
  "test_request_body_multiple_app_json_params_is_compile_error"
  "test_request_body_explicit_and_inferred_agree_is_not_an_error"
  "test_request_body_explicit_conflicts_with_inferred_is_compile_error"
  "test_response_inferred_from_app_json_return"
  "test_response_inferred_from_result_app_json_return"
  "test_response_no_inference_requires_explicit_responses"
  "test_response_no_inference_and_no_explicit_responses_is_compile_error"
  "test_response_duplicate_200_is_compile_error"
  "test_response_explicit_error_appended_after_inferred_200"
  "test_params_inferred_from_app_path_single_primitive"
  "test_params_inferred_from_app_path_typed_id_suffix_heuristic"
  "test_params_inferred_from_app_path_struct_uses_into_params_form"
  "test_params_inferred_from_app_path_multi_placeholder_uses_into_params_form"
  "test_params_inferred_from_app_query"
  "test_params_both_app_path_and_app_query_combine"
  "test_params_multiple_app_path_is_compile_error"
  "test_params_multiple_app_query_is_compile_error"
  "test_params_explicit_and_inferred_both_appear"
  "test_route_method_fn_generates_inventory_registration"
  "test_route_method_fn_preserves_original_function_body"
  "test_get_emits_get_method_key"
  "test_post_emits_post_method_key"
  "test_stano_routes_path_resolves_to_direct_axum_dependency"
  "test_stano_routes_path_falls_back_to_stano_launcher"
  "test_stano_routes_path_falls_back_to_stano_starter_rest"
  "test_stano_routes_path_panics_when_no_known_dependency_present"
  by code_simp+

section \<open>\<open>stano-route-macros/tests/ui\<close>\<close>

fun fails_with :: "macro_result \<Rightarrow> string \<Rightarrow> bool" where
  "fails_with (CompileError m) t = (m = t)"
| "fails_with _ t = False"

definition ui_conflicting_request_body :: bool where
  "ui_conflicting_request_body =
     fails_with (route_method_impl (test_crates [''stano-axum'']) ''post''
         (comma_separated [key ''path'' [lit ''/x''], key ''request_body'' [TIdent ''Bar'']])
         (ItemFn (handler_fn ''handler'' [json_of ''Foo''] (json_of ''Baz'') todo_body)))
       ''#[post]: request_body = Bar conflicts with inferred AppJson<Foo> parameter type; remove one''"

definition ui_duplicate_200_response :: bool where
  "ui_duplicate_200_response =
     fails_with (route_method_impl (test_crates [''stano-axum'']) ''get''
         (comma_separated [key ''path'' [lit ''/x''], responses_key [entry ''200'' ''Bar'']])
         (ItemFn (handler_fn ''handler'' [] (json_of ''Foo'') todo_body)))
       (''#[get] fn handler: inferred 200 response from the return type conflicts with an explicit `(status = 200, ...)` '' @
        ''entry in `responses(...)`; the 200 case is always inferred from the return type '' @
        [CHR 0xE2, CHR 0x80, CHR 0x94] @
        '' remove it from `responses(...)` and keep only error-case entries there.'')"

definition ui_get_on_non_fn :: bool where
  "ui_get_on_non_fn =
     fails_with (route_method_impl (test_crates [''stano-axum'']) ''get'' (key ''path'' [lit ''/health''])
         (ItemStruct (struct_of ''NotAFn'' FieldsUnit)))
       ''#[get] can only be used on functions''"

definition ui_missing_responses_no_inference :: bool where
  "ui_missing_responses_no_inference =
     fails_with (route_method_impl (test_crates [''stano-axum'']) ''get'' (key ''path'' [lit ''/x''])
         (ItemFn (handler_fn ''handler'' [] static_str ok_body)))
       (''#[get] fn handler: cannot infer a 200 response (return type is not AppJson<_> or Result<AppJson<_>, _>) and '' @
        ''no explicit responses(...) was provided; add responses((status = 200, body = ...)) or change the return type '' @
        ''to AppJson<_>.'')"

definition ui_multiple_app_json_params :: bool where
  "ui_multiple_app_json_params =
     fails_with (route_method_impl (test_crates [''stano-axum'']) ''post'' (key ''path'' [lit ''/x''])
         (ItemFn (handler_fn ''handler'' [json_of ''Foo'', json_of ''Bar''] (json_of ''Baz'') todo_body)))
       ''#[post]: found more than one AppJson<_> parameter; a handler can only take one request body''"

definition ui_multiple_app_path_params :: bool where
  "ui_multiple_app_path_params =
     fails_with (route_method_impl (test_crates [''stano-axum'']) ''get''
         (comma_separated [key ''path'' [lit ''/x/{a}/{b}''], ok_string])
         (ItemFn (handler_fn ''handler'' [path_of ''String'', path_of ''String''] static_str ok_body)))
       (''#[get]: found more than one AppPath<_> parameter; combine multiple path segments into one '' @
        ''#[derive(utoipa::IntoParams)] struct'')"

lemma route_macro_ui_tests:
  "ui_conflicting_request_body"
  "ui_duplicate_200_response"
  "ui_get_on_non_fn"
  "ui_missing_responses_no_inference"
  "ui_multiple_app_json_params"
  "ui_multiple_app_path_params"
  by code_simp+

end
