(* ===== verification/Launch_Tests.thy ===== *)
theory Launch_Tests
  imports Axum_Tests Launch_Server
begin

text \<open>
  The test modules of \<open>stano-launcher\<close> run on the model. An \<open>f64\<close> is kept as its text. The
  exporters of OpenTelemetry can be built, and fail when they export, as with a collector that
  cannot be reached; the CORS layer of \<open>tower-http\<close> answers preflight requests itself.
\<close>

section \<open>\<open>stano-launcher/src/config.rs\<close>\<close>

definition env_with :: "string \<Rightarrow> string \<Rightarrow> environment" where
  "env_with key val = [key \<mapsto> val]"

definition parse_csv_env_splits_and_trims :: bool where
  "parse_csv_env_splits_and_trims =
     (let env = env_with ''ORIGINS'' '' http://a.com , http://b.com ,http://c.com''
      in parse_csv_env env ''ORIGINS'' = [''http://a.com'', ''http://b.com'', ''http://c.com''])"

definition parse_csv_env_drops_empty_entries :: bool where
  "parse_csv_env_drops_empty_entries =
     (let env = env_with ''ORIGINS'' ''http://a.com,,  ,http://b.com''
      in parse_csv_env env ''ORIGINS'' = [''http://a.com'', ''http://b.com''])"

definition parse_csv_env_missing_var_returns_empty :: bool where
  "parse_csv_env_missing_var_returns_empty = (let env = Map.empty in parse_csv_env env ''ORIGINS'' = [])"

text \<open>The tests are built with \<open>debug_assertions\<close>; the first two hold without as well.\<close>

definition is_dev_environment_true_when_rust_env_development :: "bool \<Rightarrow> bool" where
  "is_dev_environment_true_when_rust_env_development debug_assertions =
     (let env = env_with ''RUST_ENV'' ''development'' in is_dev_environment debug_assertions env)"

definition is_dev_environment_true_when_rust_env_development_mixed_case :: "bool \<Rightarrow> bool" where
  "is_dev_environment_true_when_rust_env_development_mixed_case debug_assertions =
     (let env = env_with ''RUST_ENV'' ''Development'' in is_dev_environment debug_assertions env)"

definition is_dev_environment_true_in_debug_builds_regardless_of_rust_env :: bool where
  "is_dev_environment_true_in_debug_builds_regardless_of_rust_env =
     (let env = env_with ''RUST_ENV'' ''production'' in is_dev_environment True env)"

lemma config_tests:
  "parse_csv_env_splits_and_trims"
  "parse_csv_env_drops_empty_entries"
  "parse_csv_env_missing_var_returns_empty"
  "is_dev_environment_true_when_rust_env_development True"
  "is_dev_environment_true_when_rust_env_development False"
  "is_dev_environment_true_when_rust_env_development_mixed_case True"
  "is_dev_environment_true_when_rust_env_development_mixed_case False"
  "is_dev_environment_true_in_debug_builds_regardless_of_rust_env"
  by code_simp+

section \<open>\<open>stano-launcher/src/observability.rs\<close>\<close>

definition config_from :: "environment \<Rightarrow> string observability_config" where
  "config_from env = observability_config_from_env Some ''1.0'' env"

definition config_from_env_defaults_disabled :: bool where
  "config_from_env_defaults_disabled =
     (let config = config_from Map.empty
      in \<not> oc_enabled config \<and> \<not> oc_metrics_enabled config \<and> \<not> oc_http_logging_enabled config \<and>
         oc_protocol config = Grpc \<and> oc_log_filter config = ''info'' \<and> oc_trace_sample_ratio config = ''1.0'')"

definition config_from_env_reads_http_protocol :: bool where
  "config_from_env_reads_http_protocol =
     (let env = [''OTEL_EXPORTER_OTLP_PROTOCOL'' \<mapsto> ''http/protobuf'']; config = config_from env
      in oc_protocol config = HttpProtobuf)"

definition config_from_env_reads_enabled_flags :: bool where
  "config_from_env_reads_enabled_flags =
     (let env = [''MRP_OTEL_ENABLED'' \<mapsto> ''true'', ''MRP_OTEL_METRICS_ENABLED'' \<mapsto> ''TRUE'']; config = config_from env
      in oc_enabled config \<and> oc_metrics_enabled config)"

definition config_from_env_defaults_prometheus_disabled :: bool where
  "config_from_env_defaults_prometheus_disabled = (let config = config_from Map.empty in \<not> oc_prometheus_enabled config)"

definition config_from_env_reads_prometheus_enabled_flag :: bool where
  "config_from_env_reads_prometheus_enabled_flag =
     (let env = [''MRP_PROMETHEUS_ENABLED'' \<mapsto> ''true''] in oc_prometheus_enabled (config_from env))"

lemma observability_config_tests:
  "config_from_env_defaults_disabled"
  "config_from_env_reads_http_protocol"
  "config_from_env_reads_enabled_flags"
  "config_from_env_defaults_prometheus_disabled"
  "config_from_env_reads_prometheus_enabled_flag"
  by code_simp+

text \<open>The literal that the tests start from, everything switched off.\<close>

definition test_observability :: "string observability_config" where
  "test_observability =
     \<lparr>oc_enabled = False, oc_protocol = Grpc, oc_service_name = ''test-service'', oc_service_version = ''0.0.0'',
      oc_resource_attributes = [], oc_trace_sample_ratio = ''1.0'', oc_log_filter = ''info'',
      oc_metrics_enabled = False, oc_prometheus_enabled = False, oc_http_logging_enabled = False,
      oc_process_metrics_enabled = False\<rparr>"

definition lazy_crates :: "string otel_crates" where
  "lazy_crates =
     \<lparr>cr_try_filter = Some, cr_filter_new = (\<lambda>s. s), cr_prometheus_exporter = None, cr_metric_exporter = (\<lambda>_. None),
      cr_span_exporter = (\<lambda>_. None), cr_log_exporter = (\<lambda>_. None)\<rparr>"

text \<open>A meter provider that is only read locally has nothing to export.\<close>

definition unreachable :: "string sdk" where
  "unreachable calls c p =
     (case p of MeterProvider _ readers \<Rightarrow> if readers = [PrometheusReader] then None else Some ''transport error''
      | _ \<Rightarrow> Some ''transport error'')"

definition otel_world0 :: "string otel_world" where
  "otel_world0 = \<lparr>ow_calls = [], ow_warnings = [], ow_installed = []\<rparr>"

definition with_guard ::
  "string observability_config \<Rightarrow> (string otel_guard \<Rightarrow> (string, string) otel_effect list \<Rightarrow> bool) \<Rightarrow> bool" where
  "with_guard config f = (case init_observability lazy_crates config of (guard, effects) \<Rightarrow> unwrap_ok guard (\<lambda>g. f g effects))"

definition disabled_config_init_returns_noop_guard :: bool where
  "disabled_config_init_returns_noop_guard =
     with_guard test_observability (\<lambda>guard _. is_ok (fst (otel_guard_shutdown unreachable guard otel_world0)))"

definition disabled_config_force_flush_is_noop :: bool where
  "disabled_config_force_flush_is_noop =
     with_guard test_observability (\<lambda>guard _.
       case force_flush unreachable guard otel_world0 of (flushed, w) \<Rightarrow>
         is_ok flushed \<and> is_ok (fst (otel_guard_shutdown unreachable guard w)))"

text \<open>Nothing panics here; what the comments say is that the initialisation succeeds and the flush does not.\<close>

definition enabled_config_force_flush_with_unreachable_endpoint_does_not_panic :: bool where
  "enabled_config_force_flush_with_unreachable_endpoint_does_not_panic =
     (let config = test_observability\<lparr>oc_enabled := True\<rparr>
      in with_guard config (\<lambda>guard _. is_err (fst (force_flush unreachable guard otel_world0))))"

definition enabled_config_with_unreachable_endpoint_does_not_panic :: bool where
  "enabled_config_with_unreachable_endpoint_does_not_panic =
     (let config = test_observability\<lparr>oc_enabled := True, oc_resource_attributes := [(''deployment.environment'', ''test'')],
                                      oc_metrics_enabled := True, oc_http_logging_enabled := True\<rparr>
      in is_ok (fst (init_observability lazy_crates config)))"

definition enabled_config_with_http_protobuf_protocol_does_not_panic :: bool where
  "enabled_config_with_http_protobuf_protocol_does_not_panic =
     (let config = test_observability\<lparr>oc_enabled := True, oc_protocol := HttpProtobuf,
                                      oc_metrics_enabled := True, oc_http_logging_enabled := True\<rparr>
      in is_ok (fst (init_observability lazy_crates config)))"

text \<open>A span of the global tracer is valid if a provider has been installed and is not shut down.\<close>

definition span_is_valid :: "(string, string) otel_effect list \<Rightarrow> bool" where
  "span_is_valid effects = list_ex (\<lambda>e. case e of SetTracerProvider _ \<Rightarrow> True | _ \<Rightarrow> False) effects"

definition enabled_config_installs_global_tracer_provider :: bool where
  "enabled_config_installs_global_tracer_provider =
     (let config = test_observability\<lparr>oc_enabled := True\<rparr>
      in with_guard config (\<lambda>guard effects. span_is_valid effects))"

lemma observability_tests:
  "disabled_config_init_returns_noop_guard"
  "disabled_config_force_flush_is_noop"
  "enabled_config_force_flush_with_unreachable_endpoint_does_not_panic"
  "enabled_config_with_unreachable_endpoint_does_not_panic"
  "enabled_config_with_http_protobuf_protocol_does_not_panic"
  "enabled_config_installs_global_tracer_provider"
  by code_simp+

type_synonym 'e launch_service = "('e, string, string, string http_world) service"

definition passthrough_handler :: "'e launch_service" where
  "passthrough_handler req w = (Reply (text_response ''ok''), w)"

text \<open>\<open>route_layer\<close> wraps the routes and leaves the answer for other paths alone.\<close>

definition metrics_app :: "unit launch_service" where
  "metrics_app = router_of (map (\<lambda>(p, s). (p, record_http_metrics s)) [(''/hello/{id}'', passthrough_handler)])"

definition record_http_metrics_passes_through_response :: bool where
  "record_http_metrics_passes_through_response =
     response_is (metrics_app (request_to ''GET'' ''/hello/42'' [] []) http_world0) (\<lambda>response. rs_status response = 200)"

definition record_http_metrics_passes_through_404_for_unmatched_route :: bool where
  "record_http_metrics_passes_through_404_for_unmatched_route =
     response_is (metrics_app (request_to ''GET'' ''/does-not-exist'' [] []) http_world0) (\<lambda>response. rs_status response = 404)"

definition prometheus_enabled_config_populates_registry_without_otlp_enabled :: bool where
  "prometheus_enabled_config_populates_registry_without_otlp_enabled =
     (let config = test_observability\<lparr>oc_prometheus_enabled := True\<rparr>
      in with_guard config (\<lambda>guard _. prometheus_registry guard))"

text \<open>A registry is a list of metrics with their values, printed line by line.\<close>

definition text_encode :: "(string \<times> nat) list \<Rightarrow> 'w \<Rightarrow> string + string" where
  "text_encode registry w = Inr (concat (map (\<lambda>(name, val). name @ '' '' @ show_nat val @ newline) registry))"

definition text_format :: string where
  "text_format = ''text/plain; version=0.0.4''"

definition metrics_endpoint_returns_prometheus_text_format :: bool where
  "metrics_endpoint_returns_prometheus_text_format =
     (let registry = [(''test_requests_total'', 1)];
          app = router_of (map (\<lambda>(p, m, s). (p, s)) (prometheus_router (text_encode registry) text_format)) :: unit launch_service
      in response_is (app (request_to ''GET'' ''/metrics'' [] []) http_world0) (\<lambda>response.
           rs_status response = 200 \<and>
           (case header_get (rs_headers response) ''content-type'' of
              Some v \<Rightarrow> (case to_str v of Some content_type \<Rightarrow> strip_prefix ''text/plain'' content_type \<noteq> None | None \<Rightarrow> False)
            | None \<Rightarrow> False) \<and>
           (case rs_body response of Body body_str \<Rightarrow> contains_text body_str ''test_requests'' | _ \<Rightarrow> False)))"

lemma metrics_tests:
  "record_http_metrics_passes_through_response"
  "record_http_metrics_passes_through_404_for_unmatched_route"
  "prometheus_enabled_config_populates_registry_without_otlp_enabled"
  "metrics_endpoint_returns_prometheus_text_format"
  by code_simp+

section \<open>\<open>stano-launcher/src/server.rs\<close>\<close>

definition test_config :: "string list \<Rightarrow> string list \<Rightarrow> string bootstrap_config" where
  "test_config cors_origins cors_origin_suffixes =
     \<lparr>bc_port = 0, bc_jwt_config = \<lparr>private_key_pem = [], public_key_pem = [], expiration_seconds = 3600\<rparr>,
      bc_cors_origins = cors_origins, bc_cors_origin_suffixes = cors_origin_suffixes, bc_cors_dev_origins = [],
      bc_is_dev = False, bc_observability = test_observability, bc_enable_swagger = False\<rparr>"

text \<open>
  \<open>CorsLayer\<close>: a preflight request is answered without the rest, other responses get the headers.
\<close>

definition cors_headers :: "cors_config \<Rightarrow> 'e request \<Rightarrow> (string \<times> string) list" where
  "cors_headers cc req =
     (case cc_origin cc of
        AnyOrigin \<Rightarrow> [(''access-control-allow-origin'', ''*'')]
      | _ \<Rightarrow> (case header_get (rq_headers req) ''origin'' of
            Some (HeaderText v) \<Rightarrow> if origin_allowed (cc_origin cc) (HeaderText v) then [(''access-control-allow-origin'', v)] else []
          | _ \<Rightarrow> [])) @
     (if cc_credentials cc then [(''access-control-allow-credentials'', ''true'')] else [])"

definition cors_service :: "cors_config \<Rightarrow> ('e, 'x, 'err, 'w) layer" where
  "cors_service cc nxt req w =
     after_response (\<lambda>r w. (r\<lparr>rs_headers := fold (\<lambda>(n, v). header_insert n (HeaderText v)) (cors_headers cc req) (rs_headers r)\<rparr>, w))
       (if rq_method req = ''OPTIONS'' then (Reply (empty_response 200), w) else nxt req w)"

definition parse_header :: "string \<Rightarrow> header_value option" where
  "parse_header s = Some (HeaderText s)"

definition hello_service :: "unit launch_service" where
  "hello_service = router_of [(''/hello'', passthrough_handler)]"

definition preflight :: "string bootstrap_config \<Rightarrow> string \<Rightarrow> (string, string) reply \<times> string http_world" where
  "preflight config origin =
     cors_service (cors_layer parse_header config) hello_service
       (request_to ''OPTIONS'' ''/hello'' [(''origin'', HeaderText origin), (''access-control-request-method'', HeaderText ''GET'')] [])
       http_world0"

definition allow_origin_header :: "string response \<Rightarrow> string option" where
  "allow_origin_header response = Option.bind (header_get (rs_headers response) ''access-control-allow-origin'') to_str"

definition allow_credentials_header :: "string response \<Rightarrow> string option" where
  "allow_credentials_header response = Option.bind (header_get (rs_headers response) ''access-control-allow-credentials'') to_str"

definition permissive_when_config_empty :: bool where
  "permissive_when_config_empty =
     (let config = test_config [] []
      in response_is (preflight config ''http://anything.example'') (\<lambda>response. allow_origin_header response = Some ''*''))"

definition allows_exact_origin_match :: bool where
  "allows_exact_origin_match =
     (let config = test_config [''http://localhost:5173''] []
      in response_is (preflight config ''http://localhost:5173'') (\<lambda>response.
           allow_origin_header response = Some ''http://localhost:5173'' \<and> allow_credentials_header response = Some ''true''))"

definition rejects_unknown_origin_with_exact_list :: bool where
  "rejects_unknown_origin_with_exact_list =
     (let config = test_config [''http://localhost:5173''] []
      in response_is (preflight config ''http://evil.example'') (\<lambda>response. allow_origin_header response = None))"

definition allows_suffix_match :: bool where
  "allows_suffix_match =
     (let config = test_config [] [''.example.com'']
      in response_is (preflight config ''https://foo.example.com'') (\<lambda>response.
           allow_origin_header response = Some ''https://foo.example.com'' \<and> allow_credentials_header response = Some ''true''))"

definition rejects_non_matching_suffix :: bool where
  "rejects_non_matching_suffix =
     (let config = test_config [] [''.example.com'']
      in response_is (preflight config ''https://example.com.evil.com'') (\<lambda>response. allow_origin_header response = None))"

definition dev_mode_allows_configured_dev_origin :: bool where
  "dev_mode_allows_configured_dev_origin =
     (let config = (test_config [''https://prod.example.com''] [])\<lparr>bc_is_dev := True, bc_cors_dev_origins := [''http://localhost:5173'']\<rparr>
      in response_is (preflight config ''http://localhost:5173'') (\<lambda>response.
           allow_origin_header response = Some ''http://localhost:5173'' \<and> allow_credentials_header response = Some ''true''))"

definition dev_mode_rejects_prod_origin_not_in_dev_list :: bool where
  "dev_mode_rejects_prod_origin_not_in_dev_list =
     (let config = (test_config [''https://prod.example.com''] [])\<lparr>bc_is_dev := True, bc_cors_dev_origins := [''http://localhost:5173'']\<rparr>
      in response_is (preflight config ''https://prod.example.com'') (\<lambda>response. allow_origin_header response = None))"

definition dev_mode_falls_back_to_prod_matching_when_dev_origins_empty :: bool where
  "dev_mode_falls_back_to_prod_matching_when_dev_origins_empty =
     (let config = (test_config [''https://prod.example.com''] [])\<lparr>bc_is_dev := True\<rparr>
      in response_is (preflight config ''https://prod.example.com'') (\<lambda>response.
           allow_origin_header response = Some ''https://prod.example.com''))"

lemma cors_tests:
  "permissive_when_config_empty"
  "allows_exact_origin_match"
  "rejects_unknown_origin_with_exact_list"
  "allows_suffix_match"
  "rejects_non_matching_suffix"
  "dev_mode_allows_configured_dev_origin"
  "dev_mode_rejects_prod_origin_not_in_dev_list"
  "dev_mode_falls_back_to_prod_matching_when_dev_origins_empty"
  by code_simp+

definition with_security_headers :: "(string, string) reply \<times> string http_world" where
  "with_security_headers = add_security_headers hello_service (request_to ''GET'' ''/hello'' [] []) http_world0"

definition test_add_security_headers_sets_x_content_type_options :: bool where
  "test_add_security_headers_sets_x_content_type_options =
     response_is with_security_headers (\<lambda>response. header_get (rs_headers response) ''x-content-type-options'' = Some (HeaderText ''nosniff''))"

definition test_add_security_headers_sets_x_frame_options :: bool where
  "test_add_security_headers_sets_x_frame_options =
     response_is with_security_headers (\<lambda>response. header_get (rs_headers response) ''x-frame-options'' = Some (HeaderText ''DENY''))"

definition test_add_security_headers_sets_strict_transport_security :: bool where
  "test_add_security_headers_sets_strict_transport_security =
     response_is with_security_headers (\<lambda>response.
       header_get (rs_headers response) ''strict-transport-security'' = Some (HeaderText ''max-age=31536000; includeSubDomains''))"

definition panic_status :: "panic_payload \<Rightarrow> nat" where
  "panic_status payload = rs_status (fst (handle_panic payload http_world0) :: string response)"

definition test_handle_panic_with_string_payload :: bool where
  "test_handle_panic_with_string_payload = (let payload = PanicString ''boom'' in panic_status payload = 500)"

definition test_handle_panic_with_str_payload :: bool where
  "test_handle_panic_with_str_payload = (let payload = PanicStr ''boom'' in panic_status payload = 500)"

definition test_handle_panic_with_unknown_payload_type_fallback :: bool where
  "test_handle_panic_with_unknown_payload_type_fallback = (let payload = PanicOther in panic_status payload = 500)"

lemma header_and_panic_tests:
  "test_add_security_headers_sets_x_content_type_options"
  "test_add_security_headers_sets_x_frame_options"
  "test_add_security_headers_sets_strict_transport_security"
  "test_handle_panic_with_string_payload"
  "test_handle_panic_with_str_payload"
  "test_handle_panic_with_unknown_payload_type_fallback"
  by code_simp+

text \<open>
  The tests of \<open>run\<close> send one request over the wire, read the answer to its end and abort the
  server. Here serving answers the request with the application it is given, and ends with the
  text that the client has read.
\<close>

definition wire :: "(string, string) reply \<Rightarrow> string" where
  "wire p =
     (case p of
        Reply r \<Rightarrow> ''HTTP/1.1 '' @ show_nat (rs_status r) @ newline @
          concat (map (\<lambda>(name, v). name @ '': '' @ unwrap_or [] (to_str v) @ newline) (rs_headers r)) @ newline @
          (case rs_body r of Body s \<Rightarrow> s | ErrorBody _ \<Rightarrow> [])
      | _ \<Rightarrow> [])"

type_synonym launch_router = "(unit, string, string, string http_world) router"

definition serve_one :: "unit request \<Rightarrow> launch_router \<Rightarrow> string option" where
  "serve_one req app = Some (wire (fst (router_service plain_axum app req http_world0)))"

definition test_tower :: "(unit, string, string, string http_world) tower_http" where
  "test_tower = plain_tower\<lparr>th_cors := cors_service\<rparr>"

definition answer_of_run ::
  "unit request \<Rightarrow> string bootstrap_config \<Rightarrow> (string list, unit, string http_world) authorization_layer option \<Rightarrow>
   ((string \<times> nat) list \<Rightarrow> (string \<times> nat) list) option \<Rightarrow> string" where
  "answer_of_run req config authorization register_metrics =
     (let layers = app_layers test_tower (\<lambda>_. []) parse_header segment_matchit (unit_jwt 0) config authorization None;
          routes = ax_openapi_router_new plain_axum :: launch_router
      in case fst (run lazy_crates unreachable (\<lambda>_. None) (serve_one req) plain_axum layers text_encode text_format
                     (Some routes) routes config register_metrics [(''target_info'', 1)] otel_world0) of
           Returned (Inl response) \<Rightarrow> response
         | _ \<Rightarrow> [])"

definition run_binds_listener_and_serves_requests_through_the_middleware_stack :: bool where
  "run_binds_listener_and_serves_requests_through_the_middleware_stack =
     (let config = (test_config [] [])\<lparr>bc_port := 41000\<rparr>;
          response = answer_of_run (request_to ''GET'' ''/'' [(''host'', HeaderText ''localhost'')] []) config None None
      in strip_prefix ''HTTP/1.1 404'' response \<noteq> None \<and>
         contains_text (to_ascii_lowercase response) ''x-content-type-options: nosniff'' \<and>
         contains_text (to_ascii_lowercase response) ''x-frame-options: deny'')"

definition with_prometheus :: "string bootstrap_config \<Rightarrow> string bootstrap_config" where
  "with_prometheus config = config\<lparr>bc_observability := (bc_observability config)\<lparr>oc_prometheus_enabled := True\<rparr>\<rparr>"

definition run_mounts_prometheus_metrics_endpoint_when_enabled :: bool where
  "run_mounts_prometheus_metrics_endpoint_when_enabled =
     (let config = with_prometheus ((test_config [] [])\<lparr>bc_port := 41000\<rparr>);
          response = answer_of_run (request_to ''GET'' ''/metrics'' [(''host'', HeaderText ''localhost'')] []) config None None
      in strip_prefix ''HTTP/1.1 200'' response \<noteq> None \<and>
         contains_text (to_ascii_lowercase response) ''content-type: text/plain'')"

definition run_invokes_register_metrics_callback_and_scrape_includes_it :: bool where
  "run_invokes_register_metrics_callback_and_scrape_includes_it =
     (let register = (\<lambda>registry. registry @ [(''wb_build_info'', 1)]);
          config = with_prometheus ((test_config [] [])\<lparr>bc_port := 41000\<rparr>);
          response = answer_of_run (request_to ''GET'' ''/metrics'' [(''host'', HeaderText ''localhost'')] []) config None (Some register)
      in strip_prefix ''HTTP/1.1 200'' response \<noteq> None \<and> contains_text response ''wb_build_info 1'')"

definition options_preflight_to_authorization_protected_route_gets_cors_headers_not_401 :: bool where
  "options_preflight_to_authorization_protected_route_gets_cors_headers_not_401 =
     (let config = (test_config [''http://localhost:5173''] [])\<lparr>bc_port := 41000\<rparr>
      in unwrap_ok (build (bc_jwt_config config) (authenticated segment_matchit (any_request authorization_builder_new))) (\<lambda>authorization.
           let response = answer_of_run
                 (request_to ''OPTIONS'' ''/''
                   [(''host'', HeaderText ''localhost''), (''origin'', HeaderText ''http://localhost:5173''),
                    (''access-control-request-method'', HeaderText ''GET'')] [])
                 config (Some authorization) None;
               lower = to_ascii_lowercase response
           in strip_prefix ''HTTP/1.1 200'' response \<noteq> None \<and>
              contains_text lower ''access-control-allow-origin: http://localhost:5173'' \<and>
              contains_text lower ''access-control-allow-credentials: true''))"

lemma run_tests:
  "run_binds_listener_and_serves_requests_through_the_middleware_stack"
  "run_mounts_prometheus_metrics_endpoint_when_enabled"
  "run_invokes_register_metrics_callback_and_scrape_includes_it"
  "options_preflight_to_authorization_protected_route_gets_cors_headers_not_401"
  by code_simp+

end
