(* ===== verification/Db_Tests.thy ===== *)
theory Db_Tests
  imports Test_Support Db_Tracing Db_Mapper
begin

text \<open>
  The test modules of \<open>stano-seaorm\<close> run on the model. The in-memory exporter of the tests is the
  provider \<open>''in-memory''\<close>, whose finished spans are those recorded there; what \<open>tracing_test\<close> has
  captured is the text of the events.
\<close>

section \<open>\<open>stano-seaorm/src/mapper.rs\<close>\<close>

definition test_to_domain_maps_fields :: bool where
  "test_to_domain_maps_fields =
     (let model = \<lparr>um_id = 1, um_name = ''Ada''\<rparr>; domain = mp_to_domain user_mapper model
      in ud_id domain = 1 \<and> ud_name domain = ''Ada'')"

definition test_to_active_model_maps_fields :: bool where
  "test_to_active_model_maps_fields =
     (let domain = \<lparr>ud_id = 2, ud_name = ''Grace''\<rparr>; active_model = mp_to_active_model user_mapper domain
      in ua_id active_model = 2 \<and> ua_name active_model = ''Grace'')"

definition test_round_trip_domain_to_active_model_to_domain :: bool where
  "test_round_trip_domain_to_active_model_to_domain =
     (let domain = \<lparr>ud_id = 3, ud_name = ''Katherine''\<rparr>;
          active_model = mp_to_active_model user_mapper domain;
          model = \<lparr>um_id = ua_id active_model, um_name = ua_name active_model\<rparr>;
          round_tripped = mp_to_domain user_mapper model
      in round_tripped = domain)"

lemma mapper_tests:
  "test_to_domain_maps_fields"
  "test_to_active_model_maps_fields"
  "test_round_trip_domain_to_active_model_to_domain"
  by code_simp+

section \<open>\<open>stano-seaorm/src/db_config.rs\<close>\<close>

text \<open>\<open>Database::connect\<close> on a url that has no scheme.\<close>

definition connect_by_scheme :: "connect_options \<Rightarrow> string + unit" where
  "connect_by_scheme opt =
     (if contains_text (co_url opt) ''://'' then Inr ()
      else Inl ''The connection string has no supporting driver.'')"

fun is_connection_failed :: "db_config_error + 'c \<Rightarrow> bool" where
  "is_connection_failed (Inl (ConnectionFailed _)) = True"
| "is_connection_failed (Inr _) = False"

definition test_from_url_with_malformed_url_returns_connection_failed :: bool where
  "test_from_url_with_malformed_url_returns_connection_failed =
     (let result = from_url connect_by_scheme ''not-a-valid-database-url'' query_tracing_default
      in is_connection_failed result)"

definition test_from_url_with_tracing_enabled_and_malformed_url_returns_connection_failed :: bool where
  "test_from_url_with_tracing_enabled_and_malformed_url_returns_connection_failed =
     (let tracing_config = query_tracing_default\<lparr>qt_enabled := True\<rparr>;
          result = from_url connect_by_scheme ''not-a-valid-database-url'' tracing_config
      in is_connection_failed result)"

lemma db_config_tests:
  "test_from_url_with_malformed_url_returns_connection_failed"
  "test_from_url_with_tracing_enabled_and_malformed_url_returns_connection_failed"
  by code_simp+

section \<open>\<open>stano-seaorm/src/query_tracing.rs\<close>\<close>

definition parse_operation_recognizes_select :: bool where
  "parse_operation_recognizes_select = (parse_operation ''SELECT * FROM users'' = Some ''SELECT'')"

definition parse_operation_is_case_insensitive :: bool where
  "parse_operation_is_case_insensitive = (parse_operation ''insert into users (id) values ($1)'' = Some ''INSERT'')"

definition parse_operation_returns_none_for_cte :: bool where
  "parse_operation_returns_none_for_cte = (parse_operation ''WITH cte AS (SELECT 1) SELECT * FROM cte'' = None)"

definition parse_operation_returns_none_for_empty_string :: bool where
  "parse_operation_returns_none_for_empty_string = (parse_operation [] = None)"

definition config_from_env_defaults_match_default_impl :: bool where
  "config_from_env_defaults_match_default_impl =
     (let config = query_tracing_config_from_env Map.empty; defaults = query_tracing_default
      in qt_enabled config = qt_enabled defaults \<and>
         qt_include_statement config = qt_include_statement defaults \<and>
         qt_slow_query_threshold config = qt_slow_query_threshold defaults)"

definition config_from_env_reads_overrides :: bool where
  "config_from_env_reads_overrides =
     (let env = [''MRP_DB_TRACING_ENABLED'' \<mapsto> ''true'', ''MRP_DB_TRACING_INCLUDE_STATEMENT'' \<mapsto> ''false'',
                 ''MRP_DB_SLOW_QUERY_MS'' \<mapsto> ''500''];
          config = query_tracing_config_from_env env
      in qt_enabled config \<and> \<not> qt_include_statement config \<and> qt_slow_query_threshold config = 500 * 1000000)"

text \<open>Durations are kept in nanoseconds; the ambient span is given where a test has one.\<close>

type_synonym test_world = "(string, string, string, nat) db_world"

definition test_world0 :: "string \<Rightarrow> test_world" where
  "test_world0 ambient =
     \<lparr>dw_meter_provider = ''noop'', dw_tracer_provider = ''noop'', dw_current_span = ambient, dw_now = 1000000000000,
      dw_instruments = None, dw_gauges = [], dw_durations = [], dw_spans = [], dw_events = []\<rparr>"

definition install_in_memory_tracer :: "test_world \<Rightarrow> test_world" where
  "install_in_memory_tracer w = w\<lparr>dw_tracer_provider := ''in-memory''\<rparr>"

definition finished_spans :: "test_world \<Rightarrow> string span list" where
  "finished_spans w = map snd (filter (\<lambda>(provider, _). provider = ''in-memory'') (dw_spans w))"

fun level_text :: "level \<Rightarrow> string" where
  "level_text TRACE = ''TRACE''"
| "level_text DEBUG = ''DEBUG''"
| "level_text INFO = ''INFO''"
| "level_text WARN = ''WARN''"
| "level_text ERROR = ''ERROR''"

definition event_text :: "nat query_event \<Rightarrow> string" where
  "event_text ev = level_text (qe_level ev) @ '' '' @ qe_message ev @ '' db.elapsed_ms='' @ show_nat (qe_elapsed_ms ev) @
     '' db.operation='' @ qe_operation ev @ '' db.statement='' @ qe_statement ev"

definition logs_contain :: "test_world \<Rightarrow> string \<Rightarrow> bool" where
  "logs_contain w t = list_ex (\<lambda>ev. contains_text (event_text ev) t) (dw_events w)"

definition query_callback :: "query_tracing_config \<Rightarrow> string \<Rightarrow> nat \<Rightarrow> bool \<Rightarrow> test_world \<Rightarrow> test_world" where
  "query_callback config sql millis failed =
     query_tracing_callback (\<lambda>d. d) (\<lambda>d. d div 1000000) config
       \<lparr>in_sql = sql, in_elapsed = millis * 1000000, in_failed = failed\<rparr>"

definition callback_emits_debug_event_for_fast_successful_query :: bool where
  "callback_emits_debug_event_for_fast_successful_query =
     (let w = query_callback query_tracing_default ''SELECT 1'' 1 False (test_world0 [])
      in logs_contain w ''query'' \<and> logs_contain w ''db.operation'')"

definition callback_emits_warn_event_for_slow_query :: bool where
  "callback_emits_warn_event_for_slow_query =
     (let config = query_tracing_default\<lparr>qt_slow_query_threshold := 50 * 1000000\<rparr>;
          w = query_callback config ''SELECT 1'' 100 False (test_world0 [])
      in logs_contain w ''slow query'')"

definition callback_emits_error_event_for_failed_query :: bool where
  "callback_emits_error_event_for_failed_query =
     (let w = query_callback query_tracing_default ''SELECT 1'' 1 True (test_world0 [])
      in logs_contain w ''query failed'')"

definition callback_omits_statement_when_include_statement_is_false :: bool where
  "callback_omits_statement_when_include_statement_is_false =
     (let config = query_tracing_default\<lparr>qt_include_statement := False\<rparr>;
          w = query_callback config ''SELECT secret FROM accounts'' 1 False (test_world0 [])
      in \<not> logs_contain w ''secret'')"

definition callback_creates_a_real_span_not_just_an_event :: bool where
  "callback_creates_a_real_span_not_just_an_event =
     (let w = query_callback query_tracing_default ''SELECT 1'' 5 False (install_in_memory_tracer (test_world0 []))
      in case finished_spans w of
           [span] \<Rightarrow>
             sn_name span = ''SELECT'' \<and> sn_kind span = SpanClient \<and>
             (''db.system'', ''postgresql'') \<in> set (sn_attributes span) \<and>
             (''db.operation'', ''SELECT'') \<in> set (sn_attributes span) \<and>
             list_ex (\<lambda>(key, _). key = ''db.statement'') (sn_attributes span) \<and>
             sn_error span = None \<and>
             (let duration = sn_end span - sn_start span in 5 * 1000000 \<le> duration \<and> duration < 1000000000)
         | _ \<Rightarrow> False)"

definition callback_span_omits_statement_when_include_statement_is_false :: bool where
  "callback_span_omits_statement_when_include_statement_is_false =
     (let config = query_tracing_default\<lparr>qt_include_statement := False\<rparr>;
          w = query_callback config ''SELECT secret FROM accounts'' 1 False (install_in_memory_tracer (test_world0 []))
      in case finished_spans w of
           span # _ \<Rightarrow> \<not> list_ex (\<lambda>(key, _). key = ''db.statement'') (sn_attributes span)
         | [] \<Rightarrow> False)"

definition callback_span_has_error_status_for_failed_query :: bool where
  "callback_span_has_error_status_for_failed_query =
     (let w = query_callback query_tracing_default ''SELECT 1'' 1 True (install_in_memory_tracer (test_world0 []))
      in case finished_spans w of span # _ \<Rightarrow> sn_error span \<noteq> None | [] \<Rightarrow> False)"

definition callback_span_is_parented_by_ambient_tracing_span :: bool where
  "callback_span_is_parented_by_ambient_tracing_span =
     (let parent_span = ''parent'';
          w = query_callback query_tracing_default ''SELECT 1'' 1 False (install_in_memory_tracer (test_world0 parent_span))
      in case find (\<lambda>s. sn_name s = ''SELECT'') (finished_spans w) of
           Some query_span \<Rightarrow> sn_parent query_span = parent_span
         | None \<Rightarrow> False)"

lemma query_tracing_tests:
  "parse_operation_recognizes_select"
  "parse_operation_is_case_insensitive"
  "parse_operation_returns_none_for_cte"
  "parse_operation_returns_none_for_empty_string"
  "config_from_env_defaults_match_default_impl"
  "config_from_env_reads_overrides"
  "callback_emits_debug_event_for_fast_successful_query"
  "callback_emits_warn_event_for_slow_query"
  "callback_emits_error_event_for_failed_query"
  "callback_omits_statement_when_include_statement_is_false"
  "callback_creates_a_real_span_not_just_an_event"
  "callback_span_omits_statement_when_include_statement_is_false"
  "callback_span_has_error_status_for_failed_query"
  "callback_span_is_parented_by_ambient_tracing_span"
  by code_simp+

end
