(* ===== verification/Spec2Isabelle.thy ===== *)
theory Spec2Isabelle
  imports Common_Types Jwt_Security Di_Environment Di_Container Di_Cycles Di_Resolve Di_Validate Di_Context
    Di_Threads Di_Concurrent Di_Meaning Di_Tests Syn_Model Di_Macros Route_Macros Http_Model Api_Error Authz_Builder Authz_Layer Axum_Extract
    Launch_Config Launch_Observability Launch_Server Launch_Shutdown Db_Tracing Db_Mapper
    Example_Layers Example_Migration Example_App Example_Security Example_Server
    Test_Support Common_Tests Axum_Tests Macro_Tests Launch_Tests Db_Tests Example_Tests
begin

text \<open>
  A verification library for the platform of \<open>crates/\<close>: a dependency-injection container with the
  macros that register components in it, a web layer with authorization, a launcher that assembles
  the server, tracing of database queries, and an example application on top of them.

  \<^bold>\<open>The parts and how they interact.\<close> At compile time \<open>#[component]\<close> and \<open>#[service]\<close> turn traits and
  structs into registrations, and \<open>#[get]\<close> and its siblings turn handlers into routes; the crate
  \<open>inventory\<close> collects both. At start-up the application builds an \<open>ApplicationContext\<close>, registers
  what is collected, validates it (cycles, then every factory), and calls \<open>run\<close>, which installs
  observability, folds the routes into a router, wraps it in its layers and serves. A request
  passes CORS, the security headers, the authorization, the hook, the limits and the logging, and
  reaches a handler, which takes its service from the context; the service calls the repository,
  the repository the database, whose queries are traced.

  \<^bold>\<open>Theories.\<close>
    \<^item> \<open>Stano_Prelude\<close>: results, options, UTF-8 strings with the functions of \<open>str\<close> the sources
      use, hash maps; the collections of simplification rules.
    \<^item> \<open>Common_Types\<close> (\<open>stano-common\<close>): errors and typed identifiers. \<open>Jwt_Security\<close>
      (\<open>stano-security\<close>): claims, tokens, the security context.
    \<^item> \<open>Di_Environment\<close>, \<open>Di_Container\<close>, \<open>Di_Cycles\<close>, \<open>Di_Resolve\<close>, \<open>Di_Validate\<close>, \<open>Di_Context\<close>
      (\<open>stano-di\<close>): the four maps of \<open>Container\<close> are the record \<open>container\<close>, registrations are
      functions on it; what a run changes (the \<open>OnceLock\<close> cells, the supply of \<open>Arc\<close>s, the log) is
      the record \<open>runtime\<close>, and lookups go from one to the next; a factory is a program that looks
      components up, panics or returns. \<open>Di_Cycles\<close> is the three-colour search of
      \<open>detect_cycles\<close> step by step. \<open>Di_Threads\<close> and \<open>Di_Concurrent\<close> are lookups by several threads: a
      machine of the shared \<open>runtime\<close>, the owners of the cells and the stacks of the threads, and its
      steps. \<open>Di_Meaning\<close> states what resolved components are, by an abstract
      assignment of admissible values to keys which the container implements. \<open>Di_Tests\<close> runs the
      crate's tests on the model, for every order of the hash maps or every schedule where they
      depend on one.
    \<^item> \<open>Syn_Model\<close>, \<open>Di_Macros\<close> (\<open>stano-di-macros\<close>), \<open>Route_Macros\<close> (\<open>stano-route-macros\<close>): the macros
      as functions from token trees and parsed items to expansions or errors; \<open>Di_Macros\<close> also gives
      the generated \<open>Component\<close> impl its meaning as a registration.
    \<^item> \<open>Http_Model\<close>, \<open>Api_Error\<close>, \<open>Authz_Builder\<close>, \<open>Authz_Layer\<close>, \<open>Axum_Extract\<close> (\<open>stano-axum\<close>):
      a \<open>tower\<close> service is a function of the request and the state of the server to a reply (a
      response, an error, a panic, or being dropped) and the next state; a layer maps services.
    \<^item> \<open>Launch_Config\<close>, \<open>Launch_Observability\<close>, \<open>Launch_Server\<close>, \<open>Launch_Shutdown\<close> (\<open>stano-launcher\<close>):
      the configuration, what observability builds and shuts down, \<open>run\<close> with every way it ends,
      and the future that ends serving, poll by poll.
    \<^item> \<open>Db_Tracing\<close>, \<open>Db_Mapper\<close> (\<open>stano-seaorm\<close>): the connection, the callback after each query, and
      the trait that maps rows.
    \<^item> \<open>Example_Layers\<close>, \<open>Example_Migration\<close>, \<open>Example_App\<close>, \<open>Example_Security\<close>, \<open>Example_Server\<close>
      (\<open>stano-example-app\<close>): the widget through persistence and service, its table, the composition
      root with the handlers, the tokens with the authorization chain, and the routes as services
      with \<open>main\<close>.
    \<^item> \<open>Test_Support\<close>, \<open>Common_Tests\<close>, \<open>Axum_Tests\<close>, \<open>Macro_Tests\<close>, \<open>Launch_Tests\<close>, \<open>Db_Tests\<close>,
      \<open>Example_Tests\<close>: the tests of the other crates, each a definition under the name of the test that
      the model evaluates to \<open>True\<close>: the test modules, the programs of \<open>tests/ui\<close> with the messages they
      must fail with, \<open>macro_integration.rs\<close>, and the HTTP tests of the example application, from
      \<open>build_context\<close> to the responses, over a table in memory.

  \<^bold>\<open>What is shown.\<close>
    \<^item> Container: the search reports an error exactly if the dependencies have a cycle, and only real
      cycles; \<open>validate\<close> accepts every acyclic closed registry whose factories keep to what they
      declare; after it, lookups return without running a factory; components are singletons; no
      lookup enters a cell twice; lookups fail only for what is not registered; what is handed out
      meets the specification of its key. Several threads at the same time share the singletons, end,
      never wait in a circle, succeed on a sound registry, and after validation do not interfere; one
      thread alone does what the
      sequential lookup does.
    \<^item> Macros: \<open>#[service]\<close> declares exactly the lookups it generates; the splitting of route attributes
      is inverse to joining; an expansion with an inferred body has one response for the number 200
      (other spellings of the status escape the macro, which is shown too); the placeholders of a path,
      however many, are found and documented.
    \<^item> Web: the authorization fails closed, the first rule decides, rejections are counted once; the
      body of a server error is made of fixed texts; extractors answer with the status of the rejection
      and log two given events.
    \<^item> Launcher: the order of the layers and its consequences, the policy of CORS, the release of the
      providers of a guard however \<open>run\<close> ends and their fate when the initialisation fails, the panics
      at start-up (routes that overlap, no route with metrics), the balance of the request gauge; when
      the shutdown future completes, waits or panics.
    \<^item> Database: what a query reports; late binding of the instruments; saturating arithmetic.
    \<^item> Example: start-up never panics, whatever the order of registration; handlers answer 200, 400, 404
      or 500, and run exactly the operation of the repository; over a table with documented
      behaviour the service and the REST interface are a map; an issued token is accepted with its
      claims, and what is written with it is read back; \<open>main\<close> never panics, given that \<open>axum\<close> takes routes
      that do not overlap, and serves nothing but the public paths to a request without credentials.

  \<^bold>\<open>Interfaces.\<close> \<open>registration\<close> (what every registration does to a container), \<open>resolution_rel\<close>
  (what every run of a resolution keeps), \<open>typed_id\<close>,
  \<open>env_builder\<close>, \<open>context_builder\<close>, \<open>wrapping_extractor\<close>, \<open>observer\<close> (logging middleware),
  \<open>widget_port\<close> (errors of the repository) and \<open>mapping\<close> (the trait \<open>Mapper\<close>) are locales, each interpreted on the definitions of the
  component that provides it.

  \<^bold>\<open>Third parties.\<close> \<open>jsonwebtoken\<close>, \<open>matchit\<close>, \<open>axum\<close>, \<open>tower-http\<close>, OpenTelemetry, \<open>sea-orm\<close>, \<open>uuid\<close>,
  \<open>syn\<close>, \<open>quote\<close>, \<open>proc_macro_crate\<close>, \<open>inventory\<close> and \<open>dotenvy\<close> are arguments: records of the functions the
  code calls, or lists in an order that is not specified. Where a property relies on their
  documented behaviour it says so by a named predicate (\<open>table_behaviour\<close>, \<open>schema_behaviour\<close>,
  \<open>matchit_behaviour\<close>, \<open>es256_behaviour\<close>, \<open>routing_behaviour\<close>), and its witness runs on a concrete instance.
  Calls of theirs that can panic (\<open>merge\<close>, \<open>routes\<close>, \<open>route_layer\<close>) answer with \<open>None\<close>. A few
  definitions fix what the documentation of a crate says where the code only passes a value to it:
  \<open>origin_allowed\<close> and \<open>cors_permissive\<close> (which origins a \<open>CorsLayer\<close> admits), \<open>router_layer\<close> and
  \<open>router_route_layer\<close> (what a layer wraps), \<open>poll_signal\<close> (which signals a listener sees).

  \<^bold>\<open>Bounds and termination.\<close> There is no fuel. The cycle search ends by the measure that counts white
  types and remaining edges; resolution ends because the keys being initialised are distinct
  (a second entry is the outcome \<open>Deadlock\<close>, which is what \<open>OnceLock\<close> does); the interleaving of
  threads by a well-founded order on the running threads, the free cells and the stacks; the scan of a path by the
  bytes left. \<open>usize\<close>, \<open>u64\<close> and \<open>u32\<close> are words where arithmetic can wrap or is checked.

  \<^bold>\<open>Where the documentation differs.\<close> The README of the workspace has the security headers outermost
  and CORS innermost, and no span for a query, as does that of \<open>stano-seaorm\<close>; the documentation of
  \<open>cookie_name\<close> has the cookie only for requests without an \<open>Authorization\<close> header. The model follows
  the code, and the properties that show it say so.

  \<^bold>\<open>Not modelled.\<close> The wire formats of \<open>serde\<close>; what the system does with a signal whose handler is not
  installed; the bookkeeping and the command line of \<open>sea-orm-migration\<close>; the crates
  \<open>stano-starter*\<close>, which only re-export; \<open>routes.rs\<close> of the launcher, which no \<open>mod\<close> declaration
  includes; the tests that need what the model leaves out: the document of \<open>utoipa\<close>, the \<open>Debug\<close>
  formats, the identity of an \<open>Arc\<close> of the environment. Where a test talks to a database, a collector
  or a socket, the test on the model talks to the argument that stands for it.
\<close>

end
